(* ===== verification/Go_Base.thy ===== *)
theory Go_Base
  imports Main "HOL-Library.State_Monad" "HOL-Library.Char_ord" "HOL-Library.List_Lexorder"
    "HOL-Library.AList"
begin

text \<open>
  The prelude: Go strings and the state monad the models are written in.

  A Go \<open>string\<close> is a sequence of bytes; it is the HOL type \<open>string\<close> (a list of 8-bit
  characters), so \<open>length\<close> counts bytes as Go's \<open>len\<close> does. The functions of Go's
  \<open>strings\<close> package that the program calls are defined on bytes: \<open>TrimSpace\<close> and \<open>Fields\<close> know
  all white space runes of Unicode in their UTF-8 form; \<open>ToLower\<close>, \<open>ToUpper\<close> and \<open>EqualFold\<close> fold the ASCII
  letters and leave every byte above 127 alone, so they are exact for texts without letters outside ASCII.

  Code that changes state is a term of the state monad of HOL-Library, in do-notation. A Go call
  that returns \<open>(x, err)\<close> is a monadic value of a sum type: \<open>Inl\<close> the error, \<open>Inr\<close> the value.
  \<open>pres P m\<close> says that \<open>m\<close> keeps the state predicate \<open>P\<close>; \<open>evolves R m\<close> that \<open>m\<close> moves the state along
  the relation \<open>R\<close>. Rules for both are collected in \<open>pres_intros\<close> and \<open>evolve_intros\<close>.
\<close>

named_theorems pres_intros \<open>introduction rules for state predicates kept by a computation\<close>
named_theorems evolve_intros \<open>introduction rules for state relations followed by a computation\<close>
named_theorems go_defs \<open>definitions a closed evaluation unfolds\<close>

section \<open>The state monad\<close>

abbreviation ret :: "'a \<Rightarrow> ('s, 'a) state" where
  "ret \<equiv> State_Monad.return"

definition gets :: "('s \<Rightarrow> 'a) \<Rightarrow> ('s, 'a) state" where
  "gets f = State (\<lambda>s. (f s, s))"

definition modify :: "('s \<Rightarrow> 's) \<Rightarrow> ('s, unit) state" where
  "modify f = State (\<lambda>s. ((), f s))"

lemma run_gets [simp]: "run_state (gets f) s = (f s, s)"
  by (simp add: gets_def)

lemma run_modify [simp]: "run_state (modify f) s = ((), f s)"
  by (simp add: modify_def)

text \<open>The value a computation returns, and the state it ends in.\<close>

definition result :: "('s, 'a) state \<Rightarrow> 's \<Rightarrow> 'a" where
  "result m s = fst (run_state m s)"

definition final :: "('s, 'a) state \<Rightarrow> 's \<Rightarrow> 's" where
  "final m s = snd (run_state m s)"

lemma result_ret [simp]: "result (ret x) s = x"
  by (simp add: result_def)

lemma final_ret [simp]: "final (ret x) s = s"
  by (simp add: final_def)

lemma result_bind [simp]: "result (State_Monad.bind m f) s = result (f (result m s)) (final m s)"
  by (simp add: result_def final_def split: prod.splits)

lemma final_bind [simp]: "final (State_Monad.bind m f) s = final (f (result m s)) (final m s)"
  by (simp add: result_def final_def split: prod.splits)

lemma result_gets [simp]: "result (gets f) s = f s"
  by (simp add: result_def)

lemma final_gets [simp]: "final (gets f) s = s"
  by (simp add: final_def)

lemma result_modify [simp]: "result (modify f) s = ()"
  by (simp add: result_def)

lemma final_modify [simp]: "final (modify f) s = f s"
  by (simp add: final_def)

lemma run_state_split: "run_state m s = (result m s, final m s)"
  by (simp add: result_def final_def)

lemma result_if [simp]: "result (if b then m else n) s = (if b then result m s else result n s)"
  by simp

lemma final_if [simp]: "final (if b then m else n) s = (if b then final m s else final n s)"
  by simp

subsection \<open>State predicates and relations\<close>

definition pres :: "('s \<Rightarrow> bool) \<Rightarrow> ('s, 'a) state \<Rightarrow> bool" where
  "pres P m \<longleftrightarrow> (\<forall>s. P s \<longrightarrow> P (final m s))"

definition evolves :: "('s \<Rightarrow> 's \<Rightarrow> bool) \<Rightarrow> ('s, 'a) state \<Rightarrow> bool" where
  "evolves R m \<longleftrightarrow> (\<forall>s. R s (final m s))"

lemma presI: "(\<And>s. P s \<Longrightarrow> P (final m s)) \<Longrightarrow> pres P m"
  by (simp add: pres_def)

lemma presD: "pres P m \<Longrightarrow> P s \<Longrightarrow> P (final m s)"
  by (simp add: pres_def)

lemma pres_ret [pres_intros]: "pres P (ret x)"
  by (simp add: pres_def)

lemma pres_gets [pres_intros]: "pres P (gets f)"
  by (simp add: pres_def)

lemma pres_bind [pres_intros]:
  "pres P m \<Longrightarrow> (\<And>x. pres P (f x)) \<Longrightarrow> pres P (State_Monad.bind m f)"
  by (simp add: pres_def)

lemma pres_if [pres_intros]:
  "(b \<Longrightarrow> pres P m) \<Longrightarrow> (\<not> b \<Longrightarrow> pres P n) \<Longrightarrow> pres P (if b then m else n)"
  by simp

lemma pres_case_sum [pres_intros]:
  "(\<And>a. pres P (f a)) \<Longrightarrow> (\<And>b. pres P (g b)) \<Longrightarrow> pres P (case x of Inl a \<Rightarrow> f a | Inr b \<Rightarrow> g b)"
  by (simp split: sum.splits)

lemma pres_case_option [pres_intros]:
  "pres P f \<Longrightarrow> (\<And>b. pres P (g b)) \<Longrightarrow> pres P (case x of None \<Rightarrow> f | Some b \<Rightarrow> g b)"
  by (simp split: option.splits)

lemma pres_case_prod [pres_intros]:
  "(\<And>a b. pres P (f a b)) \<Longrightarrow> pres P (case x of (a, b) \<Rightarrow> f a b)"
  by (simp split: prod.splits)

lemma pres_case_list [pres_intros]:
  "pres P f \<Longrightarrow> (\<And>a b. pres P (g a b)) \<Longrightarrow> pres P (case x of [] \<Rightarrow> f | a # b \<Rightarrow> g a b)"
  by (simp split: list.splits)

lemma pres_Let [pres_intros]: "pres P (f x) \<Longrightarrow> pres P (Let x f)"
  by simp

text \<open>
  A relation that a state may follow over any number of steps is a preorder: the locale gives
  the composition rules for each of them once.
\<close>

locale evolution =
  fixes R :: "'s \<Rightarrow> 's \<Rightarrow> bool"
  assumes R_refl: "R s s"
    and R_trans: "R s t \<Longrightarrow> R t u \<Longrightarrow> R s u"
begin

lemma evolves_ret: "evolves R (ret x)"
  by (simp add: evolves_def R_refl)

lemma evolves_gets: "evolves R (gets f)"
  by (simp add: evolves_def R_refl)

lemma evolves_bind: "evolves R m \<Longrightarrow> (\<And>x. evolves R (f x)) \<Longrightarrow> evolves R (State_Monad.bind m f)"
  unfolding evolves_def by (metis R_trans final_bind)

lemma evolves_if: "evolves R m \<Longrightarrow> evolves R n \<Longrightarrow> evolves R (if b then m else n)"
  by simp

lemma evolves_case_sum:
  "(\<And>a. evolves R (f a)) \<Longrightarrow> (\<And>b. evolves R (g b)) \<Longrightarrow> evolves R (case x of Inl a \<Rightarrow> f a | Inr b \<Rightarrow> g b)"
  by (simp split: sum.splits)

lemma evolves_case_option:
  "evolves R f \<Longrightarrow> (\<And>b. evolves R (g b)) \<Longrightarrow> evolves R (case x of None \<Rightarrow> f | Some b \<Rightarrow> g b)"
  by (simp split: option.splits)

lemma evolves_case_prod: "(\<And>a b. evolves R (f a b)) \<Longrightarrow> evolves R (case x of (a, b) \<Rightarrow> f a b)"
  by (simp split: prod.splits)

lemma evolves_Let: "evolves R (f x) \<Longrightarrow> evolves R (Let x f)"
  by simp

lemmas evolves_rules = evolves_ret evolves_gets evolves_bind evolves_if evolves_case_sum
  evolves_case_option evolves_case_prod evolves_Let

end

section \<open>Bytes and runes\<close>

abbreviation byte :: "char \<Rightarrow> nat" where
  "byte c \<equiv> of_char c"

definition is_digit :: "char \<Rightarrow> bool" where
  "is_digit c \<longleftrightarrow> 48 \<le> byte c \<and> byte c \<le> 57"

definition is_lower :: "char \<Rightarrow> bool" where
  "is_lower c \<longleftrightarrow> 97 \<le> byte c \<and> byte c \<le> 122"

definition is_upper :: "char \<Rightarrow> bool" where
  "is_upper c \<longleftrightarrow> 65 \<le> byte c \<and> byte c \<le> 90"

definition lower_char :: "char \<Rightarrow> char" where
  "lower_char c = (if is_upper c then char_of (byte c + 32) else c)"

definition upper_char :: "char \<Rightarrow> char" where
  "upper_char c = (if is_lower c then char_of (byte c - 32) else c)"

definition ToLower :: "string \<Rightarrow> string" where
  "ToLower s = map lower_char s"

definition ToUpper :: "string \<Rightarrow> string" where
  "ToUpper s = map upper_char s"

definition EqualFold :: "string \<Rightarrow> string \<Rightarrow> bool" where
  "EqualFold s t \<longleftrightarrow> ToLower s = ToLower t"

lemma byte_less [simp]: "byte c < 256"
proof -
  have "byte c mod 256 < 256"
    by simp
  then show ?thesis
    by (simp only: of_char_mod_256)
qed

lemma is_upper_lower_char [simp]: "\<not> is_upper (lower_char c)"
  by (auto simp: lower_char_def is_upper_def)

lemma lower_char_idem [simp]: "lower_char (lower_char c) = lower_char c"
  by (subst lower_char_def) simp

lemma ToLower_idem [simp]: "ToLower (ToLower s) = ToLower s"
  by (simp add: ToLower_def)

lemma length_ToLower [simp]: "length (ToLower s) = length s"
  by (simp add: ToLower_def)

text \<open>White space: the six ASCII characters, and the runes of two and of three bytes.\<close>

definition space1 :: "char \<Rightarrow> bool" where
  "space1 c \<longleftrightarrow> byte c \<in> {9, 10, 11, 12, 13, 32}"

definition space2 :: "char \<Rightarrow> char \<Rightarrow> bool" where
  "space2 c d \<longleftrightarrow> byte c = 194 \<and> byte d \<in> {133, 160}"

definition space3 :: "char \<Rightarrow> char \<Rightarrow> char \<Rightarrow> bool" where
  "space3 c d e \<longleftrightarrow>
     (byte c = 225 \<and> byte d = 154 \<and> byte e = 128) \<or>
     (byte c = 226 \<and> byte d = 128 \<and> (128 \<le> byte e \<and> byte e \<le> 138 \<or> byte e \<in> {168, 169, 175})) \<or>
     (byte c = 226 \<and> byte d = 129 \<and> byte e = 159) \<or>
     (byte c = 227 \<and> byte d = 128 \<and> byte e = 128)"

definition drop_space :: "string \<Rightarrow> string option" where
  "drop_space s =
     (case s of [] \<Rightarrow> None
      | c # s1 \<Rightarrow> if space1 c then Some s1 else
        (case s1 of [] \<Rightarrow> None
         | d # s2 \<Rightarrow> if space2 c d then Some s2 else
           (case s2 of [] \<Rightarrow> None
            | e # s3 \<Rightarrow> if space3 c d e then Some s3 else None)))"

lemma drop_space_length: "drop_space s = Some r \<Longrightarrow> length r < length s"
  by (auto simp: drop_space_def split: list.splits if_splits)

function TrimLeftSpace :: "string \<Rightarrow> string" where
  "TrimLeftSpace s = (case drop_space s of None \<Rightarrow> s | Some r \<Rightarrow> TrimLeftSpace r)"
  by pat_completeness auto
termination
  by (relation "measure length") (auto dest: drop_space_length)

declare TrimLeftSpace.simps [simp del]

text \<open>The same from the right end, on the reversed string.\<close>

definition drop_space_rev :: "string \<Rightarrow> string option" where
  "drop_space_rev s =
     (case s of [] \<Rightarrow> None
      | e # s1 \<Rightarrow> if space1 e then Some s1 else
        (case s1 of [] \<Rightarrow> None
         | d # s2 \<Rightarrow> if space2 d e then Some s2 else
           (case s2 of [] \<Rightarrow> None
            | c # s3 \<Rightarrow> if space3 c d e then Some s3 else None)))"

lemma drop_space_rev_suffix: "drop_space_rev s = Some r \<Longrightarrow> \<exists>p. s = p @ r \<and> p \<noteq> []"
  by (force simp: drop_space_rev_def split: list.splits if_splits)

function trim_rev :: "string \<Rightarrow> string" where
  "trim_rev s = (case drop_space_rev s of None \<Rightarrow> s | Some r \<Rightarrow> trim_rev r)"
  by pat_completeness auto
termination
  by (relation "measure length") (auto dest: drop_space_rev_suffix)

declare trim_rev.simps [simp del]

definition TrimSpace :: "string \<Rightarrow> string" where
  "TrimSpace s = rev (trim_rev (rev (TrimLeftSpace s)))"

text \<open>\<open>strings.Fields\<close>: the maximal runs of non-space runes; \<open>acc\<close> is the current run, reversed.\<close>

definition push_field :: "string \<Rightarrow> string list \<Rightarrow> string list" where
  "push_field acc fs = (if acc = [] then fs else rev acc # fs)"

function fields_from :: "string \<Rightarrow> string \<Rightarrow> string list" where
  "fields_from acc s =
     (case drop_space s of
        Some r \<Rightarrow> push_field acc (fields_from [] r)
      | None \<Rightarrow> (case s of [] \<Rightarrow> push_field acc [] | c # s' \<Rightarrow> fields_from (c # acc) s'))"
  by pat_completeness auto
termination
  by (relation "measure (\<lambda>(acc, s). length s)") (auto dest: drop_space_length)

declare fields_from.simps [simp del]

definition Fields :: "string \<Rightarrow> string list" where
  "Fields s = fields_from [] s"

lemma fields_nonempty: "[] \<notin> set (fields_from acc s)"
proof (induction acc s rule: fields_from.induct)
  case (1 acc s)
  then show ?case
    by (subst fields_from.simps) (auto simp: push_field_def split: option.splits list.splits)
qed

section \<open>Other functions of package strings\<close>

definition HasPrefix :: "string \<Rightarrow> string \<Rightarrow> bool" where
  "HasPrefix s p \<longleftrightarrow> take (length p) s = p"

definition HasSuffix :: "string \<Rightarrow> string \<Rightarrow> bool" where
  "HasSuffix s p \<longleftrightarrow> length p \<le> length s \<and> drop (length s - length p) s = p"

definition TrimPrefix :: "string \<Rightarrow> string \<Rightarrow> string" where
  "TrimPrefix s p = (if HasPrefix s p then drop (length p) s else s)"

definition TrimSuffix :: "string \<Rightarrow> string \<Rightarrow> string" where
  "TrimSuffix s p = (if HasSuffix s p then take (length s - length p) s else s)"

text \<open>\<open>TrimLeft\<close>, \<open>TrimRight\<close> and \<open>Trim\<close> with a cutset of one character.\<close>

definition TrimLeft :: "string \<Rightarrow> char \<Rightarrow> string" where
  "TrimLeft s c = dropWhile (\<lambda>x. x = c) s"

definition TrimRight :: "string \<Rightarrow> char \<Rightarrow> string" where
  "TrimRight s c = rev (dropWhile (\<lambda>x. x = c) (rev s))"

definition Trim :: "string \<Rightarrow> char \<Rightarrow> string" where
  "Trim s c = TrimRight (TrimLeft s c) c"

fun Split :: "char \<Rightarrow> string \<Rightarrow> string list" where
  "Split c [] = [[]]"
| "Split c (x # s) =
     (if x = c then [] # Split c s
      else case Split c s of f # fs \<Rightarrow> (x # f) # fs | [] \<Rightarrow> [[x]])"

text \<open>\<open>SplitN(s, c, 2)\<close>: the parts before and after the first separator.\<close>

fun Cut :: "char \<Rightarrow> string \<Rightarrow> (string \<times> string) option" where
  "Cut c [] = None"
| "Cut c (x # s) = (if x = c then Some ([], s) else map_option (\<lambda>(a, b). (x # a, b)) (Cut c s))"

fun Join :: "string list \<Rightarrow> string \<Rightarrow> string" where
  "Join [] sep = []"
| "Join [s] sep = s"
| "Join (s # t # ss) sep = s @ sep @ Join (t # ss) sep"

definition ContainsAny :: "string \<Rightarrow> string \<Rightarrow> bool" where
  "ContainsAny s cs \<longleftrightarrow> list_ex (\<lambda>c. c \<in> set cs) s"

text \<open>\<open>strings.Contains\<close>: some suffix starts with the pattern.\<close>

fun Contains :: "string \<Rightarrow> string \<Rightarrow> bool" where
  "Contains [] p = (p = [])"
| "Contains (x # s) p = (HasPrefix (x # s) p \<or> Contains s p)"

lemma HasPrefix_append [simp]: "HasPrefix (p @ s) p"
  by (simp add: HasPrefix_def)

lemma HasPrefix_iff: "HasPrefix s p \<longleftrightarrow> (\<exists>r. s = p @ r)"
  unfolding HasPrefix_def by (metis append_eq_conv_conj append_take_drop_id)

lemma TrimPrefix_append [simp]: "TrimPrefix (p @ s) p = s"
  by (simp add: TrimPrefix_def)

lemma Split_nonempty [simp]: "Split c s \<noteq> []"
  by (induction s) (auto split: list.splits)

lemma Split_Cons_ex: "\<exists>f fs. Split c s = f # fs"
  by (cases "Split c s") auto

lemma HasSuffix_append [simp]: "HasSuffix (s @ p) p"
  by (simp add: HasSuffix_def)

lemma dropWhile_rev_prefix: "\<exists>r. s = rev (dropWhile P (rev s)) @ r"
proof -
  have "s = rev (takeWhile P (rev s) @ dropWhile P (rev s))"
    by simp
  also have "\<dots> = rev (dropWhile P (rev s)) @ rev (takeWhile P (rev s))"
    by (simp only: rev_append)
  finally show ?thesis ..
qed

subsection \<open>Hexadecimal\<close>

definition hex_digit :: "nat \<Rightarrow> char" where
  "hex_digit n = (if n < 10 then char_of (48 + n) else char_of (87 + n))"

definition hex_byte :: "char \<Rightarrow> string" where
  "hex_byte c = [hex_digit (byte c div 16), hex_digit (byte c mod 16)]"

definition hex_encode :: "string \<Rightarrow> string" where
  "hex_encode s = concat (map hex_byte s)"

lemma length_hex_encode [simp]: "length (hex_encode s) = 2 * length s"
  by (induction s) (auto simp: hex_encode_def hex_byte_def)

section \<open>White space lemmas\<close>

lemma drop_space_append: "drop_space p = Some r \<Longrightarrow> drop_space (p @ q) = Some (r @ q)"
  by (auto simp: drop_space_def split: list.splits if_splits)

lemma TrimLeftSpace_id: "drop_space s = None \<Longrightarrow> TrimLeftSpace s = s"
  by (simp add: TrimLeftSpace.simps)

lemma drop_TrimLeftSpace: "drop_space (TrimLeftSpace s) = None"
proof (induction s rule: TrimLeftSpace.induct)
  case (1 s)
  then show ?case by (cases "drop_space s") (simp_all add: TrimLeftSpace.simps [of s])
qed

lemma trim_rev_suffix: "\<exists>p. s = p @ trim_rev s"
proof (induction s rule: trim_rev.induct)
  case (1 s)
  show ?case
  proof (cases "drop_space_rev s")
    case None
    then show ?thesis by (simp add: trim_rev.simps [of s])
  next
    case (Some r)
    then obtain p where "s = p @ r" using drop_space_rev_suffix by blast
    moreover obtain p' where "r = p' @ trim_rev r" using "1.IH" [OF Some] by blast
    ultimately have "s = (p @ p') @ trim_rev r" by simp
    with Some show ?thesis by (metis option.simps(5) trim_rev.simps)
  qed
qed

lemma drop_trim_rev: "drop_space_rev (trim_rev s) = None"
proof (induction s rule: trim_rev.induct)
  case (1 s)
  then show ?case by (cases "drop_space_rev s") (simp_all add: trim_rev.simps [of s])
qed

lemma trim_rev_idem [simp]: "trim_rev (trim_rev s) = trim_rev s"
  by (subst trim_rev.simps) (simp add: drop_trim_rev)

lemma drop_TrimSpace: "drop_space (TrimSpace s) = None"
proof (rule ccontr)
  assume "drop_space (TrimSpace s) \<noteq> None"
  then obtain r where r: "drop_space (TrimSpace s) = Some r" by blast
  obtain p where "rev (TrimLeftSpace s) = p @ trim_rev (rev (TrimLeftSpace s))"
    using trim_rev_suffix by blast
  then have "TrimLeftSpace s = TrimSpace s @ rev p"
    unfolding TrimSpace_def by (metis rev_append rev_rev_ident)
  with r have "drop_space (TrimLeftSpace s) = Some (r @ rev p)"
    using drop_space_append by metis
  then show False by (simp add: drop_TrimLeftSpace)
qed

lemma TrimSpace_idem [simp]: "TrimSpace (TrimSpace s) = TrimSpace s"
proof -
  have "TrimLeftSpace (TrimSpace s) = TrimSpace s"
    by (rule TrimLeftSpace_id [OF drop_TrimSpace])
  then show ?thesis by (simp add: TrimSpace_def)
qed

lemma TrimSpace_Nil [simp]: "TrimSpace [] = []"
  by (simp add: TrimSpace_def TrimLeftSpace.simps drop_space_def trim_rev.simps drop_space_rev_def)

lemma TrimSpace_id: "drop_space s = None \<Longrightarrow> drop_space_rev (rev s) = None \<Longrightarrow> TrimSpace s = s"
  by (simp add: TrimSpace_def TrimLeftSpace.simps trim_rev.simps)

lemmas space_eval = drop_space_def drop_space_rev_def space1_def space2_def space3_def

end
