(* ===== verification/Go_Hash.thy ===== *)
theory Go_Hash
  imports Go_Base "HOL-Library.Word"
begin

unbundle bit_operations_syntax

text \<open>
  The parts of Go's \<open>crypto/sha1\<close>, \<open>crypto/sha256\<close> and \<open>encoding/binary\<close> that the program calls, as
  executable functions on byte strings: the two digests are FIPS 180-4 on 32-bit values, so that a
  digest of a concrete string is computed by the kernel (\<open>sha1_abc\<close> is the test vector of the standard).
\<close>

text \<open>A 32-bit word is the integer below \<open>2 ^ 32\<close> it stands for; sums are taken modulo \<open>2 ^ 32\<close>.\<close>

type_synonym w32 = int

definition add32 :: "w32 list \<Rightarrow> w32" where
  "add32 xs = sum_list xs mod 0x100000000"

definition not32 :: "w32 \<Rightarrow> w32" where
  "not32 w = 0xffffffff - w"

definition be32 :: "char \<Rightarrow> char \<Rightarrow> char \<Rightarrow> char \<Rightarrow> w32" where
  "be32 a b c d =
     ((of_char a * 256 + of_char b) * 256 + of_char c) * 256 + of_char d"

definition w32_bytes :: "w32 \<Rightarrow> string" where
  "w32_bytes w = 
     [char_of (w div 0x1000000), char_of (w div 0x10000), char_of (w div 0x100), char_of w]"

text \<open>\<open>binary.BigEndian.PutUint64\<close>: the eight bytes of a 64-bit value, most significant first.\<close>

definition PutUint64 :: "64 word \<Rightarrow> string" where
  "PutUint64 w = (let n = uint w in
     [char_of (drop_bit 56 n), char_of (drop_bit 48 n), char_of (drop_bit 40 n), char_of (drop_bit 32 n),
      char_of (drop_bit 24 n), char_of (drop_bit 16 n), char_of (drop_bit 8 n), char_of n])"

fun words_of :: "string \<Rightarrow> w32 list" where
  "words_of (a # b # c # d # s) = be32 a b c d # words_of s"
| "words_of _ = []"

section \<open>Padding and blocks\<close>

definition pad_zeros :: "nat \<Rightarrow> nat" where
  "pad_zeros n = (119 - n mod 64) mod 64"

definition sha_pad :: "string \<Rightarrow> string" where
  "sha_pad m = m @ [char_of (128::nat)] @ replicate (pad_zeros (length m)) (char_of (0::nat)) @
     PutUint64 (word_of_nat (8 * length m))"

fun blocks_from :: "nat \<Rightarrow> 'a list \<Rightarrow> 'a list list" where
  "blocks_from 0 xs = []"
| "blocks_from (Suc k) xs = take 16 xs # blocks_from k (drop 16 xs)"

definition sha_blocks :: "string \<Rightarrow> w32 list list" where
  "sha_blocks m = (let ws = words_of (sha_pad m) in blocks_from (length ws div 16) ws)"

definition rotl :: "nat \<Rightarrow> w32 \<Rightarrow> w32" where
  "rotl n w = (w * 2 ^ n) mod 0x100000000 + w div 2 ^ (32 - n)"

definition rotr :: "nat \<Rightarrow> w32 \<Rightarrow> w32" where
  "rotr n w = w div 2 ^ n + (w * 2 ^ (32 - n)) mod 0x100000000"

section \<open>SHA-1\<close>

text \<open>
  The message schedule keeps the last sixteen words; each round takes the oldest one and appends
  the next. \<open>sha1_rounds ts\<close> runs the rounds numbered in \<open>ts\<close>.
\<close>

definition sha1_f :: "nat \<Rightarrow> w32 \<Rightarrow> w32 \<Rightarrow> w32 \<Rightarrow> w32" where
  "sha1_f t b c d =
     (if t < 20 then (b AND c) OR (not32 b AND d)
      else if t < 40 then b XOR c XOR d
      else if t < 60 then (b AND c) OR (b AND d) OR (c AND d)
      else b XOR c XOR d)"

definition sha1_k :: "nat \<Rightarrow> w32" where
  "sha1_k t = (if t < 20 then 0x5a827999 else if t < 40 then 0x6ed9eba1
     else if t < 60 then 0x8f1bbcdc else 0xca62c1d6)"

fun sha1_rounds :: "nat list \<Rightarrow> w32 list \<Rightarrow> w32 \<times> w32 \<times> w32 \<times> w32 \<times> w32 \<Rightarrow> w32 \<times> w32 \<times> w32 \<times> w32 \<times> w32" where
  "sha1_rounds [] ws s = s"
| "sha1_rounds (t # ts) ws (a, b, c, d, e) =
     (case ws of
        w # ws' \<Rightarrow>
          let new = rotl 1 (ws ! 13 XOR ws ! 8 XOR ws ! 2 XOR w)
          in sha1_rounds ts (ws' @ [new])
               (add32 [rotl 5 a, sha1_f t b c d, e, sha1_k t, w], a, rotl 30 b, c, d)
      | [] \<Rightarrow> (a, b, c, d, e))"

definition sha1_block :: "w32 \<times> w32 \<times> w32 \<times> w32 \<times> w32 \<Rightarrow> w32 list \<Rightarrow> w32 \<times> w32 \<times> w32 \<times> w32 \<times> w32" where
  "sha1_block h ws =
     (case h of (h0, h1, h2, h3, h4) \<Rightarrow>
      case sha1_rounds [0..<80] ws h of (a, b, c, d, e) \<Rightarrow> 
        (add32 [h0, a], add32 [h1, b], add32 [h2, c], add32 [h3, d], add32 [h4, e]))"

definition sha1 :: "string \<Rightarrow> string" where
  "sha1 m =
     (case foldl sha1_block
             (0x67452301, 0xefcdab89, 0x98badcfe, 0x10325476, 0xc3d2e1f0) (sha_blocks m) of
        (a, b, c, d, e) \<Rightarrow> concat (map w32_bytes [a, b, c, d, e]))"

section \<open>SHA-256\<close>

definition sha256_k :: "w32 list" where
  "sha256_k =
    [1116352408, 1899447441, 3049323471, 3921009573, 961987163, 1508970993, 2453635748, 2870763221,
     3624381080, 310598401, 607225278, 1426881987, 1925078388, 2162078206, 2614888103, 3248222580,
     3835390401, 4022224774, 264347078, 604807628, 770255983, 1249150122, 1555081692, 1996064986,
     2554220882, 2821834349, 2952996808, 3210313671, 3336571891, 3584528711, 113926993, 338241895,
     666307205, 773529912, 1294757372, 1396182291, 1695183700, 1986661051, 2177026350, 2456956037,
     2730485921, 2820302411, 3259730800, 3345764771, 3516065817, 3600352804, 4094571909, 275423344,
     430227734, 506948616, 659060556, 883997877, 958139571, 1322822218, 1537002063, 1747873779,
     1955562222, 2024104815, 2227730452, 2361852424, 2428436474, 2756734187, 3204031479, 3329325298]"

type_synonym sha256_state = "w32 \<times> w32 \<times> w32 \<times> w32 \<times> w32 \<times> w32 \<times> w32 \<times> w32"

fun sha256_rounds :: "w32 list \<Rightarrow> w32 list \<Rightarrow> sha256_state \<Rightarrow> sha256_state" where
  "sha256_rounds [] ws s = s"
| "sha256_rounds (k # ks) ws (a, b, c, d, e, f, g, h) =
     (case ws of
        w # ws' \<Rightarrow>
          let s1 = rotr 6 e XOR rotr 11 e XOR rotr 25 e;
              ch = (e AND f) XOR (not32 e AND g);
              t1 = add32 [h, s1, ch, k, w];
              s0 = rotr 2 a XOR rotr 13 a XOR rotr 22 a;
              mj = (a AND b) XOR (a AND c) XOR (b AND c);
              t2 = add32 [s0, mj];
              w1 = ws ! 1; w14 = ws ! 14;
              new = add32 [w, rotr 7 w1 XOR rotr 18 w1 XOR (w1 div 8), ws ! 9,
                    rotr 17 w14 XOR rotr 19 w14 XOR (w14 div 1024)]
          in sha256_rounds ks (ws' @ [new]) (add32 [t1, t2], a, b, c, add32 [d, t1], e, f, g)
      | [] \<Rightarrow> (a, b, c, d, e, f, g, h))"

definition sha256_block :: "sha256_state \<Rightarrow> w32 list \<Rightarrow> sha256_state" where
  "sha256_block s ws =
     (case s of (h0, h1, h2, h3, h4, h5, h6, h7) \<Rightarrow>
      case sha256_rounds sha256_k ws s of (a, b, c, d, e, f, g, h) \<Rightarrow>
        (add32 [h0, a], add32 [h1, b], add32 [h2, c], add32 [h3, d],
         add32 [h4, e], add32 [h5, f], add32 [h6, g], add32 [h7, h]))"

definition sha256 :: "string \<Rightarrow> string" where
  "sha256 m =
     (case foldl sha256_block
             (0x6a09e667, 0xbb67ae85, 0x3c6ef372, 0xa54ff53a, 0x510e527f, 0x9b05688c, 0x1f83d9ab, 0x5be0cd19) (sha_blocks m) of
        (a, b, c, d, e, f, g, h) \<Rightarrow> concat (map w32_bytes [a, b, c, d, e, f, g, h]))"


section \<open>Lengths, and the test vector of the standard\<close>

lemma length_w32_bytes [simp]: "length (w32_bytes w) = 4"
  by (simp add: w32_bytes_def Let_def)

lemma length_PutUint64 [simp]: "length (PutUint64 w) = 8"
  by (simp add: PutUint64_def Let_def)

lemma length_sha1 [simp]: "length (sha1 m) = 20"
  by (simp add: sha1_def split: prod.splits)

lemma length_sha256 [simp]: "length (sha256 m) = 32"
  by (simp add: sha256_def split: prod.splits)

lemma upt_80: "[0..<80] = [0, 1, 2, 3, 4, 5, 6, 7, 8, 9, 10, 11, 12, 13, 14, 15, 16, 17, 18, 19, 20, 21,
   22, 23, 24, 25, 26, 27, 28, 29, 30, 31, 32, 33, 34, 35, 36, 37, 38, 39, 40, 41, 42, 43, 44, 45, 46, 47,
   48, 49, 50, 51, 52, 53, 54, 55, 56, 57, 58, 59, 60, 61, 62, 63, 64, 65, 66, 67, 68, 69, 70, 71, 72, 73,
   74, 75, 76, 77, 78, 79]"
  by code_simp

lemmas sha1_eval = sha1_def sha1_block_def upt_80 rotl_def add32_def not32_def sha1_f_def sha1_k_def Let_def

lemma sha_blocks_abc: "sha_blocks ''abc'' = [[0x61626380, 0, 0, 0, 0, 0, 0, 0, 0, 0, 0, 0, 0, 0, 0, 24]]"
  by code_simp

lemma sha1_abc: "sha1 ''abc'' = map char_of [0xa9, 0x99, 0x3e, 0x36, 0x47, 0x06, 0x81, 0x6a, 0xba, 0x3e,
    0x25, 0x71, 0x78, 0x50, 0xc2, 0x6c, 0x9c, 0xd0, 0xd8, 0x9d :: nat]"
proof -
  have "sha1 ''abc'' = concat (map w32_bytes [0xa9993e36, 0x4706816a, 0xba3e2571, 0x7850c26c, 0x9cd0d89d])"
    by (simp add: sha1_eval sha_blocks_abc)
  also have "\<dots> = map char_of [0xa9, 0x99, 0x3e, 0x36, 0x47, 0x06, 0x81, 0x6a, 0xba, 0x3e,
    0x25, 0x71, 0x78, 0x50, 0xc2, 0x6c, 0x9c, 0xd0, 0xd8, 0x9d :: nat]"
    by code_simp
  finally show ?thesis .
qed

lemma sha_blocks_c: "sha_blocks ''c'' = [[0x63800000, 0, 0, 0, 0, 0, 0, 0, 0, 0, 0, 0, 0, 0, 0, 8]]"
  by code_simp

lemma sha1_c: "sha1 ''c'' = map char_of [0x84, 0xa5, 0x16, 0x84, 0x1b, 0xa7, 0x7a, 0x5b, 0x46, 0x48,
    0xde, 0x2c, 0xd0, 0xdf, 0xcb, 0x30, 0xea, 0x46, 0xdb, 0xb4 :: nat]"
proof -
  have "sha1 ''c'' = concat (map w32_bytes [0x84a51684, 0x1ba77a5b, 0x4648de2c, 0xd0dfcb30, 0xea46dbb4])"
    by (simp add: sha1_eval sha_blocks_c)
  also have "\<dots> = map char_of [0x84, 0xa5, 0x16, 0x84, 0x1b, 0xa7, 0x7a, 0x5b, 0x46, 0x48,
    0xde, 0x2c, 0xd0, 0xdf, 0xcb, 0x30, 0xea, 0x46, 0xdb, 0xb4 :: nat]"
    by code_simp
  finally show ?thesis .
qed

end
