(* ===== verification/Go_Text.thy ===== *)
theory Go_Text
  imports Go_Base
begin

text \<open>
  Numbers and bytes as text: the parts of Go's \<open>strconv\<close>, \<open>fmt\<close>, \<open>encoding/base64\<close> and
  \<open>encoding/base32\<close> the program calls. A decoder returns \<open>None\<close> where Go returns an error.
\<close>

section \<open>Decimal numbers\<close>

fun itoa :: "nat \<Rightarrow> string" where
  "itoa n = (if n < 10 then [char_of (48 + n)] else itoa (n div 10) @ [char_of (48 + n mod 10)])"

declare itoa.simps [simp del]

text \<open>\<open>fmt.Sprintf("%0*d", width, n)\<close>.\<close>

definition pad_dec :: "nat \<Rightarrow> nat \<Rightarrow> string" where
  "pad_dec width n = replicate (width - length (itoa n)) CHR ''0'' @ itoa n"

definition digits_value :: "string \<Rightarrow> nat" where
  "digits_value s = foldl (\<lambda>v c. v * 10 + (byte c - 48)) 0 s"

text \<open>\<open>strconv.ParseUint(s, 10, 64)\<close>.\<close>

definition ParseUint64 :: "string \<Rightarrow> nat option" where
  "ParseUint64 s =
     (if s = [] \<or> \<not> list_all is_digit s \<or> 18446744073709551616 \<le> digits_value s then None
      else Some (digits_value s))"

lemma itoa_nonempty [simp]: "itoa n \<noteq> []"
  by (subst itoa.simps) simp

lemma byte_char_of: "n < 256 \<Longrightarrow> byte (char_of (n::nat)) = n"
  by simp

lemma itoa_digits: "list_all is_digit (itoa n)"
proof (induction n rule: itoa.induct)
  case (1 n)
  have small: "m < 10 \<Longrightarrow> is_digit (char_of (48 + m))" for m :: nat
    by (simp add: is_digit_def)
  show ?case
  proof (cases "n < 10")
    case True
    then show ?thesis by (subst itoa.simps) (simp add: small)
  next
    case False
    with 1 show ?thesis by (subst itoa.simps) (simp add: small)
  qed
qed

lemma digits_value_append [simp]:
  "digits_value (s @ [c]) = digits_value s * 10 + (byte c - 48)"
  by (simp add: digits_value_def)

lemma digits_value_itoa [simp]: "digits_value (itoa n) = n"
proof (induction n rule: itoa.induct)
  case (1 n)
  show ?case
  proof (cases "n < 10")
    case True
    then show ?thesis by (subst itoa.simps) (simp add: digits_value_def)
  next
    case False
    with 1 show ?thesis by (subst itoa.simps) simp
  qed
qed

text \<open>Printing an unsigned 64-bit number and reading it back.\<close>

lemma ParseUint64_itoa: "n < 18446744073709551616 \<Longrightarrow> ParseUint64 (itoa n) = Some n"
  by (simp add: ParseUint64_def itoa_digits)

lemma length_itoa_le: "n < 10 ^ d \<Longrightarrow> 0 < d \<Longrightarrow> length (itoa n) \<le> d"
proof (induction n arbitrary: d rule: itoa.induct)
  case (1 n)
  show ?case
  proof (cases "n < 10")
    case True
    with "1.prems" show ?thesis by (subst itoa.simps) simp
  next
    case False
    then obtain d' where d: "d = Suc d'" "0 < d'"
      using "1.prems" by (cases d; cases "d - 1") auto
    then have "n div 10 < 10 ^ d'"
      using "1.prems" by (simp add: less_mult_imp_div_less mult.commute)
    then have "length (itoa (n div 10)) \<le> d'"
      using "1.IH" False d by simp
    then show ?thesis
      using False d by (subst itoa.simps) simp
  qed
qed

lemma length_pad_dec: "n < 10 ^ d \<Longrightarrow> 0 < d \<Longrightarrow> length (pad_dec d n) = d"
  using length_itoa_le [of n d] by (simp add: pad_dec_def)

lemma length_pad_dec_ge: "width \<le> length (pad_dec width n)"
  by (simp add: pad_dec_def)

lemma pad_dec_digits: "list_all is_digit (pad_dec w n)"
  by (simp add: pad_dec_def itoa_digits) (simp add: is_digit_def list_all_iff)

section \<open>Base64\<close>

definition b64_std_char :: "nat \<Rightarrow> char" where
  "b64_std_char n =
     (if n < 26 then char_of (65 + n) else if n < 52 then char_of (71 + n)
      else if n < 62 then char_of (n - 4) else if n = 62 then CHR ''+'' else CHR ''/'')"

definition b64_url_char :: "nat \<Rightarrow> char" where
  "b64_url_char n = (if n = 62 then CHR ''-'' else if n = 63 then CHR ''_'' else b64_std_char n)"

definition b64_std_val :: "char \<Rightarrow> nat option" where
  "b64_std_val c =
     (if is_upper c then Some (byte c - 65) else if is_lower c then Some (byte c - 71)
      else if is_digit c then Some (byte c + 4) else if c = CHR ''+'' then Some 62
      else if c = CHR ''/'' then Some 63 else None)"

text \<open>\<open>RawURLEncoding.EncodeToString\<close>: no padding.\<close>

fun b64_raw_url :: "string \<Rightarrow> string" where
  "b64_raw_url (a # b # c # s) =
     [b64_url_char (byte a div 4), b64_url_char (byte a mod 4 * 16 + byte b div 16),
      b64_url_char (byte b mod 16 * 4 + byte c div 64), b64_url_char (byte c mod 64)] @ b64_raw_url s"
| "b64_raw_url [a, b] =
     [b64_url_char (byte a div 4), b64_url_char (byte a mod 4 * 16 + byte b div 16),
      b64_url_char (byte b mod 16 * 4)]"
| "b64_raw_url [a] = [b64_url_char (byte a div 4), b64_url_char (byte a mod 4 * 16)]"
| "b64_raw_url [] = []"

text \<open>\<open>StdEncoding.DecodeString\<close>: line ends are skipped, padding is required and ends the input.\<close>

definition not_newline :: "char \<Rightarrow> bool" where
  "not_newline c \<longleftrightarrow> byte c \<noteq> 10 \<and> byte c \<noteq> 13"

fun b64_quads :: "string \<Rightarrow> string option" where
  "b64_quads [] = Some []"
| "b64_quads (a # b # c # d # s) =
     (case (b64_std_val a, b64_std_val b) of
        (Some x, Some y) \<Rightarrow>
          (if d = CHR ''='' \<and> s = [] then
             (if c = CHR ''='' then Some [char_of (x * 4 + y div 16)]
              else case b64_std_val c of
                Some z \<Rightarrow> Some [char_of (x * 4 + y div 16), char_of (y mod 16 * 16 + z div 4)]
              | None \<Rightarrow> None)
           else (case (b64_std_val c, b64_std_val d) of
             (Some z, Some u) \<Rightarrow>
               map_option (\<lambda>r. [char_of (x * 4 + y div 16), char_of (y mod 16 * 16 + z div 4),
                 char_of (z mod 4 * 64 + u)] @ r) (b64_quads s)
           | _ \<Rightarrow> None))
      | _ \<Rightarrow> None)"
| "b64_quads _ = None"

definition b64_std_decode :: "string \<Rightarrow> string option" where
  "b64_std_decode s = b64_quads (filter not_newline s)"

section \<open>Base32\<close>

definition b32_val :: "char \<Rightarrow> nat option" where
  "b32_val c = (if is_upper c then Some (byte c - 65)
     else if 50 \<le> byte c \<and> byte c \<le> 55 then Some (byte c - 24) else None)"

text \<open>
  One quantum of at most eight characters: the digits read so far are \<open>ds\<close>. The result is the
  digits, whether padding ended the input, and the rest.
\<close>

fun b32_quantum :: "nat list \<Rightarrow> string \<Rightarrow> (nat list \<times> bool \<times> string) option" where
  "b32_quantum ds [] = (if length ds = 8 then Some (ds, False, []) else None)"
| "b32_quantum ds (c # s) =
     (if length ds = 8 then Some (ds, False, c # s)
      else if c = CHR ''='' \<and> 2 \<le> length ds \<and> length s < 8 then
        (if length s + length ds < 7 \<or> \<not> list_all (\<lambda>x. x = CHR ''='') (take (7 - length ds) s)
           \<or> length ds = 3 \<or> length ds = 6
         then None else Some (ds, True, s))
      else case b32_val c of None \<Rightarrow> None | Some d \<Rightarrow> b32_quantum (ds @ [d]) s)"

definition b32_bytes :: "nat list \<Rightarrow> string" where
  "b32_bytes ds =
     (let v = foldl (\<lambda>v d. v * 32 + int d) 0 (take 8 (ds @ replicate 8 0));
          n = (if length ds = 8 then 5 else if length ds = 7 then 4 else if length ds = 5 then 3
               else if length ds = 4 then 2 else 1)
      in take n [char_of (v div 2 ^ 32), char_of (v div 2 ^ 24), char_of (v div 2 ^ 16),
                 char_of (v div 2 ^ 8), char_of v])"

lemma b32_quantum_shorter: "b32_quantum ds s = Some (ds', e, r) \<Longrightarrow> length ds < 8 \<Longrightarrow> length r < length s"
proof (induction ds s arbitrary: ds' e r rule: b32_quantum.induct)
  case (1 ds)
  then show ?case by simp
next
  case (2 ds c s)
  show ?case
  proof (cases "c = CHR ''='' \<and> 2 \<le> length ds \<and> length s < 8")
    case True
    with "2.prems" show ?thesis by (auto split: if_splits)
  next
    case False
    with "2.prems" obtain d where d: "b32_val c = Some d" "b32_quantum (ds @ [d]) s = Some (ds', e, r)"
      by (auto split: if_splits option.splits)
    show ?thesis
    proof (cases "length ds = 7")
      case True
      with d have "r = s" by (cases s) auto
      then show ?thesis by simp
    next
      case F: False
      have "length ds \<noteq> 8" using "2.prems" by simp
      with "2.IH" [OF _ False d(1) d(2)] F "2.prems" show ?thesis by simp
    qed
  qed
qed

function b32_from :: "string \<Rightarrow> string option" where
  "b32_from s =
     (if s = [] then Some [] else
      case b32_quantum [] s of
        None \<Rightarrow> None
      | Some (ds, e, r) \<Rightarrow>
          if e then Some (b32_bytes ds) else map_option (\<lambda>t. b32_bytes ds @ t) (b32_from r))"
  by pat_completeness auto
termination
  by (relation "measure length") (auto dest: b32_quantum_shorter)

declare b32_from.simps [simp del]

definition b32_std_decode :: "string \<Rightarrow> string option" where
  "b32_std_decode s = b32_from (filter not_newline s)"

end
