(* ===== verification/Totp.thy ===== *)
theory Totp
  imports Go_Hash Go_Text
begin

text \<open>
  One-time codes: \<open>utils.computeTOTP\<close> and \<open>GenerateTOTPAtCounter\<close> of utils/utils.go, and
  \<open>verifyTOTP\<close> of controllers/user_security_controller.go. A Go panic (a slice out of range, a
  division by zero) is \<open>None\<close>.

  The lemmas give the bounds that keep the code from panicking, the length of a code, and what a
  code depends on: \<open>hash.Sum(buf)\<close> appends the digest of the secret to the counter bytes instead of
  hashing them, so a code is a window of \<open>counter bytes @ sha1 secret\<close>.
\<close>

unbundle bit_operations_syntax

definition uint32_of :: "string \<Rightarrow> 32 word" where
  "uint32_of s = (case s of [a, b, c, d] \<Rightarrow> word_of_int (be32 a b c d) | _ \<Rightarrow> 0)"

definition totp_secret_bytes :: "string \<Rightarrow> string" where
  "totp_secret_bytes secret =
     (case b32_std_decode (ToUpper secret) of Some b \<Rightarrow> b | None \<Rightarrow> secret)"

definition totp_hash :: "string \<Rightarrow> 64 word \<Rightarrow> string" where
  "totp_hash secret counter = PutUint64 counter @ sha1 (totp_secret_bytes secret)"

definition totp_offset :: "string \<Rightarrow> nat" where
  "totp_offset hash = byte (last hash) mod 16"

fun pow10_32 :: "nat \<Rightarrow> 32 word" where
  "pow10_32 0 = 1"
| "pow10_32 (Suc n) = pow10_32 n * 10"

definition computeTOTP :: "string \<Rightarrow> 64 word \<Rightarrow> nat \<Rightarrow> string option" where
  "computeTOTP secret counter digits =
     (let hash = totp_hash secret counter;
          offset = totp_offset hash
      in if length hash < offset + 4 then None
         else
           let value = uint32_of (take 4 (drop offset hash)) AND 0x7FFFFFFF;
               m = pow10_32 digits
           in if m = 0 then None else Some (pad_dec digits (unat (value mod m))))"

definition GenerateTOTPAtCounter :: "string \<Rightarrow> 64 word \<Rightarrow> nat \<Rightarrow> string option" where
  "GenerateTOTPAtCounter secret counter digits = computeTOTP secret counter digits"

text \<open>\<open>verifyTOTP\<close>, with the Unix time in seconds: this time step or the one before.\<close>

definition totp_counter :: "int \<Rightarrow> 64 word" where
  "totp_counter unix = word_of_int (unix div 30)"

definition verifyTOTP :: "int \<Rightarrow> string \<Rightarrow> string \<Rightarrow> bool" where
  "verifyTOTP unix secret code \<longleftrightarrow>
     GenerateTOTPAtCounter secret (totp_counter unix) 6 = Some code \<or>
     GenerateTOTPAtCounter secret (totp_counter unix - 1) 6 = Some code"

section \<open>No panic, and the length of a code\<close>

lemma length_totp_hash [simp]: "length (totp_hash secret c) = 28"
  by (simp add: totp_hash_def)

lemma totp_offset_less [simp]: "totp_offset h < 16"
  by (simp add: totp_offset_def)

lemma sha1_nonempty [simp]: "sha1 m \<noteq> []"
  by (metis length_sha1 list.size(3) zero_neq_numeral)

lemma totp_offset_hash: "totp_offset (totp_hash secret c) = byte (last (sha1 (totp_secret_bytes secret))) mod 16"
  by (simp add: totp_offset_def totp_hash_def)

lemma unat_pow10_32: "d \<le> 9 \<Longrightarrow> unat (pow10_32 d) = 10 ^ d"
proof (induction d)
  case 0
  show ?case by simp
next
  case (Suc d)
  then have "unat (pow10_32 d) = 10 ^ d" by simp
  moreover have "(10::nat) ^ Suc d \<le> 10 ^ 9"
    using Suc.prems by (intro power_increasing) auto
  ultimately show ?case by (simp add: unat_word_ariths mult.commute)
qed

lemma pow10_32_nonzero: "d \<le> 9 \<Longrightarrow> pow10_32 d \<noteq> 0"
  using unat_pow10_32 [of d] by (metis power_not_zero unat_0 zero_neq_numeral)

lemma computeTOTP_window:
  assumes "d \<le> 9"
  shows "computeTOTP secret c d =
    Some (pad_dec d (unat (uint32_of (take 4 (drop (byte (last (sha1 (totp_secret_bytes secret))) mod 16)
      (PutUint64 c @ sha1 (totp_secret_bytes secret)))) AND 0x7FFFFFFF) mod 10 ^ d))"
proof -
  have "\<not> length (totp_hash secret c) < totp_offset (totp_hash secret c) + 4"
    using totp_offset_less [of "totp_hash secret c"] by (simp only: length_totp_hash)
  then show ?thesis
    using assms
    by (simp add: computeTOTP_def Let_def pow10_32_nonzero unat_pow10_32 unat_mod
        totp_offset_hash flip: totp_hash_def)
qed

lemma computeTOTP_code:
  assumes "0 < d" and "d \<le> 9"
  shows "\<exists>code. computeTOTP secret c d = Some code \<and> length code = d \<and> list_all is_digit code"
  using assms by (simp add: computeTOTP_window length_pad_dec pad_dec_digits)

section \<open>What a code depends on\<close>

lemma computeTOTP_counter_free:
  assumes "8 \<le> byte (last (sha1 (totp_secret_bytes secret))) mod 16" and "d \<le> 9"
  shows "computeTOTP secret c d = computeTOTP secret c' d"
  using assms by (simp add: computeTOTP_window)

lemma computeTOTP_secret_free:
  assumes "byte (last (sha1 (totp_secret_bytes s))) mod 16 \<le> 4" and "d \<le> 9"
    and "byte (last (sha1 (totp_secret_bytes s'))) mod 16 = byte (last (sha1 (totp_secret_bytes s))) mod 16"
  shows "computeTOTP s c d = computeTOTP s' c d"
  using assms by (simp add: computeTOTP_window)


text \<open>The secrets \<open>abc\<close> and \<open>c\<close> are no base32 texts, so their bytes are the key.\<close>

lemma totp_secret_bytes_abc: "totp_secret_bytes ''abc'' = ''abc''"
  by code_simp

lemma totp_secret_bytes_c: "totp_secret_bytes ''c'' = ''c''"
  by code_simp

lemma offset_abc: "byte (last (sha1 (totp_secret_bytes ''abc''))) mod 16 = 13"
  by (simp add: totp_secret_bytes_abc sha1_abc)

lemma offset_c: "byte (last (sha1 (totp_secret_bytes ''c''))) mod 16 = 4"
  by (simp add: totp_secret_bytes_c sha1_c)

text \<open>The code an observer computes from the counter and an offset, with no secret.\<close>

definition public_code :: "nat \<Rightarrow> 64 word \<Rightarrow> nat \<Rightarrow> string" where
  "public_code k c d = pad_dec d (unat (uint32_of (take 4 (drop k (PutUint64 c))) AND 0x7FFFFFFF) mod 10 ^ d)"

lemma computeTOTP_public:
  assumes "byte (last (sha1 (totp_secret_bytes s))) mod 16 = k" and "k \<le> 4" and "d \<le> 9"
  shows "computeTOTP s c d = Some (public_code k c d)"
  using assms by (simp add: computeTOTP_window public_code_def)

section \<open>Properties\<close>

text \<open>
  C39: For every secret and counter, \<open>computeTOTP\<close> with one to nine digits does not panic and its code has
  exactly that many decimal digits.
\<close>

theorem computeTOTP_total:
  assumes "0 < d" and "d \<le> 9"
  shows "\<exists>code. computeTOTP secret c d = Some code \<and> length code = d \<and> list_all is_digit code"
  using assms by (rule computeTOTP_code)

theorem computeTOTP_total_witness:
  "\<exists>code. computeTOTP ''abc'' 7 6 = Some code \<and> length code = 6 \<and> list_all is_digit code"
  by (rule computeTOTP_total) simp_all

text \<open>
  The window of \<open>verifyTOTP\<close>: the code generated for time step \<open>k\<close> is accepted at every second of that
  step and of the next one.
\<close>

theorem verifyTOTP_window:
  assumes "30 * k \<le> unix" and "unix < 30 * k + 60"
    and "GenerateTOTPAtCounter secret (word_of_int k) 6 = Some code"
  shows "verifyTOTP unix secret code"
proof -
  have "unix div 30 = k \<or> unix div 30 = k + 1"
    using assms(1,2) by presburger
  then show ?thesis
    using assms(3) by (auto simp: verifyTOTP_def totp_counter_def)
qed

theorem verifyTOTP_window_witness:
  "\<exists>code. GenerateTOTPAtCounter ''c'' 2 6 = Some code \<and> verifyTOTP 119 ''c'' code"
proof -
  have "GenerateTOTPAtCounter ''c'' (word_of_int 2) 6 = Some (public_code 4 2 6)"
    by (simp add: GenerateTOTPAtCounter_def computeTOTP_public [OF offset_c])
  with verifyTOTP_window [of 2 119 "''c''" "public_code 4 2 6"] show ?thesis
    by auto
qed

text \<open>
  A code need not depend on the time: if the last digest byte of the secret has a low half of eight or
  more, a code accepted once is accepted at every time.
\<close>

theorem verifyTOTP_time_free:
  assumes "8 \<le> byte (last (sha1 (totp_secret_bytes secret))) mod 16"
  shows "verifyTOTP unix secret code = verifyTOTP unix' secret code"
proof -
  have "computeTOTP secret c 6 = computeTOTP secret c' 6" for c c'
    by (rule computeTOTP_counter_free [OF assms]) simp
  then show ?thesis
    unfolding verifyTOTP_def GenerateTOTPAtCounter_def by metis
qed

theorem verifyTOTP_time_free_witness:
  "\<forall>code. verifyTOTP 0 ''abc'' code = verifyTOTP 1000000000 ''abc'' code"
  by (intro allI verifyTOTP_time_free) (simp add: offset_abc)

text \<open>
  A code need not depend on the secret: if the low half of the last digest byte is \<open>k\<close>, at most four, the
  accepted codes are those an observer computes from the time step and \<open>k\<close> alone.
\<close>

theorem verifyTOTP_public:
  assumes "byte (last (sha1 (totp_secret_bytes secret))) mod 16 = k" and "k \<le> 4"
  shows "verifyTOTP unix secret code \<longleftrightarrow>
    code = public_code k (totp_counter unix) 6 \<or> code = public_code k (totp_counter unix - 1) 6"
  using computeTOTP_public [OF assms, of 6] by (auto simp: verifyTOTP_def GenerateTOTPAtCounter_def)

theorem verifyTOTP_public_witness:
  "verifyTOTP 1700000000 ''c'' (public_code 4 (totp_counter 1700000000) 6)"
  by (simp add: verifyTOTP_public [OF offset_c])

end
