(* ===== verification/Config_Value.thy ===== *)
theory Config_Value
  imports Go_Base
begin

text \<open>
  The values of a configuration file as \<open>yaml.Unmarshal\<close> leaves them in a
  \<open>map[string]interface{}\<close>, and the accessors at the end of config/config.go.

  A map is an association list with distinct keys; the order of the list is the order in which a
  \<open>range\<close> loop sees the entries. A value keeps its dynamic type: an integer carries its Go type,
  because \<open>interface{}\<close> equality compares the types too. A float is given by its truncation towards
  zero, which is all the program reads of one. A missing map is \<open>None\<close> (Go's nil map).
\<close>

datatype num_kind =
  KInt | KInt8 | KInt16 | KInt32 | KInt64 | KUint | KUint8 | KUint16 | KUint32 | KUint64

datatype yaml =
  YNil
| YBool bool
| YNum num_kind int
| YFloat int
| YStr string
| YStrs "string list"
| YList "yaml list"
| YMap "(string \<times> yaml) list"

type_synonym ymap = "(string \<times> yaml) list"

text \<open>The conversion \<open>int(v)\<close> of a 64-bit unsigned value wraps.\<close>

definition int64_wrap :: "int \<Rightarrow> int" where
  "int64_wrap n = (n + 9223372036854775808) mod 18446744073709551616 - 9223372036854775808"

text \<open>Type assertions \<open>v.(T)\<close> in their two-value form.\<close>

fun as_map :: "yaml option \<Rightarrow> ymap option" where
  "as_map (Some (YMap m)) = Some m"
| "as_map _ = None"

fun as_str :: "yaml option \<Rightarrow> string option" where
  "as_str (Some (YStr s)) = Some s"
| "as_str _ = None"

fun as_list :: "yaml option \<Rightarrow> yaml list option" where
  "as_list (Some (YList l)) = Some l"
| "as_list _ = None"

text \<open>The value part of \<open>v, _ := x.(string)\<close>, and a nil map replaced by an empty one.\<close>

definition str_or_empty :: "yaml option \<Rightarrow> string" where
  "str_or_empty v = (case as_str v of Some s \<Rightarrow> s | None \<Rightarrow> [])"

definition map_or_empty :: "yaml option \<Rightarrow> ymap" where
  "map_or_empty v = (case as_map v of Some m \<Rightarrow> m | None \<Rightarrow> [])"

text \<open>Reading a key of a possibly nil map.\<close>

definition nget :: "ymap option \<Rightarrow> string \<Rightarrow> yaml option" where
  "nget m key = (case m of None \<Rightarrow> None | Some a \<Rightarrow> map_of a key)"

definition getString :: "ymap option \<Rightarrow> string \<Rightarrow> string" where
  "getString m key = str_or_empty (nget m key)"

definition getInt :: "ymap option \<Rightarrow> string \<Rightarrow> int" where
  "getInt m key =
     (case nget m key of Some (YNum k n) \<Rightarrow> int64_wrap n | Some (YFloat n) \<Rightarrow> int64_wrap n | _ \<Rightarrow> 0)"

definition getBool :: "ymap option \<Rightarrow> string \<Rightarrow> bool" where
  "getBool m key = (case nget m key of Some (YBool b) \<Rightarrow> b | _ \<Rightarrow> False)"

definition getMap :: "ymap option \<Rightarrow> string \<Rightarrow> ymap option" where
  "getMap m key = as_map (nget m key)"

fun nonblank_strings :: "yaml list \<Rightarrow> string list" where
  "nonblank_strings [] = []"
| "nonblank_strings (YStr s # l) =
     (if TrimSpace s \<noteq> [] then s # nonblank_strings l else nonblank_strings l)"
| "nonblank_strings (_ # l) = nonblank_strings l"

definition getStringSlice :: "ymap option \<Rightarrow> string \<Rightarrow> string list" where
  "getStringSlice m key =
     (case nget m key of Some (YStrs l) \<Rightarrow> l | Some (YList l) \<Rightarrow> nonblank_strings l | _ \<Rightarrow> [])"

section \<open>Assignment to a map\<close>

abbreviation yset :: "string \<Rightarrow> yaml \<Rightarrow> ymap \<Rightarrow> ymap" where
  "yset \<equiv> AList.update"

abbreviation ydel :: "string \<Rightarrow> ymap \<Rightarrow> ymap" where
  "ydel \<equiv> AList.delete"

text \<open>\<open>if _, exists := m[k]; !exists { m[k] = v }\<close>.\<close>

definition set_missing :: "string \<Rightarrow> yaml \<Rightarrow> ymap \<Rightarrow> ymap" where
  "set_missing k v m = (case map_of m k of None \<Rightarrow> yset k v m | Some _ \<Rightarrow> m)"

lemma map_of_yset [simp]: "map_of (yset k v m) k' = (if k' = k then Some v else map_of m k')"
  by (simp add: update_conv')

lemma map_of_ydel [simp]: "map_of (ydel k m) k' = (if k' = k then None else map_of m k')"
  by (simp add: delete_conv')

lemma map_of_set_missing [simp]:
  "map_of (set_missing k v m) k' = (if k' = k \<and> map_of m k = None then Some v else map_of m k')"
  by (simp add: set_missing_def split: option.splits)

lemma nget_Some [simp]: "nget (Some m) k = map_of m k"
  by (simp add: nget_def)

lemma nget_None [simp]: "nget None k = None"
  by (simp add: nget_def)

lemma map_or_empty_nget: "map_of (map_or_empty v) k = nget (as_map v) k"
  by (simp add: map_or_empty_def split: option.splits)

lemma int64_wrap_id: "- 9223372036854775808 \<le> n \<Longrightarrow> n < 9223372036854775808 \<Longrightarrow> int64_wrap n = n"
  by (simp add: int64_wrap_def)

lemmas yaml_access = getString_def getInt_def getBool_def getMap_def getStringSlice_def

end
