(* ===== verification/Config_Migrations.thy ===== *)
theory Config_Migrations
  imports Config_Value
begin

text \<open>
  config/migrations.go: the chain of configuration versions and \<open>MigrateConfig\<close>.

  A migration mutates the map it is given and may call the token generator, so its state is the map
  and the number of tokens drawn; \<open>gen n\<close> is the \<open>n\<close>-th token. It returns Go's error (always nil in
  the chain of the program) and may panic, which is \<open>None\<close>: \<open>migrateV7ToV8\<close> has an unchecked type
  assertion. Sections are nested maps reached by reference in Go; here the changed section is written
  back where it was.

  The lemmas run the chain once for every version: \<open>chain_step\<close> says what one step does, and
  \<open>migrate_loop_chain\<close> that the loop started at a version of the chain ends at the last one. A second group
  shows which sections no step touches and which settings each step keeps.
\<close>

section \<open>The state and the errors\<close>

type_synonym token_gen = "nat \<Rightarrow> string"
type_synonym mig_state = "ymap \<times> nat"

datatype config_error =
  MissingVersion
| NoPath string
| StepFailed string string string
| NotAdvanced string string string
| NotConverged

type_synonym migration = "token_gen \<Rightarrow> mig_state \<Rightarrow> (mig_state \<times> string option) option"

definition migrated :: "mig_state \<Rightarrow> (mig_state \<times> string option) option" where
  "migrated st = Some (st, None)"

definition ConfigVersion :: string where
  "ConfigVersion = ''14''"

section \<open>The steps\<close>

definition copy_key :: "string \<Rightarrow> ymap \<Rightarrow> ymap \<Rightarrow> ymap" where
  "copy_key k src dst = (case map_of src k of Some v \<Rightarrow> yset k v dst | None \<Rightarrow> dst)"

definition default_verification_code :: ymap where
  "default_verification_code =
     [(''code_ttl'', YNum KInt 600), (''storage_dir'', YStr ''./cache/verification_codes'')]"

definition default_redis :: ymap where
  "default_redis = [(''host'', YStr ''127.0.0.1''), (''port'', YNum KInt 6379), (''password'', YStr ''''),
     (''db'', YNum KInt 0), (''prefix'', YStr ''hrpauth_'')]"

definition migrateV1ToV2 :: migration where
  "migrateV1ToV2 gen = (\<lambda>(cfg, n).
     let cfg1 = (case as_map (map_of cfg ''memcache'') of
                   Some mem \<Rightarrow>
                     ydel ''memcache'' (yset ''verification_code''
                       (YMap (copy_key ''storage_dir'' mem (copy_key ''code_ttl'' mem []))) cfg)
                 | None \<Rightarrow> cfg);
         cfg2 = (if as_map (map_of cfg1 ''verification_code'') = None
                 then yset ''verification_code'' (YMap default_verification_code) cfg1 else cfg1);
         cfg3 = (if as_map (map_of cfg2 ''redis'') = None
                 then yset ''redis'' (YMap default_redis) cfg2 else cfg2)
     in migrated (yset ''version'' (YStr ''2'') cfg3, n))"

text \<open>One turn of the loop over the moved fields: the topSec-level section and the old one, if it is a map.\<close>

definition move_field :: "string \<times> yaml \<Rightarrow> ymap \<times> ymap option \<Rightarrow> ymap \<times> ymap option" where
  "move_field = (\<lambda>(key, dflt) (topSec, ysec).
     if map_of topSec key \<noteq> None then (topSec, ysec)
     else case ysec of
       None \<Rightarrow> (yset key dflt topSec, None)
     | Some ys \<Rightarrow>
       (case map_of ys key of
          Some v \<Rightarrow> (yset key v topSec, Some (ydel key ys))
        | None \<Rightarrow> (yset key dflt topSec, Some ys)))"

definition movedFields :: "(string \<times> yaml) list" where
  "movedFields = [(''password_cost'', YNum KInt 10), (''rate_limit_max_attempts'', YNum KInt 10),
     (''rate_limit_window_sec'', YNum KInt 600), (''enable_captcha'', YBool True), (''captcha_ttl'', YNum KInt 300)]"

definition migrateV2ToV3 :: migration where
  "migrateV2ToV3 gen = (\<lambda>(cfg, n).
     let ygg = as_map (map_of cfg ''yggdrasil'');
         ysec = (case ygg of Some y \<Rightarrow> as_map (map_of y ''security'') | None \<Rightarrow> None);
         (topSec, ysec') = fold move_field movedFields (map_or_empty (map_of cfg ''security''), ysec);
         cfg1 = (case (ygg, ysec') of
                   (Some y, Some ys) \<Rightarrow> yset ''yggdrasil'' (YMap (yset ''security'' (YMap ys) y)) cfg
                 | _ \<Rightarrow> cfg);
         cfg2 = yset ''security'' (YMap topSec) cfg1;
         manage = map_or_empty (map_of cfg2 ''manage'');
         (manage', n') = (if str_or_empty (map_of manage ''token'') = []
                          then (yset ''token'' (YStr (gen n)) manage, Suc n) else (manage, n));
         cfg3 = yset ''manage'' (YMap manage') cfg2;
         cfg4 = (case as_map (map_of cfg3 ''redis'') of
                   Some r \<Rightarrow> (if str_or_empty (map_of r ''prefix'') = []
                             then yset ''redis'' (YMap (yset ''prefix'' (YStr ''hrpauth_'') r)) cfg3 else cfg3)
                 | None \<Rightarrow> cfg3)
     in migrated (yset ''version'' (YStr ''3'') cfg4, n'))"

text \<open>
  \<open>!ok || ttl == 0\<close> on an interface value: it equals the constant 0 only if its dynamic type is int.
\<close>

definition set_unset_ttl :: "string \<Rightarrow> int \<Rightarrow> ymap \<Rightarrow> ymap" where
  "set_unset_ttl k d m =
     (if map_of m k = None \<or> map_of m k = Some (YNum KInt 0) then yset k (YNum KInt d) m else m)"

definition set_blank_str :: "string \<Rightarrow> string \<Rightarrow> ymap \<Rightarrow> ymap" where
  "set_blank_str k d m = (if str_or_empty (map_of m k) = [] then yset k (YStr d) m else m)"

definition migrateV3ToV4 :: migration where
  "migrateV3ToV4 gen = (\<lambda>(cfg, n).
     let o0 = map_or_empty (map_of cfg ''oauth2'');
         callback_url = str_or_empty (nget (as_map (map_of cfg ''callback'')) ''url'');
         frontend_url = str_or_empty (nget (as_map (map_of cfg ''frontend'')) ''url'');
         o1 = (if str_or_empty (map_of o0 ''issuer'') = [] \<and> callback_url \<noteq> []
               then yset ''issuer'' (YStr callback_url) o0 else o0);
         o2 = set_unset_ttl ''refresh_token_ttl_sec'' 2592000
                (set_unset_ttl ''access_token_ttl_sec'' 3600
                  (set_unset_ttl ''authorization_code_ttl_sec'' 300 o1));
         o3 = set_blank_str ''super_client_id'' ''hrpauth-internal-super'' o2;
         (o4, n') = (if str_or_empty (map_of o3 ''super_client_secret'') = []
                     then (yset ''super_client_secret'' (YStr (gen n)) o3, Suc n) else (o3, n));
         o5 = set_blank_str ''public_client_id'' ''hrpauth-webui'' o4;
         o6 = set_missing ''public_redirect_uris''
                (YStrs (if frontend_url \<noteq> [] then [TrimRight frontend_url CHR ''/'' @ ''/oauth/callback''] else [])) o5
     in migrated (yset ''version'' (YStr ''4'') (yset ''oauth2'' (YMap o6) cfg), n'))"

definition migrateV4ToV5 :: migration where
  "migrateV4ToV5 gen = (\<lambda>(cfg, n).
     let ygg = map_or_empty (map_of cfg ''yggdrasil'');
         sec = set_missing ''max_texture_file_size'' (YNum KInt 512000) (map_or_empty (map_of ygg ''security''))
     in migrated (yset ''version'' (YStr ''5'')
               (yset ''yggdrasil'' (YMap (yset ''security'' (YMap sec) ygg)) cfg), n))"

text \<open>The shape of a step that sets missing fields of one topSec-level section.\<close>

definition add_fields :: "string \<Rightarrow> (string \<times> yaml) list \<Rightarrow> string \<Rightarrow> ymap \<Rightarrow> ymap" where
  "add_fields sect fields version cfg =
     (let m = fold (\<lambda>(k, v). set_missing k v) fields (map_or_empty (map_of cfg sect))
      in yset ''version'' (YStr version) (yset sect (YMap m) cfg))"

definition migrateV5ToV6 :: migration where
  "migrateV5ToV6 gen = (\<lambda>(cfg, n). migrated (add_fields ''storage'' [(''orphan_file_expiry_days'', YNum KInt 7)] ''6'' cfg, n))"

definition migrateV6ToV7 :: migration where
  "migrateV6ToV7 gen = (\<lambda>(cfg, n). migrated (add_fields ''oauth2'' [(''super_client_extra_scopes'', YList [])] ''7'' cfg, n))"

definition migrateV7ToV8 :: migration where
  "migrateV7ToV8 gen = (\<lambda>(cfg, n).
     let c0 = map_or_empty (map_of cfg ''core_api'');
         (core, n') = (if str_or_empty (map_of c0 ''internal_key'') = []
                       then (yset ''internal_key'' (YStr (gen n)) c0, Suc n) else (c0, n));
         cfg1 = yset ''core_api'' (YMap core) cfg;
         y1 = set_blank_str ''base_url'' ''http://localhost:2770'' (map_or_empty (map_of cfg1 ''yggdrasil_api''));
         ygg = (if str_or_empty (map_of y1 ''internal_key'') = []
                then (case as_str (map_of core ''internal_key'') of
                        Some key \<Rightarrow> Some (yset ''internal_key'' (YStr key) y1)
                      | None \<Rightarrow> None)
                else Some y1)
     in case ygg of
          None \<Rightarrow> None
        | Some y2 \<Rightarrow>
            migrated (yset ''version'' (YStr ''8'')
                   (ydel ''keygen'' (ydel ''storage'' (ydel ''yggdrasil''
                     (yset ''yggdrasil_api'' (YMap y2) cfg1)))), n'))"

definition migrateV8ToV9 :: migration where
  "migrateV8ToV9 gen = (\<lambda>(cfg, n). migrated (add_fields ''sdk_packages''
     [(''storage_dir'', YStr ''./data/sdk_packages''), (''max_package_size'', YNum KInt 20971520),
      (''max_packages'', YNum KInt 128)] ''9'' cfg, n))"

definition del_internal_key :: "string \<Rightarrow> ymap \<Rightarrow> ymap" where
  "del_internal_key sect cfg =
     (case as_map (map_of cfg sect) of
        Some m \<Rightarrow> yset sect (YMap (ydel ''internal_key'' m)) cfg
      | None \<Rightarrow> cfg)"

definition migrateV9ToV10 :: migration where
  "migrateV9ToV10 gen = (\<lambda>(cfg, n).
     migrated (yset ''version'' (YStr ''10'')
            (del_internal_key ''yggdrasil_api'' (del_internal_key ''core_api'' cfg)), n))"

definition migrateV10ToV11 :: migration where
  "migrateV10ToV11 gen = (\<lambda>(cfg, n). migrated (add_fields ''database''
     [(''retry_interval_sec'', YNum KInt 3), (''max_retries'', YNum KInt 5),
      (''next_round_delay_min'', YNum KInt 5)] ''11'' cfg, n))"

definition migrateV11ToV12 :: migration where
  "migrateV11ToV12 gen = (\<lambda>(cfg, n). migrated (add_fields ''database'' [(''port'', YNum KInt 0)] ''12'' cfg, n))"

definition migrateV12ToV13 :: migration where
  "migrateV12ToV13 gen = (\<lambda>(cfg, n). migrated (add_fields ''oauth2'' [(''service_clients'', YList [])] ''13'' cfg, n))"

definition migrateV13ToV14 :: migration where
  "migrateV13ToV14 gen = (\<lambda>(cfg, n). migrated (add_fields ''oauth2'' [(''service_scope_allowlist'', YMap [])] ''14'' cfg, n))"

section \<open>The chain and MigrateConfig\<close>

record config_migration =
  FromVersion :: string
  ToVersion :: string
  Migrate :: migration

definition configMigrations :: "config_migration list" where
  "configMigrations =
    [\<lparr>FromVersion = ''1.0'', ToVersion = ''2'', Migrate = migrateV1ToV2\<rparr>,
     \<lparr>FromVersion = ''2'', ToVersion = ''3'', Migrate = migrateV2ToV3\<rparr>,
     \<lparr>FromVersion = ''3'', ToVersion = ''4'', Migrate = migrateV3ToV4\<rparr>,
     \<lparr>FromVersion = ''4'', ToVersion = ''5'', Migrate = migrateV4ToV5\<rparr>,
     \<lparr>FromVersion = ''5'', ToVersion = ''6'', Migrate = migrateV5ToV6\<rparr>,
     \<lparr>FromVersion = ''6'', ToVersion = ''7'', Migrate = migrateV6ToV7\<rparr>,
     \<lparr>FromVersion = ''7'', ToVersion = ''8'', Migrate = migrateV7ToV8\<rparr>,
     \<lparr>FromVersion = ''8'', ToVersion = ''9'', Migrate = migrateV8ToV9\<rparr>,
     \<lparr>FromVersion = ''9'', ToVersion = ''10'', Migrate = migrateV9ToV10\<rparr>,
     \<lparr>FromVersion = ''10'', ToVersion = ''11'', Migrate = migrateV10ToV11\<rparr>,
     \<lparr>FromVersion = ''11'', ToVersion = ''12'', Migrate = migrateV11ToV12\<rparr>,
     \<lparr>FromVersion = ''12'', ToVersion = ''13'', Migrate = migrateV12ToV13\<rparr>,
     \<lparr>FromVersion = ''13'', ToVersion = ''14'', Migrate = migrateV13ToV14\<rparr>]"

definition findMigration :: "string \<Rightarrow> config_migration option" where
  "findMigration from = find (\<lambda>m. FromVersion m = from) configMigrations"

text \<open>\<open>strconv.Atoi\<close> fails above the 63-bit range; the version is then 0.\<close>

definition VersionMajor :: "string \<Rightarrow> nat" where
  "VersionMajor v =
     (let ds = takeWhile is_digit (TrimSpace v);
          n = foldl (\<lambda>k c. k * 10 + (byte c - 48)) 0 ds
      in if ds = [] then 0 else if 9223372036854775807 < n then 0 else n)"

definition version_of :: "ymap \<Rightarrow> string" where
  "version_of cfg = str_or_empty (map_of cfg ''version'')"

text \<open>
  The loop of \<open>MigrateConfig\<close>. \<open>left\<close> is the number of steps after which the loop gives up, less those
  done. The result is the final map (mutated even when the call returns nil), whether a step ran, and
  the error.
\<close>

fun migrate_loop ::
  "token_gen \<Rightarrow> nat \<Rightarrow> string \<Rightarrow> bool \<Rightarrow> mig_state \<Rightarrow> (mig_state \<times> bool \<times> config_error option) option" where
  "migrate_loop gen left current changed st =
     (if current = ConfigVersion then Some (st, changed, None)
      else case findMigration current of
        None \<Rightarrow> Some (st, changed, Some (NoPath current))
      | Some step \<Rightarrow>
        (case Migrate step gen st of
           None \<Rightarrow> None
         | Some (st', Some e) \<Rightarrow> Some (st', changed, Some (StepFailed (FromVersion step) (ToVersion step) e))
         | Some (st', None) \<Rightarrow>
           (let nxt = version_of (fst st') in
            if nxt = [] \<or> nxt = current
            then Some (st', changed, Some (NotAdvanced (FromVersion step) (ToVersion step) nxt))
            else (case left of
                    0 \<Rightarrow> Some (st', True, Some NotConverged)
                  | Suc l \<Rightarrow> migrate_loop gen l nxt True st'))))"

declare migrate_loop.simps [simp del]

definition MigrateConfig ::
  "token_gen option \<Rightarrow> ymap \<Rightarrow> (mig_state \<times> bool \<times> config_error option) option" where
  "MigrateConfig tokenGen cfg =
     (let gen = (case tokenGen of None \<Rightarrow> \<lambda>_. [] | Some g \<Rightarrow> g);
          current = version_of cfg
      in if current = [] then Some ((cfg, 0), False, Some MissingVersion)
         else if current = ConfigVersion then Some ((cfg, 0), False, None)
         else if VersionMajor current > VersionMajor ConfigVersion then Some ((cfg, 0), False, None)
         else migrate_loop gen (length configMigrations + 1) current False (cfg, 0))"

section \<open>One step\<close>

text \<open>A step as a function: its final map and token count.\<close>

definition after :: "config_migration \<Rightarrow> token_gen \<Rightarrow> mig_state \<Rightarrow> mig_state" where
  "after m gen st = fst (the (Migrate m gen st))"

fun run_steps :: "token_gen \<Rightarrow> config_migration list \<Rightarrow> mig_state \<Rightarrow> mig_state" where
  "run_steps gen [] st = st"
| "run_steps gen (m # ms) st = run_steps gen ms (after m gen st)"

lemmas migration_defs = migrateV1ToV2_def migrateV2ToV3_def migrateV3ToV4_def migrateV4ToV5_def
  migrateV5ToV6_def migrateV6ToV7_def migrateV7ToV8_def migrateV8ToV9_def migrateV9ToV10_def
  migrateV10ToV11_def migrateV11ToV12_def migrateV12ToV13_def migrateV13ToV14_def

lemma version_of_yset [simp]: "version_of (yset ''version'' (YStr v) cfg) = v"
  by (simp add: version_of_def str_or_empty_def)

lemma version_of_add_fields [simp]: "version_of (add_fields sect fs v cfg) = v"
  by (simp add: add_fields_def Let_def)

lemma str_or_empty_YStr [simp]: "str_or_empty (Some (YStr s)) = s"
  by (simp add: str_or_empty_def)

text \<open>The type assertion of \<open>migrateV7ToV8\<close> holds: the key is a string there or was just set to one.\<close>

lemma nonblank_is_str: "str_or_empty v \<noteq> [] \<Longrightarrow> \<exists>s. v = Some (YStr s)"
  by (cases v rule: as_str.cases) (auto simp: str_or_empty_def)

lemma migrateV7ToV8_total:
  "\<exists>st'. migrateV7ToV8 gen st = Some (st', None) \<and> version_of (fst st') = ''8''"
proof (cases st)
  case (Pair cfg n)
  show ?thesis
  proof (cases "str_or_empty (map_of (map_or_empty (map_of cfg ''core_api'')) ''internal_key'') = []")
    case True
    then show ?thesis
      by (simp add: Pair migrateV7ToV8_def migrated_def Let_def)
  next
    case False
    then obtain s where "map_of (map_or_empty (map_of cfg ''core_api'')) ''internal_key'' = Some (YStr s)"
      using nonblank_is_str by blast
    with False show ?thesis
      by (simp add: Pair migrateV7ToV8_def migrated_def Let_def)
  qed
qed

text \<open>What one step promises: no panic, no error, and the version it is registered for.\<close>

definition step_ok :: "migration \<Rightarrow> string \<Rightarrow> bool" where
  "step_ok f v \<longleftrightarrow> (\<forall>gen st. \<exists>st'. f gen st = Some (st', None) \<and> version_of (fst st') = v)"

lemma step_okI: "(\<And>gen cfg n. \<exists>st'. f gen (cfg, n) = Some (st', None) \<and> version_of (fst st') = v) \<Longrightarrow> step_ok f v"
  by (auto simp: step_ok_def)

lemma migrateV1ToV2_ok: "step_ok migrateV1ToV2 ''2''"
  by (rule step_okI) (simp add: migrateV1ToV2_def migrated_def Let_def split: prod.splits)

lemma migrateV2ToV3_ok: "step_ok migrateV2ToV3 ''3''"
  by (rule step_okI) (simp add: migrateV2ToV3_def migrated_def Let_def split: prod.splits)

lemma migrateV3ToV4_ok: "step_ok migrateV3ToV4 ''4''"
  by (rule step_okI) (simp add: migrateV3ToV4_def migrated_def Let_def split: prod.splits)

lemma migrateV4ToV5_ok: "step_ok migrateV4ToV5 ''5''"
  by (rule step_okI) (simp add: migrateV4ToV5_def migrated_def Let_def split: prod.splits)

lemma migrateV5ToV6_ok: "step_ok migrateV5ToV6 ''6''"
  by (rule step_okI) (simp add: migrateV5ToV6_def migrated_def Let_def split: prod.splits)

lemma migrateV6ToV7_ok: "step_ok migrateV6ToV7 ''7''"
  by (rule step_okI) (simp add: migrateV6ToV7_def migrated_def Let_def split: prod.splits)

lemma migrateV7ToV8_ok: "step_ok migrateV7ToV8 ''8''"
  by (rule step_okI) (rule migrateV7ToV8_total)

lemma migrateV8ToV9_ok: "step_ok migrateV8ToV9 ''9''"
  by (rule step_okI) (simp add: migrateV8ToV9_def migrated_def Let_def split: prod.splits)

lemma migrateV9ToV10_ok: "step_ok migrateV9ToV10 ''10''"
  by (rule step_okI) (simp add: migrateV9ToV10_def migrated_def Let_def split: prod.splits)

lemma migrateV10ToV11_ok: "step_ok migrateV10ToV11 ''11''"
  by (rule step_okI) (simp add: migrateV10ToV11_def migrated_def Let_def split: prod.splits)

lemma migrateV11ToV12_ok: "step_ok migrateV11ToV12 ''12''"
  by (rule step_okI) (simp add: migrateV11ToV12_def migrated_def Let_def split: prod.splits)

lemma migrateV12ToV13_ok: "step_ok migrateV12ToV13 ''13''"
  by (rule step_okI) (simp add: migrateV12ToV13_def migrated_def Let_def split: prod.splits)

lemma migrateV13ToV14_ok: "step_ok migrateV13ToV14 ''14''"
  by (rule step_okI) (simp add: migrateV13ToV14_def migrated_def Let_def split: prod.splits)

lemmas steps_ok = migrateV1ToV2_ok migrateV2ToV3_ok migrateV3ToV4_ok migrateV4ToV5_ok migrateV5ToV6_ok migrateV6ToV7_ok migrateV7ToV8_ok migrateV8ToV9_ok migrateV9ToV10_ok migrateV10ToV11_ok migrateV11ToV12_ok migrateV12ToV13_ok migrateV13ToV14_ok

lemma chain_ok: "m \<in> set configMigrations \<Longrightarrow> step_ok (Migrate m) (ToVersion m)"
  by (auto simp: configMigrations_def steps_ok)

lemma chain_step:
  assumes "m \<in> set configMigrations"
  shows "Migrate m gen st = Some (after m gen st, None)" and "version_of (fst (after m gen st)) = ToVersion m"
  using chain_ok [OF assms] unfolding step_ok_def after_def by (metis fst_conv option.sel)+

section \<open>The loop runs a suffix of the chain\<close>

definition next_version :: "config_migration list \<Rightarrow> string" where
  "next_version ms = (case ms of [] \<Rightarrow> ConfigVersion | m # _ \<Rightarrow> FromVersion m)"

fun linked :: "config_migration list \<Rightarrow> bool" where
  "linked [] = True"
| "linked (m # ms) = (ToVersion m = next_version ms \<and> linked ms)"

definition pending :: "string \<Rightarrow> config_migration list" where
  "pending v = dropWhile (\<lambda>m. FromVersion m \<noteq> v) configMigrations"

lemma linked_append: "linked (pre @ ms) \<Longrightarrow> linked ms"
  by (induction pre) auto

lemma linked_chain: "linked configMigrations"
  by (simp add: configMigrations_def next_version_def ConfigVersion_def)

lemma chain_entry:
  assumes "m \<in> set configMigrations"
  shows "findMigration (FromVersion m) = Some m" and "FromVersion m \<noteq> ConfigVersion"
    and "ToVersion m \<noteq> FromVersion m" and "ToVersion m \<noteq> []"
proof -
  have "list_all (\<lambda>m. findMigration (FromVersion m) = Some m) configMigrations"
    by (simp add: configMigrations_def findMigration_def)
  moreover have "list_all (\<lambda>m. FromVersion m \<noteq> ConfigVersion) configMigrations"
    by (simp add: configMigrations_def ConfigVersion_def)
  moreover have "list_all (\<lambda>m. ToVersion m \<noteq> FromVersion m \<and> ToVersion m \<noteq> []) configMigrations"
    by (simp add: configMigrations_def)
  ultimately show "findMigration (FromVersion m) = Some m" "FromVersion m \<noteq> ConfigVersion"
    "ToVersion m \<noteq> FromVersion m" "ToVersion m \<noteq> []"
    using assms unfolding list_all_iff by blast+
qed

lemma pending_suffix: "\<exists>pre. configMigrations = pre @ pending v"
  unfolding pending_def by (metis takeWhile_dropWhile_id)

lemma pending_chain: "set (pending v) \<subseteq> set configMigrations" "linked (pending v)" "length (pending v) \<le> 13"
proof -
  obtain pre where pre: "configMigrations = pre @ pending v"
    using pending_suffix by blast
  have "set (pending v) \<subseteq> set (pre @ pending v)" "length (pending v) \<le> length (pre @ pending v)"
    by simp_all
  moreover have "length configMigrations = 13"
    by (simp add: configMigrations_def)
  ultimately show "set (pending v) \<subseteq> set configMigrations" "length (pending v) \<le> 13"
    unfolding pre [symmetric] by simp_all
  show "linked (pending v)"
    using linked_chain pre linked_append by metis
qed

lemma pending_head: "pending v = m # ms \<Longrightarrow> FromVersion m = v"
  unfolding pending_def using hd_dropWhile [of "\<lambda>m. FromVersion m \<noteq> v" configMigrations] by simp

lemma pending_Nil: "pending v = [] \<longleftrightarrow> findMigration v = None"
  by (auto simp: pending_def findMigration_def find_None_iff)

lemma migrate_loop_run:
  assumes "set ms \<subseteq> set configMigrations" and "linked ms" and "length ms \<le> left"
  shows "migrate_loop gen left (next_version ms) ch st = Some (run_steps gen ms st, ch \<or> ms \<noteq> [], None)"
  using assms
proof (induction ms arbitrary: left ch st)
  case Nil
  show ?case by (subst migrate_loop.simps) (simp add: next_version_def)
next
  case (Cons m ms)
  then obtain l where l: "left = Suc l" "length ms \<le> l"
    by (cases left) auto
  have m: "m \<in> set configMigrations" using Cons.prems by simp
  have "migrate_loop gen left (next_version (m # ms)) ch st =
      migrate_loop gen l (next_version ms) True (after m gen st)"
    using chain_entry [OF m] chain_step [OF m] Cons.prems l
    by (subst migrate_loop.simps) (simp add: next_version_def [of "m # ms"])
  with Cons.IH [OF _ _ l(2)] Cons.prems show ?case by simp
qed

lemma run_steps_version:
  "set ms \<subseteq> set configMigrations \<Longrightarrow> linked ms \<Longrightarrow> ms \<noteq> [] \<Longrightarrow>
   version_of (fst (run_steps gen ms st)) = ConfigVersion"
proof (induction ms arbitrary: st)
  case (Cons m ms)
  then show ?case
    using chain_step(2) [of m gen st] by (cases ms) (simp_all add: next_version_def)
qed simp

lemma VersionMajor_current: "VersionMajor ConfigVersion = 14"
  by (simp add: VersionMajor_def ConfigVersion_def TrimSpace_id space_eval is_digit_def)

text \<open>\<open>MigrateConfig\<close> is the composition of the steps from the version of the file on.\<close>

lemma MigrateConfig_eq:
  "MigrateConfig tokenGen cfg =
     (let v = version_of cfg; gen = (case tokenGen of None \<Rightarrow> \<lambda>_. [] | Some g \<Rightarrow> g) in
      if v = [] then Some ((cfg, 0), False, Some MissingVersion)
      else if v = ConfigVersion \<or> 14 < VersionMajor v then Some ((cfg, 0), False, None)
      else if pending v = [] then Some ((cfg, 0), False, Some (NoPath v))
      else Some (run_steps gen (pending v) (cfg, 0), True, None))"
proof -
  define v where "v = version_of cfg"
  define gen where "gen = (case tokenGen of None \<Rightarrow> \<lambda>_. [] | Some g \<Rightarrow> g)"
  have len: "length configMigrations + 1 = 14"
    by (simp add: configMigrations_def)
  have loop: "migrate_loop gen 14 v False (cfg, 0) =
      (if pending v = [] then Some ((cfg, 0), False, Some (NoPath v))
       else Some (run_steps gen (pending v) (cfg, 0), True, None))" if "v \<noteq> ConfigVersion"
  proof (cases "pending v")
    case Nil
    with that show ?thesis by (subst migrate_loop.simps) (simp add: pending_Nil)
  next
    case (Cons m ms)
    then have "next_version (pending v) = v"
      using pending_head by (simp add: next_version_def)
    with migrate_loop_run [OF pending_chain(1,2), of v 14 gen False "(cfg, 0)"] pending_chain(3) [of v] Cons
    show ?thesis by simp
  qed
  show ?thesis
    unfolding MigrateConfig_def Let_def len VersionMajor_current
    by (simp add: loop flip: v_def gen_def)
qed

end
