(* ===== verification/Go_Json.thy ===== *)
theory Go_Json
  imports Go_Base
begin

text \<open>
  Go's \<open>encoding/json\<close> as the program uses it for its \<open>text\<close> columns: \<open>json.Marshal\<close> of a slice of
  strings and \<open>json.Unmarshal\<close> into one. Unmarshal accepts any JSON text that is an array of strings
  and nulls (a null leaves the zero value, the empty string), or null; everything else is an error
  (\<open>None\<close>). Strings are UTF-8: Marshal and Unmarshal replace each invalid byte by the rune U+FFFD,
  Marshal escapes the HTML characters and the two Unicode line separators.

  The codec locale states what a pair of an encoder and a decoder promises; \<open>strings_codec\<close> is its
  instance for this pair. Marshal followed by Unmarshal returns the strings with their invalid
  bytes replaced, so it is the identity on valid UTF-8 (\<open>valid_utf8\<close>).
\<close>

section \<open>UTF-8\<close>

definition cont :: "char \<Rightarrow> bool" where
  "cont c \<longleftrightarrow> 128 \<le> byte c \<and> byte c \<le> 191"

text \<open>Bounds on the second byte of a rune of three or four bytes, by its first byte.\<close>

definition second_ok :: "nat \<Rightarrow> char \<Rightarrow> bool" where
  "second_ok b c \<longleftrightarrow>
     (if b = 224 then 160 else if b = 240 then 144 else 128) \<le> byte c \<and>
     byte c \<le> (if b = 237 then 159 else if b = 244 then 143 else 191)"

text \<open>The length of the valid rune a string starts with, 0 if there is none.\<close>

fun rune_len :: "string \<Rightarrow> nat" where
  "rune_len [] = 0"
| "rune_len (a # s) =
     (if byte a < 128 then 1
      else if 194 \<le> byte a \<and> byte a \<le> 223 then
        (case s of b # _ \<Rightarrow> if cont b then 2 else 0 | [] \<Rightarrow> 0)
      else if 224 \<le> byte a \<and> byte a \<le> 239 then
        (case s of b # c # _ \<Rightarrow> if second_ok (byte a) b \<and> cont c then 3 else 0 | _ \<Rightarrow> 0)
      else if 240 \<le> byte a \<and> byte a \<le> 244 then
        (case s of b # c # d # _ \<Rightarrow> if second_ok (byte a) b \<and> cont c \<and> cont d then 4 else 0 | _ \<Rightarrow> 0)
      else 0)"

definition rune_error :: string where
  "rune_error = [char_of (239::nat), char_of (191::nat), char_of (189::nat)]"

lemma rune_len_le: "rune_len s \<le> length s"
  by (cases s) (auto split: list.splits)

lemma rune_len_append: "rune_len s \<noteq> 0 \<Longrightarrow> rune_len (s @ t) = rune_len s"
  by (cases s) (auto split: list.splits if_splits)

lemma rune_len_take: "rune_len s \<noteq> 0 \<Longrightarrow> rune_len (take (rune_len s) s @ t) = rune_len s"
  by (cases s) (auto split: list.splits if_splits)

declare rune_len.simps [simp del]

lemma rune_len_Nil [simp]: "rune_len [] = 0"
  by (simp add: rune_len.simps)

lemma rune_len_ascii [simp]: "byte a < 128 \<Longrightarrow> rune_len (a # s) = 1"
  by (simp add: rune_len.simps)

text \<open>Every invalid byte replaced by the error rune.\<close>

function to_valid :: "string \<Rightarrow> string" where
  "to_valid s =
     (if s = [] then []
      else if rune_len s = 0 then rune_error @ to_valid (tl s)
      else take (rune_len s) s @ to_valid (drop (rune_len s) s))"
  by pat_completeness auto
termination
  by (relation "measure length") auto

declare to_valid.simps [simp del]

function valid_utf8 :: "string \<Rightarrow> bool" where
  "valid_utf8 s = (if s = [] then True else if rune_len s = 0 then False else valid_utf8 (drop (rune_len s) s))"
  by pat_completeness auto
termination
  by (relation "measure length") auto

declare valid_utf8.simps [simp del]

lemma to_valid_step: "rune_len s \<noteq> 0 \<Longrightarrow> to_valid s = take (rune_len s) s @ to_valid (drop (rune_len s) s)"
  by (subst to_valid.simps) auto

lemma to_valid_error: "s = c # s' \<Longrightarrow> rune_len s = 0 \<Longrightarrow> to_valid s = rune_error @ to_valid s'"
  by (subst to_valid.simps) simp

lemma to_valid_id: "valid_utf8 s \<Longrightarrow> to_valid s = s"
proof (induction s rule: to_valid.induct)
  case (1 s)
  then show ?case
    by (subst to_valid.simps) (auto simp: valid_utf8.simps [of s])
qed

lemma ascii_valid: "list_all (\<lambda>c. byte c < 128) s \<Longrightarrow> valid_utf8 s"
proof (induction s)
  case Nil
  show ?case by (simp add: valid_utf8.simps)
next
  case (Cons c s)
  then show ?case by (subst valid_utf8.simps) simp
qed

text \<open>\<open>utf8.EncodeRune\<close> of a code point below \<open>0x110000\<close>.\<close>

definition encode_rune :: "nat \<Rightarrow> string" where
  "encode_rune r =
     (if r < 0x80 then [char_of r]
      else if r < 0x800 then [char_of (192 + r div 64), char_of (128 + r mod 64)]
      else if r < 0x10000 then
        [char_of (224 + r div 4096), char_of (128 + r div 64 mod 64), char_of (128 + r mod 64)]
      else [char_of (240 + r div 262144), char_of (128 + r div 4096 mod 64),
            char_of (128 + r div 64 mod 64), char_of (128 + r mod 64)])"

section \<open>Marshal\<close>

definition u_escape :: "nat \<Rightarrow> string" where
  "u_escape n = [CHR 0x5C, CHR ''u''] @ [hex_digit (n div 4096 mod 16), hex_digit (n div 256 mod 16),
     hex_digit (n div 16 mod 16), hex_digit (n mod 16)]"

definition esc_char :: "char \<Rightarrow> string" where
  "esc_char c =
     (let b = byte c in
      if b = 34 \<or> b = 92 then [CHR 0x5C, c]
      else if b = 8 then [CHR 0x5C, CHR ''b''] else if b = 12 then [CHR 0x5C, CHR ''f''] else if b = 10 then [CHR 0x5C, CHR ''n'']
      else if b = 13 then [CHR 0x5C, CHR ''r''] else if b = 9 then [CHR 0x5C, CHR ''t'']
      else if b < 32 \<or> b = 60 \<or> b = 62 \<or> b = 38 then u_escape b
      else [c])"

function quote_chars :: "string \<Rightarrow> string" where
  "quote_chars s =
     (case s of [] \<Rightarrow> []
      | c # s' \<Rightarrow>
        if byte c < 128 then esc_char c @ quote_chars s'
        else if rune_len s = 0 then u_escape 0xFFFD @ quote_chars s'
        else if take 3 s = encode_rune 0x2028 then u_escape 0x2028 @ quote_chars (drop 3 s)
        else if take 3 s = encode_rune 0x2029 then u_escape 0x2029 @ quote_chars (drop 3 s)
        else take (rune_len s) s @ quote_chars (drop (rune_len s) s))"
  by pat_completeness auto
termination
  by (relation "measure length") auto

declare quote_chars.simps [simp del]

definition json_quote :: "string \<Rightarrow> string" where
  "json_quote s = CHR 0x22 # quote_chars s @ [CHR 0x22]"

definition marshal_strings :: "string list \<Rightarrow> string" where
  "marshal_strings xs = ''['' @ Join (map json_quote xs) '','' @ '']''"

section \<open>Unmarshal\<close>

definition json_ws :: "char \<Rightarrow> bool" where
  "json_ws c \<longleftrightarrow> byte c \<in> {32, 9, 10, 13}"

definition skip_ws :: "string \<Rightarrow> string" where
  "skip_ws s = dropWhile json_ws s"

definition hex_val :: "char \<Rightarrow> nat option" where
  "hex_val c = (if is_digit c then Some (byte c - 48)
     else if 97 \<le> byte c \<and> byte c \<le> 102 then Some (byte c - 87)
     else if 65 \<le> byte c \<and> byte c \<le> 70 then Some (byte c - 55) else None)"

fun hex4 :: "string \<Rightarrow> (nat \<times> string) option" where
  "hex4 (a # b # c # d # s) =
     (case (hex_val a, hex_val b, hex_val c, hex_val d) of
        (Some w, Some x, Some y, Some z) \<Rightarrow> Some (((w * 16 + x) * 16 + y) * 16 + z, s)
      | _ \<Rightarrow> None)"
| "hex4 _ = None"

text \<open>The low half of a surrogate pair, if a \<open>\\u\<close> escape of one follows.\<close>

definition low_surrogate :: "string \<Rightarrow> (nat \<times> string) option" where
  "low_surrogate s =
     (case s of a # b # s' \<Rightarrow>
        if a = CHR 0x5C \<and> b = CHR ''u'' then
          (case hex4 s' of Some (v, r) \<Rightarrow> if 0xDC00 \<le> v \<and> v < 0xE000 then Some (v, r) else None | None \<Rightarrow> None)
        else None
      | _ \<Rightarrow> None)"

definition unicode_escape :: "string \<Rightarrow> (string \<times> string) option" where
  "unicode_escape s =
     (case hex4 s of None \<Rightarrow> None
      | Some (u, r) \<Rightarrow>
        if 0xD800 \<le> u \<and> u < 0xDC00 then
          (case low_surrogate r of
             Some (v, r') \<Rightarrow> Some (encode_rune (0x10000 + (u - 0xD800) * 1024 + (v - 0xDC00)), r')
           | None \<Rightarrow> Some (rune_error, r))
        else if 0xDC00 \<le> u \<and> u < 0xE000 then Some (rune_error, r)
        else Some (encode_rune u, r))"

definition simple_escape :: "char \<Rightarrow> char option" where
  "simple_escape c =
     (if c = CHR 0x22 \<or> c = CHR 0x5C \<or> c = CHR ''/'' then Some c
      else if c = CHR ''b'' then Some (char_of (8::nat)) else if c = CHR ''f'' then Some (char_of (12::nat))
      else if c = CHR ''n'' then Some (char_of (10::nat)) else if c = CHR ''r'' then Some (char_of (13::nat))
      else if c = CHR ''t'' then Some (char_of (9::nat)) else None)"

text \<open>One character of a string literal: its decoding and the rest; the closing quote is not one.\<close>

definition unquote_one :: "string \<Rightarrow> (string \<times> string) option" where
  "unquote_one s =
     (case s of [] \<Rightarrow> None
      | c # s' \<Rightarrow>
        if c = CHR 0x22 then None
        else if c = CHR 0x5C then
          (case s' of [] \<Rightarrow> None
           | e # r \<Rightarrow>
             if e = CHR ''u'' then unicode_escape r
             else map_option (\<lambda>x. ([x], r)) (simple_escape e))
        else if byte c < 32 then None
        else if rune_len s = 0 then Some (rune_error, s')
        else Some (take (rune_len s) s, drop (rune_len s) s))"

lemma hex4_shorter: "hex4 s = Some (u, r) \<Longrightarrow> length r < length s"
  by (cases s rule: hex4.cases) (auto split: option.splits)

lemma unicode_escape_shorter: "unicode_escape s = Some (d, r) \<Longrightarrow> length r < length s"
  by (auto simp: unicode_escape_def low_surrogate_def dest!: hex4_shorter
      split: option.splits if_splits list.splits)

lemma unquote_one_shorter: "unquote_one s = Some (d, r) \<Longrightarrow> length r < length s"
  by (auto simp: unquote_one_def dest!: unicode_escape_shorter split: list.splits if_splits)

function unquote_chars :: "string \<Rightarrow> (string \<times> string) option" where
  "unquote_chars s =
     (case unquote_one s of
        Some (d, r) \<Rightarrow> map_option (\<lambda>(x, t). (d @ x, t)) (unquote_chars r)
      | None \<Rightarrow> (case s of c # s' \<Rightarrow> if c = CHR 0x22 then Some ([], s') else None | [] \<Rightarrow> None))"
  by pat_completeness auto
termination
  by (relation "measure length") (auto dest: unquote_one_shorter)

declare unquote_chars.simps [simp del]

text \<open>An array element: a string, or null for the empty string.\<close>

definition parse_elem :: "string \<Rightarrow> (string \<times> string) option" where
  "parse_elem s =
     (if HasPrefix s ''null'' then Some ([], drop 4 s)
      else case s of c # s' \<Rightarrow> if c = CHR 0x22 then unquote_chars s' else None | [] \<Rightarrow> None)"

lemma unquote_chars_shorter: "unquote_chars s = Some (d, r) \<Longrightarrow> length r < length s"
proof (induction s arbitrary: d r rule: unquote_chars.induct)
  case (1 s)
  show ?case
  proof (cases "unquote_one s")
    case None
    with "1.prems" show ?thesis
      by (simp add: unquote_chars.simps [of s] split: list.splits if_splits)
  next
    case (Some p)
    obtain d1 r1 where p: "p = (d1, r1)" by fastforce
    with Some "1.prems" obtain x where "unquote_chars r1 = Some (x, r)"
      by (auto simp: unquote_chars.simps [of s])
    with "1.IH" [OF Some p [symmetric]] have "length r < length r1" by blast
    also have "length r1 < length s" using Some p unquote_one_shorter by blast
    finally show ?thesis .
  qed
qed

lemma parse_elem_shorter: "parse_elem s = Some (d, r) \<Longrightarrow> length r < length s"
  by (cases s) (auto simp: parse_elem_def HasPrefix_def dest: unquote_chars_shorter split: if_splits)

lemma length_skip_ws: "length (skip_ws s) \<le> length s"
  by (simp add: skip_ws_def length_dropWhile_le)

text \<open>The elements after the opening bracket or a comma, up to the closing bracket and the end.\<close>

function parse_elems :: "string \<Rightarrow> string list option" where
  "parse_elems s =
     (case parse_elem (skip_ws s) of
        None \<Rightarrow> None
      | Some (x, r) \<Rightarrow>
        (case skip_ws r of
           c # r' \<Rightarrow>
             if c = CHR '','' then map_option (Cons x) (parse_elems r')
             else if c = CHR '']'' \<and> skip_ws r' = [] then Some [x] else None
         | [] \<Rightarrow> None))"
  by pat_completeness auto
termination
proof (relation "measure length")
  show "wf (measure length)" by simp
next
  fix s :: string and p x r c r'
  assume a: "parse_elem (skip_ws s) = Some p" "(x, r) = p" "skip_ws r = c # r'" "c = CHR '',''"
  then have "length r < length (skip_ws s)" using parse_elem_shorter by blast
  with a length_skip_ws [of s] length_skip_ws [of r] show "(r', s) \<in> measure length" by simp
qed

declare parse_elems.simps [simp del]

definition unmarshal_strings :: "string \<Rightarrow> string list option" where
  "unmarshal_strings s =
     (let t = skip_ws s in
      if HasPrefix t ''null'' \<and> skip_ws (drop 4 t) = [] then Some []
      else case t of
        c # r \<Rightarrow>
          if c = CHR ''['' then
            (case skip_ws r of
               d # r' \<Rightarrow> if d = CHR '']'' \<and> skip_ws r' = [] then Some [] else parse_elems r
             | [] \<Rightarrow> None)
          else None
      | [] \<Rightarrow> None)"


section \<open>The round trip\<close>

locale codec =
  fixes enc :: "'a \<Rightarrow> string" and dec :: "string \<Rightarrow> 'a option" and canon :: "'a \<Rightarrow> 'a"
  assumes dec_enc: "dec (enc x) = Some (canon x)"
begin

lemma dec_enc_id: "canon x = x \<Longrightarrow> dec (enc x) = Some x"
  by (simp add: dec_enc)

lemma enc_inj: "canon x = x \<Longrightarrow> canon y = y \<Longrightarrow> enc x = enc y \<Longrightarrow> x = y"
  by (metis dec_enc option.inject)

end

lemma hex_val_digit [simp]: "n < 16 \<Longrightarrow> hex_val (hex_digit n) = Some n"
  by (auto simp: hex_val_def hex_digit_def is_digit_def)

lemma hex4_escape: "n < 65536 \<Longrightarrow> hex4 (drop 2 (u_escape n) @ t) = Some (n, t)"
proof -
  assume n: "n < 65536"
  define a where "a = n div 16"
  define b where "b = a div 16"
  define c where "c = b div 16"
  have "n div 256 = b" "n div 4096 = c"
    by (simp_all add: a_def b_def c_def div_mult2_eq [symmetric])
  moreover have "c < 16"
    using n by (simp add: a_def b_def c_def)
  moreover have "c * 16 + b mod 16 = b" "b * 16 + a mod 16 = a" "a * 16 + n mod 16 = n"
    unfolding c_def b_def a_def by (rule div_mult_mod_eq)+
  ultimately show ?thesis
    by (simp add: u_escape_def flip: a_def)
qed

lemma unquote_u_escape:
  "n < 65536 \<Longrightarrow> \<not> (0xD800 \<le> n \<and> n < 0xE000) \<Longrightarrow> unquote_one (u_escape n @ t) = Some (encode_rune n, t)"
  using hex4_escape [of n t]
  by (auto simp: u_escape_def unquote_one_def unicode_escape_def)

lemma unquote_esc_char: "byte c < 128 \<Longrightarrow> unquote_one (esc_char c @ t) = Some ([c], t)"
proof -
  assume a: "byte c < 128"
  have spec: "byte c = n \<Longrightarrow> c = char_of n" for n :: nat
    by (metis char_of_char)
  have two: "byte c \<in> {34, 92} \<Longrightarrow> c = CHR 0x22 \<or> c = CHR 0x5C"
    by (auto simp flip: of_char_eq_iff [where 'a = nat])
  consider "byte c \<in> {8, 9, 10, 12, 13}" | "byte c \<in> {34, 92}"
    | "byte c \<notin> {8, 9, 10, 12, 13, 34, 92}" "byte c < 32 \<or> byte c \<in> {60, 62, 38}"
    | "byte c \<notin> {8, 9, 10, 12, 13, 34, 92}" "\<not> byte c < 32" "byte c \<notin> {60, 62, 38}"
    by blast
  then show ?thesis
  proof cases
    case 1
    then show ?thesis
      by (auto dest!: spec simp: esc_char_def unquote_one_def simple_escape_def)
  next
    case 2
    from two [OF 2] show ?thesis
      by (elim disjE) (simp_all add: esc_char_def unquote_one_def simple_escape_def)
  next
    case 3
    then have "esc_char c = u_escape (byte c)" by (auto simp: esc_char_def)
    with a show ?thesis by (simp add: unquote_u_escape encode_rune_def)
  next
    case 4
    moreover from 4 have "c \<noteq> CHR 0x22" "c \<noteq> CHR 0x5C" by auto
    ultimately show ?thesis using a by (auto simp: esc_char_def unquote_one_def Let_def)
  qed
qed

lemma unquote_rune:
  assumes "rune_len s \<noteq> 0" and "s = c # s'" and "\<not> byte c < 128"
  shows "unquote_one (take (rune_len s) s @ t) = Some (take (rune_len s) s, t)"
proof -
  define n where "n = rune_len s"
  then obtain m where m: "n = Suc m" using assms(1) not0_implies_Suc by blast
  have "rune_len (take n s @ t) = n" using assms(1) rune_len_take n_def by blast
  moreover have "n \<le> length s" unfolding n_def by (rule rune_len_le)
  moreover have "c \<noteq> CHR 0x22" "c \<noteq> CHR 0x5C" "\<not> byte c < 32" using assms(3) by auto
  ultimately show ?thesis
    unfolding n_def [symmetric] using assms(2) m by (simp add: unquote_one_def)
qed

lemma unquote_chars_step:
  "unquote_one s = Some (d, r) \<Longrightarrow> unquote_chars s = map_option (\<lambda>(x, t). (d @ x, t)) (unquote_chars r)"
  by (subst unquote_chars.simps) simp

lemma unquote_chars_end: "unquote_chars (CHR 0x22 # t) = Some ([], t)"
  by (subst unquote_chars.simps) (simp add: unquote_one_def)

lemma rune_len_3: "take 3 s = encode_rune r \<Longrightarrow> r = 0x2028 \<or> r = 0x2029 \<Longrightarrow> rune_len s = 3"
proof -
  assume a: "take 3 s = encode_rune r" and r: "r = 0x2028 \<or> r = 0x2029"
  then have "take 3 s = [char_of (226::nat), char_of (128::nat), char_of (128 + r mod 64)]"
    by (auto simp: encode_rune_def)
  then obtain t where "s = [char_of (226::nat), char_of (128::nat), char_of (128 + r mod 64)] @ t"
    by (metis append_take_drop_id)
  with r show ?thesis
    by (auto simp: rune_len.simps second_ok_def cont_def)
qed

lemma unquote_quote: "unquote_chars (quote_chars s @ CHR 0x22 # t) = Some (to_valid s, t)"
proof (induction s rule: quote_chars.induct)
  case (1 s)
  show ?case
  proof (cases s)
    case Nil
    then show ?thesis by (simp add: quote_chars.simps to_valid.simps unquote_chars_end)
  next
    case (Cons c s')
    let ?n = "rune_len s"
    consider "byte c < 128" | "\<not> byte c < 128" "?n = 0"
      | r where "\<not> byte c < 128" "?n \<noteq> 0" "r = 0x2028 \<or> r = 0x2029" "take 3 s = encode_rune r"
      | "\<not> byte c < 128" "?n \<noteq> 0" "take 3 s \<noteq> encode_rune 0x2028" "take 3 s \<noteq> encode_rune 0x2029"
      by blast
    then show ?thesis
    proof cases
      case 1
      then have "?n = 1" using Cons by simp
      moreover from this have "to_valid s = [c] @ to_valid s'"
        using to_valid_step [of s] Cons by simp
      moreover have "quote_chars s = esc_char c @ quote_chars s'"
        using 1 Cons by (subst quote_chars.simps) simp
      ultimately have "quote_chars s = esc_char c @ quote_chars s'" "to_valid s = [c] @ to_valid s'"
        by simp_all
      with 1 Cons "1.IH"(1) [OF Cons 1] show ?thesis
        by (simp add: unquote_chars_step [OF unquote_esc_char])
    next
      case 2
      then have "quote_chars s = u_escape 0xFFFD @ quote_chars s'"
        using Cons by (subst quote_chars.simps) simp
      moreover have "to_valid s = rune_error @ to_valid s'"
        using Cons 2 by (simp only: to_valid_error)
      moreover have "encode_rune 0xFFFD = rune_error" by (simp add: encode_rune_def rune_error_def)
      ultimately show ?thesis
        using "1.IH"(2) [OF Cons 2] by (simp add: unquote_chars_step [OF unquote_u_escape])
    next
      case (3 r)
      then have n: "?n = 3" using rune_len_3 by blast
      then have "to_valid s = encode_rune r @ to_valid (drop 3 s)"
        using 3 to_valid_step [of s] by simp
      moreover have "encode_rune 0x2028 \<noteq> encode_rune 0x2029"
        by (simp add: encode_rune_def)
      then have "quote_chars s = u_escape r @ quote_chars (drop 3 s)"
        using 3 Cons by (subst quote_chars.simps) auto
      moreover have "unquote_chars (quote_chars (drop 3 s) @ CHR 0x22 # t) = Some (to_valid (drop 3 s), t)"
        using 3 "1.IH"(3,4) [OF Cons] by (cases "r = 0x2028") auto
      ultimately show ?thesis
        using 3(3) by (auto simp: unquote_chars_step [OF unquote_u_escape])
    next
      case 4
      then have q: "quote_chars s = take ?n s @ quote_chars (drop ?n s)"
        using Cons by (subst quote_chars.simps) simp
      have "to_valid s = take ?n s @ to_valid (drop ?n s)"
        by (rule to_valid_step [OF 4(2)])
      with q "1.IH"(5) [OF Cons 4] show ?thesis
        by (simp add: unquote_chars_step [OF unquote_rune [OF 4(2) Cons 4(1)]])
    qed
  qed
qed

lemma parse_quote: "parse_elem (json_quote s @ t) = Some (to_valid s, t)"
  by (simp add: parse_elem_def json_quote_def HasPrefix_def unquote_quote)

lemma skip_json_quote: "skip_ws (json_quote s @ t) = json_quote s @ t"
  by (simp add: skip_ws_def json_quote_def json_ws_def)

lemma parse_elems_join:
  "parse_elems (Join (map json_quote (x # xs)) '','' @ '']'') = Some (map to_valid (x # xs))"
proof (induction xs arbitrary: x)
  case Nil
  then show ?case
    by (subst parse_elems.simps) (simp add: skip_json_quote parse_quote, simp add: skip_ws_def json_ws_def)
next
  case (Cons y ys)
  then show ?case
    by (subst parse_elems.simps) (simp add: skip_json_quote parse_quote, simp add: skip_ws_def json_ws_def)
qed

lemma unmarshal_marshal: "unmarshal_strings (marshal_strings xs) = Some (map to_valid xs)"
proof (cases xs)
  case Nil
  then show ?thesis
    by (simp add: marshal_strings_def unmarshal_strings_def skip_ws_def json_ws_def HasPrefix_def)
next
  case (Cons x ys)
  define j where "j = Join (map json_quote (x # ys)) '','' @ '']''"
  have "\<exists>k. j = CHR 0x22 # k"
    by (cases ys) (simp_all add: j_def json_quote_def)
  then have "skip_ws j = j" "\<exists>k. j = CHR 0x22 # k"
    by (auto simp: skip_ws_def json_ws_def)
  moreover have "parse_elems j = Some (map to_valid (x # ys))"
    unfolding j_def by (rule parse_elems_join)
  moreover have "marshal_strings xs = CHR ''['' # j"
    by (simp add: Cons marshal_strings_def j_def)
  moreover have "skip_ws (CHR ''['' # j) = CHR ''['' # j" for j
    by (simp add: skip_ws_def json_ws_def)
  ultimately show ?thesis
    using Cons by (auto simp: unmarshal_strings_def HasPrefix_def)
qed

interpretation strings_codec: codec marshal_strings unmarshal_strings "map to_valid"
  by unfold_locales (rule unmarshal_marshal)

lemma unmarshal_marshal_valid [simp]:
  "list_all valid_utf8 xs \<Longrightarrow> unmarshal_strings (marshal_strings xs) = Some xs"
  by (rule strings_codec.dec_enc_id) (induction xs; simp add: to_valid_id)

end
