(* ===== verification/Go_Url.thy ===== *)
theory Go_Url
  imports Go_Text Go_Json
begin

text \<open>
  What the program uses of \<open>net/url\<close> and \<open>net/netip\<close> (Go 1.26): \<open>url.Parse\<close> up to the scheme and the host of the result, the text of
  a URL that has only these two, \<open>Hostname\<close>, and the check that a text is an IPv6 address. \<open>None\<close> is an error. A host is
  percent-decoded byte by byte, with the bytes each part may have. The restriction to one colon holds for http and https.
\<close>

section \<open>Positions\<close>

fun last_index :: "char \<Rightarrow> string \<Rightarrow> nat option" where
  "last_index c [] = None"
| "last_index c (x # s) =
     (case last_index c s of Some i \<Rightarrow> Some (Suc i) | None \<Rightarrow> if x = c then Some 0 else None)"

fun first_index :: "char \<Rightarrow> string \<Rightarrow> nat option" where
  "first_index c [] = None"
| "first_index c (x # s) = (if x = c then Some 0 else map_option Suc (first_index c s))"

definition before_first :: "char \<Rightarrow> string \<Rightarrow> string" where
  "before_first c s = (case Cut c s of Some (a, _) \<Rightarrow> a | None \<Rightarrow> s)"

section \<open>Percent encoding\<close>

definition alnum :: "char \<Rightarrow> bool" where
  "alnum c \<longleftrightarrow> is_lower c \<or> is_upper c \<or> is_digit c"

text \<open>\<open>shouldEscape\<close> in a host: the bytes that stay as they are, among them the quote characters.\<close>

definition should_escape :: "char \<Rightarrow> bool" where
  "should_escape c \<longleftrightarrow> \<not> alnum c \<and> c \<notin> set (''!$&()*+,;=:[]<>-_.~'' @ [CHR 0x22, CHR 0x27])"

text \<open>
  \<open>unescape\<close>: \<open>p\<close> says which bytes may be percent-encoded, \<open>q\<close> which may stand for themselves.
\<close>

fun unescape :: "(char \<Rightarrow> bool) \<Rightarrow> (char \<Rightarrow> bool) \<Rightarrow> string \<Rightarrow> string option" where
  "unescape p q [] = Some []"
| "unescape p q (c # s) =
     (if c = CHR ''%'' then
        (case s of
           a # b # r \<Rightarrow>
             (case (hex_val a, hex_val b) of
                (Some x, Some y) \<Rightarrow>
                  if p (char_of (16 * x + y)) then map_option (Cons (char_of (16 * x + y))) (unescape p q r) else None
              | _ \<Rightarrow> None)
         | _ \<Rightarrow> None)
      else if q c then map_option (Cons c) (unescape p q s)
      else None)"

definition host_byte :: "char \<Rightarrow> bool" where
  "host_byte c \<longleftrightarrow> 128 \<le> byte c \<or> \<not> should_escape c"

definition unescape_host :: "string \<Rightarrow> string option" where
  "unescape_host = unescape (\<lambda>c. 128 \<le> byte c \<or> c = CHR ''%'') host_byte"

definition unescape_zone :: "string \<Rightarrow> string option" where
  "unescape_zone = unescape (\<lambda>c. c = CHR ''%'' \<or> c = CHR '' '' \<or> \<not> should_escape c) host_byte"

text \<open>In the other parts every byte may be encoded and every other byte stands for itself.\<close>

definition escapes_ok :: "string \<Rightarrow> bool" where
  "escapes_ok s \<longleftrightarrow> unescape (\<lambda>_. True) (\<lambda>_. True) s \<noteq> None"

definition escape_byte :: "char \<Rightarrow> string" where
  "escape_byte c = (if should_escape c then CHR ''%'' # ToUpper (hex_byte c) else [c])"

definition escape_host :: "string \<Rightarrow> string" where
  "escape_host s = concat (map escape_byte s)"

section \<open>IPv6 addresses\<close>

definition is_hex :: "char \<Rightarrow> bool" where
  "is_hex c \<longleftrightarrow> hex_val c \<noteq> None"

text \<open>\<open>parseIPv4Fields\<close>: four decimal numbers up to 255 without leading zeros.\<close>

definition ipv4_field :: "string \<Rightarrow> bool" where
  "ipv4_field s \<longleftrightarrow> s \<noteq> [] \<and> list_all is_digit s \<and> (length s = 1 \<or> hd s \<noteq> CHR ''0'') \<and> digits_value s \<le> 255"

definition ipv4_fields :: "string \<Rightarrow> bool" where
  "ipv4_fields s \<longleftrightarrow> length (Split CHR ''.'' s) = 4 \<and> list_all ipv4_field (Split CHR ''.'' s)"

text \<open>
  The loop of \<open>parseIPv6\<close>: \<open>i\<close> bytes are read, \<open>e\<close> says that an omission was seen, \<open>s\<close> is what is left.
\<close>

definition ipv6_done :: "nat \<Rightarrow> bool \<Rightarrow> string \<Rightarrow> bool" where
  "ipv6_done i e s \<longleftrightarrow> s = [] \<and> (if i < 16 then e else \<not> e)"

function ipv6_groups :: "nat \<Rightarrow> bool \<Rightarrow> string \<Rightarrow> bool" where
  "ipv6_groups i e s =
     (if 16 \<le> i then ipv6_done i e s
      else let g = takeWhile is_hex s; r = dropWhile is_hex s in
      if g = [] \<or> 4 < length g then False
      else if r = [] then ipv6_done (i + 2) e []
      else if hd r = CHR ''.'' then (e \<or> i = 12) \<and> i + 4 \<le> 16 \<and> ipv4_fields s \<and> ipv6_done (i + 4) e []
      else if hd r \<noteq> CHR '':'' \<or> tl r = [] then False
      else if hd (tl r) \<noteq> CHR '':'' then ipv6_groups (i + 2) e (tl r)
      else if e then False
      else if tl (tl r) = [] then ipv6_done (i + 2) True []
      else ipv6_groups (i + 2) True (tl (tl r)))"
  by pat_completeness auto
termination by (relation "measure (\<lambda>(i, _). 16 - i)") auto

definition parse_ipv6 :: "string \<Rightarrow> bool" where
  "parse_ipv6 t =
     (let s = before_first CHR ''%'' t in
      if s \<noteq> t \<and> length t = length s + 1 then False
      else if HasPrefix s ''::'' then drop 2 s = [] \<or> ipv6_groups 0 True (drop 2 s)
      else ipv6_groups 0 False s)"

text \<open>\<open>netip.ParseAddr\<close>: the first dot, colon or percent sign decides what the text is read as.\<close>

definition is_ipv6 :: "string \<Rightarrow> bool" where
  "is_ipv6 s = (case find (\<lambda>c. c = CHR ''.'' \<or> c = CHR '':'' \<or> c = CHR ''%'') s of
     Some c \<Rightarrow> c = CHR '':'' \<and> parse_ipv6 s | None \<Rightarrow> False)"

section \<open>Parsing\<close>

definition validOptionalPort :: "string \<Rightarrow> bool" where
  "validOptionalPort port \<longleftrightarrow> port = [] \<or> hd port = CHR '':'' \<and> list_all is_digit (tl port)"

text \<open>The first occurrence of \<open>%25\<close>, the start of a zone.\<close>

fun zone_index :: "string \<Rightarrow> nat option" where
  "zone_index [] = None"
| "zone_index (c # s) = (if HasPrefix (c # s) ''%25'' then Some 0 else map_option Suc (zone_index s))"

definition unescape_literal :: "string \<Rightarrow> string option" where
  "unescape_literal hostname =
     (case zone_index hostname of
        None \<Rightarrow> unescape_host hostname
      | Some z \<Rightarrow>
        (case (unescape_host (take z hostname), unescape_zone (drop z hostname)) of
           (Some h, Some zone) \<Rightarrow> Some (h @ zone)
         | _ \<Rightarrow> None))"

definition parseHost :: "string \<Rightarrow> string \<Rightarrow> string option" where
  "parseHost scheme host =
     (case last_index CHR ''['' host of
        Some (Suc _) \<Rightarrow> None
      | Some 0 \<Rightarrow>
        (case last_index CHR '']'' host of
           None \<Rightarrow> None
         | Some close \<Rightarrow>
           let colonPort = drop (close + 1) host in
           if \<not> validOptionalPort colonPort then None
           else case (unescape_host colonPort, unescape_literal (drop 1 (take close host))) of
             (Some port, Some hostname) \<Rightarrow>
               if is_ipv6 hostname then Some (''['' @ hostname @ '']'' @ port) else None
           | _ \<Rightarrow> None)
      | None \<Rightarrow>
        (case last_index CHR '':'' host of
           None \<Rightarrow> unescape_host host
         | Some i \<Rightarrow>
           if first_index CHR '':'' host \<noteq> Some i \<and> (scheme = ''http'' \<or> scheme = ''https'') then None
           else if \<not> validOptionalPort (drop i host) then None
           else unescape_host host))"

text \<open>\<open>validUserinfo\<close> and the decoding of user and password, whose values are not used.\<close>

definition userinfo_ok :: "string \<Rightarrow> bool" where
  "userinfo_ok s \<longleftrightarrow> list_all (\<lambda>c. alnum c \<or> c \<in> set (''-._:~!$&()*+,;=%@'' @ [CHR 0x27])) s \<and>
     (case Cut CHR '':'' s of None \<Rightarrow> escapes_ok s | Some (u, p) \<Rightarrow> escapes_ok u \<and> escapes_ok p)"

definition parseAuthority :: "string \<Rightarrow> string \<Rightarrow> string option" where
  "parseAuthority scheme authority =
     (case last_index CHR ''@'' authority of
        None \<Rightarrow> parseHost scheme authority
      | Some i \<Rightarrow>
        (case parseHost scheme (drop (i + 1) authority) of
           None \<Rightarrow> None
         | Some host \<Rightarrow> if userinfo_ok (take i authority) then Some host else None))"

text \<open>\<open>getScheme\<close>: the scheme and the rest.\<close>

definition scheme_char :: "char \<Rightarrow> bool" where
  "scheme_char c \<longleftrightarrow> alnum c \<or> c = CHR ''+'' \<or> c = CHR ''-'' \<or> c = CHR ''.''"

definition getScheme :: "string \<Rightarrow> (string \<times> string) option" where
  "getScheme raw =
     (let s = takeWhile scheme_char raw; r = dropWhile scheme_char raw in
      if raw \<noteq> [] \<and> hd raw = CHR '':'' then None
      else if s = [] \<or> is_digit (hd s) \<or> \<not> alnum (hd s) \<or> r = [] \<or> hd r \<noteq> CHR '':'' then Some ([], raw)
      else Some (s, tl r))"

record url =
  u_Scheme :: string
  u_Host :: string

definition cut_query :: "string \<Rightarrow> string" where
  "cut_query rest = before_first CHR ''?'' rest"

definition ctl_byte :: "char \<Rightarrow> bool" where
  "ctl_byte c \<longleftrightarrow> byte c < 32 \<or> byte c = 127"

definition parse_rest :: "string \<Rightarrow> string \<Rightarrow> url option" where
  "parse_rest scheme rest =
     (if \<not> HasPrefix rest ''/'' \<and> scheme \<noteq> [] then Some \<lparr>u_Scheme = scheme, u_Host = []\<rparr>
      else if \<not> HasPrefix rest ''/'' \<and> CHR '':'' \<in> set (before_first CHR ''/'' rest) then None
      else if HasPrefix rest ''//'' \<and> (scheme \<noteq> [] \<or> \<not> HasPrefix rest ''///'') then
        (let authority = before_first CHR ''/'' (drop 2 rest); path = drop (length authority + 2) rest in
         case parseAuthority scheme authority of
           None \<Rightarrow> None
         | Some host \<Rightarrow> if escapes_ok path then Some \<lparr>u_Scheme = scheme, u_Host = host\<rparr> else None)
      else if escapes_ok rest then Some \<lparr>u_Scheme = scheme, u_Host = []\<rparr> else None)"

definition parse_plain :: "string \<Rightarrow> url option" where
  "parse_plain raw =
     (if list_ex ctl_byte raw then None
      else if raw = ''*'' then Some \<lparr>u_Scheme = [], u_Host = []\<rparr>
      else case getScheme raw of
        None \<Rightarrow> None
      | Some (scheme, rest) \<Rightarrow> parse_rest (ToLower scheme) (cut_query rest))"

definition url_Parse :: "string \<Rightarrow> url option" where
  "url_Parse raw =
     (case Cut CHR ''#'' raw of
        None \<Rightarrow> parse_plain raw
      | Some (u, frag) \<Rightarrow>
        (case parse_plain u of None \<Rightarrow> None | Some r \<Rightarrow> if escapes_ok frag then Some r else None))"

text \<open>The text of a URL of which only the scheme and the host are set.\<close>

definition url_String :: "url \<Rightarrow> string" where
  "url_String u = (if u_Scheme u \<noteq> [] then u_Scheme u @ '':'' else []) @
     (if u_Scheme u \<noteq> [] \<or> u_Host u \<noteq> [] then (if u_Host u \<noteq> [] then ''//'' else []) @ escape_host (u_Host u) else [])"

definition url_Hostname :: "url \<Rightarrow> string" where
  "url_Hostname u =
     (let h = u_Host u;
          host = (case last_index CHR '':'' h of Some i \<Rightarrow> if validOptionalPort (drop i h) then take i h else h | None \<Rightarrow> h)
      in if HasPrefix host ''['' \<and> HasSuffix host '']'' then drop 1 (butlast host) else host)"

end
