(* ===== verification/Config_Parse.thy ===== *)
theory Config_Parse
  imports Config_Migrations Go_Url
begin

text \<open>
  config/config.go: the configuration records and the functions that fill them from the parsed file.
  \<open>Load\<close> is \<open>load_config\<close>: the file as \<open>yaml.Unmarshal\<close> returned it, and \<open>None\<close> where the program
  exits.

  The lemmas at the end say what a migration of the file leaves unchanged in these records.
\<close>

section \<open>The records\<close>

record site_config =
  s_Name :: string
  s_Implementation :: string
  s_Version :: string

record server_config =
  srv_Port :: string
  CORSOrigin :: string

record database_config =
  db_Host :: string
  DBName :: string
  db_User :: string
  db_Password :: string
  Charset :: string
  db_Port :: int
  RetryIntervalSec :: int
  MaxRetries :: int
  NextRoundDelayMin :: int

record verification_code_config =
  CodeTTL :: int
  StorageDir :: string

record redis_config =
  r_Host :: string
  r_Port :: int
  r_Password :: string
  r_DB :: int
  r_Prefix :: string

record smtp_config =
  m_Host :: string
  m_Port :: int
  m_Username :: string
  m_Password :: string
  FromEmail :: string
  FromName :: string

record security_config =
  PasswordCost :: int
  RateLimitMaxAttempts :: int
  RateLimitWindowSec :: int
  EnableCaptcha :: bool
  CaptchaTTL :: int

record service_client_config =
  sc_ClientID :: string
  sc_ClientSecret :: string
  sc_Name :: string

record oauth2_config =
  Issuer :: string
  AuthorizationCodeTTL :: int
  AccessTokenTTL :: int
  RefreshTokenTTL :: int
  SuperClientID :: string
  SuperClientSecret :: string
  SuperClientExtraScopes :: "string list"
  PublicClientID :: string
  PublicRedirectURIs :: "string list"
  ServiceClients :: "service_client_config list"
  ServiceScopeAllowlist :: "(string \<times> string list) list"

record sdk_packages_config =
  sdk_StorageDir :: string
  MaxPackageSize :: int
  MaxPackages :: int

record webauthn_config =
  RPDisplayName :: string
  RPID :: string
  RPOrigins :: "string list"
  SessionTTL :: int

record config =
  c_Version :: string
  c_Site :: site_config
  c_Server :: server_config
  c_Security :: security_config
  c_OAuth2 :: oauth2_config
  c_Callback_URL :: string
  c_Frontend_URL :: string
  c_Database :: database_config
  c_VerificationCode :: verification_code_config
  c_Redis :: redis_config
  c_SMTP :: smtp_config
  c_Manage_Token :: string
  c_Yggdrasil_BaseURL :: string
  c_SDKPackages :: sdk_packages_config
  c_WebAuthn :: webauthn_config

section \<open>The dial address\<close>

text \<open>\<open>net.SplitHostPort\<close>: the host and the port, \<open>None\<close> for its errors.\<close>

definition SplitHostPort :: "string \<Rightarrow> (string \<times> string) option" where
  "SplitHostPort hp =
     (case last_index CHR '':'' hp of
        None \<Rightarrow> None
      | Some i \<Rightarrow>
        (if hd hp = CHR ''['' then
           (case first_index CHR '']'' hp of
              None \<Rightarrow> None
            | Some e \<Rightarrow>
              if e + 1 \<noteq> i then None
              else if CHR ''['' \<in> set (drop 1 hp) \<or> CHR '']'' \<in> set (drop (e + 1) hp) then None
              else Some (drop 1 (take e hp), drop (i + 1) hp))
         else if CHR '':'' \<in> set (take i hp) then None
         else if CHR ''['' \<in> set hp \<or> CHR '']'' \<in> set hp then None
         else Some (take i hp, drop (i + 1) hp)))"

definition JoinHostPort :: "string \<Rightarrow> string \<Rightarrow> string" where
  "JoinHostPort host port =
     (if CHR '':'' \<in> set host then ''['' @ host @ '']:'' @ port else host @ '':'' @ port)"

definition Addr :: "database_config \<Rightarrow> string" where
  "Addr c =
     (if db_Port c \<le> 0 then db_Host c
      else
        let host = (case SplitHostPort (db_Host c) of Some (h, _) \<Rightarrow> h | None \<Rightarrow> db_Host c)
        in JoinHostPort host (itoa (nat (db_Port c))))"

section \<open>The sections\<close>

definition sect :: "string \<Rightarrow> ymap \<Rightarrow> ymap option" where
  "sect name cfg = as_map (map_of cfg name)"

definition parseYggdrasilAPIConfig :: "ymap \<Rightarrow> string" where
  "parseYggdrasilAPIConfig cfg = getString (sect ''yggdrasil_api'' cfg) ''base_url''"

definition parseSDKPackagesConfig :: "ymap \<Rightarrow> sdk_packages_config" where
  "parseSDKPackagesConfig cfg =
     (let sdk = sect ''sdk_packages'' cfg in
      \<lparr>sdk_StorageDir = getString sdk ''storage_dir'', MaxPackageSize = getInt sdk ''max_package_size'',
       MaxPackages = getInt sdk ''max_packages''\<rparr>)"

definition parseSiteConfig :: "ymap \<Rightarrow> site_config" where
  "parseSiteConfig cfg =
     (let site = sect ''site'' cfg in
      \<lparr>s_Name = getString site ''name'', s_Implementation = getString site ''implementation'',
       s_Version = getString site ''version''\<rparr>)"

definition parseServerRuntimeConfig :: "ymap \<Rightarrow> server_config" where
  "parseServerRuntimeConfig cfg =
     (let server = sect ''server'' cfg in
      \<lparr>srv_Port = getString server ''port'', CORSOrigin = getString server ''cors_origin''\<rparr>)"

definition parseCallbackConfig :: "ymap \<Rightarrow> string" where
  "parseCallbackConfig cfg = getString (sect ''callback'' cfg) ''url''"

definition parseFrontendConfig :: "ymap \<Rightarrow> string" where
  "parseFrontendConfig cfg = getString (sect ''frontend'' cfg) ''url''"

definition parseDatabaseConfig :: "ymap \<Rightarrow> database_config" where
  "parseDatabaseConfig cfg =
     (let db = sect ''database'' cfg;
          retryInterval = (let r = getInt db ''retry_interval_sec'' in if r = 0 then 3 else r);
          nextRoundDelay = (if nget db ''next_round_delay_min'' = None then 5
                            else getInt db ''next_round_delay_min'');
          maxRetries = (if nget db ''max_retries'' = None then 5 else getInt db ''max_retries'')
      in \<lparr>db_Host = getString db ''host'', DBName = getString db ''db_name'', db_User = getString db ''user'',
          db_Password = getString db ''password'', Charset = getString db ''charset'', db_Port = getInt db ''port'',
          RetryIntervalSec = retryInterval, MaxRetries = maxRetries, NextRoundDelayMin = nextRoundDelay\<rparr>)"

definition parseVerificationCodeConfig :: "ymap \<Rightarrow> verification_code_config" where
  "parseVerificationCodeConfig cfg =
     (let vc = sect ''verification_code'' cfg in
      \<lparr>CodeTTL = getInt vc ''code_ttl'', StorageDir = getString vc ''storage_dir''\<rparr>)"

definition parseRedisConfig :: "ymap \<Rightarrow> redis_config" where
  "parseRedisConfig cfg =
     (let r = sect ''redis'' cfg in
      \<lparr>r_Host = getString r ''host'', r_Port = getInt r ''port'', r_Password = getString r ''password'',
       r_DB = getInt r ''db'', r_Prefix = getString r ''prefix''\<rparr>)"

definition parseSMTPConfig :: "ymap \<Rightarrow> smtp_config" where
  "parseSMTPConfig cfg =
     (let m = sect ''smtp'' cfg in
      \<lparr>m_Host = getString m ''host'', m_Port = getInt m ''port'', m_Username = getString m ''username'',
       m_Password = getString m ''password'', FromEmail = getString m ''from_email'',
       FromName = getString m ''from_name''\<rparr>)"

definition parseManageConfig :: "ymap \<Rightarrow> string" where
  "parseManageConfig cfg = getString (sect ''manage'' cfg) ''token''"

definition parseSecurityConfig :: "ymap \<Rightarrow> security_config" where
  "parseSecurityConfig cfg =
     (let s = sect ''security'' cfg;
          maxAttempts = (let n = getInt s ''rate_limit_max_attempts'' in if n = 0 then 10 else n);
          windowSec = (let n = getInt s ''rate_limit_window_sec'' in if n = 0 then 600 else n);
          captchaTTL = (let n = getInt s ''captcha_ttl'' in if n = 0 then 300 else n)
      in \<lparr>PasswordCost = getInt s ''password_cost'', RateLimitMaxAttempts = maxAttempts,
          RateLimitWindowSec = windowSec, EnableCaptcha = getBool s ''enable_captcha'', CaptchaTTL = captchaTTL\<rparr>)"

subsection \<open>The webauthn section\<close>

text \<open>The origin of a URL in its normal form; a text that is no URL with a host only loses its slashes at the end.\<close>

definition normalizeWebAuthnOrigin :: "string \<Rightarrow> string" where
  "normalizeWebAuthnOrigin raw =
     (let r = TrimSpace raw in
      if r = [] then []
      else case url_Parse r of
        None \<Rightarrow> TrimRight r CHR ''/''
      | Some parsed \<Rightarrow>
        if u_Scheme parsed = [] \<or> u_Host parsed = [] then TrimRight r CHR ''/''
        else url_String \<lparr>u_Scheme = ToLower (u_Scheme parsed), u_Host = ToLower (u_Host parsed)\<rparr>)"

text \<open>The loop over the origins; \<open>out\<close> is what was collected, and what was seen.\<close>

fun normalize_origins :: "string list \<Rightarrow> string list \<Rightarrow> string list" where
  "normalize_origins out [] = out"
| "normalize_origins out (origin # origins) =
     (let o1 = normalizeWebAuthnOrigin origin in
      if o1 = [] \<or> List.member out o1 then normalize_origins out origins
      else normalize_origins (out @ [o1]) origins)"

definition normalizeWebAuthnOrigins :: "string list \<Rightarrow> string list" where
  "normalizeWebAuthnOrigins origins = normalize_origins [] origins"

definition collectDefaultWebAuthnOrigins :: "ymap \<Rightarrow> string list" where
  "collectDefaultWebAuthnOrigins cfg = normalizeWebAuthnOrigins
     [getString (getMap (Some cfg) ''frontend'') ''url'', getString (getMap (Some cfg) ''callback'') ''url'']"

fun deriveWebAuthnRPID :: "string list \<Rightarrow> string" where
  "deriveWebAuthnRPID [] = []"
| "deriveWebAuthnRPID (origin # origins) =
     (case url_Parse origin of
        None \<Rightarrow> deriveWebAuthnRPID origins
      | Some parsed \<Rightarrow> if url_Hostname parsed \<noteq> [] then url_Hostname parsed else deriveWebAuthnRPID origins)"

definition parseWebAuthnConfig :: "ymap \<Rightarrow> webauthn_config" where
  "parseWebAuthnConfig cfg =
     (let section = sect ''webauthn'' cfg;
          rpDisplayName = (let n = getString section ''rp_display_name'' in
                           if n = [] then getString (getMap (Some cfg) ''site'') ''name'' else n);
          rpOrigins = (let l = normalizeWebAuthnOrigins (getStringSlice section ''rp_origins'') in
                       if l = [] then collectDefaultWebAuthnOrigins cfg else l);
          rpID = (let i = getString section ''rp_id'' in if i = [] then deriveWebAuthnRPID rpOrigins else i);
          sessionTTL = (let n = getInt section ''session_ttl_sec'' in if n = 0 then 300 else n)
      in \<lparr>RPDisplayName = rpDisplayName, RPID = rpID, RPOrigins = rpOrigins, SessionTTL = sessionTTL\<rparr>)"

subsection \<open>The oauth2 section\<close>

text \<open>The scopes of one allowlist entry: the string items, trimmed, without empty ones.\<close>

fun allowlist_scopes :: "yaml list \<Rightarrow> string list" where
  "allowlist_scopes [] = []"
| "allowlist_scopes (YStr s # l) =
     (if TrimSpace s \<noteq> [] then TrimSpace s # allowlist_scopes l else allowlist_scopes l)"
| "allowlist_scopes (_ # l) = allowlist_scopes l"

definition add_allowlist :: "string \<times> yaml \<Rightarrow> (string \<times> string list) list \<Rightarrow> (string \<times> string list) list" where
  "add_allowlist = (\<lambda>(name, v) out.
     if TrimSpace name = [] then out
     else AList.update (TrimSpace name) (allowlist_scopes (case as_list (Some v) of Some l \<Rightarrow> l | None \<Rightarrow> [])) out)"

definition parseServiceScopeAllowlist :: "ymap option \<Rightarrow> (string \<times> string list) list" where
  "parseServiceScopeAllowlist oauth2 =
     (case as_map (nget oauth2 ''service_scope_allowlist'') of
        Some raw \<Rightarrow> fold add_allowlist raw []
      | None \<Rightarrow> [])"

fun service_client_entries :: "yaml list \<Rightarrow> service_client_config list" where
  "service_client_entries [] = []"
| "service_client_entries (YMap e # l) =
     \<lparr>sc_ClientID = getString (Some e) ''client_id'', sc_ClientSecret = getString (Some e) ''client_secret'',
      sc_Name = getString (Some e) ''name''\<rparr> # service_client_entries l"
| "service_client_entries (_ # l) = service_client_entries l"

definition parseServiceClients :: "ymap option \<Rightarrow> service_client_config list" where
  "parseServiceClients oauth2 =
     (case as_list (nget oauth2 ''service_clients'') of Some raw \<Rightarrow> service_client_entries raw | None \<Rightarrow> [])"

definition parseOAuth2Config :: "ymap \<Rightarrow> oauth2_config" where
  "parseOAuth2Config cfg =
     (let o2 = sect ''oauth2'' cfg;
          issuer = (let s = getString o2 ''issuer'' in
                    if s = [] then getString (getMap (Some cfg) ''callback'') ''url'' else s);
          authCodeTTL = (let n = getInt o2 ''authorization_code_ttl_sec'' in if n = 0 then 300 else n);
          accessTokenTTL = (let n = getInt o2 ''access_token_ttl_sec'' in if n = 0 then 3600 else n);
          refreshTokenTTL = (let n = getInt o2 ''refresh_token_ttl_sec'' in if n = 0 then 2592000 else n);
          uris = getStringSlice o2 ''public_redirect_uris'';
          frontendURL = TrimRight (getString (getMap (Some cfg) ''frontend'') ''url'') CHR ''/'';
          publicRedirectURIs = (if uris = [] \<and> frontendURL \<noteq> [] then [frontendURL @ ''/oauth/callback''] else uris)
      in \<lparr>Issuer = issuer, AuthorizationCodeTTL = authCodeTTL, AccessTokenTTL = accessTokenTTL,
          RefreshTokenTTL = refreshTokenTTL, SuperClientID = getString o2 ''super_client_id'',
          SuperClientSecret = getString o2 ''super_client_secret'',
          SuperClientExtraScopes = getStringSlice o2 ''super_client_extra_scopes'',
          PublicClientID = getString o2 ''public_client_id'', PublicRedirectURIs = publicRedirectURIs,
          ServiceClients = parseServiceClients o2, ServiceScopeAllowlist = parseServiceScopeAllowlist o2\<rparr>)"

definition load_config :: "ymap \<Rightarrow> config option" where
  "load_config cfg =
     (if getString (Some cfg) ''version'' = [] then None
      else Some
       \<lparr>c_Version = getString (Some cfg) ''version'', c_Site = parseSiteConfig cfg,
        c_Server = parseServerRuntimeConfig cfg, c_Security = parseSecurityConfig cfg,
        c_OAuth2 = parseOAuth2Config cfg, c_Callback_URL = parseCallbackConfig cfg,
        c_Frontend_URL = parseFrontendConfig cfg, c_Database = parseDatabaseConfig cfg,
        c_VerificationCode = parseVerificationCodeConfig cfg, c_Redis = parseRedisConfig cfg,
        c_SMTP = parseSMTPConfig cfg, c_Manage_Token = parseManageConfig cfg,
        c_Yggdrasil_BaseURL = parseYggdrasilAPIConfig cfg, c_SDKPackages = parseSDKPackagesConfig cfg,
        c_WebAuthn = parseWebAuthnConfig cfg\<rparr>)"

section \<open>What a migration keeps\<close>

text \<open>\<open>keeps ks f\<close>: the step leaves every top-level key outside \<open>ks\<close> alone.\<close>

definition keeps :: "string set \<Rightarrow> migration \<Rightarrow> bool" where
  "keeps ks f \<longleftrightarrow> (\<forall>gen st st' e k. f gen st = Some (st', e) \<longrightarrow> k \<notin> ks \<longrightarrow> map_of (fst st') k = map_of (fst st) k)"

lemma keepsI:
  "(\<And>gen cfg n st' e k. f gen (cfg, n) = Some (st', e) \<Longrightarrow> k \<notin> ks \<Longrightarrow> map_of (fst st') k = map_of cfg k) \<Longrightarrow> keeps ks f"
  by (auto simp: keeps_def)

lemma map_of_add_fields:
  "k \<noteq> ''version'' \<Longrightarrow> k \<noteq> s \<Longrightarrow> map_of (add_fields s fs v cfg) k = map_of cfg k"
  by (simp add: add_fields_def Let_def)

lemma map_of_del_internal_key: "k \<noteq> s \<Longrightarrow> map_of (del_internal_key s cfg) k = map_of cfg k"
  by (simp add: del_internal_key_def split: option.splits)

lemma keeps_V1ToV2: "keeps {''version'', ''memcache'', ''verification_code'', ''redis''} migrateV1ToV2"
  by (rule keepsI) (auto simp: migrateV1ToV2_def migrated_def Let_def split: option.splits if_splits)

lemma keeps_V2ToV3: "keeps {''version'', ''yggdrasil'', ''security'', ''manage'', ''redis''} migrateV2ToV3"
  by (rule keepsI) (auto simp: migrateV2ToV3_def migrated_def Let_def split: prod.splits option.splits if_splits)

lemma keeps_V3ToV4: "keeps {''version'', ''oauth2''} migrateV3ToV4"
  by (rule keepsI) (auto simp: migrateV3ToV4_def migrated_def Let_def split: prod.splits)

lemma keeps_V4ToV5: "keeps {''version'', ''yggdrasil''} migrateV4ToV5"
  by (rule keepsI) (auto simp: migrateV4ToV5_def migrated_def Let_def)

lemma keeps_V7ToV8: "keeps {''version'', ''core_api'', ''yggdrasil_api'', ''yggdrasil'', ''storage'', ''keygen''} migrateV7ToV8"
  by (rule keepsI) (auto simp: migrateV7ToV8_def migrated_def Let_def split: option.splits prod.splits)

lemma keeps_V9ToV10: "keeps {''version'', ''core_api'', ''yggdrasil_api''} migrateV9ToV10"
  by (rule keepsI) (auto simp: migrateV9ToV10_def migrated_def map_of_del_internal_key)

lemma keeps_add_fields: "keeps {''version'', s} (\<lambda>gen (cfg, n). migrated (add_fields s fs v cfg, n))"
  by (rule keepsI) (auto simp: migrated_def map_of_add_fields)

lemmas keeps_steps = keeps_V1ToV2 keeps_V2ToV3 keeps_V3ToV4 keeps_V4ToV5 keeps_V7ToV8 keeps_V9ToV10
  keeps_add_fields

lemma keeps_mono: "keeps ks f \<Longrightarrow> ks \<subseteq> ks' \<Longrightarrow> keeps ks' f"
  unfolding keeps_def by blast

lemma keeps_after:
  "m \<in> set configMigrations \<Longrightarrow> keeps ks (Migrate m) \<Longrightarrow> k \<notin> ks \<Longrightarrow> map_of (fst (after m gen st)) k = map_of (fst st) k"
  using chain_step(1) [of m gen st] unfolding keeps_def by metis

text \<open>The keys some step of the chain may touch.\<close>

definition touched :: "string set" where
  "touched = {''version'', ''memcache'', ''verification_code'', ''redis'', ''yggdrasil'', ''security'', ''manage'',
     ''oauth2'', ''core_api'', ''yggdrasil_api'', ''storage'', ''keygen'', ''sdk_packages'', ''database''}"

lemma keeps_chain: "m \<in> set configMigrations \<Longrightarrow> keeps touched (Migrate m)"
  unfolding configMigrations_def migrateV5ToV6_def migrateV6ToV7_def migrateV8ToV9_def
    migrateV10ToV11_def migrateV11ToV12_def migrateV12ToV13_def migrateV13ToV14_def touched_def
  by (auto intro: keeps_steps [THEN keeps_mono])

lemma run_steps_inv:
  "(\<And>m st. m \<in> set ms \<Longrightarrow> P (fst st) \<Longrightarrow> P (fst (after m gen st))) \<Longrightarrow> P (fst st) \<Longrightarrow> P (fst (run_steps gen ms st))"
  by (induction ms arbitrary: st) auto

subsection \<open>The database settings\<close>

lemma sect_add_fields:
  "s \<noteq> ''version'' \<Longrightarrow> sect s (add_fields s fs v cfg) = Some (fold (\<lambda>(k, v). set_missing k v) fs (map_or_empty (map_of cfg s)))"
  by (simp add: sect_def add_fields_def Let_def)

text \<open>Reading a key of a section after a default was set for it, and after another key was.\<close>

lemma nget_map_or_empty: "nget (Some (map_or_empty (map_of cfg s))) k = nget (sect s cfg) k"
  by (simp add: sect_def map_or_empty_nget)

lemma parse_db_V10ToV11:
  "parseDatabaseConfig (fst (after \<lparr>FromVersion = a, ToVersion = b, Migrate = migrateV10ToV11\<rparr> gen st)) =
   parseDatabaseConfig (fst st)"
  using nget_map_or_empty [of "fst st" "''database''"]
  by (cases st) (auto simp: after_def migrateV10ToV11_def migrated_def parseDatabaseConfig_def sect_add_fields
      yaml_access int64_wrap_def Let_def split: option.splits)

lemma parse_db_V11ToV12:
  "parseDatabaseConfig (fst (after \<lparr>FromVersion = a, ToVersion = b, Migrate = migrateV11ToV12\<rparr> gen st)) =
   parseDatabaseConfig (fst st)"
  using nget_map_or_empty [of "fst st" "''database''"]
  by (cases st) (auto simp: after_def migrateV11ToV12_def migrated_def parseDatabaseConfig_def sect_add_fields
      yaml_access int64_wrap_def Let_def split: option.splits)

lemma chain_other_than_database:
  assumes "m \<in> set configMigrations"
  shows "keeps (touched - {''database''}) (Migrate m) \<or> Migrate m = migrateV10ToV11 \<or> Migrate m = migrateV11ToV12"
  using assms unfolding configMigrations_def migrateV5ToV6_def migrateV6ToV7_def migrateV8ToV9_def
    migrateV12ToV13_def migrateV13ToV14_def touched_def
  by (auto intro: keeps_steps [THEN keeps_mono])

lemma parse_db_after:
  assumes "m \<in> set configMigrations"
  shows "parseDatabaseConfig (fst (after m gen st)) = parseDatabaseConfig (fst st)"
  using chain_other_than_database [OF assms]
proof (elim disjE)
  assume "keeps (touched - {''database''}) (Migrate m)"
  then show ?thesis
    by (simp add: keeps_after [OF assms] parseDatabaseConfig_def sect_def)
next
  assume "Migrate m = migrateV10ToV11"
  then show ?thesis
    using parse_db_V10ToV11 [of _ _ gen st] by (simp add: after_def)
next
  assume "Migrate m = migrateV11ToV12"
  then show ?thesis
    using parse_db_V11ToV12 [of _ _ gen st] by (simp add: after_def)
qed

subsection \<open>The oauth2 settings\<close>

lemma parse_oauth2_add_field:
  assumes "(k, d) \<in> {(''super_client_extra_scopes'', YList []), (''service_clients'', YList []),
    (''service_scope_allowlist'', YMap [])}"
  shows "parseOAuth2Config (add_fields ''oauth2'' [(k, d)] v cfg) = parseOAuth2Config cfg"
proof -
  have other: "getMap (Some (add_fields ''oauth2'' [(k, d)] v cfg)) s = getMap (Some cfg) s"
    if "s \<in> {''callback'', ''frontend''}" for s
    using that by (auto simp: getMap_def map_of_add_fields)
  have read: "nget (sect ''oauth2'' (add_fields ''oauth2'' [(k, d)] v cfg)) f =
      (if f = k \<and> nget (sect ''oauth2'' cfg) k = None then Some d else nget (sect ''oauth2'' cfg) f)" for f
    using nget_map_or_empty [of cfg "''oauth2''"] by (auto simp: sect_add_fields)
  have strs: "getString (sect ''oauth2'' (add_fields ''oauth2'' [(k, d)] v cfg)) f = getString (sect ''oauth2'' cfg) f"
    and ints: "getInt (sect ''oauth2'' (add_fields ''oauth2'' [(k, d)] v cfg)) f = getInt (sect ''oauth2'' cfg) f"
    and slices: "getStringSlice (sect ''oauth2'' (add_fields ''oauth2'' [(k, d)] v cfg)) f =
      getStringSlice (sect ''oauth2'' cfg) f" for f
    unfolding getString_def getInt_def getStringSlice_def read using assms by (auto simp: str_or_empty_def)
  moreover have "parseServiceClients (sect ''oauth2'' (add_fields ''oauth2'' [(k, d)] v cfg)) =
      parseServiceClients (sect ''oauth2'' cfg)"
    unfolding parseServiceClients_def read using assms by auto
  moreover have "parseServiceScopeAllowlist (sect ''oauth2'' (add_fields ''oauth2'' [(k, d)] v cfg)) =
      parseServiceScopeAllowlist (sect ''oauth2'' cfg)"
    unfolding parseServiceScopeAllowlist_def read using assms by auto
  ultimately show ?thesis
    by (simp add: parseOAuth2Config_def other Let_def)
qed

lemma chain_other_than_oauth2:
  assumes "m \<in> set configMigrations"
  shows "keeps (touched - {''oauth2''}) (Migrate m) \<or> FromVersion m = ''3'' \<or> Migrate m = migrateV6ToV7 \<or>
    Migrate m = migrateV12ToV13 \<or> Migrate m = migrateV13ToV14"
  using assms unfolding configMigrations_def migrateV5ToV6_def migrateV8ToV9_def
    migrateV10ToV11_def migrateV11ToV12_def touched_def
  by (auto intro: keeps_steps [THEN keeps_mono])

lemma parse_oauth2_after:
  assumes "m \<in> set configMigrations" and "FromVersion m \<noteq> ''3''"
  shows "parseOAuth2Config (fst (after m gen st)) = parseOAuth2Config (fst st)"
proof -
  consider "keeps (touched - {''oauth2''}) (Migrate m)"
    | k d v where "(k, d) \<in> {(''super_client_extra_scopes'', YList []), (''service_clients'', YList []),
        (''service_scope_allowlist'', YMap [])}"
      "Migrate m = (\<lambda>gen (cfg, n). migrated (add_fields ''oauth2'' [(k, d)] v cfg, n))"
    using chain_other_than_oauth2 [OF assms(1)] assms(2)
    unfolding migrateV6ToV7_def migrateV12ToV13_def migrateV13ToV14_def by blast
  then show ?thesis
  proof cases
    case 1
    then have k: "map_of (fst (after m gen st)) k = map_of (fst st) k" if "k \<notin> touched - {''oauth2''}" for k
      using keeps_after [OF assms(1)] that by blast
    have "map_of (fst (after m gen st)) ''oauth2'' = map_of (fst st) ''oauth2''"
      "map_of (fst (after m gen st)) ''callback'' = map_of (fst st) ''callback''"
      "map_of (fst (after m gen st)) ''frontend'' = map_of (fst st) ''frontend''"
      by (simp_all add: k touched_def)
    then show ?thesis by (simp add: parseOAuth2Config_def sect_def getMap_def Let_def)
  next
    case (2 k d v)
    show ?thesis
      using parse_oauth2_add_field [OF 2(1), of v "fst st"]
      by (cases st) (simp add: after_def 2(2) migrated_def)
  qed
qed

lemma pending_from_4:
  assumes "v \<notin> {''1.0'', ''2'', ''3''}" and "m \<in> set (pending v)"
  shows "FromVersion m \<noteq> ''3''"
proof -
  have "v \<in> FromVersion ` set configMigrations"
  proof (rule ccontr)
    assume "v \<notin> FromVersion ` set configMigrations"
    then have "pending v = []" by (auto simp: pending_def)
    with assms(2) show False by simp
  qed
  then have "v \<in> {''4'', ''5'', ''6'', ''7'', ''8'', ''9'', ''10'', ''11'', ''12'', ''13''}"
    using assms(1) by (auto simp: configMigrations_def)
  moreover have "''3'' \<notin> FromVersion ` set (pending w)"
    if "w \<in> {''4'', ''5'', ''6'', ''7'', ''8'', ''9'', ''10'', ''11'', ''12'', ''13''}" for w
    using that by (elim insertE emptyE) (simp_all add: pending_def configMigrations_def)
  ultimately show ?thesis
    using assms(2) by (metis imageI)
qed

subsection \<open>Secrets\<close>

lemma chain_other_than_manage:
  assumes "m \<in> set configMigrations"
  shows "keeps (touched - {''manage''}) (Migrate m) \<or> Migrate m = migrateV2ToV3"
  using assms unfolding configMigrations_def migrateV5ToV6_def migrateV6ToV7_def migrateV8ToV9_def
    migrateV10ToV11_def migrateV11ToV12_def migrateV12ToV13_def migrateV13ToV14_def touched_def
  by (auto intro: keeps_steps [THEN keeps_mono])

lemma manage_token_V2ToV3:
  assumes "migrateV2ToV3 gen (cfg, n) = Some (st', e)"
  shows "parseManageConfig (fst st') = (if parseManageConfig cfg = [] then gen n else parseManageConfig cfg)"
  using assms
  by (auto simp: migrateV2ToV3_def migrated_def parseManageConfig_def getString_def sect_def
      map_or_empty_nget Let_def split: prod.splits option.splits if_splits)

lemma manage_token_after:
  assumes "m \<in> set configMigrations" and "parseManageConfig (fst st) \<noteq> []"
  shows "parseManageConfig (fst (after m gen st)) = parseManageConfig (fst st)"
  using chain_other_than_manage [OF assms(1)]
proof
  assume "keeps (touched - {''manage''}) (Migrate m)"
  then show ?thesis
    by (simp add: keeps_after [OF assms(1)] parseManageConfig_def sect_def)
next
  assume "Migrate m = migrateV2ToV3"
  with chain_step(1) [OF assms(1), of gen st] manage_token_V2ToV3 [of gen "fst st" "snd st"] assms(2)
  show ?thesis by simp
qed

lemma super_secret_read:
  "SuperClientSecret (parseOAuth2Config cfg) = str_or_empty (nget (sect ''oauth2'' cfg) ''super_client_secret'')"
  by (simp add: parseOAuth2Config_def getString_def Let_def)

lemma map_of_set_unset_ttl: "k' \<noteq> k \<Longrightarrow> map_of (set_unset_ttl k d m) k' = map_of m k'"
  by (simp add: set_unset_ttl_def)

lemma map_of_set_blank_str: "k' \<noteq> k \<Longrightarrow> map_of (set_blank_str k d m) k' = map_of m k'"
  by (simp add: set_blank_str_def)

lemma super_secret_V3ToV4:
  assumes "migrateV3ToV4 gen (cfg, n) = Some (st', e)" and "SuperClientSecret (parseOAuth2Config cfg) \<noteq> []"
  shows "SuperClientSecret (parseOAuth2Config (fst st')) = SuperClientSecret (parseOAuth2Config cfg)"
proof -
  have "map_of (map_or_empty (map_of cfg ''oauth2'')) ''super_client_secret'' =
      nget (sect ''oauth2'' cfg) ''super_client_secret''"
    by (simp add: map_or_empty_nget sect_def)
  with assms show ?thesis
    by (simp add: super_secret_read migrateV3ToV4_def migrated_def Let_def map_of_set_unset_ttl
        map_of_set_blank_str if_distrib [of map_of] if_distrib [of "\<lambda>f. f _"] cong: if_cong split: prod.splits if_splits)
      (auto simp: sect_def map_of_set_unset_ttl map_of_set_blank_str)
qed

lemma chain_from_3: "m \<in> set configMigrations \<Longrightarrow> FromVersion m = ''3'' \<Longrightarrow> Migrate m = migrateV3ToV4"
  by (auto simp: configMigrations_def)

lemma super_secret_after:
  assumes "m \<in> set configMigrations" and "SuperClientSecret (parseOAuth2Config (fst st)) \<noteq> []"
  shows "SuperClientSecret (parseOAuth2Config (fst (after m gen st))) = SuperClientSecret (parseOAuth2Config (fst st))"
proof (cases "FromVersion m = ''3''")
  case True
  with chain_from_3 [OF assms(1)] chain_step(1) [OF assms(1), of gen st]
    super_secret_V3ToV4 [of gen "fst st" "snd st"] assms(2)
  show ?thesis by simp
next
  case False
  then show ?thesis by (simp add: parse_oauth2_after [OF assms(1)])
qed

subsection \<open>The moved security fields\<close>

lemma fold_move_field:
  "distinct (map fst fs) \<Longrightarrow> fold move_field fs (topSec, ysec) = (topSec', ysec') \<Longrightarrow>
   map_of topSec' k = (case map_of topSec k of Some v \<Rightarrow> Some v | None \<Rightarrow>
     if k \<in> fst ` set fs then (case nget ysec k of Some v \<Rightarrow> Some v | None \<Rightarrow> map_of fs k) else None)"
proof (induction fs arbitrary: topSec ysec)
  case Nil
  then show ?case by (simp split: option.splits)
next
  case (Cons f fs)
  obtain key d where f: "f = (key, d)" by fastforce
  obtain top1 ysec1 where step: "move_field f (topSec, ysec) = (top1, ysec1)" by fastforce
  have rest: "map_of topSec' k = (case map_of top1 k of Some v \<Rightarrow> Some v | None \<Rightarrow>
     if k \<in> fst ` set fs then (case nget ysec1 k of Some v \<Rightarrow> Some v | None \<Rightarrow> map_of fs k) else None)"
    using Cons step by simp
  have "key \<notin> fst ` set fs"
    using Cons.prems(1) f by simp
  then show ?case
    unfolding rest using step
    by (auto simp: f move_field_def split: option.splits if_splits)
qed

definition old_security :: "ymap \<Rightarrow> ymap option" where
  "old_security cfg = (case sect ''yggdrasil'' cfg of Some y \<Rightarrow> as_map (map_of y ''security'') | None \<Rightarrow> None)"

lemma security_V2ToV3:
  assumes "migrateV2ToV3 gen (cfg, n) = Some (st', e)"
  shows "nget (sect ''security'' (fst st')) k =
    (case nget (sect ''security'' cfg) k of Some v \<Rightarrow> Some v | None \<Rightarrow>
       (if k \<in> fst ` set movedFields
        then (case nget (old_security cfg) k of Some v \<Rightarrow> Some v | None \<Rightarrow> map_of movedFields k) else None))"
proof -
  obtain topSec ys where fold: "fold move_field movedFields (map_or_empty (map_of cfg ''security''), old_security cfg) = (topSec, ys)"
    by fastforce
  then have "sect ''security'' (fst st') = Some topSec"
    using assms unfolding old_security_def sect_def
    by (auto simp: migrateV2ToV3_def migrated_def Let_def split: prod.splits option.splits if_splits)
  moreover have "distinct (map fst movedFields)"
    by (simp add: movedFields_def)
  ultimately show ?thesis
    using fold_move_field [OF _ fold, of k] by (simp add: map_or_empty_nget sect_def)
qed

lemma MigrateConfig_result:
  assumes "MigrateConfig tokenGen cfg = Some ((cfg', n), changed, None)"
  shows "\<exists>gen. cfg' = cfg \<or> (cfg', n) = run_steps gen (pending (version_of cfg)) (cfg, 0)"
proof -
  have "cfg' = cfg \<or> (cfg', n) = run_steps (case tokenGen of None \<Rightarrow> \<lambda>_. [] | Some g \<Rightarrow> g) (pending (version_of cfg)) (cfg, 0)"
    using assms unfolding MigrateConfig_eq Let_def by (auto split: if_splits)
  then show ?thesis by blast
qed

lemma MigrateConfig_total:
  "\<exists>st changed e. MigrateConfig tokenGen cfg = Some (st, changed, e) \<and>
     (if changed then e = None \<and> version_of (fst st) = ConfigVersion else st = (cfg, 0))"
proof -
  define v where "v = version_of cfg"
  define st where "st = run_steps (case tokenGen of None \<Rightarrow> \<lambda>_. [] | Some g \<Rightarrow> g) (pending v) (cfg, 0)"
  have "version_of (fst st) = ConfigVersion" if "pending v \<noteq> []"
    unfolding st_def using run_steps_version pending_chain(1,2) that by blast
  moreover have "MigrateConfig tokenGen cfg \<in>
      {Some ((cfg, 0), False, Some MissingVersion), Some ((cfg, 0), False, None), Some ((cfg, 0), False, Some (NoPath v))} \<or>
      pending v \<noteq> [] \<and> MigrateConfig tokenGen cfg = Some (st, True, None)"
    unfolding MigrateConfig_eq Let_def st_def v_def by simp
  ultimately show ?thesis
    by (elim disjE insertE emptyE conjE) (simp_all only: option.inject prod.inject ex_simps, auto)
qed

section \<open>Properties\<close>

text \<open>
  \<open>MigrateConfig\<close> is total and all or nothing: it does not panic; if it returns an error, or reports
  no change, the map it was given is untouched; if it reports a change, the map is at the current version.
\<close>

theorem MigrateConfig_all_or_nothing:
  "\<exists>st changed e. MigrateConfig tokenGen cfg = Some (st, changed, e) \<and>
     (if changed then e = None \<and> version_of (fst st) = ConfigVersion else st = (cfg, 0))"
  by (rule MigrateConfig_total)

text \<open>
  C34: Which versions migrate: from a version \<open>v\<close> of the chain, \<open>MigrateConfig\<close> runs exactly the steps
  registered from \<open>v\<close> on, in order; the current and newer versions are left alone; any other version is an error.
\<close>

theorem MigrateConfig_runs_pending:
  "MigrateConfig (Some gen) cfg =
     (let v = version_of cfg in
      if v = [] then Some ((cfg, 0), False, Some MissingVersion)
      else if v = ConfigVersion \<or> 14 < VersionMajor v then Some ((cfg, 0), False, None)
      else if pending v = [] then Some ((cfg, 0), False, Some (NoPath v))
      else Some (run_steps gen (pending v) (cfg, 0), True, None))"
  by (simp add: MigrateConfig_eq)

text \<open>
  C24: A migration from any version keeps the database, SMTP, site, server, callback and frontend settings
  as \<open>Load\<close> reads them, although it adds fields to the database section; from version 4 on it keeps the
  OAuth2 settings too.
\<close>

theorem MigrateConfig_keeps_settings:
  assumes "MigrateConfig tokenGen cfg = Some ((cfg', n), changed, None)"
  shows "parseDatabaseConfig cfg' = parseDatabaseConfig cfg \<and> parseSMTPConfig cfg' = parseSMTPConfig cfg \<and>
    parseSiteConfig cfg' = parseSiteConfig cfg \<and> parseServerRuntimeConfig cfg' = parseServerRuntimeConfig cfg \<and>
    parseCallbackConfig cfg' = parseCallbackConfig cfg \<and> parseFrontendConfig cfg' = parseFrontendConfig cfg \<and>
    (version_of cfg \<notin> {''1.0'', ''2'', ''3''} \<longrightarrow> parseOAuth2Config cfg' = parseOAuth2Config cfg)"
proof -
  obtain gen where cases: "cfg' = cfg \<or> (cfg', n) = run_steps gen (pending (version_of cfg)) (cfg, 0)"
    using MigrateConfig_result [OF assms] by blast
  define v where "v = version_of cfg"
  note chain = pending_chain(1) [of v, THEN subsetD]
  have other: "map_of (fst (run_steps gen (pending v) (cfg, 0))) k = map_of cfg k" if "k \<notin> touched" for k
    by (rule run_steps_inv) (use keeps_after [OF chain keeps_chain [OF chain] that] in simp_all)
  have "parseDatabaseConfig (fst (run_steps gen (pending v) (cfg, 0))) = parseDatabaseConfig cfg"
    by (rule run_steps_inv) (use parse_db_after chain in simp_all)
  moreover have "parseOAuth2Config (fst (run_steps gen (pending v) (cfg, 0))) = parseOAuth2Config cfg"
    if "v \<notin> {''1.0'', ''2'', ''3''}"
    by (rule run_steps_inv) (use parse_oauth2_after pending_from_4 [OF that] chain in simp_all)
  moreover have "''smtp'' \<notin> touched" "''site'' \<notin> touched" "''server'' \<notin> touched" "''callback'' \<notin> touched" "''frontend'' \<notin> touched"
    by (simp_all add: touched_def)
  note other [OF this(1)] other [OF this(2)] other [OF this(3)] other [OF this(4)] other [OF this(5)]
  ultimately have "?thesis" if "cfg' = fst (run_steps gen (pending v) (cfg, 0))"
    by (simp add: that v_def parseSMTPConfig_def parseSiteConfig_def parseServerRuntimeConfig_def
        parseCallbackConfig_def parseFrontendConfig_def sect_def)
  with cases show ?thesis
    unfolding v_def by (metis fst_conv)
qed

text \<open>
  Secrets survive: a manage token or super client secret that is set is the same after a migration from
  any version.
\<close>

theorem MigrateConfig_keeps_secrets:
  assumes "MigrateConfig tokenGen cfg = Some ((cfg', n), changed, None)"
  shows "(parseManageConfig cfg \<noteq> [] \<longrightarrow> parseManageConfig cfg' = parseManageConfig cfg) \<and>
    (SuperClientSecret (parseOAuth2Config cfg) \<noteq> [] \<longrightarrow>
      SuperClientSecret (parseOAuth2Config cfg') = SuperClientSecret (parseOAuth2Config cfg))"
proof -
  obtain gen where cases: "cfg' = cfg \<or> (cfg', n) = run_steps gen (pending (version_of cfg)) (cfg, 0)"
    using MigrateConfig_result [OF assms] by blast
  define ms where "ms = pending (version_of cfg)"
  note chain = pending_chain(1) [of "version_of cfg", folded ms_def, THEN subsetD]
  have "parseManageConfig (fst (run_steps gen ms (cfg, 0))) = parseManageConfig cfg" if "parseManageConfig cfg \<noteq> []"
    by (rule run_steps_inv) (use manage_token_after chain that in simp_all)
  moreover have "SuperClientSecret (parseOAuth2Config (fst (run_steps gen ms (cfg, 0)))) =
      SuperClientSecret (parseOAuth2Config cfg)" if "SuperClientSecret (parseOAuth2Config cfg) \<noteq> []"
    by (rule run_steps_inv) (use super_secret_after chain that in simp_all)
  ultimately show ?thesis
    using cases unfolding ms_def by (metis fst_conv)
qed

text \<open>
  Moving the security fields (version 2 to 3) loses no setting: each field keeps its top-level value,
  else takes the value of the old yggdrasil section, else the default.
\<close>

theorem migrateV2ToV3_security:
  assumes "migrateV2ToV3 gen (cfg, n) = Some (st', e)"
  shows "nget (sect ''security'' (fst st')) k =
    (case nget (sect ''security'' cfg) k of Some v \<Rightarrow> Some v | None \<Rightarrow>
       (if k \<in> fst ` set movedFields
        then (case nget (old_security cfg) k of Some v \<Rightarrow> Some v | None \<Rightarrow> map_of movedFields k) else None))"
  using assms by (rule security_V2ToV3)

text \<open>Concrete files for the properties: one of version 11 and one of version 2.\<close>

definition sample_11 :: ymap where
  "sample_11 = [(''version'', YStr ''11''), (''database'', YMap [(''host'', YStr ''db:3306'')]),
     (''oauth2'', YMap [(''super_client_secret'', YStr ''s3cret'')]), (''manage'', YMap [(''token'', YStr ''mt'')])]"

lemma sample_11_migrates:
  "\<exists>cfg' n. MigrateConfig None sample_11 = Some ((cfg', n), True, None)"
proof -
  have "version_of sample_11 = ''11''"
    by (simp add: version_of_def sample_11_def)
  moreover have "VersionMajor ''11'' = 11"
    by (simp add: VersionMajor_def TrimSpace_id space_eval is_digit_def)
  moreover have "pending ''11'' \<noteq> []"
    by (simp add: pending_def configMigrations_def)
  ultimately show ?thesis
    by (simp add: MigrateConfig_eq ConfigVersion_def)
qed

theorem MigrateConfig_keeps_settings_witness:
  "\<exists>cfg'. db_Host (parseDatabaseConfig cfg') = ''db:3306'' \<and> MaxRetries (parseDatabaseConfig cfg') = 5 \<and>
     parseOAuth2Config cfg' = parseOAuth2Config sample_11"
proof -
  obtain cfg' n where "MigrateConfig None sample_11 = Some ((cfg', n), True, None)"
    using sample_11_migrates by blast
  note MigrateConfig_keeps_settings [OF this]
  moreover have "version_of sample_11 = ''11''"
    by (simp add: version_of_def sample_11_def)
  moreover have "db_Host (parseDatabaseConfig sample_11) = ''db:3306'' \<and> MaxRetries (parseDatabaseConfig sample_11) = 5"
    by (simp add: parseDatabaseConfig_def sample_11_def sect_def yaml_access Let_def str_or_empty_def)
  ultimately show ?thesis by (intro exI [of _ cfg']) simp
qed

theorem MigrateConfig_keeps_secrets_witness:
  "\<exists>cfg'. parseManageConfig cfg' = ''mt'' \<and> SuperClientSecret (parseOAuth2Config cfg') = ''s3cret''"
proof -
  obtain cfg' n where "MigrateConfig None sample_11 = Some ((cfg', n), True, None)"
    using sample_11_migrates by blast
  note MigrateConfig_keeps_secrets [OF this]
  moreover have "parseManageConfig sample_11 = ''mt''" "SuperClientSecret (parseOAuth2Config sample_11) = ''s3cret''"
    by (simp_all add: parseManageConfig_def super_secret_read sample_11_def sect_def getString_def)
  ultimately show ?thesis by (intro exI [of _ cfg']) simp
qed

definition sample_2 :: ymap where
  "sample_2 = [(''version'', YStr ''2''),
     (''yggdrasil'', YMap [(''security'', YMap [(''captcha_ttl'', YNum KInt 60)])])]"

theorem migrateV2ToV3_security_witness:
  "\<exists>st'. migrateV2ToV3 (\<lambda>_. ''t'') (sample_2, 0) = Some (st', None) \<and>
     nget (sect ''security'' (fst st')) ''captcha_ttl'' = Some (YNum KInt 60) \<and>
     nget (sect ''security'' (fst st')) ''enable_captcha'' = Some (YBool True)"
proof -
  obtain st' where st: "migrateV2ToV3 (\<lambda>_. ''t'') (sample_2, 0) = Some (st', None)"
    using migrateV2ToV3_ok unfolding step_ok_def by blast
  show ?thesis
    using st migrateV2ToV3_security [OF st]
    by (simp add: sample_2_def sect_def old_security_def movedFields_def)
qed

end
