(* ===== verification/Startup.thy ===== *)
theory Startup
  imports Config_Parse
begin

text \<open>
  The start of the program: \<open>InitializeConfig\<close>, \<open>checkAndMigrateConfig\<close> and \<open>buildDefaultConfig\<close> of
  controllers/startup_controller.go, \<open>BackupConfigFile\<close> of config/migrations.go, the data source
  names of the two database connections, and the retry loop of database/database.go.

  The file system is a map from paths to contents and a count of the operations done; the
  environment says which operation fails, and how many bytes a failing write leaves behind. The YAML
  library is not part of the program: its two functions are parameters of the model. The random
  token generator is a parameter too (\<open>gen n\<close> is its \<open>n\<close>-th result).
\<close>

section \<open>Files\<close>

datatype io_outcome = IoOk | IoFail "nat option"

record fs =
  files :: "string \<Rightarrow> string option"
  io_count :: nat

record startup_env =
  io :: "nat \<Rightarrow> io_outcome"
  yaml_dec :: "string \<Rightarrow> ymap option"
  yaml_enc :: "ymap \<Rightarrow> string option"
  token_source :: token_gen

type_synonym 'a fsm = "(fs, 'a) state"

definition io_op :: "startup_env \<Rightarrow> (io_outcome \<Rightarrow> (string \<Rightarrow> string option) \<Rightarrow> 'a \<times> (string \<Rightarrow> string option)) \<Rightarrow> 'a fsm" where
  "io_op E f = State (\<lambda>s. let (x, fl) = f (io E (io_count s)) (files s)
                          in (x, \<lparr>files = fl, io_count = Suc (io_count s)\<rparr>))"

datatype stat_result = StatOk | StatNotExist | StatError

definition os_stat :: "startup_env \<Rightarrow> string \<Rightarrow> stat_result fsm" where
  "os_stat E p = io_op E (\<lambda>out fl.
     (if out \<noteq> IoOk then StatError else if fl p = None then StatNotExist else StatOk, fl))"

definition os_read :: "startup_env \<Rightarrow> string \<Rightarrow> string option fsm" where
  "os_read E p = io_op E (\<lambda>out fl. (if out \<noteq> IoOk then None else fl p, fl))"

text \<open>\<open>os.WriteFile\<close> truncates the file and writes; a failure may leave a part of the data. True is success.\<close>

definition os_write :: "startup_env \<Rightarrow> string \<Rightarrow> string \<Rightarrow> bool fsm" where
  "os_write E p data = io_op E (\<lambda>out fl.
     case out of IoOk \<Rightarrow> (True, fl(p \<mapsto> data))
     | IoFail None \<Rightarrow> (False, fl)
     | IoFail (Some k) \<Rightarrow> (False, fl(p \<mapsto> take k data)))"

definition os_rename :: "startup_env \<Rightarrow> string \<Rightarrow> string \<Rightarrow> bool fsm" where
  "os_rename E old new = io_op E (\<lambda>out fl.
     if out \<noteq> IoOk \<or> fl old = None then (False, fl) else (True, fl(new := fl old, old := None)))"

section \<open>The default configuration\<close>

definition buildDefaultConfig :: "token_gen \<Rightarrow> ymap" where
  "buildDefaultConfig gen =
     (let frontendURL = ''https://auth.mcnb.dev/'' in
      [(''version'', YStr ConfigVersion),
       (''site'', YMap [(''name'', YStr ''HRPAuth''), (''implementation'', YStr ''HRPAuth core service''),
          (''version'', YStr ''62526'')]),
       (''server'', YMap [(''port'', YStr '':2778''), (''cors_origin'', YStr '''')]),
       (''callback'', YMap [(''url'', YStr ''https://ha.mcnb.dev/'')]),
       (''frontend'', YMap [(''url'', YStr frontendURL)]),
       (''database'', YMap [(''host'', YStr ''127.0.0.1''), (''port'', YNum KInt 0), (''db_name'', YStr ''hrpa''),
          (''user'', YStr ''hrpa''), (''password'', YStr ''hrpa''), (''charset'', YStr ''utf8mb4''),
          (''retry_interval_sec'', YNum KInt 3), (''max_retries'', YNum KInt 5),
          (''next_round_delay_min'', YNum KInt 5)]),
       (''verification_code'', YMap [(''code_ttl'', YNum KInt 600),
          (''storage_dir'', YStr ''./cache/verification_codes'')]),
       (''redis'', YMap [(''host'', YStr ''127.0.0.1''), (''port'', YNum KInt 6379), (''password'', YStr ''''),
          (''db'', YNum KInt 0), (''prefix'', YStr ''hrpauth_'')]),
       (''smtp'', YMap [(''host'', YStr ''127.0.0.1''), (''port'', YNum KInt 25), (''username'', YStr ''''),
          (''password'', YStr ''''), (''from_email'', YStr ''no-reply@mcnb.dev''), (''from_name'', YStr ''HRPAuth'')]),
       (''manage'', YMap [(''token'', YStr (gen 0))]),
       (''security'', YMap [(''password_cost'', YNum KInt 10), (''rate_limit_max_attempts'', YNum KInt 10),
          (''rate_limit_window_sec'', YNum KInt 600), (''enable_captcha'', YBool True), (''captcha_ttl'', YNum KInt 300)]),
       (''webauthn'', YMap [(''rp_display_name'', YStr ''HRPAuth''), (''rp_id'', YStr ''auth.mcnb.dev''),
          (''rp_origins'', YStrs [TrimRight frontendURL CHR ''/'', ''https://ha.mcnb.dev'']),
          (''session_ttl_sec'', YNum KInt 300)]),
       (''oauth2'', YMap [(''issuer'', YStr ''https://ha.mcnb.dev/''), (''authorization_code_ttl_sec'', YNum KInt 300),
          (''access_token_ttl_sec'', YNum KInt 3600), (''refresh_token_ttl_sec'', YNum KInt 2592000),
          (''super_client_id'', YStr ''hrpauth-internal-super''), (''super_client_secret'', YStr (gen 1)),
          (''super_client_extra_scopes'', YStrs []), (''public_client_id'', YStr ''hrpauth-webui''),
          (''public_redirect_uris'', YStrs [frontendURL @ ''oauth/callback''])]),
       (''yggdrasil_api'', YMap [(''base_url'', YStr ''http://localhost:2770'')]),
       (''sdk_packages'', YMap [(''storage_dir'', YStr ''./data/sdk_packages''),
          (''max_package_size'', YNum KInt 20971520), (''max_packages'', YNum KInt 128)])])"

section \<open>Check and migrate\<close>

datatype startup_error =
  ReadFailed | ParseFailed | BackupFailed | MigrateFailed config_error | MarshalFailed | WriteFailed
| ReplaceFailed | MigratePanic

type_synonym startup_result = "startup_error option"

definition backup_path :: "string \<Rightarrow> string \<Rightarrow> string" where
  "backup_path path version = path @ ''.bak.'' @ version"

text \<open>\<open>BackupConfigFile\<close>; true is success.\<close>

definition BackupConfigFile :: "startup_env \<Rightarrow> string \<Rightarrow> string \<Rightarrow> bool fsm" where
  "BackupConfigFile E path version = do {
     st \<leftarrow> os_stat E (backup_path path version);
     if st = StatOk then ret True
     else do {
       data \<leftarrow> os_read E path;
       case data of None \<Rightarrow> ret False
       | Some d \<Rightarrow> os_write E (backup_path path version) d
     }
   }"

definition createDefaultConfig :: "startup_env \<Rightarrow> string \<Rightarrow> startup_result fsm" where
  "createDefaultConfig E path =
     (case yaml_enc E (buildDefaultConfig (token_source E)) of
        None \<Rightarrow> ret (Some MarshalFailed)
      | Some data \<Rightarrow> do {
          ok \<leftarrow> os_write E path data;
          ret (if ok then None else Some WriteFailed)
        })"

text \<open>From the migrated map to the new file: a temporary file, renamed over the old one.\<close>

definition replace_config :: "startup_env \<Rightarrow> string \<Rightarrow> ymap \<Rightarrow> startup_result fsm" where
  "replace_config E path migrated_cfg =
     (case yaml_enc E migrated_cfg of
        None \<Rightarrow> ret (Some MarshalFailed)
      | Some data \<Rightarrow> do {
          ok \<leftarrow> os_write E (path @ ''.tmp'') data;
          if \<not> ok then ret (Some WriteFailed)
          else do {
            ok2 \<leftarrow> os_rename E (path @ ''.tmp'') path;
            ret (if ok2 then None else Some ReplaceFailed)
          }
        })"

definition checkAndMigrateConfig :: "startup_env \<Rightarrow> string \<Rightarrow> startup_result fsm" where
  "checkAndMigrateConfig E path = do {
     data \<leftarrow> os_read E path;
     case data of None \<Rightarrow> ret (Some ReadFailed)
     | Some d \<Rightarrow>
       (case yaml_dec E d of None \<Rightarrow> ret (Some ParseFailed)
        | Some cfg \<Rightarrow>
          (let v = version_of cfg in
           if v = ConfigVersion then ret None
           else if VersionMajor v > VersionMajor ConfigVersion then ret None
           else do {
             ok \<leftarrow> BackupConfigFile E path v;
             if \<not> ok then ret (Some BackupFailed)
             else case MigrateConfig (Some (token_source E)) cfg of
               None \<Rightarrow> ret (Some MigratePanic)
             | Some (_, _, Some e) \<Rightarrow> ret (Some (MigrateFailed e))
             | Some ((cfg', _), changed, None) \<Rightarrow>
                 if \<not> changed then ret None else replace_config E path cfg'
           }))
   }"

definition InitializeConfig :: "startup_env \<Rightarrow> string \<Rightarrow> startup_result fsm" where
  "InitializeConfig E path = do {
     st \<leftarrow> os_stat E path;
     if st = StatNotExist then createDefaultConfig E path else checkAndMigrateConfig E path
   }"

section \<open>The two data source names, and the retry loop\<close>

text \<open>Without the fixed part of the parameters after the character set.\<close>

definition migration_dsn :: "database_config \<Rightarrow> string" where
  "migration_dsn c = db_User c @ '':'' @ db_Password c @ ''@tcp('' @ db_Host c @ '')/'' @ DBName c @
     ''?charset='' @ Charset c @ ''&parseTime=True&loc=Local&multiStatements=true''"

definition connect_dsn :: "database_config \<Rightarrow> string" where
  "connect_dsn c = db_User c @ '':'' @ db_Password c @ ''@tcp('' @ Addr c @ '')/'' @ DBName c @
     ''?charset='' @ Charset c @ ''&parseTime=True&loc=Local''"

text \<open>
  \<open>connect\<close>: \<open>up n\<close> says whether the \<open>n\<close>-th attempt to open the database succeeds. The loop may never
  end, so it takes fuel, and \<open>None\<close> is running out of it. The result is whether a connection was made
  and the number of attempts; \<open>retry\<close> is the retry count of the round.
\<close>

fun connect_loop :: "database_config \<Rightarrow> (nat \<Rightarrow> bool) \<Rightarrow> nat \<Rightarrow> nat \<Rightarrow> int \<Rightarrow> (bool \<times> nat) option" where
  "connect_loop c up 0 n retry = None"
| "connect_loop c up (Suc fuel) n retry =
     (if up n then Some (True, Suc n)
      else if MaxRetries c > 0 \<and> retry + 1 > MaxRetries c then
        (if NextRoundDelayMin c \<le> 0 then Some (False, Suc n) else connect_loop c up fuel (Suc n) 0)
      else connect_loop c up fuel (Suc n) (retry + 1))"

definition connect :: "database_config \<Rightarrow> (nat \<Rightarrow> bool) \<Rightarrow> nat \<Rightarrow> (bool \<times> nat) option" where
  "connect c up fuel = connect_loop c up fuel 0 0"

section \<open>File lemmas\<close>

lemma final_io_op [simp]:
  "files (final (io_op E f) s) = snd (f (io E (io_count s)) (files s))"
  by (simp add: io_op_def final_def Let_def split: prod.splits)

lemma result_io_op [simp]: "result (io_op E f) s = fst (f (io E (io_count s)) (files s))"
  by (simp add: io_op_def result_def Let_def split: prod.splits)

lemmas os_defs = os_stat_def os_read_def os_write_def os_rename_def

lemma files_os_stat [simp]: "files (final (os_stat E p) s) = files s"
  by (simp add: os_stat_def)

lemma files_os_read [simp]: "files (final (os_read E p) s) = files s"
  by (simp add: os_read_def)

lemma os_stat_ok: "result (os_stat E p) s = StatOk \<Longrightarrow> files s p \<noteq> None"
  by (auto simp: os_stat_def split: if_splits)

lemma os_read_Some: "result (os_read E p) s = Some d \<Longrightarrow> files s p = Some d"
  by (simp add: os_read_def split: if_splits)

lemma os_write_other: "q \<noteq> p \<Longrightarrow> files (final (os_write E p d) s) q = files s q"
  by (simp add: os_write_def split: io_outcome.splits option.splits)

lemma os_write_ok: "result (os_write E p d) s \<Longrightarrow> files (final (os_write E p d) s) p = Some d"
  by (simp add: os_write_def split: io_outcome.splits option.splits)

lemma os_rename_cases:
  "result (os_rename E a b) s \<and> files (final (os_rename E a b) s) = (files s)(b := files s a, a := None) \<or>
   \<not> result (os_rename E a b) s \<and> files (final (os_rename E a b) s) = files s"
  by (simp add: os_rename_def)

lemma backup_path_ne [simp]: "backup_path p v \<noteq> p" "p \<noteq> backup_path p v" "backup_path p v \<noteq> p @ ''.tmp''"
  by (simp_all add: backup_path_def)

lemma backup_keeps_config: "files (final (BackupConfigFile E p v) s) p = files s p"
  by (simp add: BackupConfigFile_def os_write_other split: option.splits)

text \<open>A successful backup: an old backup kept, or a copy of the file made.\<close>

lemma backup_made:
  assumes "result (BackupConfigFile E p v) s"
  shows "files (final (BackupConfigFile E p v) s) (backup_path p v) \<noteq> None \<and>
    (files s (backup_path p v) = None \<longrightarrow> files (final (BackupConfigFile E p v) s) (backup_path p v) = files s p)"
proof (cases "result (os_stat E (backup_path p v)) s = StatOk")
  case True
  then show ?thesis
    using os_stat_ok [OF True] by (auto simp: BackupConfigFile_def)
next
  case False
  define s1 where "s1 = final (os_stat E (backup_path p v)) s"
  obtain d where d: "result (os_read E p) s1 = Some d"
    using assms False by (auto simp: BackupConfigFile_def s1_def split: option.splits)
  then have "files s p = Some d"
    using os_read_Some s1_def by fastforce
  moreover have "files (final (BackupConfigFile E p v) s) (backup_path p v) = Some d"
    using assms False d by (simp add: BackupConfigFile_def os_write_ok flip: s1_def)
  ultimately show ?thesis by simp
qed

text \<open>The replacement of the file is atomic: the new text, or the old file whatever fails.\<close>

lemma replace_config_atomic:
  "(result (replace_config E p c) s = None \<and> yaml_enc E c \<noteq> None \<and> files (final (replace_config E p c) s) p = yaml_enc E c) \<or>
   (result (replace_config E p c) s \<noteq> None \<and> files (final (replace_config E p c) s) p = files s p)"
proof (cases "yaml_enc E c")
  case None
  then show ?thesis by (simp add: replace_config_def)
next
  case (Some data)
  define s1 where "s1 = final (os_write E (p @ ''.tmp'') data) s"
  have ne: "p \<noteq> p @ ''.tmp''" by simp
  have p: "files s1 p = files s p"
    unfolding s1_def by (rule os_write_other [OF ne])
  show ?thesis
  proof (cases "result (os_write E (p @ ''.tmp'') data) s")
    case False
    then show ?thesis using Some p by (simp add: replace_config_def flip: s1_def)
  next
    case True
    then have "files s1 (p @ ''.tmp'') = Some data"
      unfolding s1_def by (rule os_write_ok)
    then show ?thesis
      using os_rename_cases [of E "p @ ''.tmp''" p s1] Some True p ne
      by (auto simp: replace_config_def simp flip: s1_def)
  qed
qed

lemma replace_config_other:
  "q \<noteq> p \<Longrightarrow> q \<noteq> p @ ''.tmp'' \<Longrightarrow> files (final (replace_config E p c) s) q = files s q"
  by (simp add: replace_config_def os_write_other os_rename_def split: option.splits)

lemma checkAndMigrate_stays:
  assumes "result (os_read E p) s = Some d" and "yaml_dec E d = Some cfg"
    and "version_of cfg = ConfigVersion \<or> VersionMajor (version_of cfg) > VersionMajor ConfigVersion"
  shows "files (final (checkAndMigrateConfig E p) s) = files s \<and> result (checkAndMigrateConfig E p) s = None"
  using assms by (auto simp: checkAndMigrateConfig_def Let_def)

text \<open>The call on a file that needs a migration: the backup, the chain, the replacement.\<close>

definition needs_migration :: "string \<Rightarrow> bool" where
  "needs_migration v \<longleftrightarrow> v \<noteq> ConfigVersion \<and> \<not> VersionMajor v > VersionMajor ConfigVersion"

lemma MigrateConfig_total_pair:
  obtains cfg' k ch e where "MigrateConfig tokenGen cfg = Some ((cfg', k), ch, e)"
    and "if ch then e = None \<and> version_of cfg' = ConfigVersion else (cfg', k) = (cfg, 0)"
proof -
  obtain st ch e where m: "MigrateConfig tokenGen cfg = Some (st, ch, e)"
    "if ch then e = None \<and> version_of (fst st) = ConfigVersion else st = (cfg, 0)"
    using MigrateConfig_total by blast
  show thesis
    using m by (intro that [of "fst st" "snd st" ch e]) simp_all
qed

lemma needs_migration_changes:
  assumes "needs_migration (version_of cfg)" and "MigrateConfig tokenGen cfg = Some (st, ch, None)"
  shows ch
proof -
  have "version_of cfg \<noteq> ConfigVersion" "\<not> 14 < VersionMajor (version_of cfg)"
    using assms(1) by (simp_all add: needs_migration_def VersionMajor_current)
  with assms(2) show ?thesis
    by (simp add: MigrateConfig_eq Let_def split: if_splits)
qed

lemma checkAndMigrate_run:
  assumes "result (os_read E p) s = Some d" and "yaml_dec E d = Some cfg" and "needs_migration (version_of cfg)"
    and "MigrateConfig (Some (token_source E)) cfg = Some (st, ch, e)"
    and "s2 = final (BackupConfigFile E p (version_of cfg)) (final (os_read E p) s)"
    and "ok = result (BackupConfigFile E p (version_of cfg)) (final (os_read E p) s)"
  shows "final (checkAndMigrateConfig E p) s = (if ok \<and> e = None \<and> ch then final (replace_config E p (fst st)) s2 else s2)"
    and "result (checkAndMigrateConfig E p) s =
      (if \<not> ok then Some BackupFailed else case e of Some x \<Rightarrow> Some (MigrateFailed x)
       | None \<Rightarrow> if ch then result (replace_config E p (fst st)) s2 else None)"
  using assms
  by (cases st, simp_all add: checkAndMigrateConfig_def needs_migration_def Let_def split: option.split)+

section \<open>Properties\<close>

text \<open>
  C22: Whatever operation fails, \<open>checkAndMigrateConfig\<close> leaves the configuration file as it was or holding the
  complete text of the migrated configuration; and the file is replaced only without error and after a backup,
  which is the original text unless an earlier backup of that version was kept.
\<close>

theorem checkAndMigrate_atomic:
  assumes "files s p = Some d"
  shows "let s' = final (checkAndMigrateConfig E p) s in
    files s' p = Some d \<or>
    (result (checkAndMigrateConfig E p) s = None \<and>
     (\<exists>cfg st. yaml_dec E d = Some cfg \<and> MigrateConfig (Some (token_source E)) cfg = Some (st, True, None) \<and>
        files s' p = yaml_enc E (fst st) \<and> files s' p \<noteq> None \<and>
        (if files s (backup_path p (version_of cfg)) = None
         then files s' (backup_path p (version_of cfg)) = Some d
         else files s' (backup_path p (version_of cfg)) \<noteq> None)))"
proof (cases "result (os_read E p) s")
  case None
  then show ?thesis using assms by (simp add: checkAndMigrateConfig_def)
next
  case (Some d1)
  then have rd: "result (os_read E p) s = Some d"
    using os_read_Some assms by fastforce
  show ?thesis
  proof (cases "\<exists>cfg. yaml_dec E d = Some cfg \<and> needs_migration (version_of cfg)")
    case False
    then have "files (final (checkAndMigrateConfig E p) s) p = Some d"
      using checkAndMigrate_stays [OF rd] rd assms
      by (cases "yaml_dec E d") (auto simp: checkAndMigrateConfig_def needs_migration_def)
    then show ?thesis by simp
  next
    case True
    then obtain cfg where cfg: "yaml_dec E d = Some cfg" "needs_migration (version_of cfg)" by blast
    obtain cfg' k ch e where m: "MigrateConfig (Some (token_source E)) cfg = Some ((cfg', k), ch, e)"
      by (rule MigrateConfig_total_pair)
    let ?b = "backup_path p (version_of cfg)" and ?s1 = "final (os_read E p) s"
    define s2 where "s2 = final (BackupConfigFile E p (version_of cfg)) ?s1"
    define ok where "ok = result (BackupConfigFile E p (version_of cfg)) ?s1"
    note run = checkAndMigrate_run [OF rd cfg m s2_def ok_def]
    have s2: "files s2 p = Some d"
      by (simp add: s2_def backup_keeps_config assms)
    have "ok \<Longrightarrow> files s2 ?b \<noteq> None \<and> (files s ?b = None \<longrightarrow> files s2 ?b = Some d)"
      using backup_made [of E p "version_of cfg" ?s1] assms by (simp add: ok_def s2_def)
    moreover have "files (final (replace_config E p cfg') s2) ?b = files s2 ?b"
      by (rule replace_config_other) simp_all
    moreover note replace_config_atomic [of E p cfg' s2]
    ultimately show ?thesis
      using s2 cfg m by (cases "ok \<and> e = None \<and> ch") (auto simp: run Let_def)
  qed
qed

text \<open>A concrete start: one file of version 13, a YAML library that knows the two texts, no failing operation.\<close>

definition sample_13 :: ymap where
  "sample_13 = [(''version'', YStr ''13'')]"

definition sample_14 :: ymap where
  "sample_14 = [(''version'', YStr ''14''), (''oauth2'', YMap [(''service_scope_allowlist'', YMap [])])]"

definition sample_env :: "(nat \<Rightarrow> io_outcome) \<Rightarrow> startup_env" where
  "sample_env faults = \<lparr>io = faults,
     yaml_dec = (\<lambda>d. if d = ''old'' then Some sample_13 else if d = ''new'' then Some sample_14 else None),
     yaml_enc = (\<lambda>c. if version_of c = ''14'' then Some ''new'' else None), token_source = (\<lambda>_. ''t'')\<rparr>"

definition sample_fs :: fs where
  "sample_fs = \<lparr>files = [''config.yaml'' \<mapsto> ''old''], io_count = 0\<rparr>"

text \<open>The rename fails: the file is still the old one.\<close>

theorem checkAndMigrate_atomic_witness:
  "files (final (checkAndMigrateConfig (sample_env (\<lambda>n. if n = 4 then IoFail None else IoOk)) ''config.yaml'') sample_fs)
     ''config.yaml'' \<in> {Some ''old'', Some ''new''}"
proof -
  have "files sample_fs ''config.yaml'' = Some ''old''"
    by (simp add: sample_fs_def)
  from checkAndMigrate_atomic [OF this, of "sample_env (\<lambda>n. if n = 4 then IoFail None else IoOk)"]
  show ?thesis
    by (auto simp: Let_def sample_env_def split: if_splits)
qed

text \<open>
  C29: A start repairs an old file for good: if \<open>InitializeConfig\<close> ends without error on a file of an older
  version, then the file decodes to a configuration of the current version, \<open>Load\<close> accepts it, and a second
  \<open>InitializeConfig\<close> changes no file. The YAML library is only supposed to keep the version field of what it writes.
\<close>

theorem InitializeConfig_settles:
  assumes "\<forall>c d. yaml_enc E c = Some d \<longrightarrow> (\<exists>c'. yaml_dec E d = Some c' \<and> version_of c' = version_of c)"
    and "files s p = Some d" and "yaml_dec E d = Some cfg" and "needs_migration (version_of cfg)"
    and "result (InitializeConfig E p) s = None" and "\<forall>n. io E n = IoOk"
  shows "let s' = final (InitializeConfig E p) s in
    (\<exists>d' c. files s' p = Some d' \<and> yaml_dec E d' = Some c \<and> version_of c = ConfigVersion \<and> load_config c \<noteq> None) \<and>
    files (final (InitializeConfig E p) s') = files s'"
proof -
  define s1 where "s1 = final (os_stat E p) s"
  have init: "InitializeConfig E p = State_Monad.bind (os_stat E p)
      (\<lambda>st. if st = StatNotExist then createDefaultConfig E p else checkAndMigrateConfig E p)"
    by (simp add: InitializeConfig_def)
  have stat: "result (os_stat E p) u = StatOk" if "files u p \<noteq> None" for u
    using that assms(6) by (simp add: os_stat_def)
  have rd: "result (os_read E p) s1 = Some d"
    using assms(2,6) by (simp add: os_read_def s1_def)
  obtain cfg' k ch e where m: "MigrateConfig (Some (token_source E)) cfg = Some ((cfg', k), ch, e)"
    and ok: "if ch then e = None \<and> version_of cfg' = ConfigVersion else (cfg', k) = (cfg, 0)"
    by (rule MigrateConfig_total_pair)
  have e: "e = None \<Longrightarrow> ch"
    using needs_migration_changes [OF assms(4)] m by blast
  define s2 where "s2 = final (BackupConfigFile E p (version_of cfg)) (final (os_read E p) s1)"
  define ok where "ok = result (BackupConfigFile E p (version_of cfg)) (final (os_read E p) s1)"
  note run = checkAndMigrate_run [OF rd assms(3,4) m s2_def ok_def]
  have init_s: "result (InitializeConfig E p) s = result (checkAndMigrateConfig E p) s1"
    "final (InitializeConfig E p) s = final (checkAndMigrateConfig E p) s1"
    using assms(2) stat by (simp_all add: init s1_def)
  then have "ok" "e = None"
    using assms(5) run(2) by (simp_all split: if_splits option.splits)
  with e have ch: ch by simp
  have s2: "result (replace_config E p cfg') s2 = None"
    "final (InitializeConfig E p) s = final (replace_config E p cfg') s2"
    using init_s assms(5) run ch \<open>ok\<close> \<open>e = None\<close> by simp_all
  then obtain d' where d': "files (final (InitializeConfig E p) s) p = Some d'" "yaml_enc E cfg' = Some d'"
    using replace_config_atomic [of E p cfg' s2] by auto
  then obtain c where c: "yaml_dec E d' = Some c" "version_of c = ConfigVersion"
    using assms(1) ok ch by metis
  then have "load_config c \<noteq> None"
    by (simp add: load_config_def getString_def version_of_def ConfigVersion_def)
  moreover define s' where "s' = final (InitializeConfig E p) s"
  have "files (final (InitializeConfig E p) s') = files s'"
  proof -
    have "result (os_read E p) (final (os_stat E p) s') = Some d'"
      using d' assms(6) by (simp add: os_read_def s'_def)
    from checkAndMigrate_stays [OF this c(1)] c(2) show ?thesis
      using stat [of s'] d' by (simp add: init s'_def)
  qed
  ultimately show ?thesis
    using d' c by (auto simp: Let_def s'_def)
qed

lemma sample_13_migrates: "MigrateConfig (Some gen) sample_13 = Some ((sample_14, 0), True, None)"
proof -
  have "version_of sample_13 = ''13''"
    by (simp add: version_of_def sample_13_def)
  moreover have "VersionMajor ''13'' = 13"
    by (simp add: VersionMajor_def TrimSpace_id space_eval is_digit_def)
  moreover have "pending ''13'' = [\<lparr>FromVersion = ''13'', ToVersion = ''14'', Migrate = migrateV13ToV14\<rparr>]"
    by (simp add: pending_def configMigrations_def)
  moreover have "run_steps g [\<lparr>FromVersion = ''13'', ToVersion = ''14'', Migrate = migrateV13ToV14\<rparr>] (sample_13, 0) = (sample_14, 0)" for g
    by (simp add: after_def migrateV13ToV14_def migrated_def add_fields_def sample_13_def sample_14_def
        set_missing_def map_or_empty_def)
  ultimately show ?thesis
    by (simp add: MigrateConfig_eq ConfigVersion_def)
qed

theorem InitializeConfig_settles_witness:
  "let E = sample_env (\<lambda>_. IoOk); s' = final (InitializeConfig E ''config.yaml'') sample_fs in
    (\<exists>d' c. files s' ''config.yaml'' = Some d' \<and> yaml_dec E d' = Some c \<and> version_of c = ConfigVersion \<and> load_config c \<noteq> None) \<and>
    files (final (InitializeConfig E ''config.yaml'') s') = files s'"
proof -
  define E where "E = sample_env (\<lambda>_. IoOk)"
  have v: "version_of sample_13 = ''13''" "version_of sample_14 = ''14''"
    by (simp_all add: version_of_def sample_13_def sample_14_def)
  have n: "needs_migration ''13''"
    by (simp add: needs_migration_def VersionMajor_def ConfigVersion_def TrimSpace_id space_eval is_digit_def)
  have "\<forall>c d. yaml_enc E c = Some d \<longrightarrow> (\<exists>c'. yaml_dec E d = Some c' \<and> version_of c' = version_of c)"
    by (auto simp: E_def sample_env_def v split: if_splits)
  moreover have "files sample_fs ''config.yaml'' = Some ''old''" "yaml_dec E ''old'' = Some sample_13"
    "\<forall>n. io E n = IoOk" "needs_migration (version_of sample_13)"
    by (simp_all add: sample_fs_def E_def sample_env_def v n)
  moreover have "result (InitializeConfig E ''config.yaml'') sample_fs = None"
    using n unfolding needs_migration_def
    by (simp add: InitializeConfig_def checkAndMigrateConfig_def BackupConfigFile_def replace_config_def os_defs
        io_op_def result_def final_def Let_def E_def sample_env_def sample_fs_def v sample_13_migrates backup_path_def)
  ultimately show ?thesis
    using InitializeConfig_settles [of E sample_fs "''config.yaml''" "''old''" sample_13] by (simp add: E_def)
qed

lemma connect_loop_down:
  assumes "0 < MaxRetries c" and "NextRoundDelayMin c \<le> 0" and "0 \<le> retry" and "retry \<le> MaxRetries c"
    and "\<forall>i < k. \<not> up (n + i)" and "retry + int k = MaxRetries c + 1"
  shows "connect_loop c up (k + fuel) n retry = Some (False, n + k)"
  using assms(3-)
proof (induction k arbitrary: n retry)
  case 0
  then show ?case by simp
next
  case (Suc k)
  have down: "\<not> up n"
    using Suc.prems(3) by auto
  show ?case
  proof (cases "retry + 1 > MaxRetries c")
    case True
    with Suc.prems(4) have "k = 0" by simp
    with True down assms(1,2) show ?thesis by simp
  next
    case False
    have "\<forall>i < k. \<not> up (Suc n + i)"
      using Suc.prems(3) by (metis add_Suc_right add_Suc less_Suc_eq_0_disj not_less_eq)
    with False down Suc.prems show ?thesis
      using Suc.IH [of "retry + 1" "Suc n"] by simp
  qed
qed

lemma connect_loop_up:
  assumes "up (n + k)" and "\<forall>i < k. \<not> up (n + i)" and "retry + int k \<le> MaxRetries c \<or> MaxRetries c \<le> 0" and "k < fuel"
  shows "connect_loop c up fuel n retry = Some (True, n + k + 1)"
  using assms
proof (induction k arbitrary: n retry fuel)
  case 0
  then show ?case by (cases fuel) simp_all
next
  case (Suc k)
  then obtain f where f: "fuel = Suc f" "k < f" by (cases fuel) auto
  have "\<not> up n" using Suc.prems(2) by auto
  moreover have "\<forall>i < k. \<not> up (Suc n + i)" "up (Suc n + k)"
    using Suc.prems(1,2) by auto
  moreover have "\<not> (MaxRetries c > 0 \<and> retry + 1 > MaxRetries c)"
    using Suc.prems(3) by auto
  ultimately show ?case
    using Suc.IH [of "Suc n" "retry + 1" f] Suc.prems(3) f by auto
qed

text \<open>
  C40: The retry loop is bounded when the next round is switched off: with \<open>m > 0\<close> retries it makes at most
  \<open>m + 1\<close> attempts, and it returns after the first successful one.
\<close>

theorem connect_bounded:
  assumes "0 < MaxRetries c" and "NextRoundDelayMin c \<le> 0" and "MaxRetries c < int fuel"
  shows "connect c up fuel =
    (case find up [0 ..< nat (MaxRetries c) + 1] of
       Some n \<Rightarrow> Some (True, n + 1) | None \<Rightarrow> Some (False, nat (MaxRetries c) + 1))"
proof (cases "find up [0 ..< nat (MaxRetries c) + 1]")
  case None
  then have "\<forall>i < nat (MaxRetries c) + 1. \<not> up (0 + i)"
    by (auto simp: find_None_iff simp del: upt_Suc)
  moreover have "fuel = nat (MaxRetries c) + 1 + (fuel - (nat (MaxRetries c) + 1))"
    using assms(1,3) by simp
  ultimately show ?thesis
    using connect_loop_down [of c 0 "nat (MaxRetries c) + 1" up 0 "fuel - (nat (MaxRetries c) + 1)"] assms None
    by (simp add: connect_def)
next
  case (Some n)
  then obtain i where i: "i < nat (MaxRetries c) + 1" "n = i" "up n" "\<forall>j < i. \<not> up j"
    by (auto simp: find_Some_iff simp del: upt_Suc)
  then show ?thesis
    using connect_loop_up [of up 0 n 0 c fuel] assms Some by (simp add: connect_def del: upt_Suc)
qed

definition sample_db :: "string \<Rightarrow> int \<Rightarrow> database_config" where
  "sample_db host port = \<lparr>db_Host = host, DBName = ''hrpa'', db_User = ''hrpa'', db_Password = ''pw'',
     Charset = ''utf8mb4'', db_Port = port, RetryIntervalSec = 3, MaxRetries = 2, NextRoundDelayMin = 0\<rparr>"

theorem connect_bounded_witness:
  "connect (sample_db ''db'' 0) (\<lambda>n. n = 2) 3 = Some (True, 3) \<and> connect (sample_db ''db'' 0) (\<lambda>n. n = 3) 3 = Some (False, 3)"
  by (simp add: connect_bounded sample_db_def upt_rec)

subsection \<open>The dial address\<close>

lemma last_index_None: "last_index c s = None \<longleftrightarrow> c \<notin> set s"
  by (induction s) (auto split: option.splits)

lemma last_index_append: "c \<notin> set t \<Longrightarrow> last_index c (s @ c # t) = Some (length s)"
  by (induction s) (auto simp: last_index_None [THEN iffD2] split: option.splits)

text \<open>A host name, as the address functions need it: no colon and no bracket.\<close>

definition plain_host :: "string \<Rightarrow> bool" where
  "plain_host h \<longleftrightarrow> CHR '':'' \<notin> set h \<and> CHR ''['' \<notin> set h \<and> CHR '']'' \<notin> set h"

lemma SplitHostPort_join:
  assumes "plain_host h" and "plain_host p"
  shows "SplitHostPort (h @ '':'' @ p) = Some (h, p)"
proof -
  have "hd (h @ '':'' @ p) \<noteq> CHR ''[''"
    using assms(1) by (cases h) (auto simp: plain_host_def)
  with assms show ?thesis
    using last_index_append [of "CHR '':''" p h] by (simp add: SplitHostPort_def plain_host_def)
qed

lemma SplitHostPort_plain: "plain_host h \<Longrightarrow> SplitHostPort h = None"
  using last_index_None [of "CHR '':''" h] by (simp add: SplitHostPort_def plain_host_def)

lemma plain_host_itoa: "plain_host (itoa n)"
  using itoa_digits [of n] by (auto simp: plain_host_def list_all_iff is_digit_def)

text \<open>
  The standalone port wins: with a port set, the dial address of the database connection names that port,
  and the host without the old port that may be inlined in it.
\<close>

theorem Addr_port:
  assumes "plain_host h" and "plain_host old" and "db_Host c = h \<or> db_Host c = h @ '':'' @ old" and "0 < db_Port c"
  shows "SplitHostPort (Addr c) = Some (h, itoa (nat (db_Port c)))"
proof -
  have "(case SplitHostPort (db_Host c) of Some (x, _) \<Rightarrow> x | None \<Rightarrow> db_Host c) = h"
    using assms(1-3) SplitHostPort_plain [of h] SplitHostPort_join [of h old] by auto
  moreover have "CHR '':'' \<notin> set h"
    using assms(1) by (simp add: plain_host_def)
  ultimately have "Addr c = h @ '':'' @ itoa (nat (db_Port c))"
    using assms(4) by (simp add: Addr_def JoinHostPort_def Let_def)
  with assms(1) show ?thesis
    by (simp add: SplitHostPort_join plain_host_itoa del: append.simps)
qed

theorem Addr_port_witness:
  "SplitHostPort (Addr (sample_db ''db:3306'' 3307)) = Some (''db'', itoa 3307)"
  using Addr_port [of "''db''" "''3306''" "sample_db ''db:3306'' 3307"] by (simp add: sample_db_def plain_host_def)

text \<open>
  The migration connection ignores that port: its data source name does not depend on the port field, while
  the data source name of the service's own connection does.
\<close>

theorem migration_dsn_ignores_port:
  "migration_dsn (c\<lparr>db_Port := p\<rparr>) = migration_dsn c \<and>
   connect_dsn (sample_db ''db'' 3307) \<noteq> connect_dsn (sample_db ''db'' 0)"
proof -
  have "Addr (sample_db ''db'' 0) = ''db''"
    by (simp add: Addr_def sample_db_def)
  moreover have "SplitHostPort ''db'' = None"
    by (rule SplitHostPort_plain) (simp add: plain_host_def)
  then have "Addr (sample_db ''db'' 3307) = ''db:'' @ itoa 3307"
    by (simp add: Addr_def sample_db_def JoinHostPort_def)
  ultimately show ?thesis
    by (simp add: migration_dsn_def connect_dsn_def sample_db_def itoa.simps)
qed

text \<open>
  The default configuration is complete: it is at the current version, so no migration touches it, \<open>Load\<close>
  accepts it, and its two secrets are the first two tokens drawn.
\<close>

theorem default_config_loads:
  "MigrateConfig tokenGen (buildDefaultConfig gen) = Some ((buildDefaultConfig gen, 0), False, None) \<and>
   map_option c_Manage_Token (load_config (buildDefaultConfig gen)) = Some (gen 0) \<and>
   map_option (\<lambda>c. SuperClientSecret (c_OAuth2 c)) (load_config (buildDefaultConfig gen)) = Some (gen 1)"
proof -
  have v: "version_of (buildDefaultConfig gen) = ''14''" "getString (Some (buildDefaultConfig gen)) ''version'' = ''14''"
    by (simp_all add: version_of_def getString_def buildDefaultConfig_def ConfigVersion_def Let_def)
  have "parseManageConfig (buildDefaultConfig gen) = gen 0"
    by (simp add: parseManageConfig_def sect_def getString_def buildDefaultConfig_def Let_def)
  moreover have "SuperClientSecret (parseOAuth2Config (buildDefaultConfig gen)) = gen 1"
    by (simp add: super_secret_read sect_def buildDefaultConfig_def Let_def)
  ultimately show ?thesis
    by (simp add: MigrateConfig_eq load_config_def v ConfigVersion_def)
qed

end
