(* ===== verification/Go_Json_Value.thy ===== *)
theory Go_Json_Value
  imports Go_Json Go_Text
begin

text \<open>
  JSON documents as values: the text \<open>json.Marshal\<close> writes for them and the values \<open>json.Unmarshal\<close> reads. The
  registries, the login tickets and the verification codes are stored as such texts.

  A number is kept as its literal text, as \<open>json.Number\<close> does, and read as a 64-bit integer by \<open>int_of_literal\<close>.
  The parser is given fuel, twice the length of the text and two, one unit per call; \<open>parse_print\<close> shows
  that it suffices for every printed document. Go's limit of 10000 nested values is not kept.
\<close>

datatype json =
  JNull
| JBool bool
| JNum string
| JStr string
| JArr "json list"
| JObj "(string \<times> json) list"

section \<open>Numbers\<close>

definition int_text :: "int \<Rightarrow> string" where
  "int_text i = (if i < 0 then CHR ''-'' # itoa (nat (- i)) else itoa (nat i))"

definition scan_int :: "string \<Rightarrow> (string \<times> string) option" where
  "scan_int s =
     (case s of [] \<Rightarrow> None
      | c # r \<Rightarrow>
        if c = CHR ''0'' then Some ([c], r)
        else if is_digit c then Some (c # takeWhile is_digit r, dropWhile is_digit r) else None)"

definition scan_frac :: "string \<Rightarrow> (string \<times> string) option" where
  "scan_frac s =
     (case s of [] \<Rightarrow> Some ([], [])
      | c # r \<Rightarrow>
        if c \<noteq> CHR ''.'' then Some ([], s)
        else if takeWhile is_digit r = [] then None else Some (c # takeWhile is_digit r, dropWhile is_digit r))"

definition scan_exp :: "string \<Rightarrow> (string \<times> string) option" where
  "scan_exp s =
     (case s of [] \<Rightarrow> Some ([], [])
      | c # r \<Rightarrow>
        if c \<noteq> CHR ''e'' \<and> c \<noteq> CHR ''E'' then Some ([], s)
        else
          let sign = (case r of d # _ \<Rightarrow> if d = CHR ''+'' \<or> d = CHR ''-'' then [d] else [] | [] \<Rightarrow> []);
              q = drop (length sign) r
          in if takeWhile is_digit q = [] then None else Some (c # sign @ takeWhile is_digit q, dropWhile is_digit q))"

definition scan_unsigned :: "string \<Rightarrow> (string \<times> string) option" where
  "scan_unsigned s =
     (case scan_int s of None \<Rightarrow> None
      | Some (a, r) \<Rightarrow>
        (case scan_frac r of None \<Rightarrow> None
         | Some (b, r') \<Rightarrow> map_option (\<lambda>(e, t). (a @ b @ e, t)) (scan_exp r')))"

definition scan_number :: "string \<Rightarrow> (string \<times> string) option" where
  "scan_number s =
     (case s of c # r \<Rightarrow>
        if c = CHR ''-'' then map_option (\<lambda>(a, t). (c # a, t)) (scan_unsigned r) else scan_unsigned s
      | [] \<Rightarrow> None)"

text \<open>A literal as a signed 64-bit integer; a fraction, an exponent or a value out of range is an error.\<close>

definition int_of_literal :: "string \<Rightarrow> int option" where
  "int_of_literal s =
     (let neg = HasPrefix s ''-''; ds = TrimPrefix s ''-''; v = (if neg then - int (digits_value ds) else int (digits_value ds)) in
      if ds = [] \<or> \<not> list_all is_digit ds then None
      else if - 9223372036854775808 \<le> v \<and> v < 9223372036854775808 then Some v else None)"

section \<open>Printing\<close>

fun print_json :: "json \<Rightarrow> string"
  and print_items :: "json list \<Rightarrow> string"
  and print_members :: "(string \<times> json) list \<Rightarrow> string" where
  "print_json JNull = ''null''"
| "print_json (JBool b) = (if b then ''true'' else ''false'')"
| "print_json (JNum n) = n"
| "print_json (JStr s) = json_quote s"
| "print_json (JArr vs) = CHR ''['' # print_items vs"
| "print_json (JObj kvs) = CHR ''{'' # print_members kvs"
| "print_items [] = '']''"
| "print_items [v] = print_json v @ '']''"
| "print_items (v # w # vs) = print_json v @ '','' @ print_items (w # vs)"
| "print_members [] = ''}''"
| "print_members [(k, v)] = json_quote k @ '':'' @ print_json v @ ''}''"
| "print_members ((k, v) # e # kvs) = json_quote k @ '':'' @ print_json v @ '','' @ print_members (e # kvs)"

section \<open>Parsing\<close>

fun parse_value :: "nat \<Rightarrow> string \<Rightarrow> (json \<times> string) option"
  and parse_items :: "nat \<Rightarrow> string \<Rightarrow> (json list \<times> string) option"
  and parse_members :: "nat \<Rightarrow> string \<Rightarrow> ((string \<times> json) list \<times> string) option" where
  "parse_value 0 s = None"
| "parse_value (Suc n) s =
     (case skip_ws s of [] \<Rightarrow> None
      | c # r \<Rightarrow>
        if c = CHR 0x22 then map_option (\<lambda>(x, t). (JStr x, t)) (unquote_chars r)
        else if c = CHR ''['' then
          (if HasPrefix (skip_ws r) '']'' then Some (JArr [], tl (skip_ws r))
           else map_option (\<lambda>(vs, t). (JArr vs, t)) (parse_items n r))
        else if c = CHR ''{'' then
          (if HasPrefix (skip_ws r) ''}'' then Some (JObj [], tl (skip_ws r))
           else map_option (\<lambda>(kvs, t). (JObj kvs, t)) (parse_members n r))
        else if HasPrefix (c # r) ''null'' then Some (JNull, drop 3 r)
        else if HasPrefix (c # r) ''true'' then Some (JBool True, drop 3 r)
        else if HasPrefix (c # r) ''false'' then Some (JBool False, drop 4 r)
        else map_option (\<lambda>(x, t). (JNum x, t)) (scan_number (c # r)))"
| "parse_items 0 s = None"
| "parse_items (Suc n) s =
     (case parse_value n s of None \<Rightarrow> None
      | Some (v, r) \<Rightarrow>
        (case skip_ws r of [] \<Rightarrow> None
         | c # r' \<Rightarrow>
           if c = CHR '','' then map_option (\<lambda>(vs, t). (v # vs, t)) (parse_items n r')
           else if c = CHR '']'' then Some ([v], r') else None))"
| "parse_members 0 s = None"
| "parse_members (Suc n) s =
     (case skip_ws s of [] \<Rightarrow> None
      | q # s' \<Rightarrow>
        if q \<noteq> CHR 0x22 then None
        else case unquote_chars s' of None \<Rightarrow> None
        | Some (k, r) \<Rightarrow>
          (case skip_ws r of [] \<Rightarrow> None
           | d # r1 \<Rightarrow>
             if d \<noteq> CHR '':'' then None
             else case parse_value n r1 of None \<Rightarrow> None
             | Some (v, r2) \<Rightarrow>
               (case skip_ws r2 of [] \<Rightarrow> None
                | c # r3 \<Rightarrow>
                  if c = CHR '','' then map_option (\<lambda>(kvs, t). ((k, v) # kvs, t)) (parse_members n r3)
                  else if c = CHR ''}'' then Some ([(k, v)], r3) else None)))"

definition parse_json :: "string \<Rightarrow> json option" where
  "parse_json s =
     (case parse_value (2 * length s + 2) s of
        None \<Rightarrow> None | Some (v, r) \<Rightarrow> if skip_ws r = [] then Some v else None)"

section \<open>The round trip\<close>

text \<open>What a document reads back as: invalid bytes of strings become the error rune, as in \<open>to_valid\<close>.\<close>

fun canon_json :: "json \<Rightarrow> json" where
  "canon_json (JStr s) = JStr (to_valid s)"
| "canon_json (JArr vs) = JArr (map canon_json vs)"
| "canon_json (JObj kvs) = JObj (map (\<lambda>(k, v). (to_valid k, canon_json v)) kvs)"
| "canon_json v = v"

definition number_ok :: "string \<Rightarrow> bool" where
  "number_ok n \<longleftrightarrow> (scan_number n = Some (n, []))"

fun json_ok :: "json \<Rightarrow> bool" where
  "json_ok (JNum n) = number_ok n"
| "json_ok (JArr vs) = list_all json_ok vs"
| "json_ok (JObj kvs) = list_all (\<lambda>(k, v). json_ok v) kvs"
| "json_ok v = True"

text \<open>The text after a value: nothing, or a separator.\<close>

definition stops :: "string \<Rightarrow> bool" where
  "stops t \<longleftrightarrow> t = [] \<or> hd t \<in> {CHR '','', CHR '']'', CHR ''}''}"

lemma stops_simps [simp]: "stops []" "stops (CHR '','' # t)" "stops (CHR '']'' # t)" "stops (CHR ''}'' # t)"
  by (simp_all add: stops_def)

lemma takeWhile_stops: "stops t \<Longrightarrow> takeWhile is_digit (s @ t) = takeWhile is_digit s"
  by (induction s) (cases t; auto simp: stops_def is_digit_def)+

lemma dropWhile_stops: "stops t \<Longrightarrow> dropWhile is_digit (s @ t) = dropWhile is_digit s @ t"
  by (induction s) (cases t; auto simp: stops_def is_digit_def)+

lemma scan_int_stops: "scan_int s = Some (a, r) \<Longrightarrow> stops t \<Longrightarrow> scan_int (s @ t) = Some (a, r @ t)"
  by (auto simp: scan_int_def takeWhile_stops dropWhile_stops split: list.splits if_splits)

lemma scan_frac_stops: "scan_frac s = Some (a, r) \<Longrightarrow> stops t \<Longrightarrow> scan_frac (s @ t) = Some (a, r @ t)"
  by (cases t) (auto simp: scan_frac_def takeWhile_stops dropWhile_stops stops_def split: list.splits if_splits)

lemma scan_exp_stops: "scan_exp s = Some (a, r) \<Longrightarrow> stops t \<Longrightarrow> scan_exp (s @ t) = Some (a, r @ t)"
proof -
  assume a: "scan_exp s = Some (a, r)" and t: "stops t"
  show ?thesis
  proof (cases s)
    case Nil
    with a t show ?thesis by (cases t) (auto simp: scan_exp_def stops_def)
  next
    case (Cons c q)
    with a show ?thesis
      using takeWhile_stops [OF t, of q] dropWhile_stops [OF t, of q]
        takeWhile_stops [OF t, of "tl q"] dropWhile_stops [OF t, of "tl q"]
      by (cases q; cases t) (auto simp: scan_exp_def Let_def t split: if_splits)
  qed
qed

lemma scan_unsigned_stops: "scan_unsigned s = Some (a, r) \<Longrightarrow> stops t \<Longrightarrow> scan_unsigned (s @ t) = Some (a, r @ t)"
  by (auto simp: scan_unsigned_def scan_int_stops scan_frac_stops scan_exp_stops split: option.splits)

lemma scan_number_stops: "scan_number s = Some (a, r) \<Longrightarrow> stops t \<Longrightarrow> scan_number (s @ t) = Some (a, r @ t)"
  by (auto simp: scan_number_def dest: scan_unsigned_stops split: list.splits if_splits)

lemma number_first: "scan_number n = Some x \<Longrightarrow> \<exists>c r. n = c # r \<and> (c = CHR ''-'' \<or> is_digit c)"
  by (auto simp: scan_number_def scan_unsigned_def scan_int_def is_digit_def split: list.splits option.splits if_splits)

lemma number_char: "c = CHR ''-'' \<or> is_digit c \<Longrightarrow> c \<notin> set ''{[]}ntf,'' \<and> c \<noteq> CHR 0x22 \<and> \<not> json_ws c"
  by (auto simp: is_digit_def json_ws_def)

lemma skip_ws_Cons: "\<not> json_ws c \<Longrightarrow> skip_ws (c # s) = c # s"
  by (simp add: skip_ws_def)

lemma skip_ws_stops: "stops t \<Longrightarrow> skip_ws t = t"
  by (cases t) (auto simp: stops_def skip_ws_def json_ws_def)

text \<open>The first character of a printed value decides how it is read.\<close>

lemma print_json_first: "json_ok v \<Longrightarrow> \<exists>c r. print_json v = c # r \<and> \<not> json_ws c \<and> c \<noteq> CHR '']'' \<and> c \<noteq> CHR ''}''"
proof (cases v)
  case (JNum n)
  assume "json_ok v"
  with JNum have "scan_number n = Some (n, [])" by (simp add: number_ok_def)
  from number_first [OF this] number_char JNum show ?thesis by fastforce
qed (auto simp: json_ws_def json_quote_def)

lemma parse_value_number:
  assumes "number_ok n" and "stops t"
  shows "parse_value (Suc k) (n @ t) = Some (JNum n, t)"
proof -
  have s: "scan_number (n @ t) = Some (n, t)"
    using assms scan_number_stops [of n n "[]" t] by (simp add: number_ok_def)
  obtain c r where n: "n = c # r" "c = CHR ''-'' \<or> is_digit c"
    using number_first assms(1) unfolding number_ok_def by blast
  from number_char [OF n(2)] have c: "skip_ws (c # r @ t) = c # r @ t" "c \<noteq> CHR 0x22" "c \<noteq> CHR ''[''" "c \<noteq> CHR ''{''"
    "\<not> HasPrefix (c # r @ t) ''null''" "\<not> HasPrefix (c # r @ t) ''true''" "\<not> HasPrefix (c # r @ t) ''false''"
    by (auto simp: skip_ws_Cons HasPrefix_def)
  show ?thesis
    using s by (simp add: n(1) c)
qed

lemma print_items_first:
  assumes "json_ok v" shows "\<exists>c r. print_items (v # vs) @ t = c # r \<and> \<not> json_ws c \<and> c \<noteq> CHR '']''"
  using print_json_first [OF assms] by (cases vs) auto

lemma print_members_first: "\<exists>r. print_members ((k, v) # kvs) @ t = CHR 0x22 # r"
  by (cases kvs) (simp_all add: json_quote_def)

lemma unquote_key: "unquote_chars (quote_chars k @ CHR 0x22 # t) = Some (to_valid k, t)"
  by (rule unquote_quote)

lemma skip_ws_simps [simp]:
  "skip_ws (CHR '','' # t) = CHR '','' # t" "skip_ws (CHR '']'' # t) = CHR '']'' # t" "skip_ws (CHR ''}'' # t) = CHR ''}'' # t"
  "skip_ws (CHR '':'' # t) = CHR '':'' # t" "skip_ws (CHR 0x22 # t) = CHR 0x22 # t" "skip_ws (CHR ''['' # t) = CHR ''['' # t"
  "skip_ws (CHR ''{'' # t) = CHR ''{'' # t" "skip_ws (CHR ''n'' # t) = CHR ''n'' # t" "skip_ws (CHR ''t'' # t) = CHR ''t'' # t"
  "skip_ws (CHR ''f'' # t) = CHR ''f'' # t" "skip_ws [] = []"
  by (simp_all add: skip_ws_def json_ws_def)

lemma print_length: "json_ok v \<Longrightarrow> 0 < length (print_json v)"
  using print_json_first [of v] by auto

lemma parse_print:
  "json_ok v \<Longrightarrow> stops t \<Longrightarrow> 2 * length (print_json v) \<le> n \<Longrightarrow>
     parse_value n (print_json v @ t) = Some (canon_json v, t)"
  "list_all json_ok vs \<Longrightarrow> vs \<noteq> [] \<Longrightarrow> 2 * length (print_items vs) < n \<Longrightarrow>
     parse_items n (print_items vs @ t) = Some (map canon_json vs, t)"
  "list_all (\<lambda>(k, v). json_ok v) kvs \<Longrightarrow> kvs \<noteq> [] \<Longrightarrow> 2 * length (print_members kvs) < n \<Longrightarrow>
     parse_members n (print_members kvs @ t) = Some (map (\<lambda>(k, v). (to_valid k, canon_json v)) kvs, t)"
proof (induction v and vs and kvs arbitrary: n t and n t and n t rule: print_json_print_items_print_members.induct)
  case 1
  then show ?case by (cases n) (simp_all add: HasPrefix_def)
next
  case (2 b)
  then show ?case by (cases n; cases b) (simp_all add: HasPrefix_def)
next
  case (3 l)
  then obtain m where "n = Suc m"
    using print_length [of "JNum l"] by (cases n) auto
  with 3 show ?case using parse_value_number [of l t m] by simp
next
  case (4 s)
  then show ?case by (cases n) (simp_all add: json_quote_def unquote_key)
next
  case (5 vs)
  then obtain m where n: "n = Suc m" by (cases n) auto
  show ?case
  proof (cases vs)
    case Nil
    then show ?thesis by (simp add: n HasPrefix_def)
  next
    case (Cons w ws)
    then obtain c r where cr: "print_items vs @ t = c # r" "\<not> json_ws c" "c \<noteq> CHR '']''"
      using print_items_first [of w ws t] 5(2) by auto
    have "parse_items m (print_items vs @ t) = Some (map canon_json vs, t)"
      using 5(1) 5(2,4) Cons by (simp add: n)
    then show ?thesis
      using cr by (simp add: n skip_ws_Cons HasPrefix_def)
  qed
next
  case (6 kvs)
  then obtain m where n: "n = Suc m" by (cases n) auto
  show ?case
  proof (cases kvs)
    case Nil
    then show ?thesis by (simp add: n HasPrefix_def)
  next
    case (Cons w ws)
    then obtain r where cr: "print_members kvs @ t = CHR 0x22 # r"
      using print_members_first [of "fst w" "snd w" ws t] by auto
    have "parse_members m (print_members kvs @ t) = Some (map (\<lambda>(k, v). (to_valid k, canon_json v)) kvs, t)"
      using 6(1) 6(2,4) Cons by (simp add: n)
    then show ?thesis
      using cr by (simp add: n skip_ws_Cons HasPrefix_def)
  qed
next
  case 7
  then show ?case by simp
next
  case (8 v)
  then obtain m where n: "n = Suc m" by (cases n) auto
  with 8 show ?case by simp
next
  case (9 v w vs)
  then obtain m where n: "n = Suc m" by (cases n) auto
  with 9 show ?case by simp
next
  case 10
  then show ?case by simp
next
  case (11 k v)
  then obtain m where n: "n = Suc m" by (cases n) auto
  with 11 show ?case by (simp add: json_quote_def unquote_key)
next
  case (12 k v e kvs)
  then obtain m where n: "n = Suc m" by (cases n) auto
  with 12 show ?case by (simp add: json_quote_def unquote_key)
qed

lemma parse_print_json: "json_ok v \<Longrightarrow> parse_json (print_json v) = Some (canon_json v)"
  using parse_print(1) [of v "[]" "2 * length (print_json v) + 2"] by (simp add: parse_json_def)

section \<open>Integers as literals\<close>

lemma takeWhile_digits: "list_all is_digit s \<Longrightarrow> takeWhile is_digit s = s \<and> dropWhile is_digit s = []"
  by (induction s) auto

lemma itoa_first: "0 < n \<Longrightarrow> hd (itoa n) \<noteq> CHR ''0''"
proof (induction n rule: itoa.induct)
  case (1 n)
  show ?case
  proof (cases "n < 10")
    case True
    then have "itoa n = [char_of (48 + n)]" by (subst itoa.simps) simp
    moreover have "char_of (48 + n) \<noteq> CHR ''0''"
    proof
      assume "char_of (48 + n) = CHR ''0''"
      then have "byte (char_of (48 + n)) = byte (CHR ''0'')" by (rule arg_cong)
      with True 1(2) show False by simp
    qed
    ultimately show ?thesis by simp
  next
    case False
    then have "itoa n = itoa (n div 10) @ [char_of (48 + n mod 10)]" by (subst itoa.simps) simp
    with 1(1) [OF False] False show ?thesis by simp
  qed
qed

lemma scan_unsigned_itoa: "scan_unsigned (itoa n) = Some (itoa n, [])"
proof -
  obtain c r where cr: "itoa n = c # r" by (cases "itoa n") auto
  then have d: "is_digit c" "list_all is_digit r"
    using itoa_digits [of n] by simp_all
  show ?thesis
  proof (cases "n = 0")
    case True
    have z: "itoa 0 = ''0''" by (subst itoa.simps) (simp add: char_of_def bit_simps)
    show ?thesis unfolding True z by (simp add: scan_unsigned_def scan_int_def scan_frac_def scan_exp_def)
  next
    case False
    then have "c \<noteq> CHR ''0''" using itoa_first [of n] cr by simp
    then show ?thesis
      using d by (simp add: cr scan_unsigned_def scan_int_def scan_frac_def scan_exp_def takeWhile_digits)
  qed
qed

lemma number_ok_int_text [simp]: "number_ok (int_text i)"
proof -
  have "scan_number (itoa m) = Some (itoa m, [])" for m
  proof -
    obtain c r where cr: "itoa m = c # r" by (cases "itoa m") auto
    then have "c \<noteq> CHR ''-''"
      using itoa_digits [of m] by (auto simp: is_digit_def)
    with scan_unsigned_itoa [of m] cr show ?thesis by (simp add: scan_number_def)
  qed
  then show ?thesis
    by (simp add: number_ok_def int_text_def scan_number_def scan_unsigned_itoa)
qed

lemma int_of_literal_int_text:
  assumes "- 9223372036854775808 \<le> i" and "i < 9223372036854775808"
  shows "int_of_literal (int_text i) = Some i"
proof -
  have nm: "\<not> HasPrefix (itoa m) ''-''" for m
    using itoa_digits [of m] by (cases "itoa m") (auto simp: HasPrefix_def is_digit_def)
  have "int_of_literal (CHR ''-'' # itoa m) = Some (- int m)" if "- 9223372036854775808 \<le> - int m" for m
    using that by (simp add: int_of_literal_def TrimPrefix_def HasPrefix_def Let_def itoa_digits)
  moreover have "int_of_literal (itoa m) = Some (int m)" if "int m < 9223372036854775808" for m
    using that by (simp add: int_of_literal_def TrimPrefix_def nm Let_def itoa_digits)
  ultimately show ?thesis
    using assms by (auto simp: int_text_def)
qed

section \<open>Decoding into Go values\<close>

text \<open>
  \<open>json.Unmarshal\<close> into a struct: every member whose name is the field's, upper or lower case, is read into the
  field, the later ones over the earlier ones; \<open>null\<close> leaves the field alone; a value of the wrong kind is an error.
\<close>

definition members_named :: "string \<Rightarrow> (string \<times> json) list \<Rightarrow> json list" where
  "members_named f kvs = map snd (filter (\<lambda>(k, v). EqualFold k f) kvs)"

definition obj_field :: "(json \<Rightarrow> 'a \<Rightarrow> 'a option) \<Rightarrow> string \<Rightarrow> 'a \<Rightarrow> (string \<times> json) list \<Rightarrow> 'a option" where
  "obj_field rd f zero kvs = foldl (\<lambda>acc v. Option.bind acc (rd v)) (Some zero) (members_named f kvs)"

definition read_str :: "json \<Rightarrow> string \<Rightarrow> string option" where
  "read_str v old = (case v of JStr s \<Rightarrow> Some s | JNull \<Rightarrow> Some old | _ \<Rightarrow> None)"

definition read_int :: "json \<Rightarrow> int \<Rightarrow> int option" where
  "read_int v old = (case v of JNum n \<Rightarrow> int_of_literal n | JNull \<Rightarrow> Some old | _ \<Rightarrow> None)"

text \<open>A slice: every element read into a zero value, all or an error.\<close>

fun read_all :: "(json \<Rightarrow> 'a option) \<Rightarrow> json list \<Rightarrow> 'a list option" where
  "read_all rd [] = Some []"
| "read_all rd (v # vs) =
     (case (rd v, read_all rd vs) of (Some x, Some xs) \<Rightarrow> Some (x # xs) | _ \<Rightarrow> None)"

definition read_list :: "(json \<Rightarrow> 'a option) \<Rightarrow> json \<Rightarrow> 'a list \<Rightarrow> 'a list option" where
  "read_list rd v old = (case v of JArr vs \<Rightarrow> read_all rd vs | JNull \<Rightarrow> Some [] | _ \<Rightarrow> None)"

definition read_strs :: "json \<Rightarrow> string list \<Rightarrow> string list option" where
  "read_strs = read_list (\<lambda>v. read_str v [])"

definition read_struct :: "((string \<times> json) list \<Rightarrow> 'a option) \<Rightarrow> json \<Rightarrow> 'a option" where
  "read_struct rd v = (case v of JObj kvs \<Rightarrow> rd kvs | JNull \<Rightarrow> rd [] | _ \<Rightarrow> None)"

lemma read_all_map: "(\<And>x. x \<in> set xs \<Longrightarrow> rd (f x) = Some (g x)) \<Longrightarrow> read_all rd (map f xs) = Some (map g xs)"
  by (induction xs) auto

lemma read_strs_map [simp]: "read_strs (JArr (map JStr xs)) old = Some xs"
  by (simp add: read_strs_def read_list_def read_all_map [where g = "\<lambda>x. x"] read_str_def)

lemma to_valid_ascii: "list_all (\<lambda>c. byte c < 128) s \<Longrightarrow> to_valid s = s"
  by (rule to_valid_id [OF ascii_valid])

lemma obj_field_Nil [simp]: "obj_field rd f z [] = Some z"
  by (simp add: obj_field_def members_named_def)

lemma obj_field_Cons [simp]:
  "obj_field rd f z ((k, v) # kvs) =
     (if EqualFold k f then (case rd v z of None \<Rightarrow> None | Some y \<Rightarrow> obj_field rd f y kvs) else obj_field rd f z kvs)"
proof -
  have none: "foldl (\<lambda>acc v. Option.bind acc (rd v)) None vs = None" for vs
    by (induction vs) simp_all
  show ?thesis
    by (auto simp: obj_field_def members_named_def none split: option.split)
qed

lemma fold_ascii: "EqualFold s t \<longleftrightarrow> map lower_char s = map lower_char t"
  by (simp add: EqualFold_def ToLower_def)

lemma lower_eval: "lower_char (CHR ''_'') = CHR ''_''" "is_upper c \<longleftrightarrow> 65 \<le> byte c \<and> byte c \<le> 90"
  by (simp_all add: lower_char_def is_upper_def)

end
