(* ===== verification/World.thy ===== *)
theory World
  imports Go_Json_Value Config_Parse
begin

text \<open>
  The world the services run in: the tables of models/models.go with the keys of
  database/migrations/000001_baseline.up.sql, the statements the services send to them, and the
  environment; with the key-value server, the code files and the registries of micro-services.

  A table is the list of its rows in primary key order, the order in which gorm's \<open>First\<close> looks. A
  statement is atomic; the environment decides which statements fail (\<open>db_fault\<close>), and a failed one
  changes nothing. String columns are compared as the collation of the tables does: two strings are
  equal if their collation keys are (\<open>coll\<close>). A timestamp column keeps \<open>db_ts\<close> of the time it is given.
  Times are nanoseconds; every call of \<open>time.Now\<close> reads the next value of the clock.

  Not kept: the columns \<open>created_at\<close> and \<open>updated_at\<close>, column lengths, and the
  difference between SQL null and the empty string in columns the program always fills.
\<close>

section \<open>Rows\<close>

type_synonym time = int

record user =
  UID :: nat
  u_UUID :: string
  Email :: string
  Avatar :: string
  u_Password :: string
  IP :: string
  Permission :: int
  LastSignAt :: "time option"
  RegisterAt :: "time option"
  Verified :: bool
  Username :: string
  RegIP :: string
  TOTP :: string
  TwoFA :: bool
  WebAuthn2FAEnabled :: bool
  Email2FAEnabled :: bool
  RecoveryKey :: string
  RecoveryKeyEnabled :: bool
  u_DeletedAt :: "time option"

record client =
  cl_ID :: nat
  cl_ClientID :: string
  cl_ClientSecret :: string
  cl_Name :: string
  cl_Type :: string
  cl_GrantTypes :: string
  cl_RedirectURIs :: string
  cl_Scopes :: string
  cl_IsInternal :: bool
  cl_IsSuper :: bool
  cl_IsActive :: bool

record auth_code =
  ac_ID :: nat
  ac_Code :: string
  ac_ClientID :: string
  ac_UserID :: string
  ac_RedirectURI :: string
  ac_Scopes :: string
  ac_CodeChallenge :: string
  ac_CodeChallengeMethod :: string
  ac_ExpiresAt :: time
  ac_ConsumedAt :: "time option"

record access_token =
  at_ID :: nat
  at_AccessToken :: string
  at_ClientID :: string
  at_UserID :: "string option"
  at_Scopes :: string
  at_SubjectType :: string
  at_TargetUID :: "nat option"
  at_TargetEmail :: "string option"
  at_ExpiresAt :: time
  at_RevokedAt :: "time option"

record refresh_token =
  rt_ID :: nat
  rt_RefreshToken :: string
  rt_AccessTokenID :: nat
  rt_ClientID :: string
  rt_UserID :: string
  rt_Scopes :: string
  rt_ExpiresAt :: time
  rt_RevokedAt :: "time option"

record webauthn_credential =
  wc_ID :: nat
  wc_UserID :: string
  wc_Name :: string
  wc_CredentialID :: string
  wc_CredentialIDHash :: string
  wc_CredentialJSON :: string
  wc_LastUsedAt :: "time option"

record deleted_account =
  da_UID :: nat
  da_DeletedAt :: time

text \<open>The tables, and the next automatic key of each table that has one.\<close>

record tables =
  users :: "user list"
  clients :: "client list"
  auth_codes :: "auth_code list"
  access_tokens :: "access_token list"
  refresh_tokens :: "refresh_token list"
  credentials :: "webauthn_credential list"
  deleted_accounts :: "deleted_account list"

record sequences =
  next_client :: nat
  next_code :: nat
  next_access :: nat
  next_refresh :: nat
  next_credential :: nat

section \<open>Registries of micro-services\<close>

text \<open>registry/presence.go and the rule types of the route, relay and hook controllers.\<close>

record presence_scope =
  ps_Name :: string
  ps_FrontendAreas :: "string list"

record presence_record =
  pr_Name :: string
  pr_Scope :: "presence_scope option"
  pr_SecurityLevel :: int
  pr_RootMetadata :: "(string \<times> json) list"
  pr_InteractsWith :: "string list"
  pr_InternalKey :: string
  pr_FirstSeen :: time
  pr_LastSeen :: time
  pr_ExpiresAt :: time

record relay_rule =
  rl_Service :: string
  rl_Dest :: string
  rl_Source :: string

record route_rule =
  rr_Service :: string
  rr_Scope :: string
  rr_Paths :: "string list"
  rr_PreURL :: string
  rr_PostURL :: string

record hook_rule =
  hk_Service :: string
  hk_Paths :: "string list"
  hk_Phase :: string
  hk_Capability :: string
  hk_Priority :: int
  hk_FailPolicy :: string
  hk_PatchAllowlist :: "string list"
  hk_URL :: string

section \<open>The world and the environment\<close>

text \<open>
  A Go map is an association list with distinct keys, in the order a \<open>range\<close> loop visits it. The key-value server
  holds strings and sets, each with the time it expires, if any. A mail is what \<open>smtp.SendMail\<close> is called with.
  Of the file system the code files and the tree of the SDK packages are kept, the second as a map from cleaned paths,
  split at their slashes, to the bytes of a file or \<open>None\<close> for a directory.
\<close>

datatype kv_value = KStr string | KSet "string list"

record mail =
  ml_Addr :: string
  ml_Auth :: "(string \<times> string) option"
  ml_From :: string
  ml_To :: string
  ml_Text :: string

record world =
  db :: tables
  seqs :: sequences
  ticks :: nat
  stmts :: nat
  draws :: nat
  kv :: "(string \<times> kv_value \<times> time option) list"
  cmds :: nat
  code_files :: "(string \<times> string) list"
  file_ops :: nat
  presence :: "(string \<times> presence_record) list"
  routes :: "(string \<times> route_rule list) list"
  relays :: "(string \<times> relay_rule) list"
  hooks :: "(string \<times> hook_rule list) list"
  calls :: nat
  outbox :: "mail list"
  disk :: "(string list \<times> string option) list"

text \<open>
  What the readers of archives return (archive/tar over compress/gzip, archive/zip): the entries up to the end or the
  first error. The content of an entry is \<open>None\<close> if reading it fails.
\<close>

datatype tar_kind = TarFile | TarDir | TarSymlink | TarLink | TarOther

record tar_entry =
  te_Name :: string
  te_Kind :: tar_kind
  te_Content :: "string option"

text \<open>An outgoing HTTP request, and the part of a reply the program reads.\<close>

record http_call =
  hc_Method :: string
  hc_URL :: string
  hc_Headers :: "(string \<times> string) list"
  hc_Body :: string

record http_reply =
  hp_Status :: nat
  hp_ContentType :: string
  hp_Body :: string

text \<open>Errors: those of package services, those of the database, and those of the JSON decoder.\<close>

datatype oauth_error =
  InvalidClient | InvalidGrant | InvalidScope | UnauthorizedClient | InvalidRedirectURI
| UnsupportedGrantType | InvalidCodeChallenge | AccessDenied | InvalidTarget | InsufficientScope
| InvalidClientMetadata | RegistrationConflict

datatype db_error = RecordNotFound | DuplicateKey | ForeignKey | Fault

text \<open>Of package services, \<open>NotConfigured\<close> with the error it wraps, if any; \<open>OtherError\<close> is an error known by its text.\<close>

datatype webauthn_error = NotConfigured "string option" | InvalidFlow | CredentialNotFound

datatype go_error = OAuth oauth_error | Db db_error | JsonError | WebAuthn webauthn_error | OtherError string

text \<open>
  The WebAuthn library (github.com/go-webauthn): what its calls return. Session data are their JSON value and a credential
  its JSON text; the number tells calls with the same arguments apart, and an \<open>Inl\<close> is the text of an error.
  \<open>wl_New\<close> is the error of a configuration, if any; \<open>wl_handle\<close> is the credential id and the user handle a
  passkey login looks an account up by, and \<open>wl_lookup_error\<close> what it makes of the error of that look-up.
\<close>

record webauthn_identity =
  wi_ID :: string
  wi_Name :: string
  wi_DisplayName :: string
  wi_Credentials :: "string list"

text \<open>Its configuration: who the site is, and how long the two ceremonies may take.\<close>

record wa_timeout =
  wt_Enforce :: bool
  wt_Timeout :: int

record wa_config =
  wc_RPDisplayName :: string
  wc_RPID :: string
  wc_RPOrigins :: "string list"
  wc_Login :: wa_timeout
  wc_Registration :: wa_timeout

record webauthn_lib =
  wl_New :: "wa_config \<Rightarrow> string option"
  wl_BeginRegistration :: "nat \<Rightarrow> webauthn_identity \<Rightarrow> string \<Rightarrow> string + json \<times> json"
  wl_BeginLogin :: "nat \<Rightarrow> webauthn_identity \<Rightarrow> string \<Rightarrow> string + json \<times> json"
  wl_BeginDiscoverableLogin :: "nat \<Rightarrow> string \<Rightarrow> string + json \<times> json"
  wl_ParseCreation :: "string \<Rightarrow> string + string"
  wl_ParseAssertion :: "string \<Rightarrow> string + string"
  wl_CreateCredential :: "nat \<Rightarrow> webauthn_identity \<Rightarrow> json \<Rightarrow> string \<Rightarrow> string + string"
  wl_ValidateLogin :: "nat \<Rightarrow> webauthn_identity \<Rightarrow> json \<Rightarrow> string \<Rightarrow> string + string"
  wl_handle :: "nat \<Rightarrow> json \<Rightarrow> string \<Rightarrow> string + string \<times> string"
  wl_lookup_error :: "go_error \<Rightarrow> go_error"
  wl_ValidatePasskeyLogin :: "nat \<Rightarrow> webauthn_identity \<Rightarrow> json \<Rightarrow> string \<Rightarrow> string + string"
  wl_session :: "json \<Rightarrow> json option"
  wl_Expires :: "json \<Rightarrow> time"
  wl_credential :: "string \<Rightarrow> string option"
  wl_credential_id :: "string \<Rightarrow> string"

text \<open>
  The environment: the configuration the services read, the clock, the random source, the failures of each server,
  the network (no reply is a failed call), and the third-party bcrypt. \<open>valid_address\<close> is
  \<open>mail.ParseAddress\<close> without error, \<open>valid_url\<close> the same of \<open>http.NewRequest\<close>;
  \<open>time_text\<close> and \<open>time_of_text\<close> are the JSON form of a time. \<open>uid_eq\<close> is how the database compares a text with the
  integer column uid, \<open>header_order\<close> and \<open>range_order\<close> the order in which a range loop visits the header map of a mail and
  the patch map of a hook, \<open>json_text\<close> the text gin writes for a payload map, \<open>captcha_question\<close>
  and \<open>captcha_image\<close> the third-party captcha driver, \<open>draw_int\<close> the integers \<open>rand.Int\<close> draws, before the reduction to the
  range asked for, and \<open>file_torn\<close> what a failed write leaves of the data (nothing done, or a part).
  \<open>tar_gz\<close> and \<open>zip_files\<close> read an archive (\<open>None\<close> is no archive, the flag tells the end from an error), and \<open>removed\<close> is what a failed
  removal of a tree has removed of it; \<open>quote\<close> is \<open>strconv.Quote\<close>.
  \<open>client_created\<close> and \<open>credential_created\<close> are the columns \<open>created_at\<close> of a row, by its key, and \<open>error_text\<close> the
  text of the error of a statement, a command or a decoder.
\<close>

record env =
  oauth2 :: oauth2_config
  manage_token :: string
  redis_prefix :: string
  redis_ready :: bool
  security :: security_config
  code_store :: verification_code_config
  smtp :: smtp_config
  webauthn_cfg :: webauthn_config
  yggdrasil_url :: string
  clock :: "nat \<Rightarrow> time"
  db_fault :: "nat \<Rightarrow> bool"
  db_ts :: "time \<Rightarrow> time"
  coll :: "string \<Rightarrow> string"
  entropy :: "nat \<Rightarrow> nat \<Rightarrow> string option"
  kv_fault :: "nat \<Rightarrow> bool"
  kv_clock :: "nat \<Rightarrow> time"
  draw_int :: "nat \<Rightarrow> nat"
  header_order :: "nat \<Rightarrow> (string \<times> string) list \<Rightarrow> (string \<times> string) list"
  range_order :: "nat \<Rightarrow> (string \<times> json) list \<Rightarrow> (string \<times> json) list"
  json_text :: "(string \<times> json) list \<Rightarrow> string"
  uid_eq :: "string \<Rightarrow> nat \<Rightarrow> bool"
  captcha_question :: "nat \<Rightarrow> string \<times> string"
  captcha_image :: "string \<Rightarrow> string option"
  file_fault :: "nat \<Rightarrow> bool"
  file_torn :: "nat \<Rightarrow> nat option"
  network :: "nat \<Rightarrow> http_call \<Rightarrow> http_reply option"
  valid_url :: "string \<Rightarrow> bool"
  mail_fault :: "nat \<Rightarrow> string option"
  bcrypt_check :: "string \<Rightarrow> string \<Rightarrow> bool"
  bcrypt_hash :: "nat \<Rightarrow> string \<Rightarrow> string option"
  valid_address :: "string \<Rightarrow> bool"
  webauthn :: webauthn_lib
  client_created :: "nat \<Rightarrow> time"
  credential_created :: "nat \<Rightarrow> time"
  time_text :: "time \<Rightarrow> string option"
  time_of_text :: "string \<Rightarrow> time option"
  error_text :: "nat \<Rightarrow> string"
  db_ready :: bool
  site :: site_config
  server :: server_config
  frontend_url :: string
  callback_url :: string
  sdk_packages :: sdk_packages_config
  tar_gz :: "string \<Rightarrow> (tar_entry list \<times> bool) option"
  zip_files :: "string \<Rightarrow> (string \<times> string option) list option"
  removed :: "nat \<Rightarrow> string list \<Rightarrow> bool"
  quote :: "string \<Rightarrow> string"

type_synonym 'a go = "(world, 'a) state"
type_synonym 'a result_of = "(world, go_error + 'a) state"

definition nanos :: "int \<Rightarrow> time" where
  "nanos sec = sec * 1000000000"

text \<open>A number of seconds as a \<open>time.Duration\<close>: a 64-bit count of nanoseconds.\<close>

definition seconds :: "int \<Rightarrow> int" where
  "seconds n = int64_wrap (n * 1000000000)"

definition http_do :: "env \<Rightarrow> http_call \<Rightarrow> http_reply option go" where
  "http_do E c = State (\<lambda>w. (network E (calls w) c, w\<lparr>calls := Suc (calls w)\<rparr>))"

definition now :: "env \<Rightarrow> time go" where
  "now E = State (\<lambda>w. (clock E (ticks w), w\<lparr>ticks := Suc (ticks w)\<rparr>))"

text \<open>\<open>utils.GenerateRandomToken\<close>: the empty string if the random source fails.\<close>

definition GenerateRandomToken :: "env \<Rightarrow> nat \<Rightarrow> string go" where
  "GenerateRandomToken E n = State (\<lambda>w.
     (case entropy E (draws w) n of None \<Rightarrow> [] | Some b \<Rightarrow> hex_encode b, w\<lparr>draws := Suc (draws w)\<rparr>))"

section \<open>Statements\<close>

text \<open>A statement reads the tables and the key counters and returns them changed.\<close>

definition stmt :: "env \<Rightarrow> (tables \<Rightarrow> sequences \<Rightarrow> (db_error + 'a) \<times> tables \<times> sequences) \<Rightarrow> 'a result_of" where
  "stmt E f = State (\<lambda>w.
     let w1 = w\<lparr>stmts := Suc (stmts w)\<rparr> in
     if db_fault E (stmts w) then (Inl (Db Fault), w1)
     else case f (db w) (seqs w) of
       (Inl e, _, q) \<Rightarrow> (Inl (Db e), w1\<lparr>seqs := q\<rparr>)
     | (Inr x, d, q) \<Rightarrow> (Inr x, w1\<lparr>db := d, seqs := q\<rparr>))"

definition db_first :: "env \<Rightarrow> (tables \<Rightarrow> 'r list) \<Rightarrow> ('r \<Rightarrow> bool) \<Rightarrow> 'r result_of" where
  "db_first E tab P = stmt E (\<lambda>d q.
     (case find P (tab d) of Some r \<Rightarrow> Inr r | None \<Rightarrow> Inl RecordNotFound, d, q))"

definition db_count :: "env \<Rightarrow> (tables \<Rightarrow> 'r list) \<Rightarrow> ('r \<Rightarrow> bool) \<Rightarrow> nat result_of" where
  "db_count E tab P = stmt E (\<lambda>d q. (Inr (length (filter P (tab d))), d, q))"

definition db_find :: "env \<Rightarrow> (tables \<Rightarrow> 'r list) \<Rightarrow> ('r \<Rightarrow> bool) \<Rightarrow> 'r list result_of" where
  "db_find E tab P = stmt E (\<lambda>d q. (Inr (filter P (tab d)), d, q))"

text \<open>An UPDATE of the rows with \<open>P\<close>; \<open>RowsAffected\<close> counts the rows it changed.\<close>

definition update_rows :: "('r \<Rightarrow> bool) \<Rightarrow> ('r \<Rightarrow> 'r) \<Rightarrow> 'r list \<Rightarrow> 'r list" where
  "update_rows P f rs = map (\<lambda>r. if P r then f r else r) rs"

definition changed_rows :: "('r \<Rightarrow> bool) \<Rightarrow> ('r \<Rightarrow> 'r) \<Rightarrow> 'r list \<Rightarrow> nat" where
  "changed_rows P f rs = length (filter (\<lambda>r. P r \<and> f r \<noteq> r) rs)"

definition update_auth_codes :: "env \<Rightarrow> (auth_code \<Rightarrow> bool) \<Rightarrow> (auth_code \<Rightarrow> auth_code) \<Rightarrow> nat result_of" where
  "update_auth_codes E P f = stmt E (\<lambda>d q.
     (Inr (changed_rows P f (auth_codes d)), d\<lparr>auth_codes := update_rows P f (auth_codes d)\<rparr>, q))"

definition update_access_tokens :: "env \<Rightarrow> (access_token \<Rightarrow> bool) \<Rightarrow> (access_token \<Rightarrow> access_token) \<Rightarrow> nat result_of" where
  "update_access_tokens E P f = stmt E (\<lambda>d q.
     (Inr (changed_rows P f (access_tokens d)), d\<lparr>access_tokens := update_rows P f (access_tokens d)\<rparr>, q))"

definition update_refresh_tokens :: "env \<Rightarrow> (refresh_token \<Rightarrow> bool) \<Rightarrow> (refresh_token \<Rightarrow> refresh_token) \<Rightarrow> nat result_of" where
  "update_refresh_tokens E P f = stmt E (\<lambda>d q.
     (Inr (changed_rows P f (refresh_tokens d)), d\<lparr>refresh_tokens := update_rows P f (refresh_tokens d)\<rparr>, q))"

definition update_clients :: "env \<Rightarrow> (client \<Rightarrow> bool) \<Rightarrow> (client \<Rightarrow> client) \<Rightarrow> nat result_of" where
  "update_clients E P f = stmt E (\<lambda>d q.
     (Inr (changed_rows P f (clients d)), d\<lparr>clients := update_rows P f (clients d)\<rparr>, q))"

definition update_users :: "env \<Rightarrow> (user \<Rightarrow> bool) \<Rightarrow> (user \<Rightarrow> user) \<Rightarrow> nat result_of" where
  "update_users E P f = stmt E (\<lambda>d q.
     (Inr (changed_rows P f (users d)), d\<lparr>users := update_rows P f (users d)\<rparr>, q))"

definition update_credentials :: "env \<Rightarrow> (webauthn_credential \<Rightarrow> bool) \<Rightarrow> (webauthn_credential \<Rightarrow> webauthn_credential) \<Rightarrow> nat result_of" where
  "update_credentials E P f = stmt E (\<lambda>d q.
     (Inr (changed_rows P f (credentials d)), d\<lparr>credentials := update_rows P f (credentials d)\<rparr>, q))"

subsection \<open>Inserts\<close>

text \<open>
  The keys: the primary key, the unique column under the collation, and the foreign keys to \<open>users.uuid\<close> and
  \<open>oauth2_access_tokens.id\<close>. A refused insert still uses up its automatic key.
\<close>

definition user_exists :: "env \<Rightarrow> string \<Rightarrow> tables \<Rightarrow> bool" where
  "user_exists E uuid d \<longleftrightarrow> list_ex (\<lambda>u. coll E (u_UUID u) = coll E uuid) (users d)"

definition insert_client :: "env \<Rightarrow> client \<Rightarrow> client result_of" where
  "insert_client E c = stmt E (\<lambda>d q.
     let q' = q\<lparr>next_client := Suc (next_client q)\<rparr>; c' = c\<lparr>cl_ID := next_client q\<rparr> in
     if list_ex (\<lambda>r. cl_ID r = next_client q \<or> coll E (cl_ClientID r) = coll E (cl_ClientID c)) (clients d)
     then (Inl DuplicateKey, d, q')
     else (Inr c', d\<lparr>clients := clients d @ [c']\<rparr>, q'))"

definition insert_credential :: "env \<Rightarrow> webauthn_credential \<Rightarrow> webauthn_credential result_of" where
  "insert_credential E c = stmt E (\<lambda>d q.
     let q' = q\<lparr>next_credential := Suc (next_credential q)\<rparr>; c' = c\<lparr>wc_ID := next_credential q\<rparr> in
     if list_ex (\<lambda>r. wc_ID r = next_credential q \<or> coll E (wc_CredentialIDHash r) = coll E (wc_CredentialIDHash c)) (credentials d)
     then (Inl DuplicateKey, d, q')
     else if \<not> user_exists E (wc_UserID c) d then (Inl ForeignKey, d, q')
     else (Inr c', d\<lparr>credentials := credentials d @ [c']\<rparr>, q'))"

definition insert_auth_code :: "env \<Rightarrow> auth_code \<Rightarrow> auth_code result_of" where
  "insert_auth_code E a = stmt E (\<lambda>d q.
     let q' = q\<lparr>next_code := Suc (next_code q)\<rparr>; a' = a\<lparr>ac_ID := next_code q\<rparr> in
     if list_ex (\<lambda>r. ac_ID r = next_code q \<or> coll E (ac_Code r) = coll E (ac_Code a)) (auth_codes d) then (Inl DuplicateKey, d, q')
     else if \<not> user_exists E (ac_UserID a) d then (Inl ForeignKey, d, q')
     else (Inr a', d\<lparr>auth_codes := auth_codes d @ [a'\<lparr>ac_ExpiresAt := db_ts E (ac_ExpiresAt a)\<rparr>]\<rparr>, q'))"

definition insert_access_token :: "env \<Rightarrow> access_token \<Rightarrow> access_token result_of" where
  "insert_access_token E t = stmt E (\<lambda>d q.
     let q' = q\<lparr>next_access := Suc (next_access q)\<rparr>; t' = t\<lparr>at_ID := next_access q\<rparr> in
     if list_ex (\<lambda>r. at_ID r = next_access q \<or> coll E (at_AccessToken r) = coll E (at_AccessToken t)) (access_tokens d) then (Inl DuplicateKey, d, q')
     else if (case at_UserID t of None \<Rightarrow> False | Some u \<Rightarrow> \<not> user_exists E u d) then (Inl ForeignKey, d, q')
     else (Inr t', d\<lparr>access_tokens := access_tokens d @ [t'\<lparr>at_ExpiresAt := db_ts E (at_ExpiresAt t)\<rparr>]\<rparr>, q'))"

definition insert_refresh_token :: "env \<Rightarrow> refresh_token \<Rightarrow> refresh_token result_of" where
  "insert_refresh_token E t = stmt E (\<lambda>d q.
     let q' = q\<lparr>next_refresh := Suc (next_refresh q)\<rparr>; t' = t\<lparr>rt_ID := next_refresh q\<rparr> in
     if list_ex (\<lambda>r. rt_ID r = next_refresh q \<or> coll E (rt_RefreshToken r) = coll E (rt_RefreshToken t)) (refresh_tokens d) then (Inl DuplicateKey, d, q')
     else if \<not> list_ex (\<lambda>a. at_ID a = rt_AccessTokenID t) (access_tokens d) \<or> \<not> user_exists E (rt_UserID t) d
     then (Inl ForeignKey, d, q')
     else (Inr t', d\<lparr>refresh_tokens := refresh_tokens d @ [t'\<lparr>rt_ExpiresAt := db_ts E (rt_ExpiresAt t)\<rparr>]\<rparr>, q'))"

subsection \<open>Deletes\<close>

text \<open>A row of the access tokens takes its refresh tokens with it, a user everything that refers to it.\<close>

definition drop_access :: "(access_token \<Rightarrow> bool) \<Rightarrow> tables \<Rightarrow> tables" where
  "drop_access P d =
     (let gone = map at_ID (filter P (access_tokens d)) in
      d\<lparr>access_tokens := filter (\<lambda>t. \<not> P t) (access_tokens d),
        refresh_tokens := filter (\<lambda>r. rt_AccessTokenID r \<notin> set gone) (refresh_tokens d)\<rparr>)"

definition delete_access_tokens :: "env \<Rightarrow> (access_token \<Rightarrow> bool) \<Rightarrow> nat result_of" where
  "delete_access_tokens E P = stmt E (\<lambda>d q. (Inr (length (filter P (access_tokens d))), drop_access P d, q))"

definition delete_auth_codes :: "env \<Rightarrow> (auth_code \<Rightarrow> bool) \<Rightarrow> nat result_of" where
  "delete_auth_codes E P = stmt E (\<lambda>d q.
     (Inr (length (filter P (auth_codes d))), d\<lparr>auth_codes := filter (\<lambda>a. \<not> P a) (auth_codes d)\<rparr>, q))"

definition delete_refresh_tokens :: "env \<Rightarrow> (refresh_token \<Rightarrow> bool) \<Rightarrow> nat result_of" where
  "delete_refresh_tokens E P = stmt E (\<lambda>d q.
     (Inr (length (filter P (refresh_tokens d))), d\<lparr>refresh_tokens := filter (\<lambda>a. \<not> P a) (refresh_tokens d)\<rparr>, q))"

definition delete_credentials :: "env \<Rightarrow> (webauthn_credential \<Rightarrow> bool) \<Rightarrow> nat result_of" where
  "delete_credentials E P = stmt E (\<lambda>d q.
     (Inr (length (filter P (credentials d))), d\<lparr>credentials := filter (\<lambda>a. \<not> P a) (credentials d)\<rparr>, q))"

definition delete_deleted_accounts :: "env \<Rightarrow> (deleted_account \<Rightarrow> bool) \<Rightarrow> nat result_of" where
  "delete_deleted_accounts E P = stmt E (\<lambda>d q.
     (Inr (length (filter P (deleted_accounts d))), d\<lparr>deleted_accounts := filter (\<lambda>a. \<not> P a) (deleted_accounts d)\<rparr>, q))"

definition drop_users :: "env \<Rightarrow> (user \<Rightarrow> bool) \<Rightarrow> tables \<Rightarrow> tables" where
  "drop_users E P d =
     (let gone = map (\<lambda>u. coll E (u_UUID u)) (filter P (users d));
          d1 = drop_access (\<lambda>t. case at_UserID t of None \<Rightarrow> False | Some u \<Rightarrow> coll E u \<in> set gone) d
      in d1\<lparr>users := filter (\<lambda>u. \<not> P u) (users d1),
            auth_codes := filter (\<lambda>a. coll E (ac_UserID a) \<notin> set gone) (auth_codes d1),
            refresh_tokens := filter (\<lambda>r. coll E (rt_UserID r) \<notin> set gone) (refresh_tokens d1),
            credentials := filter (\<lambda>c. coll E (wc_UserID c) \<notin> set gone) (credentials d1)\<rparr>)"

definition delete_users :: "env \<Rightarrow> (user \<Rightarrow> bool) \<Rightarrow> nat result_of" where
  "delete_users E P = stmt E (\<lambda>d q. (Inr (length (filter P (users d))), drop_users E P d, q))"

subsection \<open>Transactions\<close>

text \<open>
  \<open>db.Transaction(f)\<close>: begin, the body, and commit, or on an error of the body or of the commit the
  tables of the begin; the automatic keys stay used.
\<close>

definition restore :: "tables \<Rightarrow> 'e \<Rightarrow> (world, 'e + 'a) state" where
  "restore d e = do { modify (\<lambda>w. w\<lparr>db := d\<rparr>); ret (Inl e) }"

definition transaction :: "env \<Rightarrow> 'a result_of \<Rightarrow> 'a result_of" where
  "transaction E body = do {
     begin_r \<leftarrow> stmt E (\<lambda>d q. (Inr (), d, q));
     case begin_r of
       Inl e \<Rightarrow> ret (Inl e)
     | Inr _ \<Rightarrow> do {
         d0 \<leftarrow> gets db;
         r \<leftarrow> body;
         case r of
           Inl e \<Rightarrow> restore d0 e
         | Inr x \<Rightarrow> do {
             commit_r \<leftarrow> stmt E (\<lambda>d q. (Inr (), d, q));
             case commit_r of
               Inl e \<Rightarrow> restore d0 e
             | Inr _ \<Rightarrow> ret (Inr x)
           }
       }
   }"

end
