(* ===== verification/OAuth2_Service.thy ===== *)
theory OAuth2_Service
  imports World Go_Hash
begin

text \<open>
  services/oauth2_service.go, function by function. A function that returns \<open>(x, error)\<close> is a
  computation with an \<open>Inl\<close> for the error. The scope, grant type and redirect columns hold JSON text
  as in the database. A nil slice and an empty one are the same list, so the column text \<open>null\<close> that
  Marshal writes for a nil slice is \<open>[]\<close> here; both read back as no strings.
\<close>

section \<open>Helpers\<close>

definition marshalStringSlice :: "string list \<Rightarrow> string" where
  "marshalStringSlice values = marshal_strings values"

definition unmarshalStringSlice :: "string \<Rightarrow> string list option" where
  "unmarshalStringSlice raw = (if TrimSpace raw = [] then Some [] else unmarshal_strings raw)"

definition containsAny :: "string list \<Rightarrow> string list \<Rightarrow> bool" where
  "containsAny have wants = list_ex (\<lambda>want. List.member have want) wants"

definition splitScopes :: "string \<Rightarrow> string list" where
  "splitScopes scope = filter (\<lambda>item. item \<noteq> []) (Fields (TrimSpace scope))"

definition publicSiteScopes :: "string list" where
  "publicSiteScopes = [''user.read'', ''user.delete'', ''user.delete.list'', ''profile.change-username'',
     ''totp.setup'', ''totp.toggle'', ''webauthn.register'', ''webauthn.credentials'', ''webauthn.2fa'',
     ''email-2fa.toggle'', ''user.security.manage'']"

definition targetedServiceScopes :: "string list" where
  "targetedServiceScopes = [''user.read.as-service'', ''user.delete.as-service'', ''user.delete.list.as-service'',
     ''profile.change-username.as-service'', ''totp.setup.as-service'', ''totp.toggle.as-service'',
     ''webauthn.register.as-service'', ''webauthn.credentials.as-service'', ''webauthn.2fa.as-service'',
     ''email-2fa.toggle.as-service'', ''user.security.manage.as-service'']"

definition serviceSiteScopes :: "string list" where
  "serviceSiteScopes = [''user.claim.as-service'', ''user.force-bind.as-service''] @ targetedServiceScopes"

definition databaseScopes :: "string list" where
  "databaseScopes = [''db.line.read'', ''db.line.write'', ''db.line.delete'', ''db.table.create'', ''db.table.delete'']"

definition verifyPKCE :: "string \<Rightarrow> string \<Rightarrow> bool" where
  "verifyPKCE codeVerifier codeChallenge \<longleftrightarrow> b64_raw_url (sha256 codeVerifier) = codeChallenge"

definition isSuperClientSecret :: "env \<Rightarrow> string \<Rightarrow> bool" where
  "isSuperClientSecret E secret \<longleftrightarrow>
     (let super = SuperClientSecret (oauth2 E) in super \<noteq> [] \<and> secret \<noteq> [] \<and> secret = super)"

definition supportsGrantType :: "client \<Rightarrow> string \<Rightarrow> bool" where
  "supportsGrantType c grantType =
     (case unmarshalStringSlice (cl_GrantTypes c) of None \<Rightarrow> False | Some values \<Rightarrow> List.member values grantType)"

definition redirectURIAllowed :: "client \<Rightarrow> string \<Rightarrow> bool" where
  "redirectURIAllowed c redirectURI =
     (case unmarshalStringSlice (cl_RedirectURIs c) of None \<Rightarrow> False | Some values \<Rightarrow> List.member values redirectURI)"

definition resolveRequestedScopes :: "client \<Rightarrow> string \<Rightarrow> go_error + string list" where
  "resolveRequestedScopes c scope =
     (case unmarshalStringSlice (cl_Scopes c) of
        None \<Rightarrow> Inl JsonError
      | Some allowed \<Rightarrow>
        if TrimSpace scope = [] then Inr allowed
        else let requested = splitScopes scope in
             if list_all (List.member allowed) requested then Inr requested else Inl (OAuth InvalidScope))"

section \<open>Built-in and configured clients\<close>

definition by_client_id :: "env \<Rightarrow> string \<Rightarrow> client \<Rightarrow> bool" where
  "by_client_id E cid r \<longleftrightarrow> coll E (cl_ClientID r) = coll E cid"

definition public_client :: "env \<Rightarrow> client" where
  "public_client E = \<lparr>cl_ID = 0, cl_ClientID = PublicClientID (oauth2 E), cl_ClientSecret = [],
     cl_Name = ''HRPAuth WebUI'', cl_Type = ''public'',
     cl_GrantTypes = marshalStringSlice [''authorization_code'', ''refresh_token''],
     cl_RedirectURIs = marshalStringSlice (PublicRedirectURIs (oauth2 E)),
     cl_Scopes = marshalStringSlice publicSiteScopes, cl_IsInternal = True, cl_IsSuper = False, cl_IsActive = True\<rparr>"

text \<open>The values map of an upsert: every column but the key and the client id.\<close>

definition set_values :: "client \<Rightarrow> client \<Rightarrow> client" where
  "set_values v r = v\<lparr>cl_ID := cl_ID r, cl_ClientID := cl_ClientID r\<rparr>"

definition upsert_client :: "env \<Rightarrow> client \<Rightarrow> unit result_of" where
  "upsert_client E v = do {
     found \<leftarrow> db_first E clients (by_client_id E (cl_ClientID v));
     case found of
       Inl e \<Rightarrow>
         if e = Db RecordNotFound then do {
           r \<leftarrow> insert_client E v;
           ret (case r of Inl e' \<Rightarrow> Inl e' | Inr _ \<Rightarrow> Inr ())
         } else ret (Inl e)
     | Inr c \<Rightarrow> do {
         r \<leftarrow> update_clients E (\<lambda>r. cl_ID r = cl_ID c) (set_values v);
         ret (case r of Inl e' \<Rightarrow> Inl e' | Inr _ \<Rightarrow> Inr ())
       }
   }"

definition upsertBuiltInPublicClient :: "env \<Rightarrow> unit result_of" where
  "upsertBuiltInPublicClient E = upsert_client E (public_client E)"

definition add_extra_scope :: "string \<Rightarrow> string list \<Rightarrow> string list" where
  "add_extra_scope raw scopes =
     (let extra = TrimSpace raw in
      if extra = [] then scopes
      else if List.member databaseScopes extra \<and> \<not> List.member scopes extra then scopes @ [extra] else scopes)"

definition super_scopes :: "env \<Rightarrow> string list" where
  "super_scopes E = fold add_extra_scope (SuperClientExtraScopes (oauth2 E)) serviceSiteScopes"

definition super_client :: "env \<Rightarrow> client" where
  "super_client E = \<lparr>cl_ID = 0, cl_ClientID = SuperClientID (oauth2 E), cl_ClientSecret = ''(config)'',
     cl_Name = ''HRPAuth Internal Super Client'', cl_Type = ''confidential'',
     cl_GrantTypes = marshalStringSlice [''client_credentials''], cl_RedirectURIs = ''[]'',
     cl_Scopes = marshalStringSlice (super_scopes E), cl_IsInternal = True, cl_IsSuper = True, cl_IsActive = True\<rparr>"

definition upsertBuiltInSuperClient :: "env \<Rightarrow> unit result_of" where
  "upsertBuiltInSuperClient E = upsert_client E (super_client E)"

text \<open>The row of a service client: confidential, client credentials only, not super.\<close>

definition service_client :: "string \<Rightarrow> string \<Rightarrow> string \<Rightarrow> string list \<Rightarrow> client" where
  "service_client cid secret name scopes = \<lparr>cl_ID = 0, cl_ClientID = cid, cl_ClientSecret = secret, cl_Name = name,
     cl_Type = ''confidential'', cl_GrantTypes = marshalStringSlice [''client_credentials''],
     cl_RedirectURIs = ''[]'', cl_Scopes = marshalStringSlice scopes,
     cl_IsInternal = True, cl_IsSuper = False, cl_IsActive = True\<rparr>"

text \<open>One entry of the configured list; the log lines are left out.\<close>

definition seed_service_client :: "env \<Rightarrow> service_client_config \<Rightarrow> unit result_of" where
  "seed_service_client E sc =
     (let clientID = TrimSpace (sc_ClientID sc); clientSecret = TrimSpace (sc_ClientSecret sc) in
      if clientID = [] \<or> clientSecret = [] then ret (Inr ())
      else if isSuperClientSecret E clientSecret then ret (Inr ())
      else do {
        existing \<leftarrow> db_first E clients (by_client_id E clientID);
        case existing of
          Inr _ \<Rightarrow> ret (Inr ())
        | Inl e \<Rightarrow>
          if e \<noteq> Db RecordNotFound then ret (Inl e)
          else do {
            let name = (if TrimSpace (sc_Name sc) = [] then clientID else TrimSpace (sc_Name sc));
            created \<leftarrow> insert_client E (service_client clientID clientSecret name []);
            case created of
              Inr _ \<Rightarrow> ret (Inr ())
            | Inl err \<Rightarrow> do {
                seeded \<leftarrow> db_first E clients (by_client_id E clientID);
                case seeded of Inr _ \<Rightarrow> ret (Inr ()) | Inl _ \<Rightarrow> ret (Inl err)
              }
          }
      })"

fun seed_all :: "env \<Rightarrow> service_client_config list \<Rightarrow> unit result_of" where
  "seed_all E [] = ret (Inr ())"
| "seed_all E (sc # scs) = do {
     r \<leftarrow> seed_service_client E sc;
     case r of Inl e \<Rightarrow> ret (Inl e) | Inr _ \<Rightarrow> seed_all E scs
   }"

definition ensureConfiguredServiceClients :: "env \<Rightarrow> unit result_of" where
  "ensureConfiguredServiceClients E = seed_all E (ServiceClients (oauth2 E))"

definition EnsureBuiltInClients :: "env \<Rightarrow> unit result_of" where
  "EnsureBuiltInClients E = transaction E (do {
     r1 \<leftarrow> upsertBuiltInPublicClient E;
     case r1 of Inl e \<Rightarrow> ret (Inl e)
     | Inr _ \<Rightarrow> do {
         r2 \<leftarrow> upsertBuiltInSuperClient E;
         case r2 of Inl e \<Rightarrow> ret (Inl e)
         | Inr _ \<Rightarrow> ensureConfiguredServiceClients E
       }
   })"

section \<open>Self-service registration\<close>

fun grant_requested :: "string list \<Rightarrow> string list \<Rightarrow> string list \<Rightarrow> string list \<Rightarrow> go_error + string list" where
  "grant_requested known allowlist granted [] = Inr granted"
| "grant_requested known allowlist granted (item # items) =
     (if \<not> List.member known item \<or> \<not> List.member allowlist item then Inl (OAuth InvalidClientMetadata)
      else grant_requested known allowlist (if List.member granted item then granted else granted @ [item]) items)"

fun grant_allowlist :: "string list \<Rightarrow> string list \<Rightarrow> string list \<Rightarrow> string list" where
  "grant_allowlist known granted [] = granted"
| "grant_allowlist known granted (item # items) =
     grant_allowlist known
       (if List.member known item \<and> \<not> List.member granted item then granted @ [item] else granted) items"

definition ServiceRegistrationScopes :: "env \<Rightarrow> string \<Rightarrow> string \<Rightarrow> go_error + string list" where
  "ServiceRegistrationScopes E serviceName scope =
     (let allowlist = (case map_of (ServiceScopeAllowlist (oauth2 E)) serviceName of Some l \<Rightarrow> l | None \<Rightarrow> []);
          requested = splitScopes scope
      in if requested = [] then Inr (grant_allowlist serviceSiteScopes [] allowlist)
         else grant_requested serviceSiteScopes allowlist [] requested)"

definition hand_out :: "env \<Rightarrow> client \<Rightarrow> go_error + (client \<times> bool)" where
  "hand_out E c = (if isSuperClientSecret E (cl_ClientSecret c) then Inl (OAuth RegistrationConflict) else Inr (c, False))"

definition RegisterServiceClient :: "env \<Rightarrow> string \<Rightarrow> string list \<Rightarrow> (client \<times> bool) result_of" where
  "RegisterServiceClient E serviceName scopes = do {
     existing \<leftarrow> db_first E clients (by_client_id E serviceName);
     case existing of
       Inr c \<Rightarrow> ret (hand_out E c)
     | Inl e \<Rightarrow>
       if e \<noteq> Db RecordNotFound then ret (Inl e)
       else do {
         secret \<leftarrow> GenerateRandomToken E 32;
         created \<leftarrow> insert_client E (service_client serviceName secret serviceName scopes);
         case created of
           Inr c \<Rightarrow> ret (Inr (c, True))
         | Inl err \<Rightarrow> do {
             raced \<leftarrow> db_first E clients (by_client_id E serviceName);
             case raced of Inr c \<Rightarrow> ret (hand_out E c) | Inl _ \<Rightarrow> ret (Inl err)
           }
       }
   }"

section \<open>Client authentication and authorization requests\<close>

definition active_client :: "env \<Rightarrow> string \<Rightarrow> client \<Rightarrow> bool" where
  "active_client E cid r \<longleftrightarrow> by_client_id E cid r \<and> cl_IsActive r"

definition check_client_secret :: "env \<Rightarrow> client \<Rightarrow> string \<Rightarrow> go_error + client" where
  "check_client_secret E c clientSecret =
     (if cl_IsSuper c \<and> cl_IsInternal c \<and> cl_ClientID c = SuperClientID (oauth2 E) then
        (if clientSecret \<noteq> SuperClientSecret (oauth2 E) then Inl (OAuth InvalidClient) else Inr c)
      else if cl_Type c = ''confidential'' \<and> cl_ClientSecret c \<noteq> clientSecret then Inl (OAuth InvalidClient)
      else Inr c)"

definition AuthenticateClient :: "env \<Rightarrow> string \<Rightarrow> string \<Rightarrow> client result_of" where
  "AuthenticateClient E clientID clientSecret = do {
     found \<leftarrow> db_first E clients (active_client E clientID);
     case found of
       Inl _ \<Rightarrow> ret (Inl (OAuth InvalidClient))
     | Inr c \<Rightarrow> ret (check_client_secret E c clientSecret)
   }"

definition GetClient :: "env \<Rightarrow> string \<Rightarrow> client result_of" where
  "GetClient E clientID = do {
     found \<leftarrow> db_first E clients (active_client E clientID);
     ret (case found of Inl _ \<Rightarrow> Inl (OAuth InvalidClient) | Inr c \<Rightarrow> Inr c)
   }"

definition check_authorization_request ::
  "client \<Rightarrow> string \<Rightarrow> string \<Rightarrow> string \<Rightarrow> string \<Rightarrow> go_error + (client \<times> string list)" where
  "check_authorization_request c redirectURI scope codeChallenge codeChallengeMethod =
     (if \<not> supportsGrantType c ''authorization_code'' then Inl (OAuth UnauthorizedClient)
      else if cl_Type c \<noteq> ''public'' then Inl (OAuth UnauthorizedClient)
      else if codeChallenge = [] \<or> ToUpper codeChallengeMethod \<noteq> ''S256'' then Inl (OAuth InvalidCodeChallenge)
      else if \<not> redirectURIAllowed c redirectURI then Inl (OAuth InvalidRedirectURI)
      else case resolveRequestedScopes c scope of Inl e \<Rightarrow> Inl e | Inr scopes \<Rightarrow> Inr (c, scopes))"

definition ValidateAuthorizationRequest ::
  "env \<Rightarrow> string \<Rightarrow> string \<Rightarrow> string \<Rightarrow> string \<Rightarrow> string \<Rightarrow> (client \<times> string list) result_of" where
  "ValidateAuthorizationRequest E clientID redirectURI scope codeChallenge codeChallengeMethod = do {
     found \<leftarrow> GetClient E clientID;
     ret (case found of Inl e \<Rightarrow> Inl e
        | Inr c \<Rightarrow> check_authorization_request c redirectURI scope codeChallenge codeChallengeMethod)
   }"

section \<open>Authorization codes\<close>

definition CreateAuthorizationCode ::
  "env \<Rightarrow> string \<Rightarrow> string \<Rightarrow> string \<Rightarrow> string list \<Rightarrow> string \<Rightarrow> string \<Rightarrow> auth_code result_of" where
  "CreateAuthorizationCode E clientID userID redirectURI scopes codeChallenge codeChallengeMethod = do {
     code \<leftarrow> GenerateRandomToken E 32;
     t \<leftarrow> now E;
     insert_auth_code E \<lparr>ac_ID = 0, ac_Code = code, ac_ClientID = clientID, ac_UserID = userID,
       ac_RedirectURI = redirectURI, ac_Scopes = marshalStringSlice scopes, ac_CodeChallenge = codeChallenge,
       ac_CodeChallengeMethod = ToUpper codeChallengeMethod,
       ac_ExpiresAt = t + nanos (AuthorizationCodeTTL (oauth2 E)), ac_ConsumedAt = None\<rparr>
   }"

text \<open>The body of the transaction: the access token, then the refresh token that refers to it.\<close>

definition create_token_pair :: "env \<Rightarrow> access_token \<Rightarrow> refresh_token \<Rightarrow> (access_token \<times> refresh_token) result_of" where
  "create_token_pair E accessToken refreshToken = do {
     r1 \<leftarrow> insert_access_token E accessToken;
     case r1 of
       Inl e \<Rightarrow> ret (Inl e)
     | Inr a \<Rightarrow> do {
         r2 \<leftarrow> insert_refresh_token E (refreshToken\<lparr>rt_AccessTokenID := at_ID a\<rparr>);
         ret (case r2 of Inl e \<Rightarrow> Inl e | Inr r \<Rightarrow> Inr (a, r))
       }
   }"

definition issueUserTokens :: "env \<Rightarrow> string \<Rightarrow> string \<Rightarrow> string list \<Rightarrow> (access_token \<times> refresh_token) result_of" where
  "issueUserTokens E clientID userID scopes = do {
     atok \<leftarrow> GenerateRandomToken E 32;
     t1 \<leftarrow> now E;
     rtok \<leftarrow> GenerateRandomToken E 32;
     t2 \<leftarrow> now E;
     transaction E (create_token_pair E
       \<lparr>at_ID = 0, at_AccessToken = atok, at_ClientID = clientID, at_UserID = Some userID,
        at_Scopes = marshalStringSlice scopes, at_SubjectType = ''user'', at_TargetUID = None, at_TargetEmail = None,
        at_ExpiresAt = t1 + nanos (AccessTokenTTL (oauth2 E)), at_RevokedAt = None\<rparr>
       \<lparr>rt_ID = 0, rt_RefreshToken = rtok, rt_AccessTokenID = 0, rt_ClientID = clientID, rt_UserID = userID,
        rt_Scopes = marshalStringSlice scopes, rt_ExpiresAt = t2 + nanos (RefreshTokenTTL (oauth2 E)),
        rt_RevokedAt = None\<rparr>)
   }"

definition IssueFirstPartyUserTokens :: "env \<Rightarrow> string \<Rightarrow> (access_token \<times> refresh_token) result_of" where
  "IssueFirstPartyUserTokens E userID = issueUserTokens E (PublicClientID (oauth2 E)) userID publicSiteScopes"

text \<open>The row read by the exchange: the checks on it, with the time they are made at.\<close>

definition code_acceptable :: "auth_code \<Rightarrow> string \<Rightarrow> string \<Rightarrow> string \<Rightarrow> time \<Rightarrow> bool" where
  "code_acceptable a clientID redirectURI codeVerifier t \<longleftrightarrow>
     ac_ClientID a = clientID \<and> ac_RedirectURI a = redirectURI \<and>
     ac_ConsumedAt a = None \<and> \<not> t > ac_ExpiresAt a \<and> verifyPKCE codeVerifier (ac_CodeChallenge a)"

definition code_open :: "env \<Rightarrow> string \<Rightarrow> time \<Rightarrow> auth_code \<Rightarrow> bool" where
  "code_open E code t r \<longleftrightarrow> coll E (ac_Code r) = coll E code \<and> ac_ConsumedAt r = None \<and> ac_ExpiresAt r > t"

definition consume_code :: "env \<Rightarrow> string \<Rightarrow> time \<Rightarrow> nat result_of" where
  "consume_code E code t = update_auth_codes E (code_open E code t) (\<lambda>r. r\<lparr>ac_ConsumedAt := Some (db_ts E t)\<rparr>)"

definition ExchangeAuthorizationCode ::
  "env \<Rightarrow> string \<Rightarrow> string \<Rightarrow> string \<Rightarrow> string \<Rightarrow> (access_token \<times> refresh_token) result_of" where
  "ExchangeAuthorizationCode E clientID code redirectURI codeVerifier = do {
     found \<leftarrow> db_first E auth_codes (\<lambda>r. coll E (ac_Code r) = coll E code);
     case found of
       Inl _ \<Rightarrow> ret (Inl (OAuth InvalidGrant))
     | Inr a \<Rightarrow>
       if ac_ClientID a \<noteq> clientID \<or> ac_RedirectURI a \<noteq> redirectURI then ret (Inl (OAuth InvalidGrant))
       else if ac_ConsumedAt a \<noteq> None then ret (Inl (OAuth InvalidGrant))
       else do {
         t \<leftarrow> now E;
         if \<not> code_acceptable a clientID redirectURI codeVerifier t then ret (Inl (OAuth InvalidGrant))
         else case unmarshal_strings (ac_Scopes a) of
           None \<Rightarrow> ret (Inl JsonError)
         | Some scopes \<Rightarrow> do {
             t2 \<leftarrow> now E;
             n \<leftarrow> consume_code E code t2;
             case n of
               Inl e \<Rightarrow> ret (Inl e)
             | Inr k \<Rightarrow>
               if k = 0 then ret (Inl (OAuth InvalidGrant))
               else issueUserTokens E clientID (ac_UserID a) scopes
           }
       }
   }"

section \<open>Refresh tokens\<close>

definition refresh_open :: "env \<Rightarrow> string \<Rightarrow> time \<Rightarrow> refresh_token \<Rightarrow> bool" where
  "refresh_open E tok t r \<longleftrightarrow> coll E (rt_RefreshToken r) = coll E tok \<and> rt_RevokedAt r = None \<and> rt_ExpiresAt r > t"

definition revoke_refresh :: "env \<Rightarrow> string \<Rightarrow> time \<Rightarrow> nat result_of" where
  "revoke_refresh E tok t = update_refresh_tokens E (refresh_open E tok t) (\<lambda>r. r\<lparr>rt_RevokedAt := Some (db_ts E t)\<rparr>)"

definition RefreshUserToken :: "env \<Rightarrow> string \<Rightarrow> string \<Rightarrow> (access_token \<times> refresh_token) result_of" where
  "RefreshUserToken E clientID refreshTokenValue = do {
     found \<leftarrow> db_first E refresh_tokens (\<lambda>r. coll E (rt_RefreshToken r) = coll E refreshTokenValue);
     case found of
       Inl _ \<Rightarrow> ret (Inl (OAuth InvalidGrant))
     | Inr r \<Rightarrow>
       if rt_ClientID r \<noteq> clientID \<or> rt_RevokedAt r \<noteq> None then ret (Inl (OAuth InvalidGrant))
       else do {
         t \<leftarrow> now E;
         if t > rt_ExpiresAt r then ret (Inl (OAuth InvalidGrant))
         else case unmarshal_strings (rt_Scopes r) of
           None \<Rightarrow> ret (Inl JsonError)
         | Some scopes \<Rightarrow> do {
             t2 \<leftarrow> now E;
             n \<leftarrow> revoke_refresh E refreshTokenValue t2;
             case n of
               Inl e \<Rightarrow> ret (Inl e)
             | Inr k \<Rightarrow>
               if k = 0 then ret (Inl (OAuth InvalidGrant))
               else issueUserTokens E clientID (rt_UserID r) scopes
           }
       }
   }"

section \<open>Service tokens\<close>

definition ParseUintString :: "string \<Rightarrow> nat option" where
  "ParseUintString raw = ParseUint64 (TrimSpace raw)"

text \<open>The count of matching users; an error of the statement leaves it 0.\<close>

definition count_users :: "env \<Rightarrow> (user \<Rightarrow> bool) \<Rightarrow> nat go" where
  "count_users E P = do {
     r \<leftarrow> db_count E users P;
     ret (case r of Inl _ \<Rightarrow> 0 | Inr n \<Rightarrow> n)
   }"

text \<open>The two targets of a service token: none, or a user that exists.\<close>

definition resolve_target_uid :: "env \<Rightarrow> string \<Rightarrow> nat option result_of" where
  "resolve_target_uid E targetUID =
     (if targetUID = [] then ret (Inr None)
      else case ParseUintString targetUID of
        None \<Rightarrow> ret (Inl (OAuth InvalidTarget))
      | Some uid \<Rightarrow> do {
          n \<leftarrow> count_users E (\<lambda>u. UID u = uid);
          ret (if n = 0 then Inl (OAuth InvalidTarget) else Inr (Some uid))
        })"

definition resolve_target_email :: "env \<Rightarrow> string \<Rightarrow> string option result_of" where
  "resolve_target_email E targetEmail =
     (if targetEmail = [] then ret (Inr None)
      else do {
        let email = TrimSpace (ToLower targetEmail);
        n \<leftarrow> count_users E (\<lambda>u. coll E (Email u) = coll E email);
        ret (if n = 0 then Inl (OAuth InvalidTarget) else Inr (Some email))
      })"

definition IssueClientCredentialsToken :: "env \<Rightarrow> client \<Rightarrow> string \<Rightarrow> string \<Rightarrow> string \<Rightarrow> access_token result_of" where
  "IssueClientCredentialsToken E c scope targetUID targetEmail =
     (if \<not> supportsGrantType c ''client_credentials'' then ret (Inl (OAuth UnauthorizedClient))
      else case resolveRequestedScopes c scope of
        Inl e \<Rightarrow> ret (Inl e)
      | Inr scopes \<Rightarrow>
        if (targetUID \<noteq> [] \<or> targetEmail \<noteq> []) \<and> \<not> containsAny scopes targetedServiceScopes
        then ret (Inl (OAuth InsufficientScope))
        else do {
          tok \<leftarrow> GenerateRandomToken E 32;
          t \<leftarrow> now E;
          tu \<leftarrow> resolve_target_uid E targetUID;
          case tu of
            Inl e \<Rightarrow> ret (Inl e)
          | Inr uid \<Rightarrow> do {
              te \<leftarrow> resolve_target_email E targetEmail;
              case te of
                Inl e \<Rightarrow> ret (Inl e)
              | Inr email \<Rightarrow>
                  insert_access_token E \<lparr>at_ID = 0, at_AccessToken = tok, at_ClientID = cl_ClientID c, at_UserID = None,
                    at_Scopes = marshalStringSlice scopes, at_SubjectType = ''service'', at_TargetUID = uid,
                    at_TargetEmail = email, at_ExpiresAt = t + nanos (AccessTokenTTL (oauth2 E)), at_RevokedAt = None\<rparr>
            }
        })"

section \<open>Using, revoking and cleaning up tokens\<close>

record token_context =
  tc_Token :: access_token
  tc_Client :: client
  tc_User :: "user option"
  tc_Scopes :: "string list"
  tc_IsSuper :: bool
  tc_IsService :: bool
  tc_TargetUID :: string
  tc_TargetEmail :: string

definition load_user :: "env \<Rightarrow> string option \<Rightarrow> user option go" where
  "load_user E uid =
     (case uid of
        None \<Rightarrow> ret None
      | Some u \<Rightarrow> do {
          r \<leftarrow> db_first E users (\<lambda>x. coll E (u_UUID x) = coll E u);
          ret (case r of Inl _ \<Rightarrow> None | Inr x \<Rightarrow> Some x)
        })"

definition token_live :: "access_token \<Rightarrow> time \<Rightarrow> bool" where
  "token_live tok t \<longleftrightarrow> at_RevokedAt tok = None \<and> \<not> t > at_ExpiresAt tok"

definition ResolveAccessToken :: "env \<Rightarrow> string \<Rightarrow> token_context result_of" where
  "ResolveAccessToken E accessToken = do {
     found \<leftarrow> db_first E access_tokens (\<lambda>r. coll E (at_AccessToken r) = coll E accessToken);
     case found of
       Inl _ \<Rightarrow> ret (Inl (OAuth InvalidGrant))
     | Inr tok \<Rightarrow>
       if at_RevokedAt tok \<noteq> None then ret (Inl (OAuth InvalidGrant))
       else do {
         t \<leftarrow> now E;
         if \<not> token_live tok t then ret (Inl (OAuth InvalidGrant))
         else do {
           got \<leftarrow> GetClient E (at_ClientID tok);
           case got of
             Inl e \<Rightarrow> ret (Inl e)
           | Inr c \<Rightarrow>
             (case unmarshal_strings (at_Scopes tok) of
                None \<Rightarrow> ret (Inl JsonError)
              | Some scopes \<Rightarrow> do {
                  u \<leftarrow> load_user E (at_UserID tok);
                  ret (Inr \<lparr>tc_Token = tok, tc_Client = c, tc_User = u, tc_Scopes = scopes, tc_IsSuper = cl_IsSuper c,
                    tc_IsService = (at_SubjectType tok = ''service''),
                    tc_TargetUID = (case at_TargetUID tok of None \<Rightarrow> [] | Some n \<Rightarrow> itoa n),
                    tc_TargetEmail = (case at_TargetEmail tok of None \<Rightarrow> [] | Some m \<Rightarrow> m)\<rparr>)
                })
         }
       }
   }"

definition RevokeAccessToken :: "env \<Rightarrow> string \<Rightarrow> unit result_of" where
  "RevokeAccessToken E accessToken = do {
     t \<leftarrow> now E;
     r \<leftarrow> update_access_tokens E (\<lambda>r. coll E (at_AccessToken r) = coll E accessToken \<and> at_RevokedAt r = None)
       (\<lambda>r. r\<lparr>at_RevokedAt := Some (db_ts E t)\<rparr>);
     ret (case r of Inl e \<Rightarrow> Inl e | Inr _ \<Rightarrow> Inr ())
   }"

definition CleanupExpiredAccessTokens :: "env \<Rightarrow> nat result_of" where
  "CleanupExpiredAccessTokens E = do {
     t \<leftarrow> now E;
     delete_access_tokens E (\<lambda>r. at_ExpiresAt r < t \<or> at_RevokedAt r \<noteq> None)
   }"

definition CleanupExpiredAuthorizationCodes :: "env \<Rightarrow> nat result_of" where
  "CleanupExpiredAuthorizationCodes E = do {
     t \<leftarrow> now E;
     delete_auth_codes E (\<lambda>r. ac_ExpiresAt r < t)
   }"

text \<open>One run of the cleanup controller; it only logs the outcomes.\<close>

definition cleanup_runOnce :: "env \<Rightarrow> unit go" where
  "cleanup_runOnce E = do {
     _ \<leftarrow> CleanupExpiredAccessTokens E;
     _ \<leftarrow> CleanupExpiredAuthorizationCodes E;
     ret ()
   }"

end
