(* ===== verification/World_Facts.thy ===== *)
theory World_Facts
  imports World
begin

text \<open>
  What the statements of the database do: the value and the final tables of each, and the rules for the
  relations between tables that a computation moves along.

  A relation \<open>R\<close> on tables lifts to worlds as \<open>on_db R\<close>. \<open>on_db_stmt\<close> reduces it to a single statement, and a
  transaction follows every relation its body follows (\<open>transaction_evolves\<close>), because a rollback returns to
  the tables of the begin.
\<close>

definition on_db :: "(tables \<Rightarrow> tables \<Rightarrow> bool) \<Rightarrow> world \<Rightarrow> world \<Rightarrow> bool" where
  "on_db R w w' \<longleftrightarrow> R (db w) (db w')"

section \<open>Values and final tables\<close>

lemma db_now [simp]: "db (final (now E) w) = db w"
  by (simp add: now_def final_def)

lemma result_now [simp]: "result (now E) w = clock E (ticks w)"
  by (simp add: now_def result_def)

lemma ticks_now [simp]: "ticks (final (now E) w) = Suc (ticks w)"
  by (simp add: now_def final_def)

lemma stmts_now [simp]: "stmts (final (now E) w) = stmts w"
  by (simp add: now_def final_def)

lemma db_GenerateRandomToken [simp]: "db (final (GenerateRandomToken E n) w) = db w"
  by (simp add: GenerateRandomToken_def final_def)

lemma stmts_GenerateRandomToken [simp]: "stmts (final (GenerateRandomToken E n) w) = stmts w"
  by (simp add: GenerateRandomToken_def final_def)

lemma ticks_GenerateRandomToken [simp]: "ticks (final (GenerateRandomToken E n) w) = ticks w"
  by (simp add: GenerateRandomToken_def final_def)

lemma result_GenerateRandomToken:
  "result (GenerateRandomToken E n) w = (case entropy E (draws w) n of None \<Rightarrow> [] | Some b \<Rightarrow> hex_encode b)"
  by (simp add: GenerateRandomToken_def result_def)

lemma stmts_stmt [simp]: "stmts (final (stmt E f) w) = Suc (stmts w)"
  by (simp add: stmt_def final_def Let_def split: prod.splits sum.splits)

lemma ticks_stmt [simp]: "ticks (final (stmt E f) w) = ticks w"
  by (simp add: stmt_def final_def Let_def split: prod.splits sum.splits)

lemma draws_stmt [simp]: "draws (final (stmt E f) w) = draws w"
  by (simp add: stmt_def final_def Let_def split: prod.splits sum.splits)

text \<open>A statement: failed by the environment, refused, or done.\<close>

lemma stmt_cases:
  obtains "db_fault E (stmts w)" "result (stmt E f) w = Inl (Db Fault)" "db (final (stmt E f) w) = db w"
  | e d q where "\<not> db_fault E (stmts w)" "f (db w) (seqs w) = (Inl e, d, q)"
      "result (stmt E f) w = Inl (Db e)" "db (final (stmt E f) w) = db w"
  | x d q where "\<not> db_fault E (stmts w)" "f (db w) (seqs w) = (Inr x, d, q)"
      "result (stmt E f) w = Inr x" "db (final (stmt E f) w) = d"
proof (cases "db_fault E (stmts w)")
  case True
  then show thesis
    by (intro that(1)) (simp_all add: stmt_def result_def final_def Let_def)
next
  case False
  obtain r d q where f: "f (db w) (seqs w) = (r, d, q)"
    by (cases "f (db w) (seqs w)") auto
  show thesis
  proof (cases r)
    case (Inl e)
    then show thesis
      using f False by (intro that(2) [of e d q]) (simp_all add: stmt_def result_def final_def Let_def)
  next
    case (Inr x)
    then show thesis
      using f False by (intro that(3) [of x d q]) (simp_all add: stmt_def result_def final_def Let_def)
  qed
qed

lemma db_first_db [simp]: "db (final (db_first E tab P) w) = db w"
  by (rule stmt_cases [where E = E and w = w and f = "\<lambda>d q. (case find P (tab d) of Some r \<Rightarrow> Inr r | None \<Rightarrow> Inl RecordNotFound, d, q)"])
    (auto simp: db_first_def)

lemma db_first_result:
  "result (db_first E tab P) w =
     (if db_fault E (stmts w) then Inl (Db Fault)
      else case find P (tab (db w)) of Some r \<Rightarrow> Inr r | None \<Rightarrow> Inl (Db RecordNotFound))"
  by (rule stmt_cases [where E = E and w = w and f = "\<lambda>d q. (case find P (tab d) of Some r \<Rightarrow> Inr r | None \<Rightarrow> Inl RecordNotFound, d, q)"])
    (auto simp: db_first_def split: option.splits)

lemma find_SomeD: "find P xs = Some r \<Longrightarrow> r \<in> set xs \<and> P r"
  by (induction xs) (auto split: if_splits)

lemma db_first_Inr:
  assumes "result (db_first E tab P) w = Inr r"
  shows "r \<in> set (tab (db w))" and "P r" and "find P (tab (db w)) = Some r"
  using assms find_SomeD [of P "tab (db w)" r] by (auto simp: db_first_result split: if_splits option.splits)

lemma db_count_db [simp]: "db (final (db_count E tab P) w) = db w"
  by (rule stmt_cases [where E = E and w = w and f = "\<lambda>d q. (Inr (length (filter P (tab d))), d, q)"]) (auto simp: db_count_def)

lemma db_count_result:
  "result (db_count E tab P) w = (if db_fault E (stmts w) then Inl (Db Fault) else Inr (length (filter P (tab (db w)))))"
  by (rule stmt_cases [where E = E and w = w and f = "\<lambda>d q. (Inr (length (filter P (tab d))), d, q)"]) (auto simp: db_count_def)

section \<open>Relations on tables\<close>

lemma on_db_stmt:
  assumes "\<And>d. R d d" and "\<And>d q x d' q'. f d q = (Inr x, d', q') \<Longrightarrow> R d d'"
  shows "evolves (on_db R) (stmt E f)"
  unfolding evolves_def on_db_def
proof
  fix w
  show "R (db w) (db (final (stmt E f) w))"
    by (rule stmt_cases [where E = E and w = w and f = f]) (use assms in auto)
qed

lemma on_db_keep:
  assumes "\<And>d. R d d" and "\<And>w. db (final m w) = db w"
  shows "evolves (on_db R) m"
  using assms by (simp add: evolves_def on_db_def)

lemma result_restore [simp]: "result (restore d e) w = Inl e"
  by (simp add: restore_def)

lemma db_restore [simp]: "db (final (restore d e) w) = d"
  by (simp add: restore_def)

text \<open>A transaction: nothing, or the tables after its body.\<close>

lemma transaction_cases:
  obtains e where "result (transaction E body) w = Inl e" "db (final (transaction E body) w) = db w"
  | x w1 where "result (transaction E body) w = Inr x" "db w1 = db w" "ticks w1 = ticks w" "draws w1 = draws w"
      "stmts w1 = Suc (stmts w)" "result body w1 = Inr x" "db (final (transaction E body) w) = db (final body w1)"
proof -
  define w1 where "w1 = final (stmt E (\<lambda>d q. (Inr (), d, q))) w"
  have nop: "db (final (stmt E (\<lambda>d q. (Inr (), d, q))) u) = db u" for u
    by (rule stmt_cases [where E = E and w = u and f = "\<lambda>d q. (Inr (), d, q)"]) auto
  have w1: "db w1 = db w" "ticks w1 = ticks w" "draws w1 = draws w" "stmts w1 = Suc (stmts w)"
    by (simp_all add: w1_def nop)
  show thesis
  proof (cases "result (stmt E (\<lambda>d q. (Inr (), d, q))) w")
    case (Inl e)
    then show thesis
      using w1 by (intro that(1) [of e]) (simp_all add: transaction_def flip: w1_def)
  next
    case b: (Inr u)
    show thesis
    proof (cases "result body w1")
      case (Inl e)
      then show thesis
        using b w1 by (intro that(1) [of e]) (simp_all add: transaction_def flip: w1_def)
    next
      case (Inr x)
      define w2 where "w2 = final body w1"
      show thesis
      proof (cases "result (stmt E (\<lambda>d q. (Inr (), d, q))) w2")
        case (Inl e)
        then show thesis
          using b Inr w1 by (intro that(1) [of e]) (simp_all add: transaction_def flip: w1_def w2_def)
      next
        case c: (Inr u2)
        show thesis
          using b Inr c w1 nop by (intro that(2) [of x w1]) (simp_all add: transaction_def flip: w1_def w2_def)
      qed
    qed
  qed
qed

lemma transaction_evolves:
  assumes "\<And>d. R d d" and "evolves (on_db R) body"
  shows "evolves (on_db R) (transaction E body)"
  unfolding evolves_def on_db_def
proof
  fix w
  show "R (db w) (db (final (transaction E body) w))"
  proof (rule transaction_cases [where E = E and body = body and w = w])
    fix x w1
    assume "db w1 = db w" "db (final (transaction E body) w) = db (final body w1)"
    with assms(2) show ?thesis by (simp add: evolves_def on_db_def) metis
  qed (use assms(1) in simp)
qed

text \<open>An insert whose transaction succeeds; what a successful statement did.\<close>

lemma stmt_Inr:
  assumes "result (stmt E f) w = Inr x"
  shows "\<exists>q. f (db w) (seqs w) = (Inr x, db (final (stmt E f) w), q)"
  by (rule stmt_cases [where E = E and w = w and f = f]) (use assms in auto)

lemma stmt_Inl:
  assumes "result (stmt E f) w = Inl e"
  shows "db (final (stmt E f) w) = db w"
  by (rule stmt_cases [where E = E and w = w and f = f]) (use assms in auto)

end
