(* ===== verification/Credentials.thy ===== *)
theory Credentials
  imports World_Facts
begin

text \<open>
  Credentials that die: authorization codes (consumed), refresh tokens and access tokens (revoked). A key is
  present in a table if some row has it, and live if some such row is still open; keys are compared as the
  database compares them.

  The relation \<open>grows E k\<close> is what every operation without a delete follows: a key that is present stays
  present and is not revived. The relation \<open>shrinks E k\<close> is what a delete follows: no key becomes live. Both
  are preorders (interpretations of the locale \<open>evolution\<close>), and the primitive statements follow them.

  The locale \<open>single_use\<close> is the interface for a run of operations: if each operation can make a key live
  only by adding a row with it, then a dead key stays dead over every run that adds no such row.
\<close>

definition code_present :: "env \<Rightarrow> string \<Rightarrow> tables \<Rightarrow> bool" where
  "code_present E k d \<longleftrightarrow> list_ex (\<lambda>r. coll E (ac_Code r) = coll E k) (auth_codes d)"

definition code_live :: "env \<Rightarrow> string \<Rightarrow> tables \<Rightarrow> bool" where
  "code_live E k d \<longleftrightarrow> list_ex (\<lambda>r. coll E (ac_Code r) = coll E k \<and> ac_ConsumedAt r = None) (auth_codes d)"

definition refresh_present :: "env \<Rightarrow> string \<Rightarrow> tables \<Rightarrow> bool" where
  "refresh_present E k d \<longleftrightarrow> list_ex (\<lambda>r. coll E (rt_RefreshToken r) = coll E k) (refresh_tokens d)"

definition refresh_live :: "env \<Rightarrow> string \<Rightarrow> tables \<Rightarrow> bool" where
  "refresh_live E k d \<longleftrightarrow> list_ex (\<lambda>r. coll E (rt_RefreshToken r) = coll E k \<and> rt_RevokedAt r = None) (refresh_tokens d)"

definition access_present :: "env \<Rightarrow> string \<Rightarrow> tables \<Rightarrow> bool" where
  "access_present E k d \<longleftrightarrow> list_ex (\<lambda>r. coll E (at_AccessToken r) = coll E k) (access_tokens d)"

definition access_live :: "env \<Rightarrow> string \<Rightarrow> tables \<Rightarrow> bool" where
  "access_live E k d \<longleftrightarrow> list_ex (\<lambda>r. coll E (at_AccessToken r) = coll E k \<and> at_RevokedAt r = None) (access_tokens d)"

lemmas cred_defs = code_present_def code_live_def refresh_present_def refresh_live_def
  access_present_def access_live_def

lemma live_present:
  "code_live E k d \<Longrightarrow> code_present E k d"
  "refresh_live E k d \<Longrightarrow> refresh_present E k d"
  "access_live E k d \<Longrightarrow> access_present E k d"
  by (auto simp: cred_defs list_ex_iff)

definition no_revival :: "(tables \<Rightarrow> bool) \<Rightarrow> (tables \<Rightarrow> bool) \<Rightarrow> tables \<Rightarrow> tables \<Rightarrow> bool" where
  "no_revival present live d d' \<longleftrightarrow> (present d \<longrightarrow> present d' \<and> (live d' \<longrightarrow> live d))"

definition grows :: "env \<Rightarrow> string \<Rightarrow> tables \<Rightarrow> tables \<Rightarrow> bool" where
  "grows E k d d' \<longleftrightarrow>
     no_revival (code_present E k) (code_live E k) d d' \<and>
     no_revival (refresh_present E k) (refresh_live E k) d d' \<and>
     no_revival (access_present E k) (access_live E k) d d'"

definition shrinks :: "env \<Rightarrow> string \<Rightarrow> tables \<Rightarrow> tables \<Rightarrow> bool" where
  "shrinks E k d d' \<longleftrightarrow>
     (code_live E k d' \<longrightarrow> code_live E k d) \<and>
     (refresh_live E k d' \<longrightarrow> refresh_live E k d) \<and>
     (access_live E k d' \<longrightarrow> access_live E k d)"

lemma grows_refl [simp]: "grows E k d d"
  by (simp add: grows_def no_revival_def)

lemma shrinks_refl [simp]: "shrinks E k d d"
  by (simp add: shrinks_def)

interpretation grow: evolution "on_db (grows E k)" for E k
  by unfold_locales (auto simp: on_db_def grows_def no_revival_def)

interpretation shrink: evolution "on_db (shrinks E k)" for E k
  by unfold_locales (auto simp: on_db_def shrinks_def)

section \<open>Statements that keep all three tables\<close>

lemma grows_same:
  "auth_codes d' = auth_codes d \<Longrightarrow> refresh_tokens d' = refresh_tokens d \<Longrightarrow> access_tokens d' = access_tokens d \<Longrightarrow>
   grows E k d d'"
  by (simp add: grows_def no_revival_def cred_defs)

lemma shrinks_subset:
  assumes "set (auth_codes d') \<subseteq> set (auth_codes d)" and "set (refresh_tokens d') \<subseteq> set (refresh_tokens d)"
    and "set (access_tokens d') \<subseteq> set (access_tokens d)"
  shows "shrinks E k d d'"
  using assms unfolding shrinks_def cred_defs list_ex_iff by blast

lemma grow_keep [evolve_intros]:
  "evolves (on_db (grows E k)) (now E')" "evolves (on_db (grows E k)) (GenerateRandomToken E' n)"
  "evolves (on_db (grows E k)) (db_first E' tab P)" "evolves (on_db (grows E k)) (db_count E' tab' P')"
  by (rule on_db_keep; simp)+

lemma shrink_keep [evolve_intros]:
  "evolves (on_db (shrinks E k)) (now E')"
  by (rule on_db_keep; simp)

lemma list_ex_append [simp]: "list_ex P (xs @ ys) \<longleftrightarrow> list_ex P xs \<or> list_ex P ys"
  by (auto simp: list_ex_iff)

lemma list_ex_disj: "list_ex (\<lambda>r. P r \<or> Q r) xs \<longleftrightarrow> list_ex P xs \<or> list_ex Q xs"
  by (auto simp: list_ex_iff)

lemma grow_insert_client [evolve_intros]: "evolves (on_db (grows E k)) (insert_client E c)"
  unfolding insert_client_def
  by (rule on_db_stmt) (auto intro: grows_same simp: Let_def split: if_splits)

lemma grow_update_clients [evolve_intros]: "evolves (on_db (grows E k)) (update_clients E P f)"
  unfolding update_clients_def by (rule on_db_stmt) (auto intro: grows_same)

lemma grow_update_users [evolve_intros]: "evolves (on_db (grows E k)) (update_users E P f)"
  unfolding update_users_def by (rule on_db_stmt) (auto intro: grows_same)

section \<open>Inserts: the unique key\<close>

lemma grows_add_auth_code:
  assumes "\<not> code_present E (ac_Code r) d"
  shows "grows E k d (d\<lparr>auth_codes := auth_codes d @ [r]\<rparr>)"
proof -
  have "coll E (ac_Code r) \<noteq> coll E k" if "code_present E k d"
    using assms that by (auto simp: code_present_def)
  then show ?thesis
    by (auto simp: grows_def no_revival_def cred_defs)
qed

lemma insert_auth_code_done:
  assumes "result (insert_auth_code E a) w = Inr x"
  shows "\<exists>r. db (final (insert_auth_code E a) w) = (db w)\<lparr>auth_codes := auth_codes (db w) @ [r]\<rparr> \<and>
    \<not> code_present E (ac_Code r) (db w) \<and> r = x\<lparr>ac_ExpiresAt := db_ts E (ac_ExpiresAt a)\<rparr> \<and>
    (\<exists>n. x = a\<lparr>ac_ID := n\<rparr>)"
  using stmt_Inr [OF assms [unfolded insert_auth_code_def]] unfolding insert_auth_code_def [symmetric]
  by (auto simp: Let_def code_present_def list_ex_disj split: if_splits)

lemma insert_auth_code_refused:
  assumes "result (insert_auth_code E a) w = Inl e"
  shows "db (final (insert_auth_code E a) w) = db w"
  using stmt_Inl [OF assms [unfolded insert_auth_code_def]] unfolding insert_auth_code_def [symmetric] .

lemma grow_insert_auth_code [evolve_intros]: "evolves (on_db (grows E k)) (insert_auth_code E a)"
  unfolding evolves_def on_db_def
proof
  fix w
  show "grows E k (db w) (db (final (insert_auth_code E a) w))"
  proof (cases "result (insert_auth_code E a) w")
    case (Inl e)
    then show ?thesis by (simp add: insert_auth_code_refused)
  next
    case (Inr x)
    from insert_auth_code_done [OF this] show ?thesis by (auto intro: grows_add_auth_code)
  qed
qed

lemma grows_add_access_token:
  assumes "\<not> access_present E (at_AccessToken r) d"
  shows "grows E k d (d\<lparr>access_tokens := access_tokens d @ [r]\<rparr>)"
proof -
  have "coll E (at_AccessToken r) \<noteq> coll E k" if "access_present E k d"
    using assms that by (auto simp: access_present_def)
  then show ?thesis
    by (auto simp: grows_def no_revival_def cred_defs)
qed

lemma insert_access_token_done:
  assumes "result (insert_access_token E a) w = Inr x"
  shows "\<exists>r. db (final (insert_access_token E a) w) = (db w)\<lparr>access_tokens := access_tokens (db w) @ [r]\<rparr> \<and>
    \<not> access_present E (at_AccessToken r) (db w) \<and> r = x\<lparr>at_ExpiresAt := db_ts E (at_ExpiresAt a)\<rparr> \<and>
    (\<exists>n. x = a\<lparr>at_ID := n\<rparr>)"
  using stmt_Inr [OF assms [unfolded insert_access_token_def]] unfolding insert_access_token_def [symmetric]
  by (auto simp: Let_def access_present_def list_ex_disj split: if_splits)

lemma insert_access_token_refused:
  assumes "result (insert_access_token E a) w = Inl e"
  shows "db (final (insert_access_token E a) w) = db w"
  using stmt_Inl [OF assms [unfolded insert_access_token_def]] unfolding insert_access_token_def [symmetric] .

lemma grow_insert_access_token [evolve_intros]: "evolves (on_db (grows E k)) (insert_access_token E a)"
  unfolding evolves_def on_db_def
proof
  fix w
  show "grows E k (db w) (db (final (insert_access_token E a) w))"
  proof (cases "result (insert_access_token E a) w")
    case (Inl e)
    then show ?thesis by (simp add: insert_access_token_refused)
  next
    case (Inr x)
    from insert_access_token_done [OF this] show ?thesis by (auto intro: grows_add_access_token)
  qed
qed

lemma grows_add_refresh_token:
  assumes "\<not> refresh_present E (rt_RefreshToken r) d"
  shows "grows E k d (d\<lparr>refresh_tokens := refresh_tokens d @ [r]\<rparr>)"
proof -
  have "coll E (rt_RefreshToken r) \<noteq> coll E k" if "refresh_present E k d"
    using assms that by (auto simp: refresh_present_def)
  then show ?thesis
    by (auto simp: grows_def no_revival_def cred_defs)
qed

lemma insert_refresh_token_done:
  assumes "result (insert_refresh_token E a) w = Inr x"
  shows "\<exists>r. db (final (insert_refresh_token E a) w) = (db w)\<lparr>refresh_tokens := refresh_tokens (db w) @ [r]\<rparr> \<and>
    \<not> refresh_present E (rt_RefreshToken r) (db w) \<and> r = x\<lparr>rt_ExpiresAt := db_ts E (rt_ExpiresAt a)\<rparr> \<and>
    (\<exists>n. x = a\<lparr>rt_ID := n\<rparr>)"
  using stmt_Inr [OF assms [unfolded insert_refresh_token_def]] unfolding insert_refresh_token_def [symmetric]
  by (auto simp: Let_def refresh_present_def list_ex_disj split: if_splits)

lemma insert_refresh_token_refused:
  assumes "result (insert_refresh_token E a) w = Inl e"
  shows "db (final (insert_refresh_token E a) w) = db w"
  using stmt_Inl [OF assms [unfolded insert_refresh_token_def]] unfolding insert_refresh_token_def [symmetric] .

lemma grow_insert_refresh_token [evolve_intros]: "evolves (on_db (grows E k)) (insert_refresh_token E a)"
  unfolding evolves_def on_db_def
proof
  fix w
  show "grows E k (db w) (db (final (insert_refresh_token E a) w))"
  proof (cases "result (insert_refresh_token E a) w")
    case (Inl e)
    then show ?thesis by (simp add: insert_refresh_token_refused)
  next
    case (Inr x)
    from insert_refresh_token_done [OF this] show ?thesis by (auto intro: grows_add_refresh_token)
  qed
qed

section \<open>Updates: no row is reopened\<close>

lemma list_ex_update_rows:
  assumes "\<And>r. Q (f r) \<longleftrightarrow> Q r"
  shows "list_ex Q (update_rows P f rs) \<longleftrightarrow> list_ex Q rs"
  using assms by (induction rs) (auto simp: update_rows_def)

lemma list_ex_update_rows_imp:
  assumes "\<And>r. Q (f r) \<Longrightarrow> Q r" and "list_ex Q (update_rows P f rs)"
  shows "list_ex Q rs"
  using assms(2) by (induction rs) (auto simp: update_rows_def dest: assms(1) split: if_splits)

lemma grow_update_auth_codes:
  assumes "\<And>r. ac_Code (f r) = ac_Code r" and "\<And>r. ac_ConsumedAt (f r) = None \<Longrightarrow> ac_ConsumedAt r = None"
  shows "evolves (on_db (grows E k)) (update_auth_codes E P f)"
  unfolding update_auth_codes_def
  by (rule on_db_stmt)
    (auto simp: grows_def no_revival_def cred_defs list_ex_update_rows assms(1)
      elim!: list_ex_update_rows_imp [rotated] dest: assms(2))

lemma grow_update_refresh_tokens:
  assumes "\<And>r. rt_RefreshToken (f r) = rt_RefreshToken r" and "\<And>r. rt_RevokedAt (f r) = None \<Longrightarrow> rt_RevokedAt r = None"
  shows "evolves (on_db (grows E k)) (update_refresh_tokens E P f)"
  unfolding update_refresh_tokens_def
  by (rule on_db_stmt)
    (auto simp: grows_def no_revival_def cred_defs list_ex_update_rows assms(1)
      elim!: list_ex_update_rows_imp [rotated] dest: assms(2))

lemma grow_update_access_tokens:
  assumes "\<And>r. at_AccessToken (f r) = at_AccessToken r" and "\<And>r. at_RevokedAt (f r) = None \<Longrightarrow> at_RevokedAt r = None"
  shows "evolves (on_db (grows E k)) (update_access_tokens E P f)"
  unfolding update_access_tokens_def
  by (rule on_db_stmt)
    (auto simp: grows_def no_revival_def cred_defs list_ex_update_rows assms(1)
      elim!: list_ex_update_rows_imp [rotated] dest: assms(2))

lemma grow_transaction [evolve_intros]:
  "evolves (on_db (grows E k)) m \<Longrightarrow> evolves (on_db (grows E k)) (transaction E' m)"
  by (rule transaction_evolves) simp_all

section \<open>Deletes\<close>

lemma shrink_delete_access_tokens [evolve_intros]: "evolves (on_db (shrinks E k)) (delete_access_tokens E' P)"
  unfolding delete_access_tokens_def
  by (rule on_db_stmt) (auto intro!: shrinks_subset simp: drop_access_def Let_def)

lemma shrink_delete_auth_codes [evolve_intros]: "evolves (on_db (shrinks E k)) (delete_auth_codes E' P)"
  unfolding delete_auth_codes_def
  by (rule on_db_stmt) (auto intro!: shrinks_subset)

section \<open>Runs of operations\<close>

text \<open>Running operations one after the other, each for its effect.\<close>

fun run_all :: "('op \<Rightarrow> unit go) \<Rightarrow> 'op list \<Rightarrow> unit go" where
  "run_all run [] = ret ()"
| "run_all run (p # ps) = do { _ \<leftarrow> run p; run_all run ps }"

text \<open>No operation of the run adds a row with the key.\<close>

fun quiet :: "(tables \<Rightarrow> bool) \<Rightarrow> ('op \<Rightarrow> unit go) \<Rightarrow> 'op list \<Rightarrow> world \<Rightarrow> bool" where
  "quiet present run [] w \<longleftrightarrow> True"
| "quiet present run (p # ps) w \<longleftrightarrow>
     (present (db (final (run p) w)) \<longrightarrow> present (db w)) \<and> quiet present run ps (final (run p) w)"

locale single_use =
  fixes present :: "tables \<Rightarrow> bool" and live :: "tables \<Rightarrow> bool" and run :: "'op \<Rightarrow> unit go"
  assumes live_is_present: "live d \<Longrightarrow> present d"
    and step: "live (db (final (run p) w)) \<Longrightarrow> live (db w) \<or> \<not> present (db w)"
begin

lemma quiet_step: "(present (db (final (run p) w)) \<longrightarrow> present (db w)) \<Longrightarrow> \<not> live (db w) \<Longrightarrow> \<not> live (db (final (run p) w))"
  using step live_is_present by blast

lemma dead_stays_dead: "quiet present run ps w \<Longrightarrow> \<not> live (db w) \<Longrightarrow> \<not> live (db (final (run_all run ps) w))"
proof (induction ps arbitrary: w)
  case Nil
  then show ?case by simp
next
  case (Cons p ps)
  then show ?case using quiet_step [of p w] by simp
qed

end

section \<open>The schema invariant\<close>

text \<open>
  The primary keys, the unique keys and the foreign keys of the baseline schema. \<open>keeps_wf\<close> is the relation a computation
  follows if it keeps them; the statements do, and so does everything built from them.
\<close>

definition owner_exists :: "env \<Rightarrow> string option \<Rightarrow> tables \<Rightarrow> bool" where
  "owner_exists E uid d \<longleftrightarrow> (case uid of None \<Rightarrow> True | Some u \<Rightarrow> user_exists E u d)"

definition wf_tables :: "env \<Rightarrow> tables \<Rightarrow> bool" where
  "wf_tables E d \<longleftrightarrow>
     distinct (map cl_ID (clients d)) \<and> distinct (map ac_ID (auth_codes d)) \<and>
     distinct (map at_ID (access_tokens d)) \<and> distinct (map rt_ID (refresh_tokens d)) \<and>
     distinct (map (\<lambda>r. coll E (cl_ClientID r)) (clients d)) \<and>
     distinct (map (\<lambda>r. coll E (ac_Code r)) (auth_codes d)) \<and>
     distinct (map (\<lambda>r. coll E (at_AccessToken r)) (access_tokens d)) \<and>
     distinct (map (\<lambda>r. coll E (rt_RefreshToken r)) (refresh_tokens d)) \<and>
     list_all (\<lambda>a. user_exists E (ac_UserID a) d) (auth_codes d) \<and>
     list_all (\<lambda>a. owner_exists E (at_UserID a) d) (access_tokens d) \<and>
     list_all (\<lambda>r. user_exists E (rt_UserID r) d \<and> list_ex (\<lambda>a. at_ID a = rt_AccessTokenID r) (access_tokens d))
       (refresh_tokens d)"

definition keeps_wf :: "env \<Rightarrow> tables \<Rightarrow> tables \<Rightarrow> bool" where
  "keeps_wf E d d' \<longleftrightarrow> (wf_tables E d \<longrightarrow> wf_tables E d')"

interpretation wf: evolution "on_db (keeps_wf E)" for E
  by unfold_locales (auto simp: on_db_def keeps_wf_def)

named_theorems wf_intros

lemma user_exists_same: "users d' = users d \<Longrightarrow> user_exists E u d' = user_exists E u d"
  by (simp add: user_exists_def)

lemma user_exists_update [simp]:
  "user_exists E u (d\<lparr>clients := cs\<rparr>) = user_exists E u d"
  "user_exists E u (d\<lparr>auth_codes := acs\<rparr>) = user_exists E u d"
  "user_exists E u (d\<lparr>access_tokens := ats\<rparr>) = user_exists E u d"
  "user_exists E u (d\<lparr>refresh_tokens := rts\<rparr>) = user_exists E u d"
  by (simp_all add: user_exists_def)

lemma owner_exists_update [simp]:
  "owner_exists E u (d\<lparr>clients := cs\<rparr>) = owner_exists E u d"
  "owner_exists E u (d\<lparr>auth_codes := acs\<rparr>) = owner_exists E u d"
  "owner_exists E u (d\<lparr>access_tokens := ats\<rparr>) = owner_exists E u d"
  "owner_exists E u (d\<lparr>refresh_tokens := rts\<rparr>) = owner_exists E u d"
  by (simp_all add: owner_exists_def split: option.splits)

lemma keeps_wf_refl [simp]: "keeps_wf E d d"
  by (simp add: keeps_wf_def)

lemma wf_keep [wf_intros]:
  "evolves (on_db (keeps_wf E)) (now E')" "evolves (on_db (keeps_wf E)) (GenerateRandomToken E' n)"
  "evolves (on_db (keeps_wf E)) (db_first E' tab P)" "evolves (on_db (keeps_wf E)) (db_count E' tab' P')"
  by (rule on_db_keep; simp)+

lemma wf_transaction [wf_intros]:
  "evolves (on_db (keeps_wf E)) m \<Longrightarrow> evolves (on_db (keeps_wf E)) (transaction E' m)"
  by (rule transaction_evolves) simp_all

lemma distinct_key_append:
  "distinct (map f (xs @ [x])) \<longleftrightarrow> distinct (map f xs) \<and> \<not> list_ex (\<lambda>r. f r = f x) xs"
  by (induction xs) (auto simp: list_ex_iff)

lemma wf_insert_client [wf_intros]: "evolves (on_db (keeps_wf E)) (insert_client E c)"
  unfolding insert_client_def
  by (rule on_db_stmt)
    (auto simp: Let_def keeps_wf_def wf_tables_def list_ex_iff split: if_splits)

lemma wf_insert_auth_code [wf_intros]: "evolves (on_db (keeps_wf E)) (insert_auth_code E a)"
  unfolding insert_auth_code_def
  by (rule on_db_stmt)
    (auto simp: Let_def keeps_wf_def wf_tables_def list_ex_iff split: if_splits)

lemma wf_insert_access_token [wf_intros]: "evolves (on_db (keeps_wf E)) (insert_access_token E a)"
  unfolding insert_access_token_def
  by (rule on_db_stmt)
    (auto simp: Let_def keeps_wf_def wf_tables_def list_ex_iff owner_exists_def
      elim: list.pred_mono_strong split: if_splits option.splits)

lemma wf_insert_refresh_token [wf_intros]: "evolves (on_db (keeps_wf E)) (insert_refresh_token E a)"
  unfolding insert_refresh_token_def
  by (rule on_db_stmt)
    (auto simp: Let_def keeps_wf_def wf_tables_def list_ex_iff split: if_splits)

lemma map_update_rows: "(\<And>r. g (f r) = g r) \<Longrightarrow> map g (update_rows P f rs) = map g rs"
  by (simp add: update_rows_def)

lemma list_all_update_rows: "(\<And>r. Q (f r) = Q r) \<Longrightarrow> list_all Q (update_rows P f rs) = list_all Q rs"
  by (induction rs) (simp_all add: update_rows_def)

lemma wf_update_clients:
  assumes "\<And>r. cl_ID (f r) = cl_ID r" and "\<And>r. cl_ClientID (f r) = cl_ClientID r"
  shows "evolves (on_db (keeps_wf E)) (update_clients E' P f)"
  unfolding update_clients_def
  by (rule on_db_stmt) (auto simp: keeps_wf_def wf_tables_def assms map_update_rows)

lemma wf_update_auth_codes:
  assumes "\<And>r. ac_ID (f r) = ac_ID r" and "\<And>r. ac_Code (f r) = ac_Code r" and "\<And>r. ac_UserID (f r) = ac_UserID r"
  shows "evolves (on_db (keeps_wf E)) (update_auth_codes E' P f)"
  unfolding update_auth_codes_def
  by (rule on_db_stmt)
    (auto simp: keeps_wf_def wf_tables_def assms map_update_rows list_all_update_rows)

lemma wf_update_refresh_tokens:
  assumes "\<And>r. rt_ID (f r) = rt_ID r" and "\<And>r. rt_RefreshToken (f r) = rt_RefreshToken r" and "\<And>r. rt_UserID (f r) = rt_UserID r"
    and "\<And>r. rt_AccessTokenID (f r) = rt_AccessTokenID r"
  shows "evolves (on_db (keeps_wf E)) (update_refresh_tokens E' P f)"
  unfolding update_refresh_tokens_def
  by (rule on_db_stmt)
    (auto simp: keeps_wf_def wf_tables_def assms map_update_rows list_all_update_rows)

lemma wf_update_access_tokens:
  assumes "\<And>r. at_AccessToken (f r) = at_AccessToken r" and "\<And>r. at_UserID (f r) = at_UserID r"
    and "\<And>r. at_ID (f r) = at_ID r"
  shows "evolves (on_db (keeps_wf E)) (update_access_tokens E' P f)"
  unfolding update_access_tokens_def
  by (rule on_db_stmt)
    (auto simp: keeps_wf_def wf_tables_def assms map_update_rows list_all_update_rows list_ex_update_rows)

lemma distinct_map_filter_key: "distinct (map f xs) \<Longrightarrow> distinct (map f (filter P xs))"
  by (rule distinct_map_filter)

lemma wf_delete_auth_codes [wf_intros]: "evolves (on_db (keeps_wf E)) (delete_auth_codes E' P)"
  unfolding delete_auth_codes_def
  by (rule on_db_stmt)
    (auto simp: keeps_wf_def wf_tables_def list_all_iff intro: distinct_map_filter_key)

lemma wf_drop_access: "wf_tables E d \<Longrightarrow> wf_tables E (drop_access P d)"
  unfolding wf_tables_def drop_access_def Let_def
  by (auto simp: list_all_iff list_ex_iff intro: distinct_map_filter_key split: option.splits) (metis (mono_tags, lifting) image_eqI mem_Collect_eq)

lemma wf_delete_access_tokens [wf_intros]: "evolves (on_db (keeps_wf E)) (delete_access_tokens E' P)"
  unfolding delete_access_tokens_def
  by (rule on_db_stmt) (auto simp: keeps_wf_def wf_drop_access)

text \<open>With the unique key, the row of a key is the only one.\<close>

lemma unique_row: "distinct (map f xs) \<Longrightarrow> x \<in> set xs \<Longrightarrow> y \<in> set xs \<Longrightarrow> f x = f y \<Longrightarrow> x = y"
  by (simp add: distinct_map inj_on_def)

end
