(* ===== verification/OAuth2_Facts.thy ===== *)
theory OAuth2_Facts
  imports OAuth2_Service Credentials
begin

text \<open>
  Properties of the OAuth2 service.

  First, every operation follows \<open>grows\<close> or \<open>shrinks\<close>, so the three kinds of credentials are instances of the
  interface \<open>single_use\<close> for runs of service operations. Then the shape of a successful exchange, refresh and
  revocation, and the conditions under which an exchange succeeds.
\<close>

section \<open>Operations and the credential relations\<close>

lemma grow_consume_code [evolve_intros]: "evolves (on_db (grows E k)) (consume_code E code t)"
  unfolding consume_code_def by (rule grow_update_auth_codes) simp_all

lemma grow_revoke_refresh [evolve_intros]: "evolves (on_db (grows E k)) (revoke_refresh E code t)"
  unfolding revoke_refresh_def by (rule grow_update_refresh_tokens) simp_all

lemma grow_issueUserTokens [evolve_intros]: "evolves (on_db (grows E k)) (issueUserTokens E c u scopes)"
  unfolding issueUserTokens_def create_token_pair_def by (intro evolve_intros grow.evolves_rules)

lemma grow_IssueFirstPartyUserTokens [evolve_intros]: "evolves (on_db (grows E k)) (IssueFirstPartyUserTokens E u)"
  unfolding IssueFirstPartyUserTokens_def by (rule grow_issueUserTokens)

lemma grow_upsert_client [evolve_intros]: "evolves (on_db (grows E k)) (upsert_client E c)"
  unfolding upsert_client_def by (intro evolve_intros grow.evolves_rules)

lemma grow_seed_service_client [evolve_intros]: "evolves (on_db (grows E k)) (seed_service_client E sc)"
  unfolding seed_service_client_def Let_def by (intro evolve_intros grow.evolves_rules)

lemma grow_seed_all [evolve_intros]: "evolves (on_db (grows E k)) (seed_all E scs)"
  by (induction scs) (simp_all, (intro evolve_intros grow.evolves_rules | assumption)+)

lemma grow_EnsureBuiltInClients [evolve_intros]: "evolves (on_db (grows E k)) (EnsureBuiltInClients E)"
  unfolding EnsureBuiltInClients_def upsertBuiltInPublicClient_def upsertBuiltInSuperClient_def
    ensureConfiguredServiceClients_def
  by (intro evolve_intros grow.evolves_rules)

lemma grow_RegisterServiceClient [evolve_intros]: "evolves (on_db (grows E k)) (RegisterServiceClient E n scopes)"
  unfolding RegisterServiceClient_def by (intro evolve_intros grow.evolves_rules)

lemma grow_CreateAuthorizationCode [evolve_intros]:
  "evolves (on_db (grows E k)) (CreateAuthorizationCode E cid uid uri scopes ch m)"
  unfolding CreateAuthorizationCode_def by (intro evolve_intros grow.evolves_rules)

lemma grow_ExchangeAuthorizationCode [evolve_intros]:
  "evolves (on_db (grows E k)) (ExchangeAuthorizationCode E cid code uri v)"
  unfolding ExchangeAuthorizationCode_def by (intro evolve_intros grow.evolves_rules)

lemma grow_RefreshUserToken [evolve_intros]: "evolves (on_db (grows E k)) (RefreshUserToken E cid tok)"
  unfolding RefreshUserToken_def by (intro evolve_intros grow.evolves_rules)

lemma grow_IssueClientCredentialsToken [evolve_intros]:
  "evolves (on_db (grows E k)) (IssueClientCredentialsToken E c scope tu te)"
  unfolding IssueClientCredentialsToken_def resolve_target_uid_def resolve_target_email_def count_users_def Let_def
  by (intro evolve_intros grow.evolves_rules)

lemma grow_ResolveAccessToken [evolve_intros]: "evolves (on_db (grows E k)) (ResolveAccessToken E tok)"
  unfolding ResolveAccessToken_def GetClient_def load_user_def by (intro evolve_intros grow.evolves_rules)

lemma grow_RevokeAccessToken [evolve_intros]: "evolves (on_db (grows E k)) (RevokeAccessToken E tok)"
  unfolding RevokeAccessToken_def
  by (intro evolve_intros grow.evolves_rules grow_update_access_tokens) simp_all

lemma shrink_cleanup [evolve_intros]: "evolves (on_db (shrinks E k)) (cleanup_runOnce E)"
  unfolding cleanup_runOnce_def CleanupExpiredAccessTokens_def CleanupExpiredAuthorizationCodes_def
  by (intro evolve_intros shrink.evolves_rules)

text \<open>The operations of the service, with their arguments; \<open>run_op\<close> runs one for its effect.\<close>

datatype service_op =
  OpEnsureClients
| OpRegister string "string list"
| OpCreateCode string string string "string list" string string
| OpExchange string string string string
| OpRefresh string string
| OpFirstParty string
| OpClientCredentials client string string string
| OpResolve string
| OpRevoke string
| OpCleanup

fun run_op :: "env \<Rightarrow> service_op \<Rightarrow> unit go" where
  "run_op E OpEnsureClients = do { _ \<leftarrow> EnsureBuiltInClients E; ret () }"
| "run_op E (OpRegister n s) = do { _ \<leftarrow> RegisterServiceClient E n s; ret () }"
| "run_op E (OpCreateCode c u r s h m) = do { _ \<leftarrow> CreateAuthorizationCode E c u r s h m; ret () }"
| "run_op E (OpExchange c code r v) = do { _ \<leftarrow> ExchangeAuthorizationCode E c code r v; ret () }"
| "run_op E (OpRefresh c tok) = do { _ \<leftarrow> RefreshUserToken E c tok; ret () }"
| "run_op E (OpFirstParty u) = do { _ \<leftarrow> IssueFirstPartyUserTokens E u; ret () }"
| "run_op E (OpClientCredentials c s u m) = do { _ \<leftarrow> IssueClientCredentialsToken E c s u m; ret () }"
| "run_op E (OpResolve tok) = do { _ \<leftarrow> ResolveAccessToken E tok; ret () }"
| "run_op E (OpRevoke tok) = do { _ \<leftarrow> RevokeAccessToken E tok; ret () }"
| "run_op E OpCleanup = cleanup_runOnce E"

lemma run_op_evolves:
  "evolves (on_db (grows E k)) (run_op E p) \<or> evolves (on_db (shrinks E k)) (run_op E p)"
proof (cases "p = OpCleanup")
  case True
  then show ?thesis by (simp add: shrink_cleanup)
next
  case False
  then have "evolves (on_db (grows E k)) (run_op E p)"
    by (cases p; simp; intro evolve_intros grow.evolves_rules)
  then show ?thesis ..
qed

lemma run_op_step:
  "code_live E k (db (final (run_op E p) w)) \<Longrightarrow> code_live E k (db w) \<or> \<not> code_present E k (db w)"
  "refresh_live E k (db (final (run_op E p) w)) \<Longrightarrow> refresh_live E k (db w) \<or> \<not> refresh_present E k (db w)"
  "access_live E k (db (final (run_op E p) w)) \<Longrightarrow> access_live E k (db w) \<or> \<not> access_present E k (db w)"
  using run_op_evolves [of E k p]
  unfolding evolves_def on_db_def grows_def shrinks_def no_revival_def by metis+

interpretation codes: single_use "code_present E k" "code_live E k" "run_op E" for E k
  by unfold_locales (auto dest: live_present run_op_step)

interpretation refreshes: single_use "refresh_present E k" "refresh_live E k" "run_op E" for E k
  by unfold_locales (auto dest: live_present run_op_step)

interpretation accesses: single_use "access_present E k" "access_live E k" "run_op E" for E k
  by unfold_locales (auto dest: live_present run_op_step)

section \<open>The schema invariant over the service\<close>

lemma wf_consume_code [wf_intros]: "evolves (on_db (keeps_wf E)) (consume_code E code t)"
  unfolding consume_code_def by (rule wf_update_auth_codes) simp_all

lemma wf_revoke_refresh [wf_intros]: "evolves (on_db (keeps_wf E)) (revoke_refresh E tok t)"
  unfolding revoke_refresh_def by (rule wf_update_refresh_tokens) simp_all

lemma wf_issueUserTokens [wf_intros]: "evolves (on_db (keeps_wf E)) (issueUserTokens E c u scopes)"
  unfolding issueUserTokens_def create_token_pair_def by (intro wf_intros wf.evolves_rules)

lemma wf_upsert_client [wf_intros]: "evolves (on_db (keeps_wf E)) (upsert_client E c)"
  unfolding upsert_client_def
  by (intro wf_intros wf.evolves_rules wf_update_clients) (simp_all add: set_values_def)

lemma wf_seed_service_client [wf_intros]: "evolves (on_db (keeps_wf E)) (seed_service_client E sc)"
  unfolding seed_service_client_def Let_def by (intro wf_intros wf.evolves_rules)

lemma wf_seed_all [wf_intros]: "evolves (on_db (keeps_wf E)) (seed_all E scs)"
  by (induction scs) (simp_all, (intro wf_intros wf.evolves_rules | assumption)+)

lemma wf_EnsureBuiltInClients [wf_intros]: "evolves (on_db (keeps_wf E)) (EnsureBuiltInClients E)"
  unfolding EnsureBuiltInClients_def upsertBuiltInPublicClient_def upsertBuiltInSuperClient_def
    ensureConfiguredServiceClients_def
  by (intro wf_intros wf.evolves_rules)

lemma wf_service_writes [wf_intros]:
  "evolves (on_db (keeps_wf E)) (RegisterServiceClient E n s)"
  "evolves (on_db (keeps_wf E)) (CreateAuthorizationCode E c u uri s h m)"
  "evolves (on_db (keeps_wf E)) (IssueClientCredentialsToken E cl scope tu te)"
  unfolding RegisterServiceClient_def CreateAuthorizationCode_def IssueClientCredentialsToken_def
    resolve_target_uid_def resolve_target_email_def count_users_def Let_def
  by (intro wf_intros wf.evolves_rules)+

lemma wf_service_tokens [wf_intros]:
  "evolves (on_db (keeps_wf E)) (ExchangeAuthorizationCode E c code uri v)"
  "evolves (on_db (keeps_wf E)) (RefreshUserToken E c tok)"
  "evolves (on_db (keeps_wf E)) (IssueFirstPartyUserTokens E u)"
  "evolves (on_db (keeps_wf E)) (ResolveAccessToken E tok)"
  unfolding ExchangeAuthorizationCode_def RefreshUserToken_def IssueFirstPartyUserTokens_def
    ResolveAccessToken_def GetClient_def load_user_def
  by (intro wf_intros wf.evolves_rules)+

lemma wf_RevokeAccessToken [wf_intros]: "evolves (on_db (keeps_wf E)) (RevokeAccessToken E tok)"
  unfolding RevokeAccessToken_def
  by (intro wf_intros wf.evolves_rules wf_update_access_tokens) simp_all

lemma wf_cleanup [wf_intros]: "evolves (on_db (keeps_wf E)) (cleanup_runOnce E)"
  unfolding cleanup_runOnce_def CleanupExpiredAccessTokens_def CleanupExpiredAuthorizationCodes_def
  by (intro wf_intros wf.evolves_rules)

lemma wf_run_op: "evolves (on_db (keeps_wf E)) (run_op E p)"
  by (cases p; simp; intro wf_intros wf.evolves_rules)

lemma wf_run_all: "evolves (on_db (keeps_wf E)) (run_all (run_op E) ps)"
  by (induction ps) (simp_all, (intro wf.evolves_rules wf_run_op | assumption)+)

section \<open>The shape of a success\<close>

text \<open>The tokens \<open>issueUserTokens\<close> returns: for the client, the user and the scopes it was given.\<close>

definition token_pair_for :: "string \<Rightarrow> string \<Rightarrow> string list \<Rightarrow> access_token \<times> refresh_token \<Rightarrow> bool" where
  "token_pair_for c u scopes p \<longleftrightarrow> (case p of (a, r) \<Rightarrow>
     at_ClientID a = c \<and> at_UserID a = Some u \<and> at_Scopes a = marshalStringSlice scopes \<and>
     at_SubjectType a = ''user'' \<and> at_RevokedAt a = None \<and>
     rt_ClientID r = c \<and> rt_UserID r = u \<and> rt_Scopes r = marshalStringSlice scopes \<and>
     rt_RevokedAt r = None \<and> rt_AccessTokenID r = at_ID a)"

lemma transaction_Inr:
  assumes "result (transaction E body) w = Inr x"
  shows "\<exists>w1. db w1 = db w \<and> ticks w1 = ticks w \<and> result body w1 = Inr x \<and>
    db (final (transaction E body) w) = db (final body w1)"
  by (rule transaction_cases [where E = E and body = body and w = w]) (use assms in auto)

lemma transaction_Inl:
  assumes "result (transaction E body) w = Inl e"
  shows "db (final (transaction E body) w) = db w"
  by (rule transaction_cases [where E = E and body = body and w = w]) (use assms in auto)

lemma issueUserTokens_Inr:
  assumes "result (issueUserTokens E c u scopes) w = Inr p"
  shows "token_pair_for c u scopes p"
proof -
  obtain a r where p: "p = (a, r)" by fastforce
  from assms show ?thesis
    unfolding issueUserTokens_def create_token_pair_def
    by (auto simp: p token_pair_for_def dest!: transaction_Inr insert_access_token_done insert_refresh_token_done
        split: sum.splits)
qed

lemma changed_rows_pos: "0 < changed_rows P f rs \<Longrightarrow> \<exists>r \<in> set rs. P r"
  unfolding changed_rows_def by (metis (no_types, lifting) filter_empty_conv length_greater_0_conv)

lemma consume_code_Inr:
  assumes "result (consume_code E code t) w = Inr n" and "0 < n" and "wf_tables E (db w)"
  shows "\<not> code_live E code (db (final (consume_code E code t) w))"
proof -
  let ?f = "\<lambda>r. r\<lparr>ac_ConsumedAt := Some (db_ts E t)\<rparr>"
  have d': "db (final (consume_code E code t) w) =
      (db w)\<lparr>auth_codes := update_rows (code_open E code t) ?f (auth_codes (db w))\<rparr>"
    and n: "n = changed_rows (code_open E code t) ?f (auth_codes (db w))"
    using stmt_Inr [OF assms(1) [unfolded consume_code_def update_auth_codes_def]]
    unfolding consume_code_def update_auth_codes_def by auto
  obtain r0 where r0: "r0 \<in> set (auth_codes (db w))" "code_open E code t r0"
    using changed_rows_pos assms(2) n by blast
  have "code_open E code t r" if "r \<in> set (auth_codes (db w))" "coll E (ac_Code r) = coll E code" for r
  proof -
    have "r = r0"
      using assms(3) that r0 unfolding wf_tables_def code_open_def
      by (intro unique_row [of "\<lambda>r. coll E (ac_Code r)" "auth_codes (db w)"]) auto
    with r0(2) show ?thesis by simp
  qed
  then show ?thesis
    by (auto simp: d' code_live_def list_ex_iff update_rows_def)
qed

lemma revoke_refresh_Inr:
  assumes "result (revoke_refresh E tok t) w = Inr n" and "0 < n" and "wf_tables E (db w)"
  shows "\<not> refresh_live E tok (db (final (revoke_refresh E tok t) w))"
proof -
  let ?f = "\<lambda>r. r\<lparr>rt_RevokedAt := Some (db_ts E t)\<rparr>"
  have d': "db (final (revoke_refresh E tok t) w) =
      (db w)\<lparr>refresh_tokens := update_rows (refresh_open E tok t) ?f (refresh_tokens (db w))\<rparr>"
    and n: "n = changed_rows (refresh_open E tok t) ?f (refresh_tokens (db w))"
    using stmt_Inr [OF assms(1) [unfolded revoke_refresh_def update_refresh_tokens_def]]
    unfolding revoke_refresh_def update_refresh_tokens_def by auto
  obtain r0 where r0: "r0 \<in> set (refresh_tokens (db w))" "refresh_open E tok t r0"
    using changed_rows_pos assms(2) n by blast
  have "refresh_open E tok t r" if "r \<in> set (refresh_tokens (db w))" "coll E (rt_RefreshToken r) = coll E tok" for r
  proof -
    have "r = r0"
      using assms(3) that r0 unfolding wf_tables_def refresh_open_def
      by (intro unique_row [of "\<lambda>r. coll E (rt_RefreshToken r)" "refresh_tokens (db w)"]) auto
    with r0(2) show ?thesis by simp
  qed
  then show ?thesis
    by (auto simp: d' refresh_live_def list_ex_iff update_rows_def)
qed

text \<open>A dead credential is refused, whatever else is presented with it.\<close>

lemma exchange_dead:
  assumes "\<not> code_live E code (db w)"
  shows "result (ExchangeAuthorizationCode E cid code uri v) w = Inl (OAuth InvalidGrant)"
proof (cases "result (db_first E auth_codes (\<lambda>r. coll E (ac_Code r) = coll E code)) w")
  case (Inl e)
  then show ?thesis by (simp add: ExchangeAuthorizationCode_def)
next
  case (Inr a)
  from db_first_Inr(1,2) [OF this] have "ac_ConsumedAt a \<noteq> None"
    using assms by (auto simp: code_live_def list_ex_iff)
  then show ?thesis by (simp add: ExchangeAuthorizationCode_def Inr)
qed

lemma refresh_dead:
  assumes "\<not> refresh_live E tok (db w)"
  shows "result (RefreshUserToken E cid tok) w = Inl (OAuth InvalidGrant)"
proof (cases "result (db_first E refresh_tokens (\<lambda>r. coll E (rt_RefreshToken r) = coll E tok)) w")
  case (Inl e)
  then show ?thesis by (simp add: RefreshUserToken_def)
next
  case (Inr a)
  from db_first_Inr(1,2) [OF this] have "rt_RevokedAt a \<noteq> None"
    using assms by (auto simp: refresh_live_def list_ex_iff)
  then show ?thesis by (simp add: RefreshUserToken_def Inr)
qed

lemma resolve_dead:
  assumes "\<not> access_live E tok (db w)"
  shows "result (ResolveAccessToken E tok) w = Inl (OAuth InvalidGrant)"
proof (cases "result (db_first E access_tokens (\<lambda>r. coll E (at_AccessToken r) = coll E tok)) w")
  case (Inl e)
  then show ?thesis by (simp add: ResolveAccessToken_def)
next
  case (Inr a)
  from db_first_Inr(1,2) [OF this] have "at_RevokedAt a \<noteq> None"
    using assms by (auto simp: access_live_def list_ex_iff)
  then show ?thesis by (simp add: ResolveAccessToken_def Inr)
qed

lemma ticks_db_first [simp]: "ticks (final (db_first E tab P) w) = ticks w"
  by (simp add: db_first_def)

lemma consume_ticks_db: "ticks (final (consume_code E code t) w) = ticks w"
  by (simp add: consume_code_def update_auth_codes_def)

text \<open>The steps of an accepted exchange: the row read, the consuming update, the tokens issued.\<close>

lemma exchange_steps:
  assumes "result (ExchangeAuthorizationCode E cid code uri v) w = Inr p"
  obtains a scopes w1 n where "a \<in> set (auth_codes (db w))" "coll E (ac_Code a) = coll E code"
    "code_acceptable a cid uri v (clock E (ticks w))" "unmarshal_strings (ac_Scopes a) = Some scopes"
    "db w1 = db w" "result (consume_code E code (clock E (Suc (ticks w)))) w1 = Inr n" "0 < n"
    "result (issueUserTokens E cid (ac_UserID a) scopes) (final (consume_code E code (clock E (Suc (ticks w)))) w1) = Inr p"
    "final (ExchangeAuthorizationCode E cid code uri v) w =
       final (issueUserTokens E cid (ac_UserID a) scopes) (final (consume_code E code (clock E (Suc (ticks w)))) w1)"
proof -
  define m where "m = db_first E auth_codes (\<lambda>r. coll E (ac_Code r) = coll E code)"
  obtain a where a: "result m w = Inr a"
    using assms by (cases "result m w") (auto simp: ExchangeAuthorizationCode_def m_def)
  have row: "a \<in> set (auth_codes (db w))" "coll E (ac_Code a) = coll E code"
    using db_first_Inr(1,2) a unfolding m_def by fastforce+
  have acc: "ac_ClientID a = cid" "ac_RedirectURI a = uri" "ac_ConsumedAt a = None"
    "code_acceptable a cid uri v (clock E (ticks w))"
    using assms a unfolding m_def by (auto simp: ExchangeAuthorizationCode_def split: if_splits)
  obtain scopes where sc: "unmarshal_strings (ac_Scopes a) = Some scopes"
    using assms a acc unfolding m_def
    by (cases "unmarshal_strings (ac_Scopes a)") (auto simp: ExchangeAuthorizationCode_def)
  define w1 where "w1 = final (now E) (final (now E) (final m w))"
  have d: "db w1 = db w" by (simp add: w1_def m_def)
  let ?c = "consume_code E code (clock E (Suc (ticks w)))"
  obtain n where n: "result ?c w1 = Inr n"
    using assms a acc sc unfolding w1_def m_def
    by (cases "result ?c w1") (auto simp: ExchangeAuthorizationCode_def w1_def m_def)
  have pos: "0 < n"
    using assms a acc sc n unfolding w1_def m_def
    by (cases "n = 0") (auto simp: ExchangeAuthorizationCode_def)
  show thesis
    using assms a acc sc n pos unfolding w1_def m_def
    by (intro that [OF row acc(4) sc d n pos]) (simp_all add: ExchangeAuthorizationCode_def w1_def m_def)
qed

lemma exchange_kills:
  assumes "result (ExchangeAuthorizationCode E cid code uri v) w = Inr p" and "wf_tables E (db w)"
  shows "\<not> code_live E code (db (final (ExchangeAuthorizationCode E cid code uri v) w))"
proof -
  from assms(1) show ?thesis
  proof (rule exchange_steps)
    fix a scopes w1 n
    let ?w2 = "final (consume_code E code (clock E (Suc (ticks w)))) w1"
    assume 1: "a \<in> set (auth_codes (db w))" "coll E (ac_Code a) = coll E code" "db w1 = db w"
      "result (consume_code E code (clock E (Suc (ticks w)))) w1 = Inr n" "0 < n"
      "final (ExchangeAuthorizationCode E cid code uri v) w = final (issueUserTokens E cid (ac_UserID a) scopes) ?w2"
    have "\<not> code_live E code (db ?w2)"
      using consume_code_Inr [OF 1(4,5)] assms(2) 1(3) by simp
    moreover have "code_present E code (db w)"
      using 1(1,2) by (auto simp: code_present_def list_ex_iff)
    then have "code_present E code (db ?w2)"
      using grow_consume_code [of E code code "clock E (Suc (ticks w))"] 1(3)
      unfolding evolves_def on_db_def grows_def no_revival_def by metis
    ultimately show ?thesis
      using grow_issueUserTokens [of E code cid "ac_UserID a" scopes] unfolding 1(6)
      by (auto simp: evolves_def on_db_def grows_def no_revival_def)
  qed
qed

text \<open>The same for an accepted refresh.\<close>

lemma refresh_steps:
  assumes "result (RefreshUserToken E cid tok) w = Inr p"
  obtains r scopes w1 n where "r \<in> set (refresh_tokens (db w))" "coll E (rt_RefreshToken r) = coll E tok"
    "rt_ClientID r = cid" "rt_RevokedAt r = None" "\<not> clock E (ticks w) > rt_ExpiresAt r"
    "unmarshal_strings (rt_Scopes r) = Some scopes"
    "db w1 = db w" "result (revoke_refresh E tok (clock E (Suc (ticks w)))) w1 = Inr n" "0 < n"
    "result (issueUserTokens E cid (rt_UserID r) scopes) (final (revoke_refresh E tok (clock E (Suc (ticks w)))) w1) = Inr p"
    "final (RefreshUserToken E cid tok) w =
       final (issueUserTokens E cid (rt_UserID r) scopes) (final (revoke_refresh E tok (clock E (Suc (ticks w)))) w1)"
proof -
  define m where "m = db_first E refresh_tokens (\<lambda>r. coll E (rt_RefreshToken r) = coll E tok)"
  obtain r where a: "result m w = Inr r"
    using assms by (cases "result m w") (auto simp: RefreshUserToken_def m_def)
  have row: "r \<in> set (refresh_tokens (db w))" "coll E (rt_RefreshToken r) = coll E tok"
    using db_first_Inr(1,2) a unfolding m_def by fastforce+
  have acc: "rt_ClientID r = cid" "rt_RevokedAt r = None" "\<not> clock E (ticks w) > rt_ExpiresAt r"
    using assms a unfolding m_def by (auto simp: RefreshUserToken_def split: if_splits)
  obtain scopes where sc: "unmarshal_strings (rt_Scopes r) = Some scopes"
    using assms a acc unfolding m_def
    by (cases "unmarshal_strings (rt_Scopes r)") (auto simp: RefreshUserToken_def)
  define w1 where "w1 = final (now E) (final (now E) (final m w))"
  have d: "db w1 = db w" by (simp add: w1_def m_def)
  let ?c = "revoke_refresh E tok (clock E (Suc (ticks w)))"
  obtain n where n: "result ?c w1 = Inr n"
    using assms a acc sc unfolding w1_def m_def
    by (cases "result ?c w1") (auto simp: RefreshUserToken_def w1_def m_def)
  have pos: "0 < n"
    using assms a acc sc n unfolding w1_def m_def
    by (cases "n = 0") (auto simp: RefreshUserToken_def)
  show thesis
    using assms a acc sc n pos unfolding w1_def m_def
    by (intro that [OF row acc sc d n pos]) (simp_all add: RefreshUserToken_def w1_def m_def)
qed

lemma refresh_kills:
  assumes "result (RefreshUserToken E cid tok) w = Inr p" and "wf_tables E (db w)"
  shows "\<not> refresh_live E tok (db (final (RefreshUserToken E cid tok) w))"
proof -
  from assms(1) show ?thesis
  proof (rule refresh_steps)
    fix r scopes w1 n
    let ?w2 = "final (revoke_refresh E tok (clock E (Suc (ticks w)))) w1"
    assume 1: "r \<in> set (refresh_tokens (db w))" "coll E (rt_RefreshToken r) = coll E tok" "db w1 = db w"
      "result (revoke_refresh E tok (clock E (Suc (ticks w)))) w1 = Inr n" "0 < n"
      "final (RefreshUserToken E cid tok) w = final (issueUserTokens E cid (rt_UserID r) scopes) ?w2"
    have "\<not> refresh_live E tok (db ?w2)"
      using revoke_refresh_Inr [OF 1(4,5)] assms(2) 1(3) by simp
    moreover have "refresh_present E tok (db w)"
      using 1(1,2) by (auto simp: refresh_present_def list_ex_iff)
    then have "refresh_present E tok (db ?w2)"
      using grow_revoke_refresh [of E tok tok "clock E (Suc (ticks w))"] 1(3)
      unfolding evolves_def on_db_def grows_def no_revival_def by metis
    ultimately show ?thesis
      using grow_issueUserTokens [of E tok cid "rt_UserID r" scopes] unfolding 1(6)
      by (auto simp: evolves_def on_db_def grows_def no_revival_def)
  qed
qed

lemma revoke_kills:
  assumes "result (RevokeAccessToken E tok) w = Inr ()"
  shows "\<not> access_live E tok (db (final (RevokeAccessToken E tok) w))"
proof -
  define w1 where "w1 = final (now E) w"
  let ?P = "\<lambda>r. coll E (at_AccessToken r) = coll E tok \<and> at_RevokedAt r = None"
  let ?f = "\<lambda>r. r\<lparr>at_RevokedAt := Some (db_ts E (clock E (ticks w)))\<rparr>"
  obtain n where n: "result (update_access_tokens E ?P ?f) w1 = Inr n"
    using assms by (cases "result (update_access_tokens E ?P ?f) w1") (auto simp: RevokeAccessToken_def w1_def)
  have "db (final (RevokeAccessToken E tok) w) = db (final (update_access_tokens E ?P ?f) w1)"
    by (simp add: RevokeAccessToken_def w1_def)
  also have "\<dots> = (db w1)\<lparr>access_tokens := update_rows ?P ?f (access_tokens (db w1))\<rparr>"
    using stmt_Inr [OF n [unfolded update_access_tokens_def]] unfolding update_access_tokens_def by auto
  finally show ?thesis
    by (auto simp: access_live_def list_ex_iff update_rows_def)
qed

section \<open>When an exchange succeeds\<close>

text \<open>The automatic keys to come are not in use.\<close>

definition keys_ahead :: "world \<Rightarrow> bool" where
  "keys_ahead w \<longleftrightarrow> (\<forall>a \<in> set (access_tokens (db w)). at_ID a < next_access (seqs w)) \<and>
     (\<forall>r \<in> set (refresh_tokens (db w)). rt_ID r < next_refresh (seqs w))"

lemma insert_access_token_ok:
  assumes "keys_ahead w" and "\<not> db_fault E (stmts w)" and "\<not> access_present E (at_AccessToken a) (db w)"
    and "owner_exists E (at_UserID a) (db w)"
  shows "result (insert_access_token E a) w = Inr (a\<lparr>at_ID := next_access (seqs w)\<rparr>) \<and>
    db (final (insert_access_token E a) w) =
      (db w)\<lparr>access_tokens := access_tokens (db w) @ [a\<lparr>at_ID := next_access (seqs w), at_ExpiresAt := db_ts E (at_ExpiresAt a)\<rparr>]\<rparr> \<and>
    next_refresh (seqs (final (insert_access_token E a) w)) = next_refresh (seqs w)"
proof -
  have "\<not> list_ex (\<lambda>r. at_ID r = next_access (seqs w)) (access_tokens (db w))"
    using assms(1) by (auto simp: keys_ahead_def list_ex_iff)
  with assms show ?thesis
    by (simp add: insert_access_token_def stmt_def result_def final_def Let_def access_present_def owner_exists_def list_ex_disj
      split: option.splits)
qed

lemma insert_refresh_token_ok:
  assumes "\<forall>x \<in> set (refresh_tokens (db w)). rt_ID x < next_refresh (seqs w)" and "\<not> db_fault E (stmts w)" and "\<not> refresh_present E (rt_RefreshToken r) (db w)"
    and "list_ex (\<lambda>a. at_ID a = rt_AccessTokenID r) (access_tokens (db w))" and "user_exists E (rt_UserID r) (db w)"
  shows "\<exists>x. result (insert_refresh_token E r) w = Inr x"
proof -
  have "\<not> list_ex (\<lambda>x. rt_ID x = next_refresh (seqs w)) (refresh_tokens (db w))"
    using assms(1) by (auto simp: list_ex_iff)
  with assms show ?thesis
    by (simp add: insert_refresh_token_def stmt_def result_def Let_def refresh_present_def list_ex_disj)
qed

lemma transaction_ok:
  assumes "\<And>n. \<not> db_fault E n" and "\<And>w1. db w1 = db w \<Longrightarrow> seqs w1 = seqs w \<Longrightarrow> \<exists>x. result body w1 = Inr x"
  shows "\<exists>x. result (transaction E body) w = Inr x"
proof -
  define w1 where "w1 = final (stmt E (\<lambda>d q. (Inr (), d, q))) w"
  have ok: "result (stmt E (\<lambda>d q. (Inr (), d, q))) u = Inr ()" for u
    using assms(1) by (simp add: stmt_def result_def Let_def)
  have "db w1 = db w"
    by (rule stmt_cases [where E = E and w = w and f = "\<lambda>d q. (Inr (), d, q)"]) (auto simp: w1_def)
  moreover have "seqs w1 = seqs w"
    by (simp add: w1_def stmt_def final_def Let_def)
  ultimately obtain x where "result body w1 = Inr x" using assms(2) by blast
  then show ?thesis
    by (simp add: transaction_def ok flip: w1_def)
qed

definition fresh_tokens :: "env \<Rightarrow> tables \<Rightarrow> bool" where
  "fresh_tokens E d \<longleftrightarrow> (\<forall>n. \<not> access_present E (case entropy E n 32 of None \<Rightarrow> [] | Some b \<Rightarrow> hex_encode b) d \<and>
     \<not> refresh_present E (case entropy E n 32 of None \<Rightarrow> [] | Some b \<Rightarrow> hex_encode b) d)"

lemma create_token_pair_ok:
  assumes "keys_ahead w" and "\<And>n. \<not> db_fault E n" and "user_exists E u (db w)" and "at_UserID a = Some u" and "rt_UserID r = u"
    and "\<not> access_present E (at_AccessToken a) (db w)" and "\<not> refresh_present E (rt_RefreshToken r) (db w)"
  shows "\<exists>p. result (create_token_pair E a r) w = Inr p"
proof -
  have a: "result (insert_access_token E a) w = Inr (a\<lparr>at_ID := next_access (seqs w)\<rparr>)"
    "db (final (insert_access_token E a) w) =
      (db w)\<lparr>access_tokens := access_tokens (db w) @ [a\<lparr>at_ID := next_access (seqs w), at_ExpiresAt := db_ts E (at_ExpiresAt a)\<rparr>]\<rparr>"
    "next_refresh (seqs (final (insert_access_token E a) w)) = next_refresh (seqs w)"
    using insert_access_token_ok [of w E a] assms by (simp_all add: owner_exists_def)
  have "\<exists>x. result (insert_refresh_token E (r\<lparr>rt_AccessTokenID := next_access (seqs w)\<rparr>))
      (final (insert_access_token E a) w) = Inr x"
    by (rule insert_refresh_token_ok) (use assms in \<open>simp_all add: a(2,3) refresh_present_def keys_ahead_def\<close>)
  then show ?thesis
    by (auto simp: create_token_pair_def a(1))
qed

lemma seqs_keep [simp]:
  "seqs (final (now E) w) = seqs w" "seqs (final (GenerateRandomToken E n) w) = seqs w"
  by (simp_all add: now_def GenerateRandomToken_def final_def)

lemma issueUserTokens_ok:
  assumes "keys_ahead w" and "\<And>n. \<not> db_fault E n" and "user_exists E u (db w)" and "fresh_tokens E (db w)"
  shows "\<exists>p. result (issueUserTokens E c u scopes) w = Inr p"
proof -
  have fresh: "\<not> access_present E (result (GenerateRandomToken E 32) w') (db w)"
    "\<not> refresh_present E (result (GenerateRandomToken E 32) w') (db w)" for w'
    using assms(4) by (simp_all add: fresh_tokens_def result_GenerateRandomToken)
  show ?thesis
    unfolding issueUserTokens_def result_bind
    by (rule transaction_ok [OF assms(2)], rule create_token_pair_ok)
      (use assms(1-3) fresh in \<open>simp_all add: keys_ahead_def\<close>)
qed

text \<open>The conditions under which \<open>ExchangeAuthorizationCode\<close> hands out tokens.\<close>

lemma consume_code_ok:
  assumes "\<not> db_fault E (stmts w)" and "a \<in> set (auth_codes (db w))" and "code_open E code t a"
  shows "\<exists>n. result (consume_code E code t) w = Inr n \<and> 0 < n"
proof -
  have "a \<in> set (filter (\<lambda>r. code_open E code t r \<and> r\<lparr>ac_ConsumedAt := Some (db_ts E t)\<rparr> \<noteq> r) (auth_codes (db w)))"
    using assms(2,3) by (auto simp: code_open_def dest: arg_cong [of _ _ ac_ConsumedAt])
  then have "0 < changed_rows (code_open E code t) (\<lambda>r. r\<lparr>ac_ConsumedAt := Some (db_ts E t)\<rparr>) (auth_codes (db w))"
    unfolding changed_rows_def by (metis length_pos_if_in_set)
  then show ?thesis
    using assms(1) by (simp add: consume_code_def update_auth_codes_def stmt_def result_def Let_def)
qed

lemma db_consume_code:
  "auth_codes (db (final (consume_code E code t) w)) = auth_codes (db w) \<or>
   auth_codes (db (final (consume_code E code t) w)) =
     update_rows (code_open E code t) (\<lambda>r. r\<lparr>ac_ConsumedAt := Some (db_ts E t)\<rparr>) (auth_codes (db w))"
  "users (db (final (consume_code E code t) w)) = users (db w)"
  "access_tokens (db (final (consume_code E code t) w)) = access_tokens (db w)"
  "refresh_tokens (db (final (consume_code E code t) w)) = refresh_tokens (db w)"
  unfolding consume_code_def update_auth_codes_def
  by (rule stmt_cases [where E = E and w = w and f = "\<lambda>d q. (Inr (changed_rows (code_open E code t)
      (\<lambda>r. r\<lparr>ac_ConsumedAt := Some (db_ts E t)\<rparr>) (auth_codes d)),
      d\<lparr>auth_codes := update_rows (code_open E code t) (\<lambda>r. r\<lparr>ac_ConsumedAt := Some (db_ts E t)\<rparr>) (auth_codes d)\<rparr>, q)"], auto)+

lemma seqs_update [simp]:
  "seqs (final (db_first E tab P) w) = seqs w" "seqs (final (consume_code E code t) w) = seqs w"
  "seqs (final (revoke_refresh E tok t) w) = seqs w"
  by (simp_all add: db_first_def consume_code_def revoke_refresh_def update_auth_codes_def update_refresh_tokens_def
      stmt_def final_def Let_def split: option.splits)

lemma exchange_succeeds:
  assumes "wf_tables E (db w)" and "keys_ahead w" and "\<And>n. \<not> db_fault E n" and "fresh_tokens E (db w)"
    and "a \<in> set (auth_codes (db w))" and "coll E (ac_Code a) = coll E code"
    and "code_acceptable a cid uri v (clock E (ticks w))" and "clock E (Suc (ticks w)) < ac_ExpiresAt a"
    and "unmarshal_strings (ac_Scopes a) = Some scopes"
  shows "\<exists>p. result (ExchangeAuthorizationCode E cid code uri v) w = Inr p"
proof -
  define m where "m = db_first E auth_codes (\<lambda>r. coll E (ac_Code r) = coll E code)"
  have "find (\<lambda>r. coll E (ac_Code r) = coll E code) (auth_codes (db w)) \<noteq> None"
    using assms(5,6) by (auto simp: find_None_iff)
  then obtain b where b: "result m w = Inr b"
    using assms(3) by (auto simp: m_def db_first_result)
  have "b = a"
    using db_first_Inr(1,2) [OF b [unfolded m_def]] assms(1,5,6) unfolding wf_tables_def
    by (intro unique_row [of "\<lambda>r. coll E (ac_Code r)" "auth_codes (db w)"]) auto
  define w1 where "w1 = final (now E) (final (now E) (final m w))"
  have w1: "db w1 = db w" "seqs w1 = seqs w" by (simp_all add: w1_def m_def)
  let ?c = "consume_code E code (clock E (Suc (ticks w)))"
  have "code_open E code (clock E (Suc (ticks w))) a"
    using assms(6-8) by (simp add: code_open_def code_acceptable_def)
  then obtain n where n: "result ?c w1 = Inr n" "0 < n"
    using consume_code_ok [of E w1 a code] assms(3,5) w1 by auto
  have "user_exists E (ac_UserID a) (db w)"
    using assms(1,5) by (auto simp: wf_tables_def list_all_iff)
  then obtain p where "result (issueUserTokens E cid (ac_UserID a) scopes) (final ?c w1) = Inr p"
    using issueUserTokens_ok [of "final ?c w1" E "ac_UserID a" cid scopes] assms(2-4) w1 db_consume_code [of E code _ w1]
    by (auto simp: user_exists_def fresh_tokens_def access_present_def refresh_present_def keys_ahead_def)
  then show ?thesis
    using assms(7,9) b n unfolding \<open>b = a\<close> w1_def m_def
    by (simp add: ExchangeAuthorizationCode_def code_acceptable_def)
qed

lemma revoke_refresh_ok:
  assumes "\<not> db_fault E (stmts w)" and "r \<in> set (refresh_tokens (db w))" and "refresh_open E tok t r"
  shows "\<exists>n. result (revoke_refresh E tok t) w = Inr n \<and> 0 < n"
proof -
  have "r \<in> set (filter (\<lambda>r. refresh_open E tok t r \<and> r\<lparr>rt_RevokedAt := Some (db_ts E t)\<rparr> \<noteq> r) (refresh_tokens (db w)))"
    using assms(2,3) by (auto simp: refresh_open_def dest: arg_cong [of _ _ rt_RevokedAt])
  then have "0 < changed_rows (refresh_open E tok t) (\<lambda>r. r\<lparr>rt_RevokedAt := Some (db_ts E t)\<rparr>) (refresh_tokens (db w))"
    unfolding changed_rows_def by (metis length_pos_if_in_set)
  then show ?thesis
    using assms(1) by (simp add: revoke_refresh_def update_refresh_tokens_def stmt_def result_def Let_def)
qed

lemma db_revoke_refresh:
  "users (db (final (revoke_refresh E tok t) w)) = users (db w)"
  "access_tokens (db (final (revoke_refresh E tok t) w)) = access_tokens (db w)"
  "refresh_present E k (db (final (revoke_refresh E tok t) w)) = refresh_present E k (db w)"
  unfolding revoke_refresh_def update_refresh_tokens_def
  by (rule stmt_cases [where E = E and w = w and f = "\<lambda>d q. (Inr (changed_rows (refresh_open E tok t)
      (\<lambda>r. r\<lparr>rt_RevokedAt := Some (db_ts E t)\<rparr>) (refresh_tokens d)),
      d\<lparr>refresh_tokens := update_rows (refresh_open E tok t) (\<lambda>r. r\<lparr>rt_RevokedAt := Some (db_ts E t)\<rparr>) (refresh_tokens d)\<rparr>, q)"],
    auto simp: refresh_present_def list_ex_update_rows)+

lemma keys_ahead_revoke:
  assumes "keys_ahead w"
  shows "keys_ahead (final (revoke_refresh E tok t) w)"
proof -
  have "map rt_ID (refresh_tokens (db (final (revoke_refresh E tok t) w))) = map rt_ID (refresh_tokens (db w))"
    unfolding revoke_refresh_def update_refresh_tokens_def
    by (rule stmt_cases [where E = E and w = w and f = "\<lambda>d q. (Inr (changed_rows (refresh_open E tok t)
      (\<lambda>r. r\<lparr>rt_RevokedAt := Some (db_ts E t)\<rparr>) (refresh_tokens d)),
      d\<lparr>refresh_tokens := update_rows (refresh_open E tok t) (\<lambda>r. r\<lparr>rt_RevokedAt := Some (db_ts E t)\<rparr>) (refresh_tokens d)\<rparr>, q)"])
      (auto simp: map_update_rows)
  then have "rt_ID ` set (refresh_tokens (db (final (revoke_refresh E tok t) w))) = rt_ID ` set (refresh_tokens (db w))"
    by (metis list.set_map)
  then have "\<forall>r \<in> set (refresh_tokens (db (final (revoke_refresh E tok t) w))). rt_ID r < next_refresh (seqs w)"
    using assms unfolding keys_ahead_def by (metis (no_types, lifting) imageE imageI)
  with assms show ?thesis
    by (simp add: keys_ahead_def db_revoke_refresh)
qed

lemma refresh_succeeds:
  assumes "wf_tables E (db w)" and "keys_ahead w" and "\<And>n. \<not> db_fault E n" and "fresh_tokens E (db w)"
    and "r \<in> set (refresh_tokens (db w))" and "coll E (rt_RefreshToken r) = coll E tok"
    and "rt_ClientID r = cid" and "rt_RevokedAt r = None" and "clock E (ticks w) \<le> rt_ExpiresAt r"
    and "clock E (Suc (ticks w)) < rt_ExpiresAt r" and "unmarshal_strings (rt_Scopes r) = Some scopes"
  shows "\<exists>p. result (RefreshUserToken E cid tok) w = Inr p"
proof -
  define m where "m = db_first E refresh_tokens (\<lambda>r. coll E (rt_RefreshToken r) = coll E tok)"
  have "find (\<lambda>r. coll E (rt_RefreshToken r) = coll E tok) (refresh_tokens (db w)) \<noteq> None"
    using assms(5,6) by (auto simp: find_None_iff)
  then obtain b where b: "result m w = Inr b"
    using assms(3) by (auto simp: m_def db_first_result)
  have "b = r"
    using db_first_Inr(1,2) [OF b [unfolded m_def]] assms(1,5,6) unfolding wf_tables_def
    by (intro unique_row [of "\<lambda>r. coll E (rt_RefreshToken r)" "refresh_tokens (db w)"]) auto
  define w1 where "w1 = final (now E) (final (now E) (final m w))"
  have w1: "db w1 = db w" "seqs w1 = seqs w" by (simp_all add: w1_def m_def)
  let ?c = "revoke_refresh E tok (clock E (Suc (ticks w)))"
  have "refresh_open E tok (clock E (Suc (ticks w))) r"
    using assms(6-10) by (simp add: refresh_open_def)
  then obtain n where n: "result ?c w1 = Inr n" "0 < n"
    using revoke_refresh_ok [of E w1 r tok] assms(3,5) w1 by auto
  have "user_exists E (rt_UserID r) (db w)"
    using assms(1,5) by (auto simp: wf_tables_def list_all_iff)
  then obtain p where "result (issueUserTokens E cid (rt_UserID r) scopes) (final ?c w1) = Inr p"
    using issueUserTokens_ok [of "final ?c w1" E "rt_UserID r" cid scopes] assms(2-4) w1 db_revoke_refresh [where E = E and tok = tok and w = w1]
      keys_ahead_revoke [of w1 E tok "clock E (Suc (ticks w))"]
    by (auto simp: user_exists_def fresh_tokens_def access_present_def keys_ahead_def)
  then show ?thesis
    using assms(7-9,11) b n unfolding \<open>b = r\<close> w1_def m_def
    by (simp add: RefreshUserToken_def)
qed

end
