(* ===== verification/OAuth2_Properties.thy ===== *)
theory OAuth2_Properties
  imports OAuth2_Facts
begin

text \<open>
  The properties of the OAuth2 service, with a concrete service (\<open>demo_env\<close>, \<open>demo_world\<close>) they are applied to.
\<close>

section \<open>A concrete service\<close>

text \<open>
  One user, the public client, an open authorization code with the challenge of the verifier \<open>v\<close>, and an open
  access and refresh token. Nothing fails, the clock stands at 1, strings are compared byte by byte.
\<close>

definition demo_lib :: webauthn_lib where
  "demo_lib = \<lparr>wl_New = (\<lambda>_. None), wl_BeginRegistration = (\<lambda>n i a. Inr (JNull, JObj [])),
     wl_BeginLogin = (\<lambda>n i v. Inr (JNull, JObj [])), wl_BeginDiscoverableLogin = (\<lambda>n v. Inr (JNull, JObj [])),
     wl_ParseCreation = Inr, wl_ParseAssertion = Inr, wl_CreateCredential = (\<lambda>n i s p. Inr p),
     wl_ValidateLogin = (\<lambda>n i s p. if p \<in> set (wi_Credentials i) then Inr p else Inl ''invalid''),
     wl_handle = (\<lambda>n s p. Inr (p, [])), wl_lookup_error = (\<lambda>e. e), wl_ValidatePasskeyLogin = (\<lambda>n i s p. Inr p),
     wl_session = Some, wl_Expires = (\<lambda>_. - 62135596800000000000), wl_credential = Some, wl_credential_id = (\<lambda>c. c)\<rparr>"

definition demo_env :: env where
  "demo_env = \<lparr>oauth2 = \<lparr>Issuer = [], AuthorizationCodeTTL = 300, AccessTokenTTL = 3600, RefreshTokenTTL = 2592000,
       SuperClientID = ''super'', SuperClientSecret = ''root'', SuperClientExtraScopes = [], PublicClientID = ''webui'',
       PublicRedirectURIs = [''https://a/cb''], ServiceClients = [],
       ServiceScopeAllowlist = [(''svc'', [''user.read.as-service'', ''db.line.read''])]\<rparr>,
     manage_token = ''mt'', redis_prefix = ''ha:'', redis_ready = True,
     security = \<lparr>PasswordCost = 10, RateLimitMaxAttempts = 5, RateLimitWindowSec = 60, EnableCaptcha = False, CaptchaTTL = 300\<rparr>,
     code_store = \<lparr>CodeTTL = 600, StorageDir = ''codes''\<rparr>,
     smtp = \<lparr>m_Host = ''smtp'', m_Port = 25, m_Username = [], m_Password = [], FromEmail = ''ha@b.c'', FromName = ''HA''\<rparr>, 
     webauthn_cfg = \<lparr>RPDisplayName = ''HA'', RPID = ''a'', RPOrigins = [''https://a''], SessionTTL = 300\<rparr>,
     yggdrasil_url = ''http://ygg'', clock = (\<lambda>_. 1), db_fault = (\<lambda>_. False), db_ts = (\<lambda>t. t),
     coll = (\<lambda>s. s), entropy = (\<lambda>d n. Some (replicate n (char_of d))), kv_fault = (\<lambda>_. False), kv_clock = (\<lambda>_. 1),
     draw_int = (\<lambda>d. 1234 + d), header_order = (\<lambda>_ h. h),
     range_order = (\<lambda>_ m. m), json_text = (\<lambda>m. print_json (JObj m)), uid_eq = (\<lambda>s n. s = itoa n),
     captcha_question = (\<lambda>d. (itoa d, ''abcd'')), captcha_image = (\<lambda>_. None),
     file_fault = (\<lambda>_. False), file_torn = (\<lambda>_. None), network = (\<lambda>_ _. None), valid_url = (\<lambda>_. True),
     mail_fault = (\<lambda>_. None), bcrypt_check = (\<lambda>p h. p = h),
     bcrypt_hash = (\<lambda>_ p. Some p), valid_address = (\<lambda>a. CHR ''@'' \<in> set a),
     webauthn = demo_lib, client_created = (\<lambda>_. 0), credential_created = (\<lambda>_. 0), time_text = (\<lambda>t. Some (int_text t)),
     time_of_text = (\<lambda>s. Some (if HasPrefix s ''-'' then - int (digits_value (tl s)) else int (digits_value s))),
     error_text = (\<lambda>_. ''error''), db_ready = True,
     site = \<lparr>s_Name = ''HA'', s_Implementation = ''ha'', s_Version = ''1''\<rparr>, server = \<lparr>srv_Port = '':8080'', CORSOrigin = []\<rparr>,
     frontend_url = ''https://f/'', callback_url = ''https://a/'',
     sdk_packages = \<lparr>sdk_StorageDir = ''data/sdk'', MaxPackageSize = 1000, MaxPackages = 2\<rparr>,
     tar_gz = (\<lambda>_. None), zip_files = (\<lambda>_. None), removed = (\<lambda>_ _. False), quote = (\<lambda>s. s)\<rparr>"

definition demo_user :: user where
  "demo_user = \<lparr>UID = 1, u_UUID = ''u1'', Email = ''a@b.c'', Avatar = [], u_Password = ''pw'', IP = [], Permission = 0,
     LastSignAt = None, RegisterAt = None, Verified = True, Username = ''ann'', RegIP = [], TOTP = [], TwoFA = False,
     WebAuthn2FAEnabled = False, Email2FAEnabled = False, RecoveryKey = [], RecoveryKeyEnabled = False, u_DeletedAt = None\<rparr>"

definition demo_code :: auth_code where
  "demo_code = \<lparr>ac_ID = 1, ac_Code = ''code'', ac_ClientID = ''webui'', ac_UserID = ''u1'', ac_RedirectURI = ''https://a/cb'',
     ac_Scopes = marshal_strings [''user.read''], ac_CodeChallenge = b64_raw_url (sha256 ''v''),
     ac_CodeChallengeMethod = ''S256'', ac_ExpiresAt = 5, ac_ConsumedAt = None\<rparr>"

definition demo_access :: access_token where
  "demo_access = \<lparr>at_ID = 1, at_AccessToken = ''acc'', at_ClientID = ''webui'', at_UserID = Some ''u1'',
     at_Scopes = marshal_strings [''user.read''], at_SubjectType = ''user'', at_TargetUID = None, at_TargetEmail = None,
     at_ExpiresAt = 5, at_RevokedAt = None\<rparr>"

definition demo_refresh :: refresh_token where
  "demo_refresh = \<lparr>rt_ID = 1, rt_RefreshToken = ''ref'', rt_AccessTokenID = 1, rt_ClientID = ''webui'', rt_UserID = ''u1'',
     rt_Scopes = marshal_strings [''user.read''], rt_ExpiresAt = 9, rt_RevokedAt = None\<rparr>"

definition demo_world :: world where
  "demo_world = \<lparr>db = \<lparr>users = [demo_user], clients = [(public_client demo_env)\<lparr>cl_ID := 1\<rparr>, (super_client demo_env)\<lparr>cl_ID := 2\<rparr>],
       auth_codes = [demo_code], access_tokens = [demo_access], refresh_tokens = [demo_refresh], credentials = [],
       deleted_accounts = []\<rparr>,
     seqs = \<lparr>next_client = 3, next_code = 2, next_access = 2, next_refresh = 2, next_credential = 1\<rparr>,
     ticks = 0, stmts = 0, draws = 0, kv = [], cmds = 0, code_files = [], file_ops = 0, presence = [], routes = [],
     relays = [], hooks = [], calls = 0, outbox = [], disk = []\<rparr>"

lemma demo_env_simps [simp]:
  "coll demo_env s = s" "db_fault demo_env n = False" "clock demo_env n = 1" "db_ts demo_env t = t"
  "entropy demo_env k n = Some (replicate n (char_of k))" "manage_token demo_env = ''mt''"
  by (simp_all add: demo_env_def)

lemma demo_world_simps [simp]:
  "users (db demo_world) = [demo_user]" "auth_codes (db demo_world) = [demo_code]"
  "access_tokens (db demo_world) = [demo_access]" "refresh_tokens (db demo_world) = [demo_refresh]"
  "clients (db demo_world) = [(public_client demo_env)\<lparr>cl_ID := 1\<rparr>, (super_client demo_env)\<lparr>cl_ID := 2\<rparr>]"
  by (simp_all add: demo_world_def)

lemma demo_wf: "wf_tables demo_env (db demo_world)"
  by (simp add: wf_tables_def owner_exists_def user_exists_def demo_user_def demo_code_def demo_access_def demo_refresh_def
      public_client_def super_client_def) (simp add: demo_env_def)

lemma user_read_valid: "unmarshal_strings (marshal_strings [''user.read'']) = Some [''user.read'']"
  by (rule unmarshal_marshal_valid) (simp add: ascii_valid)

lemma demo_ahead: "keys_ahead demo_world"
  by (simp add: keys_ahead_def demo_access_def demo_refresh_def) (simp add: demo_world_def)

lemma demo_fresh: "fresh_tokens demo_env (db demo_world)"
proof -
  have "hex_encode (replicate 32 (char_of n)) \<noteq> s" if "length s = 3" for n :: nat and s
  proof
    assume "hex_encode (replicate 32 (char_of n)) = s"
    then have "length (hex_encode (replicate 32 (char_of n))) = length s" by (rule arg_cong)
    with that show False by simp
  qed
  from this [of "''acc''"] this [of "''ref''"] show ?thesis
    by (auto simp: fresh_tokens_def access_present_def refresh_present_def demo_access_def demo_refresh_def dest: sym)
qed

lemma demo_acceptable: "code_acceptable demo_code ''webui'' ''https://a/cb'' ''v'' 1"
  by (simp add: code_acceptable_def verifyPKCE_def demo_code_def)

lemma demo_exchange:
  "\<exists>p. result (ExchangeAuthorizationCode demo_env ''webui'' ''code'' ''https://a/cb'' ''v'') demo_world = Inr p"
  by (rule exchange_succeeds [OF demo_wf demo_ahead _ demo_fresh, where a = demo_code and scopes = "[''user.read'']"])
    (simp_all add: demo_acceptable, simp_all add: demo_code_def user_read_valid)

lemma demo_refresh_ok: "\<exists>p. result (RefreshUserToken demo_env ''webui'' ''ref'') demo_world = Inr p"
  by (rule refresh_succeeds [OF demo_wf demo_ahead _ demo_fresh, where r = demo_refresh and scopes = "[''user.read'']"])
    (simp_all add: demo_refresh_def user_read_valid)

section \<open>Properties\<close>

text \<open>
  C1: An authorization code is single use: after a successful exchange, every later attempt to exchange it is
  refused, whoever makes it, with whatever verifier, over any run of service operations in between that does
  not create the same code again.
\<close>

theorem exchange_single_use:
  assumes "wf_tables E (db w)"
    and "result (ExchangeAuthorizationCode E cid code uri v) w = Inr p"
    and "quiet (code_present E code) (run_op E) ops (final (ExchangeAuthorizationCode E cid code uri v) w)"
  shows "result (ExchangeAuthorizationCode E cid' code uri' v')
    (final (run_all (run_op E) ops) (final (ExchangeAuthorizationCode E cid code uri v) w)) = Inl (OAuth InvalidGrant)"
  by (rule exchange_dead) (rule codes.dead_stays_dead [OF assms(3) exchange_kills [OF assms(2,1)]])

theorem exchange_single_use_witness:
  "\<exists>p w'. result (ExchangeAuthorizationCode demo_env ''webui'' ''code'' ''https://a/cb'' ''v'') demo_world = Inr p \<and>
     w' = final (ExchangeAuthorizationCode demo_env ''webui'' ''code'' ''https://a/cb'' ''v'') demo_world \<and>
     result (ExchangeAuthorizationCode demo_env ''webui'' ''code'' ''https://a/cb'' ''v'') w' = Inl (OAuth InvalidGrant)"
proof -
  obtain p where p: "result (ExchangeAuthorizationCode demo_env ''webui'' ''code'' ''https://a/cb'' ''v'') demo_world = Inr p"
    using demo_exchange by blast
  from exchange_single_use [OF demo_wf p, of "[]"] p show ?thesis by auto
qed

text \<open>
  C8: What an exchange needs: it hands out tokens only for a stored code of the same client and redirect URI that
  was not consumed, had not expired, and whose challenge the verifier answers; the tokens are for the client, the
  user and the scopes of that code.
\<close>

theorem exchange_requires:
  assumes "result (ExchangeAuthorizationCode E cid code uri v) w = Inr p"
  shows "\<exists>a \<in> set (auth_codes (db w)). coll E (ac_Code a) = coll E code \<and> ac_ClientID a = cid \<and> ac_RedirectURI a = uri \<and>
    ac_ConsumedAt a = None \<and> clock E (ticks w) \<le> ac_ExpiresAt a \<and> b64_raw_url (sha256 v) = ac_CodeChallenge a \<and>
    (\<exists>scopes. unmarshal_strings (ac_Scopes a) = Some scopes \<and> token_pair_for cid (ac_UserID a) scopes p)"
  using assms
proof (rule exchange_steps)
  fix a scopes w1 n
  assume "a \<in> set (auth_codes (db w))" "coll E (ac_Code a) = coll E code" "code_acceptable a cid uri v (clock E (ticks w))"
    "unmarshal_strings (ac_Scopes a) = Some scopes"
    "result (issueUserTokens E cid (ac_UserID a) scopes) (final (consume_code E code (clock E (Suc (ticks w)))) w1) = Inr p"
  then show ?thesis
    using issueUserTokens_Inr unfolding code_acceptable_def verifyPKCE_def by (intro bexI [of _ a]) auto
qed

theorem exchange_requires_witness:
  "\<exists>p. result (ExchangeAuthorizationCode demo_env ''webui'' ''code'' ''https://a/cb'' ''v'') demo_world = Inr p \<and>
     token_pair_for ''webui'' ''u1'' [''user.read''] p"
proof -
  obtain p where p: "result (ExchangeAuthorizationCode demo_env ''webui'' ''code'' ''https://a/cb'' ''v'') demo_world = Inr p"
    using demo_exchange by blast
  from exchange_requires [OF p] show ?thesis
    using p by (auto simp: demo_code_def user_read_valid)
qed



text \<open>
  C4: Refresh tokens rotate: after a successful refresh the old refresh token is refused for good, over any run of
  service operations that does not issue it again.
\<close>

theorem refresh_rotates:
  assumes "wf_tables E (db w)" and "result (RefreshUserToken E cid tok) w = Inr p"
    and "quiet (refresh_present E tok) (run_op E) ops (final (RefreshUserToken E cid tok) w)"
  shows "result (RefreshUserToken E cid' tok) (final (run_all (run_op E) ops) (final (RefreshUserToken E cid tok) w)) =
    Inl (OAuth InvalidGrant)"
  by (rule refresh_dead) (rule refreshes.dead_stays_dead [OF assms(3) refresh_kills [OF assms(2,1)]])

theorem refresh_rotates_witness:
  "\<exists>p w'. result (RefreshUserToken demo_env ''webui'' ''ref'') demo_world = Inr p \<and>
     w' = final (RefreshUserToken demo_env ''webui'' ''ref'') demo_world \<and>
     result (RefreshUserToken demo_env ''webui'' ''ref'') w' = Inl (OAuth InvalidGrant)"
proof -
  obtain p where p: "result (RefreshUserToken demo_env ''webui'' ''ref'') demo_world = Inr p"
    using demo_refresh_ok by blast
  from refresh_rotates [OF demo_wf p, of "[]"] p show ?thesis by auto
qed

text \<open>
  C12: A revoked access token is dead: once \<open>RevokeAccessToken\<close> has returned without error, \<open>ResolveAccessToken\<close> refuses
  the token, over any run of service operations that does not issue it again.
\<close>

theorem revoked_is_dead:
  assumes "result (RevokeAccessToken E tok) w = Inr ()"
    and "quiet (access_present E tok) (run_op E) ops (final (RevokeAccessToken E tok) w)"
  shows "result (ResolveAccessToken E tok) (final (run_all (run_op E) ops) (final (RevokeAccessToken E tok) w)) =
    Inl (OAuth InvalidGrant)"
  by (rule resolve_dead) (rule accesses.dead_stays_dead [OF assms(2) revoke_kills [OF assms(1)]])

theorem revoked_is_dead_witness:
  "result (ResolveAccessToken demo_env ''acc'') (final (run_all (run_op demo_env) [])
     (final (RevokeAccessToken demo_env ''acc'') demo_world)) = Inl (OAuth InvalidGrant)"
  by (rule revoked_is_dead) (simp_all add: RevokeAccessToken_def update_access_tokens_def stmt_def result_def now_def Let_def)

text \<open>
  The schema invariant: every run of service operations keeps the unique keys and the foreign keys of the
  baseline schema, whatever statements fail.
\<close>

theorem service_keeps_schema:
  assumes "wf_tables E (db w)"
  shows "wf_tables E (db (final (run_all (run_op E) ops) w))"
  using wf_run_all [of E ops] assms by (auto simp: evolves_def on_db_def keeps_wf_def)

theorem service_keeps_schema_witness:
  "wf_tables demo_env (db (final (run_all (run_op demo_env) [OpRevoke ''acc'', OpCleanup, OpRefresh ''webui'' ''ref'']) demo_world))"
  by (rule service_keeps_schema [OF demo_wf])

section \<open>Registration, seeding and client authentication\<close>

lemma grant_requested_spec:
  "grant_requested known allow granted items = Inr g \<longleftrightarrow>
     (\<forall>x \<in> set items. x \<in> set known \<and> x \<in> set allow) \<and>
     g = fold (\<lambda>x acc. if x \<in> set acc then acc else acc @ [x]) items granted"
  by (induction items arbitrary: granted) auto

lemma fold_add_new:
  "set (fold (\<lambda>x acc. if x \<in> set acc then acc else acc @ [x]) items acc) = set acc \<union> set items \<and>
   (distinct acc \<longrightarrow> distinct (fold (\<lambda>x acc. if x \<in> set acc then acc else acc @ [x]) items acc))"
  by (induction items arbitrary: acc) auto

lemma grant_allowlist_spec:
  "set (grant_allowlist known granted items) = set granted \<union> (set items \<inter> set known) \<and>
   (distinct granted \<longrightarrow> distinct (grant_allowlist known granted items))"
  by (induction items arbitrary: granted) auto

definition service_allowlist :: "env \<Rightarrow> string \<Rightarrow> string list" where
  "service_allowlist E name = (case map_of (ServiceScopeAllowlist (oauth2 E)) name of Some l \<Rightarrow> l | None \<Rightarrow> [])"

text \<open>
  The scope guard of self-service registration: a grant has no repetition and consists exactly of the requested
  scopes, or of the whole allowlist if none is requested, restricted to known service scopes; it never exceeds the
  service's allowlist, and a request is refused exactly when it names a scope outside.
\<close>

theorem ServiceRegistrationScopes_guard:
  "(case ServiceRegistrationScopes E name scope of
      Inr granted \<Rightarrow>
        distinct granted \<and> set granted \<subseteq> set serviceSiteScopes \<inter> set (service_allowlist E name) \<and>
        set granted = (if splitScopes scope = [] then set (service_allowlist E name) \<inter> set serviceSiteScopes
                       else set (splitScopes scope))
    | Inl e \<Rightarrow> e = OAuth InvalidClientMetadata \<and>
        \<not> set (splitScopes scope) \<subseteq> set serviceSiteScopes \<inter> set (service_allowlist E name))"
proof (cases "splitScopes scope = []")
  case True
  then show ?thesis
    using grant_allowlist_spec [of serviceSiteScopes "[]" "service_allowlist E name"]
    by (auto simp: ServiceRegistrationScopes_def service_allowlist_def)
next
  case False
  let ?r = "grant_requested serviceSiteScopes (service_allowlist E name) [] (splitScopes scope)"
  have eq: "ServiceRegistrationScopes E name scope = ?r"
    using False by (simp add: ServiceRegistrationScopes_def service_allowlist_def)
  have err: "grant_requested k a g items = Inl e \<Longrightarrow> e = OAuth InvalidClientMetadata \<and> \<not> set items \<subseteq> set k \<inter> set a" for k a g items e
    by (induction items arbitrary: g) (auto split: if_splits)
  show ?thesis
  proof (cases ?r)
    case (Inl e)
    then show ?thesis using err [OF Inl] by (simp add: eq)
  next
    case (Inr g)
    then have "g = fold (\<lambda>x acc. if x \<in> set acc then acc else acc @ [x]) (splitScopes scope) []"
      "set (splitScopes scope) \<subseteq> set serviceSiteScopes \<inter> set (service_allowlist E name)"
      by (auto simp: grant_requested_spec)
    then show ?thesis
      using Inr False fold_add_new [of "splitScopes scope" "[]"] by (simp add: eq)
  qed
qed

end
