(* ===== verification/OAuth2_Clients.thy ===== *)
theory OAuth2_Clients
  imports OAuth2_Properties
begin

text \<open>
  The client table: what the start of the service does to it (\<open>EnsureBuiltInClients\<close>), what self-registration
  hands out, and who can authenticate as the super client.
\<close>

section \<open>Seeding\<close>

definition builtin_row :: "env \<Rightarrow> client \<Rightarrow> bool" where
  "builtin_row E c \<longleftrightarrow> by_client_id E (PublicClientID (oauth2 E)) c \<or> by_client_id E (SuperClientID (oauth2 E)) c"

text \<open>A row the configured list may add: an ordinary confidential client without scopes.\<close>

definition seeded_row :: "env \<Rightarrow> client \<Rightarrow> bool" where
  "seeded_row E c \<longleftrightarrow> \<not> cl_IsSuper c \<and> cl_Type c = ''confidential'' \<and> cl_Scopes c = marshalStringSlice [] \<and>
     cl_ClientSecret c \<noteq> [] \<and> \<not> isSuperClientSecret E (cl_ClientSecret c)"

definition seeds :: "env \<Rightarrow> tables \<Rightarrow> tables \<Rightarrow> bool" where
  "seeds E d d' \<longleftrightarrow> wf_tables E d \<longrightarrow> wf_tables E d' \<and>
     (\<forall>c \<in> set (clients d). builtin_row E c \<or> c \<in> set (clients d')) \<and>
     (\<forall>c \<in> set (clients d'). builtin_row E c \<or> c \<in> set (clients d) \<or> seeded_row E c) \<and>
     d' = d\<lparr>clients := clients d'\<rparr>"

lemma seeds_refl [simp]: "seeds E d d"
  by (simp add: seeds_def)

lemma seeds_trans: "seeds E d d' \<Longrightarrow> seeds E d' d'' \<Longrightarrow> seeds E d d''"
proof -
  assume a: "seeds E d d'" and b: "seeds E d' d''"
  show ?thesis
    unfolding seeds_def
  proof (intro impI conjI)
    assume wf: "wf_tables E d"
    with a have 1: "wf_tables E d'" "\<forall>c \<in> set (clients d). builtin_row E c \<or> c \<in> set (clients d')"
      "\<forall>c \<in> set (clients d'). builtin_row E c \<or> c \<in> set (clients d) \<or> seeded_row E c"
      "d' = d\<lparr>clients := clients d'\<rparr>"
      by (simp_all add: seeds_def)
    with b have 2: "wf_tables E d''" "\<forall>c \<in> set (clients d'). builtin_row E c \<or> c \<in> set (clients d'')"
      "\<forall>c \<in> set (clients d''). builtin_row E c \<or> c \<in> set (clients d') \<or> seeded_row E c"
      "d'' = d'\<lparr>clients := clients d''\<rparr>"
      by (simp_all add: seeds_def)
    show "wf_tables E d''" by (rule 2)
    show "\<forall>c \<in> set (clients d). builtin_row E c \<or> c \<in> set (clients d'')"
      using 1(2) 2(2) by blast
    show "\<forall>c \<in> set (clients d''). builtin_row E c \<or> c \<in> set (clients d) \<or> seeded_row E c"
      using 1(3) 2(3) by blast
    have "d'' = (d\<lparr>clients := clients d'\<rparr>)\<lparr>clients := clients d''\<rparr>"
      by (simp only: 1(4) [symmetric] 2(4) [symmetric])
    then show "d'' = d\<lparr>clients := clients d''\<rparr>" by simp
  qed
qed

interpretation seeds: evolution "on_db (seeds E)" for E
  by unfold_locales (auto simp: on_db_def intro: seeds_trans)

lemma seeds_keep:
  "evolves (on_db (seeds E)) (db_first E' tab P)" "evolves (on_db (seeds E)) (GenerateRandomToken E' n)"
  by (rule on_db_keep; simp)+

lemma insert_client_done:
  assumes "result (insert_client E c) w = Inr x"
  shows "db (final (insert_client E c) w) = (db w)\<lparr>clients := clients (db w) @ [x]\<rparr> \<and> (\<exists>n. x = c\<lparr>cl_ID := n\<rparr>)"
  using stmt_Inr [OF assms [unfolded insert_client_def]] unfolding insert_client_def [symmetric]
  by (auto simp: Let_def split: if_splits)

lemma insert_client_refused: "result (insert_client E c) w = Inl e \<Longrightarrow> db (final (insert_client E c) w) = db w"
  unfolding insert_client_def by (rule stmt_Inl)

lemma seeds_insert_client:
  assumes "\<And>n. builtin_row E (c\<lparr>cl_ID := n\<rparr>) \<or> seeded_row E (c\<lparr>cl_ID := n\<rparr>)"
  shows "evolves (on_db (seeds E)) (insert_client E c)"
  unfolding evolves_def on_db_def
proof
  fix w
  have "keeps_wf E (db w) (db (final (insert_client E c) w))"
    using wf_insert_client [of E c] by (simp add: evolves_def on_db_def)
  then show "seeds E (db w) (db (final (insert_client E c) w))"
    using assms insert_client_done [of E c w] insert_client_refused [of E c w]
    by (cases "result (insert_client E c) w") (auto simp: seeds_def keeps_wf_def)
qed

lemma update_clients_db:
  "db (final (update_clients E P f) w) = db w \<or>
   db (final (update_clients E P f) w) = (db w)\<lparr>clients := update_rows P f (clients (db w))\<rparr>"
  unfolding update_clients_def
  by (rule stmt_cases [where E = E and w = w
        and f = "\<lambda>d q. (Inr (changed_rows P f (clients d)), d\<lparr>clients := update_rows P f (clients d)\<rparr>, q)"]) auto

lemma update_rows_single:
  assumes "\<And>r. r \<in> set rs \<Longrightarrow> P r \<Longrightarrow> r = c"
  shows "x \<in> set rs \<Longrightarrow> x = c \<or> x \<in> set (update_rows P f rs)"
    and "x \<in> set (update_rows P f rs) \<Longrightarrow> x = f c \<or> x \<in> set rs"
proof -
  assume x: "x \<in> set rs"
  show "x = c \<or> x \<in> set (update_rows P f rs)"
  proof (cases "P x")
    case True
    then show ?thesis using assms [OF x] by simp
  next
    case False
    then have "(if P x then f x else x) \<in> set (update_rows P f rs)"
      unfolding update_rows_def set_map by (intro imageI x)
    then show ?thesis using False by simp
  qed
next
  assume "x \<in> set (update_rows P f rs)"
  then obtain r where "r \<in> set rs" "x = (if P r then f r else r)"
    unfolding update_rows_def set_map by blast
  then show "x = f c \<or> x \<in> set rs"
    using assms [of r] by (simp split: if_splits)
qed

text \<open>The update of an upsert reaches only the row it found, since primary keys are unique.\<close>

lemma seeds_update_rows:
  assumes wf: "wf_tables E d \<Longrightarrow> wf_tables E (d\<lparr>clients := update_rows P f (clients d)\<rparr>)"
    and single: "\<And>r. wf_tables E d \<Longrightarrow> r \<in> set (clients d) \<Longrightarrow> P r \<Longrightarrow> r = c"
    and "builtin_row E c" and "builtin_row E (f c)"
  shows "seeds E d (d\<lparr>clients := update_rows P f (clients d)\<rparr>)"
  unfolding seeds_def
proof (intro impI conjI)
  assume w: "wf_tables E d"
  show "wf_tables E (d\<lparr>clients := update_rows P f (clients d)\<rparr>)" by (rule wf [OF w])
  show "\<forall>x \<in> set (clients d). builtin_row E x \<or> x \<in> set (clients (d\<lparr>clients := update_rows P f (clients d)\<rparr>))"
    using update_rows_single(1) [of "clients d" P c _ f, OF single [OF w]] assms(3) by auto
  show "\<forall>x \<in> set (clients (d\<lparr>clients := update_rows P f (clients d)\<rparr>)). builtin_row E x \<or> x \<in> set (clients d) \<or> seeded_row E x"
    using update_rows_single(2) [of "clients d" P c _ f, OF single [OF w]] assms(4) by auto
qed simp

lemma seeds_update_found:
  assumes "c \<in> set (clients (db w))" and "builtin_row E c"
  shows "seeds E (db w) (db (final (update_clients E' (\<lambda>r. cl_ID r = cl_ID c) (set_values v)) w))"
proof -
  let ?u = "update_clients E' (\<lambda>r. cl_ID r = cl_ID c) (set_values v)"
  have wf: "wf_tables E (db w) \<Longrightarrow> wf_tables E (db (final ?u w))"
    using wf_update_clients [of "set_values v" E E' "\<lambda>r. cl_ID r = cl_ID c"]
    by (simp add: evolves_def on_db_def set_values_def keeps_wf_def)
  have single: "r = c" if "wf_tables E (db w)" "r \<in> set (clients (db w))" "cl_ID r = cl_ID c" for r
    using that assms(1) by (intro unique_row [of cl_ID "clients (db w)"]) (simp_all add: wf_tables_def)
  have builtin: "builtin_row E (set_values v c)"
    using assms(2) by (simp add: builtin_row_def by_client_id_def set_values_def)
  show ?thesis
    using update_clients_db [of E' "\<lambda>r. cl_ID r = cl_ID c" "set_values v" w]
  proof
    assume "db (final ?u w) = db w"
    then show ?thesis by simp
  next
    assume upd: "db (final ?u w) = (db w)\<lparr>clients := update_rows (\<lambda>r. cl_ID r = cl_ID c) (set_values v) (clients (db w))\<rparr>"
    show ?thesis
      unfolding upd by (rule seeds_update_rows) (use wf upd single assms(2) builtin in simp_all)
  qed
qed

lemma seeds_upsert_client:
  assumes "cl_ClientID v = PublicClientID (oauth2 E) \<or> cl_ClientID v = SuperClientID (oauth2 E)"
  shows "evolves (on_db (seeds E)) (upsert_client E v)"
  unfolding evolves_def on_db_def
proof
  fix w
  define w1 where "w1 = final (db_first E clients (by_client_id E (cl_ClientID v))) w"
  have w1: "db w1 = db w" by (simp add: w1_def)
  have ins: "evolves (on_db (seeds E)) (insert_client E v)"
    using assms by (intro seeds_insert_client) (auto simp: builtin_row_def by_client_id_def)
  show "seeds E (db w) (db (final (upsert_client E v) w))"
  proof (cases "result (db_first E clients (by_client_id E (cl_ClientID v))) w")
    case (Inl e)
    have "seeds E (db w) (db (final (insert_client E v) w1))"
      using ins w1 by (metis evolves_def on_db_def)
    then show ?thesis
      by (simp add: upsert_client_def Inl w1 flip: w1_def)
  next
    case (Inr c)
    have "c \<in> set (clients (db w))" "builtin_row E c"
      using db_first_Inr(1,2) [OF Inr] assms by (auto simp: builtin_row_def by_client_id_def)
    then have "seeds E (db w1) (db (final (update_clients E (\<lambda>r. cl_ID r = cl_ID c) (set_values v)) w1))"
      by (intro seeds_update_found) (simp_all add: w1)
    then show ?thesis
      by (simp add: upsert_client_def Inr w1 flip: w1_def)
  qed
qed

lemma seeds_seed_service_client: "evolves (on_db (seeds E)) (seed_service_client E sc)"
proof -
  have ins: "evolves (on_db (seeds E)) (insert_client E (service_client cid secret name []))"
    if "secret \<noteq> []" "\<not> isSuperClientSecret E secret" for cid secret name
    using that by (intro seeds_insert_client) (simp add: seeded_row_def service_client_def)
  show ?thesis
  proof (cases "TrimSpace (sc_ClientID sc) = [] \<or> TrimSpace (sc_ClientSecret sc) = [] \<or>
        isSuperClientSecret E (TrimSpace (sc_ClientSecret sc))")
    case True
    then have "seed_service_client E sc = ret (Inr ())"
      by (auto simp: seed_service_client_def Let_def)
    then show ?thesis by (simp add: seeds.evolves_ret)
  next
    case False
    show ?thesis
      unfolding seed_service_client_def Let_def
      by (intro seeds.evolves_rules seeds_keep ins) (use False in simp_all)
  qed
qed

lemma seeds_seed_all: "evolves (on_db (seeds E)) (seed_all E scs)"
  by (induction scs) (simp_all, (intro seeds.evolves_rules seeds_seed_service_client | assumption)+)

lemma seeds_EnsureBuiltInClients: "evolves (on_db (seeds E)) (EnsureBuiltInClients E)"
  unfolding EnsureBuiltInClients_def upsertBuiltInPublicClient_def upsertBuiltInSuperClient_def
    ensureConfiguredServiceClients_def
  by (rule transaction_evolves)
    (simp, intro seeds.evolves_rules seeds_upsert_client seeds_seed_all,
      simp_all add: public_client_def super_client_def)


lemma db_insert_client:
  "db (final (insert_client E c) w) =
     (case result (insert_client E c) w of Inl _ \<Rightarrow> db w | Inr x \<Rightarrow> (db w)\<lparr>clients := clients (db w) @ [x]\<rparr>)"
  using insert_client_done [of E c w] insert_client_refused [of E c w]
  by (cases "result (insert_client E c) w") auto

text \<open>
  C20: The start of the service seeds the client table safely: whatever statements fail, every row that is not one of
  the two built-in clients stays as it was, every other new row comes from the configured list and is an ordinary
  confidential client without scopes that does not carry the super secret, and no other table changes.
\<close>

theorem EnsureBuiltInClients_seeds:
  assumes "wf_tables E (db w)"
  shows "let d = db w; d' = db (final (EnsureBuiltInClients E) w) in
    wf_tables E d' \<and> d' = d\<lparr>clients := clients d'\<rparr> \<and>
    (\<forall>c \<in> set (clients d). builtin_row E c \<or> c \<in> set (clients d')) \<and>
    (\<forall>c \<in> set (clients d'). builtin_row E c \<or> c \<in> set (clients d) \<or> seeded_row E c)"
  using seeds_EnsureBuiltInClients [of E] assms by (simp add: evolves_def on_db_def seeds_def Let_def)

theorem EnsureBuiltInClients_seeds_witness:
  "auth_codes (db (final (EnsureBuiltInClients demo_env) demo_world)) = [demo_code]"
proof -
  from EnsureBuiltInClients_seeds [OF demo_wf]
  have "db (final (EnsureBuiltInClients demo_env) demo_world) =
      (db demo_world)\<lparr>clients := clients (db (final (EnsureBuiltInClients demo_env) demo_world))\<rparr>"
    unfolding Let_def by blast
  from arg_cong [OF this, of auth_codes] show ?thesis by simp
qed

section \<open>Self-service registration\<close>

definition has_client :: "env \<Rightarrow> string \<Rightarrow> tables \<Rightarrow> bool" where
  "has_client E name d \<longleftrightarrow> list_ex (by_client_id E name) (clients d)"

lemma hand_out_Inr: "hand_out E c = Inr (x, b) \<longleftrightarrow> x = c \<and> b = False \<and> \<not> isSuperClientSecret E (cl_ClientSecret c)"
  by (auto simp: hand_out_def)

lemma db_first_not_found:
  "result (db_first E tab P) w = Inl (Db RecordNotFound) \<Longrightarrow> \<not> list_ex P (tab (db w))"
  by (auto simp: db_first_result find_None_iff list_ex_iff split: if_splits option.splits)


section \<open>Client authentication\<close>

definition is_builtin_super :: "env \<Rightarrow> client \<Rightarrow> bool" where
  "is_builtin_super E c \<longleftrightarrow> cl_IsSuper c \<and> cl_IsInternal c \<and> cl_ClientID c = SuperClientID (oauth2 E)"

lemma AuthenticateClient_result:
  "result (AuthenticateClient E cid secret) w =
     (case result (db_first E clients (active_client E cid)) w of
        Inl _ \<Rightarrow> Inl (OAuth InvalidClient) | Inr c \<Rightarrow> check_client_secret E c secret)"
  by (simp add: AuthenticateClient_def split: sum.split)

lemma db_AuthenticateClient [simp]: "db (final (AuthenticateClient E cid secret) w) = db w"
  by (simp add: AuthenticateClient_def split: sum.split)

lemma check_client_secret_Inr:
  "check_client_secret E c secret = Inr c' \<longleftrightarrow> c' = c \<and>
     (if is_builtin_super E c then secret = SuperClientSecret (oauth2 E)
      else cl_Type c = ''confidential'' \<longrightarrow> secret = cl_ClientSecret c)"
  by (auto simp: check_client_secret_def is_builtin_super_def)

lemma check_client_secret_Inl: "check_client_secret E c secret = Inl e \<Longrightarrow> e = OAuth InvalidClient"
  by (auto simp: check_client_secret_def split: if_splits)


lemma wf_tables_coll: "coll E' = coll E \<Longrightarrow> wf_tables E' d = wf_tables E d"
  by (simp add: wf_tables_def owner_exists_def user_exists_def cong: option.case_cong)

text \<open>
  A renamed super client leaves a door open: the row that an earlier configuration seeded for its super client id
  stays active, super and confidential with the stored text \<open>(config)\<close> as its secret, so whoever sends that literal
  text is authenticated as a super client under the new configuration.
\<close>

theorem stale_super_authenticates:
  assumes "wf_tables E (db w)" and "\<not> db_fault E (stmts w)"
    and "(super_client old)\<lparr>cl_ID := n\<rparr> \<in> set (clients (db w))"
    and "SuperClientID (oauth2 old) \<noteq> SuperClientID (oauth2 E)"
  shows "\<exists>c. result (AuthenticateClient E (SuperClientID (oauth2 old)) ''(config)'') w = Inr c \<and> cl_IsSuper c"
proof -
  let ?c = "(super_client old)\<lparr>cl_ID := n\<rparr>" and ?P = "active_client E (SuperClientID (oauth2 old))"
  have P: "?P ?c" by (simp add: active_client_def by_client_id_def super_client_def)
  then obtain c where c: "find ?P (clients (db w)) = Some c"
    using assms(3) by (cases "find ?P (clients (db w))") (auto simp: find_None_iff)
  have "c = ?c"
    using find_SomeD [OF c] assms(1,3) P
    by (intro unique_row [of "\<lambda>r. coll E (cl_ClientID r)" "clients (db w)"])
      (auto simp: wf_tables_def active_client_def by_client_id_def)
  then show ?thesis
    using assms(2,4) c
    by (auto simp: AuthenticateClient_result db_first_result check_client_secret_def super_client_def)
qed

theorem stale_super_authenticates_witness:
  "\<exists>c. result (AuthenticateClient (demo_env\<lparr>oauth2 := (oauth2 demo_env)\<lparr>SuperClientID := ''ops''\<rparr>\<rparr>) ''super'' ''(config)'') demo_world =
     Inr c \<and> cl_IsSuper c"
proof -
  let ?E = "demo_env\<lparr>oauth2 := (oauth2 demo_env)\<lparr>SuperClientID := ''ops''\<rparr>\<rparr>"
  have wf: "wf_tables ?E (db demo_world)"
    by (rule wf_tables_coll [THEN iffD2, OF _ demo_wf]) simp
  have "SuperClientID (oauth2 demo_env) = ''super''" by (simp add: demo_env_def)
  with stale_super_authenticates [OF wf, where old = demo_env and n = 2] show ?thesis by simp
qed

section \<open>The cleanup and refresh tokens\<close>

lemma db_cleanup:
  assumes "\<And>n. \<not> db_fault E n"
  shows "db (final (cleanup_runOnce E) w) =
    (let d = drop_access (\<lambda>r. at_ExpiresAt r < clock E (ticks w) \<or> at_RevokedAt r \<noteq> None) (db w) in
     d\<lparr>auth_codes := filter (\<lambda>a. \<not> ac_ExpiresAt a < clock E (Suc (ticks w))) (auth_codes d)\<rparr>)"
  using assms
  by (simp add: cleanup_runOnce_def CleanupExpiredAccessTokens_def CleanupExpiredAuthorizationCodes_def
      delete_access_tokens_def delete_auth_codes_def stmt_def now_def result_def final_def Let_def)

lemma refresh_absent_after_cleanup:
  assumes "wf_tables E (db w)" and "\<And>n. \<not> db_fault E n"
    and "r \<in> set (refresh_tokens (db w))" and "a \<in> set (access_tokens (db w))" and "at_ID a = rt_AccessTokenID r"
    and "at_ExpiresAt a < clock E (ticks w)"
  shows "\<not> refresh_present E (rt_RefreshToken r) (db (final (cleanup_runOnce E) w))"
proof -
  have "r' = r" if "r' \<in> set (refresh_tokens (db w))" "coll E (rt_RefreshToken r') = coll E (rt_RefreshToken r)" for r'
    using that assms(1,3)
    by (intro unique_row [of "\<lambda>r. coll E (rt_RefreshToken r)" "refresh_tokens (db w)"]) (auto simp: wf_tables_def)
  moreover have "rt_AccessTokenID r \<in>
      set (map at_ID (filter (\<lambda>r. at_ExpiresAt r < clock E (ticks w) \<or> at_RevokedAt r \<noteq> None) (access_tokens (db w))))"
    using assms(4-6) by force
  ultimately show ?thesis
    by (auto simp: db_cleanup [OF assms(2)] refresh_present_def list_ex_iff drop_access_def Let_def)
qed

text \<open>
  The cleanup of expired access tokens takes live refresh tokens with it: the foreign key deletes the refresh token
  of every deleted access token, so after one run a refresh token that is neither revoked nor expired is refused if its
  access token had expired.
\<close>

theorem cleanup_drops_live_refresh:
  assumes "wf_tables E (db w)" and "\<And>n. \<not> db_fault E n"
    and "r \<in> set (refresh_tokens (db w))" and "rt_RevokedAt r = None" and "clock E (ticks w) < rt_ExpiresAt r"
    and "a \<in> set (access_tokens (db w))" and "at_ID a = rt_AccessTokenID r" and "at_ExpiresAt a < clock E (ticks w)"
  shows "refresh_live E (rt_RefreshToken r) (db w) \<and>
    result (RefreshUserToken E cid (rt_RefreshToken r)) (final (cleanup_runOnce E) w) = Inl (OAuth InvalidGrant)"
proof
  show "refresh_live E (rt_RefreshToken r) (db w)"
    using assms(3,4) by (auto simp: refresh_live_def list_ex_iff)
  have "\<not> refresh_live E (rt_RefreshToken r) (db (final (cleanup_runOnce E) w))"
    using refresh_absent_after_cleanup [OF assms(1-3,6-8)] live_present(2) by blast
  then show "result (RefreshUserToken E cid (rt_RefreshToken r)) (final (cleanup_runOnce E) w) = Inl (OAuth InvalidGrant)"
    by (rule refresh_dead)
qed

theorem cleanup_drops_live_refresh_witness:
  "let E = demo_env\<lparr>clock := \<lambda>_. 7\<rparr> in refresh_live E ''ref'' (db demo_world) \<and>
     result (RefreshUserToken E ''webui'' ''ref'') (final (cleanup_runOnce E) demo_world) = Inl (OAuth InvalidGrant)"
proof -
  let ?E = "demo_env\<lparr>clock := \<lambda>_. 7\<rparr>"
  have "wf_tables ?E (db demo_world)"
    by (rule wf_tables_coll [THEN iffD2, OF _ demo_wf]) simp
  from cleanup_drops_live_refresh [OF this, of demo_refresh demo_access "''webui''"] show ?thesis
    by (simp add: Let_def demo_refresh_def demo_access_def)
qed

end
