(* ===== verification/Key_Value.thy ===== *)
theory Key_Value
  imports World_Facts
begin

text \<open>
  The commands the services send to the key-value server. A command is atomic and reads the server's own clock,
  at which entries past their expiry are gone; the environment decides which commands fail, and a failed one changes
  nothing. Lifetimes are kept to the millisecond, at least one; a lifetime of zero or less is none.

  \<open>kv_live\<close> is what a command sees. None of the commands touches the database, the clock or the registries.
\<close>

datatype kv_error = KvNil | KvDown | KvWrongType

type_synonym store = "(string \<times> kv_value \<times> time option) list"

definition kv_live :: "time \<Rightarrow> store \<Rightarrow> store" where
  "kv_live t m = filter (\<lambda>(k, v, e). case e of None \<Rightarrow> True | Some x \<Rightarrow> t < x) m"

definition command :: "env \<Rightarrow> (time \<Rightarrow> store \<Rightarrow> (kv_error + 'a) \<times> store) \<Rightarrow> (world, kv_error + 'a) state" where
  "command E f = State (\<lambda>w.
     let w1 = w\<lparr>cmds := Suc (cmds w)\<rparr>; t = kv_clock E (cmds w) in
     if kv_fault E (cmds w) then (Inl KvDown, w1)
     else case f t (kv_live t (kv w)) of (r, m) \<Rightarrow> (r, w1\<lparr>kv := m\<rparr>))"

definition expiry :: "time \<Rightarrow> int \<Rightarrow> time option" where
  "expiry t ttl = (if ttl \<le> 0 then None else Some (t + max 1 (ttl div 1000000) * 1000000))"

definition kv_get :: "env \<Rightarrow> string \<Rightarrow> (world, kv_error + string) state" where
  "kv_get E k = command E (\<lambda>t m.
     (case map_of m k of
        None \<Rightarrow> Inl KvNil | Some (KStr s, _) \<Rightarrow> Inr s | Some (KSet _, _) \<Rightarrow> Inl KvWrongType, m))"

definition kv_set :: "env \<Rightarrow> string \<Rightarrow> string \<Rightarrow> int \<Rightarrow> (world, kv_error + unit) state" where
  "kv_set E k s ttl = command E (\<lambda>t m. (Inr (), AList.update k (KStr s, expiry t ttl) m))"

definition kv_del :: "env \<Rightarrow> string \<Rightarrow> (world, kv_error + unit) state" where
  "kv_del E k = command E (\<lambda>t m. (Inr (), AList.delete k m))"

definition set_add :: "string \<Rightarrow> string \<Rightarrow> store \<Rightarrow> store" where
  "set_add k x m =
     (case map_of m k of
        Some (KSet xs, e) \<Rightarrow> AList.update k (KSet (if x \<in> set xs then xs else xs @ [x]), e) m
      | Some (KStr _, _) \<Rightarrow> m
      | None \<Rightarrow> AList.update k (KSet [x], None) m)"

definition set_rem :: "string \<Rightarrow> string \<Rightarrow> store \<Rightarrow> store" where
  "set_rem k x m =
     (case map_of m k of
        Some (KSet xs, e) \<Rightarrow>
          (let ys = filter (\<lambda>y. y \<noteq> x) xs in if ys = [] then AList.delete k m else AList.update k (KSet ys, e) m)
      | _ \<Rightarrow> m)"

definition set_expire :: "string \<Rightarrow> time option \<Rightarrow> store \<Rightarrow> store" where
  "set_expire k e m = (case map_of m k of None \<Rightarrow> m | Some (v, _) \<Rightarrow> AList.update k (v, e) m)"

definition kv_srem :: "env \<Rightarrow> string \<Rightarrow> string \<Rightarrow> (world, kv_error + unit) state" where
  "kv_srem E k x = command E (\<lambda>t m. (Inr (), set_rem k x m))"

definition kv_smembers :: "env \<Rightarrow> string \<Rightarrow> (world, kv_error + string list) state" where
  "kv_smembers E k = command E (\<lambda>t m.
     (case map_of m k of
        None \<Rightarrow> Inr [] | Some (KSet xs, _) \<Rightarrow> Inr xs | Some (KStr _, _) \<Rightarrow> Inl KvWrongType, m))"

text \<open>The keys that start with a prefix, as \<open>SCAN\<close> with the pattern \<open>prefix*\<close> finds them.\<close>

definition kv_scan :: "env \<Rightarrow> string \<Rightarrow> (world, kv_error + string list) state" where
  "kv_scan E p = command E (\<lambda>t m. (Inr (filter (\<lambda>k. HasPrefix k p) (map fst m)), m))"

section \<open>Facts\<close>

lemma command_keeps [simp]:
  "db (final (command E f) w) = db w" "seqs (final (command E f) w) = seqs w"
  "ticks (final (command E f) w) = ticks w" "stmts (final (command E f) w) = stmts w"
  "draws (final (command E f) w) = draws w" "presence (final (command E f) w) = presence w"
  "routes (final (command E f) w) = routes w" "relays (final (command E f) w) = relays w"
  "hooks (final (command E f) w) = hooks w" "calls (final (command E f) w) = calls w"
  "code_files (final (command E f) w) = code_files w" "file_ops (final (command E f) w) = file_ops w"
  "outbox (final (command E f) w) = outbox w" "cmds (final (command E f) w) = Suc (cmds w)"
  by (simp_all add: command_def final_def Let_def split: prod.splits)

lemmas kv_defs = kv_get_def kv_set_def kv_del_def kv_srem_def kv_smembers_def kv_scan_def

lemma command_run:
  "run_state (command E f) w =
     (if kv_fault E (cmds w) then (Inl KvDown, w\<lparr>cmds := Suc (cmds w)\<rparr>)
      else let t = kv_clock E (cmds w); (r, m) = f t (kv_live t (kv w)) in (r, w\<lparr>cmds := Suc (cmds w), kv := m\<rparr>))"
  by (simp add: command_def Let_def split: prod.splits)

lemma command_result:
  "result (command E f) w =
     (if kv_fault E (cmds w) then Inl KvDown
      else fst (f (kv_clock E (cmds w)) (kv_live (kv_clock E (cmds w)) (kv w))))"
  by (simp add: result_def command_run Let_def split: prod.splits)

lemma command_kv:
  "kv (final (command E f) w) =
     (if kv_fault E (cmds w) then kv w
      else snd (f (kv_clock E (cmds w)) (kv_live (kv_clock E (cmds w)) (kv w))))"
  by (simp add: final_def command_run Let_def split: prod.splits)

lemma map_of_kv_live:
  "distinct (map fst m) \<Longrightarrow> map_of (kv_live t m) k =
     (case map_of m k of None \<Rightarrow> None
      | Some (v, e) \<Rightarrow> if (case e of None \<Rightarrow> True | Some x \<Rightarrow> t < x) then Some (v, e) else None)"
proof (induction m)
  case Nil
  show ?case by (simp add: kv_live_def)
next
  case (Cons x m)
  obtain l v e where x: "x = (l, v, e)" by (cases x) auto
  have step: "kv_live t (x # m) = (if (case e of None \<Rightarrow> True | Some y \<Rightarrow> t < y) then [x] else []) @ kv_live t m"
    by (simp add: kv_live_def x)
  show ?case
  proof (cases "l = k")
    case True
    with Cons.prems have "map_of m k = None" by (simp add: x map_of_eq_None_iff)
    with Cons show ?thesis unfolding step by (auto simp: x True)
  next
    case False
    with Cons show ?thesis unfolding step by (simp add: x)
  qed
qed

lemma distinct_kv_live: "distinct (map fst m) \<Longrightarrow> distinct (map fst (kv_live t m))"
  unfolding kv_live_def by (rule distinct_map_filter)

text \<open>What the other primitives leave alone.\<close>

lemma now_keeps [simp]:
  "kv (final (now E) w) = kv w" "cmds (final (now E) w) = cmds w" "presence (final (now E) w) = presence w"
  "routes (final (now E) w) = routes w" "relays (final (now E) w) = relays w" "hooks (final (now E) w) = hooks w"
  "code_files (final (now E) w) = code_files w" "file_ops (final (now E) w) = file_ops w"
  "outbox (final (now E) w) = outbox w" "calls (final (now E) w) = calls w" "draws (final (now E) w) = draws w"
  by (simp_all add: now_def final_def)

lemma token_keeps [simp]:
  "kv (final (GenerateRandomToken E n) w) = kv w" "cmds (final (GenerateRandomToken E n) w) = cmds w"
  "presence (final (GenerateRandomToken E n) w) = presence w" "routes (final (GenerateRandomToken E n) w) = routes w"
  "relays (final (GenerateRandomToken E n) w) = relays w" "hooks (final (GenerateRandomToken E n) w) = hooks w"
  "code_files (final (GenerateRandomToken E n) w) = code_files w" "file_ops (final (GenerateRandomToken E n) w) = file_ops w"
  "outbox (final (GenerateRandomToken E n) w) = outbox w" "calls (final (GenerateRandomToken E n) w) = calls w"
  by (simp_all add: GenerateRandomToken_def final_def)

lemma http_keeps [simp]:
  "db (final (http_do E c) w) = db w" "kv (final (http_do E c) w) = kv w" "cmds (final (http_do E c) w) = cmds w"
  "presence (final (http_do E c) w) = presence w" "ticks (final (http_do E c) w) = ticks w"
  "routes (final (http_do E c) w) = routes w" "relays (final (http_do E c) w) = relays w"
  "hooks (final (http_do E c) w) = hooks w" "stmts (final (http_do E c) w) = stmts w"
  "outbox (final (http_do E c) w) = outbox w" "code_files (final (http_do E c) w) = code_files w"
  by (simp_all add: http_do_def final_def)

lemma http_result [simp]: "result (http_do E c) w = network E (calls w) c"
  by (simp add: http_do_def result_def)

lemma stmt_keeps [simp]:
  "kv (final (stmt E f) w) = kv w" "cmds (final (stmt E f) w) = cmds w" "presence (final (stmt E f) w) = presence w"
  "routes (final (stmt E f) w) = routes w" "relays (final (stmt E f) w) = relays w" "hooks (final (stmt E f) w) = hooks w"
  "code_files (final (stmt E f) w) = code_files w" "file_ops (final (stmt E f) w) = file_ops w" "disk (final (stmt E f) w) = disk w"
  "outbox (final (stmt E f) w) = outbox w" "calls (final (stmt E f) w) = calls w"
  by (simp_all add: stmt_def final_def Let_def split: prod.splits sum.splits)

lemmas stmt_defs = db_first_def db_count_def db_find_def update_auth_codes_def update_access_tokens_def
  update_refresh_tokens_def update_clients_def update_users_def update_credentials_def insert_credential_def insert_client_def insert_auth_code_def
  insert_access_token_def insert_refresh_token_def delete_access_tokens_def delete_auth_codes_def
  delete_refresh_tokens_def delete_credentials_def delete_deleted_accounts_def delete_users_def

text \<open>The server holds every key once.\<close>

definition kv_wf :: "world \<Rightarrow> bool" where
  "kv_wf w \<longleftrightarrow> distinct (map fst (kv w))"

section \<open>Entries that stay\<close>

lemma map_of_update_same [simp]: "map_of (AList.update k v m) k = Some v"
  by (simp add: update_conv')

declare map_of_eq_Some_iff [simp del]

text \<open>An entry of the server that stays: no command removes it, and it does not expire in the time considered.\<close>

definition holds :: "string \<Rightarrow> kv_value \<Rightarrow> time \<Rightarrow> world \<Rightarrow> bool" where
  "holds k v x w \<longleftrightarrow> kv_wf w \<and> map_of (kv w) k = Some (v, Some x)"

lemma holds_command:
  assumes "\<And>n. kv_clock E n < x"
    and "\<And>t m. distinct (map fst m) \<Longrightarrow> map_of m k = Some (v, Some x) \<Longrightarrow>
      distinct (map fst (snd (f t m))) \<and> map_of (snd (f t m)) k = Some (v, Some x)"
  shows "pres (holds k v x) (command E f)"
proof (rule presI)
  fix w assume "holds k v x w"
  then show "holds k v x (final (command E f) w)"
    using assms(1) assms(2) [of "kv_live (kv_clock E (cmds w)) (kv w)" "kv_clock E (cmds w)"]
    by (simp add: holds_def kv_wf_def command_kv distinct_kv_live map_of_kv_live)
qed

lemma holds_modify: "(\<And>w. kv (f w) = kv w) \<Longrightarrow> pres (holds k v x) (modify f)"
  by (simp add: pres_def holds_def kv_wf_def)

lemma holds_now: "pres (holds k v x) (now E)"
  by (simp add: pres_def holds_def kv_wf_def)

lemma set_rem_other:
  assumes "distinct (map fst m)" and "k \<noteq> i"
  shows "distinct (map fst (set_rem i n m)) \<and> map_of (set_rem i n m) k = map_of m k"
  using assms by (auto simp: set_rem_def Let_def update_conv' delete_conv' distinct_update distinct_delete
      split: option.splits kv_value.splits)

lemma set_add_other:
  assumes "distinct (map fst m)" and "k \<noteq> i"
  shows "distinct (map fst (set_add i n m)) \<and> map_of (set_add i n m) k = map_of m k"
  using assms by (auto simp: set_add_def update_conv' distinct_update split: option.splits kv_value.splits)

lemma set_add_same:
  assumes "\<nexists>s e. map_of m i = Some (KStr s, e)"
  shows "\<exists>xs e. map_of (set_add i n m) i = Some (KSet xs, e) \<and> n \<in> set xs"
proof (cases "map_of m i")
  case None
  then show ?thesis by (simp add: set_add_def update_conv')
next
  case (Some p)
  then obtain ys e where "p = (KSet ys, e)"
    using assms by (cases p; cases "fst p") auto
  with Some show ?thesis by (simp add: set_add_def update_conv')
qed

lemma set_expire_other:
  assumes "distinct (map fst m)" and "k \<noteq> i"
  shows "distinct (map fst (set_expire i e m)) \<and> map_of (set_expire i e m) k = map_of m k"
  using assms by (auto simp: set_expire_def update_conv' distinct_update split: option.splits)

end
