(* ===== verification/Presence.thy ===== *)
theory Presence
  imports Key_Value
begin

text \<open>
  registry/presence.go and registry/heartbeat.go: the micro-services that have announced themselves.

  A record lives in memory and is copied to the key-value server as JSON text, from which a restarted process
  loads it. A record whose \<open>ExpiresAt\<close> is Go's zero time never expires. The members of the root
  metadata are kept in the order they came in.
\<close>

section \<open>Records as JSON\<close>

definition zero_time :: time where
  "zero_time = - 62135596800000000000"

definition strs_json :: "string list \<Rightarrow> json" where
  "strs_json xs = JArr (map JStr xs)"

definition scope_json :: "presence_scope \<Rightarrow> json" where
  "scope_json s = JObj [(''name'', JStr (ps_Name s)), (''frontend_areas'', strs_json (ps_FrontendAreas s))]"

text \<open>\<open>json.Marshal\<close> of a record; it fails if a time has no JSON form.\<close>

definition record_json :: "env \<Rightarrow> presence_record \<Rightarrow> json option" where
  "record_json E r =
     (case (time_text E (pr_FirstSeen r), time_text E (pr_LastSeen r), time_text E (pr_ExpiresAt r)) of
        (Some f, Some l, Some x) \<Rightarrow> Some (JObj (
          [(''name'', JStr (pr_Name r))]
          @ (case pr_Scope r of None \<Rightarrow> [] | Some s \<Rightarrow> [(''scope'', scope_json s)])
          @ [(''security_level'', JNum (int_text (pr_SecurityLevel r)))]
          @ (if pr_RootMetadata r = [] then [] else [(''root_metadata'', JObj (pr_RootMetadata r))])
          @ (if pr_InteractsWith r = [] then [] else [(''interacts_with'', strs_json (pr_InteractsWith r))])
          @ (if pr_InternalKey r = [] then [] else [(''internal_key'', JStr (pr_InternalKey r))])
          @ [(''first_seen'', JStr f), (''last_seen'', JStr l), (''expires_at'', JStr x)]))
      | _ \<Rightarrow> None)"

text \<open>\<open>json.Unmarshal\<close> into a record.\<close>

definition read_time :: "env \<Rightarrow> json \<Rightarrow> time \<Rightarrow> time option" where
  "read_time E v old = (case v of JStr s \<Rightarrow> time_of_text E s | JNull \<Rightarrow> Some old | _ \<Rightarrow> None)"

definition read_meta :: "json \<Rightarrow> (string \<times> json) list \<Rightarrow> (string \<times> json) list option" where
  "read_meta v old = (case v of JObj kvs \<Rightarrow> Some (old @ kvs) | JNull \<Rightarrow> Some [] | _ \<Rightarrow> None)"

definition read_scope :: "json \<Rightarrow> presence_scope option \<Rightarrow> presence_scope option option" where
  "read_scope v old =
     (case v of JNull \<Rightarrow> Some None
      | JObj kvs \<Rightarrow>
        (case (obj_field read_str ''name'' [] kvs, obj_field read_strs ''frontend_areas'' [] kvs) of
           (Some n, Some a) \<Rightarrow> Some (Some \<lparr>ps_Name = n, ps_FrontendAreas = a\<rparr>) | _ \<Rightarrow> None)
      | _ \<Rightarrow> None)"

definition read_record :: "env \<Rightarrow> (string \<times> json) list \<Rightarrow> presence_record option" where
  "read_record E kvs =
     (case (obj_field read_str ''name'' [] kvs, obj_field read_scope ''scope'' None kvs,
            obj_field read_int ''security_level'' 0 kvs, obj_field read_meta ''root_metadata'' [] kvs,
            obj_field read_strs ''interacts_with'' [] kvs, obj_field read_str ''internal_key'' [] kvs,
            obj_field (read_time E) ''first_seen'' zero_time kvs, obj_field (read_time E) ''last_seen'' zero_time kvs,
            obj_field (read_time E) ''expires_at'' zero_time kvs) of
        (Some n, Some s, Some l, Some m, Some i, Some k, Some f, Some t, Some x) \<Rightarrow>
          Some \<lparr>pr_Name = n, pr_Scope = s, pr_SecurityLevel = l, pr_RootMetadata = m, pr_InteractsWith = i,
            pr_InternalKey = k, pr_FirstSeen = f, pr_LastSeen = t, pr_ExpiresAt = x\<rparr>
      | _ \<Rightarrow> None)"

definition unmarshal_record :: "env \<Rightarrow> string \<Rightarrow> presence_record option" where
  "unmarshal_record E raw = Option.bind (parse_json raw) (read_struct (read_record E))"

section \<open>Operations\<close>

definition presenceKey :: "string \<Rightarrow> string \<Rightarrow> string" where
  "presenceKey prefix name = prefix @ ''presence:'' @ name"

definition presenceIndexKey :: "string \<Rightarrow> string" where
  "presenceIndexKey prefix = prefix @ ''presence:_index''"

definition presenceBaseTTL :: int where
  "presenceBaseTTL = nanos (24 * 3600)"

definition presencePersistentTTL :: int where
  "presencePersistentTTL = nanos (7 * 24 * 3600)"

definition persist_ttl :: "env \<Rightarrow> presence_record \<Rightarrow> int go" where
  "persist_ttl E r =
     (if pr_ExpiresAt r = zero_time then ret presencePersistentTTL
      else do {
        t \<leftarrow> now E;
        let d = pr_ExpiresAt r - t;
        ret (if 0 < d \<and> d < presenceBaseTTL then d else presenceBaseTTL)
      })"

definition presence_persist :: "env \<Rightarrow> string \<Rightarrow> presence_record \<Rightarrow> unit go" where
  "presence_persist E name r =
     (if \<not> redis_ready E then ret ()
      else case record_json E r of None \<Rightarrow> ret ()
      | Some j \<Rightarrow> do {
          ttl \<leftarrow> persist_ttl E r;
          let index = presenceIndexKey (redis_prefix E);
          _ \<leftarrow> command E (\<lambda>t m. (Inr (),
            set_expire index (expiry t (nanos (30 * 24 * 3600)))
              (set_add index name
                (AList.update (presenceKey (redis_prefix E) name) (KStr (print_json j), expiry t ttl) m))));
          ret ()
        })"

definition set_presence :: "string \<Rightarrow> presence_record \<Rightarrow> unit go" where
  "set_presence name r = modify (\<lambda>w. w\<lparr>presence := AList.update name r (presence w)\<rparr>)"

definition announced :: "presence_record option \<Rightarrow> string \<Rightarrow> int \<Rightarrow> presence_scope option \<Rightarrow> int \<Rightarrow> string list \<Rightarrow>
    (string \<times> json) list \<Rightarrow> time \<Rightarrow> presence_record" where
  "announced old name ttlSeconds scope securityLevel interactsWith rootMetadata t =
     (let r = (case old of Some r \<Rightarrow> r
               | None \<Rightarrow> \<lparr>pr_Name = name, pr_Scope = None, pr_SecurityLevel = 0, pr_RootMetadata = [], pr_InteractsWith = [],
                   pr_InternalKey = [], pr_FirstSeen = t, pr_LastSeen = zero_time, pr_ExpiresAt = zero_time\<rparr>)
      in r\<lparr>pr_LastSeen := t, pr_Scope := (case scope of None \<Rightarrow> pr_Scope r | Some s \<Rightarrow> Some s),
           pr_SecurityLevel := securityLevel, pr_InteractsWith := interactsWith, pr_RootMetadata := rootMetadata,
           pr_ExpiresAt := (if ttlSeconds > 0 then t + seconds ttlSeconds else zero_time)\<rparr>)"

definition presence_Register :: "env \<Rightarrow> string \<Rightarrow> int \<Rightarrow> presence_scope option \<Rightarrow> int \<Rightarrow> string list \<Rightarrow>
    (string \<times> json) list \<Rightarrow> presence_record go" where
  "presence_Register E name ttlSeconds scope securityLevel interactsWith rootMetadata = do {
     t \<leftarrow> now E;
     old \<leftarrow> gets (\<lambda>w. map_of (presence w) name);
     let r = announced old name ttlSeconds scope securityLevel interactsWith rootMetadata t;
     _ \<leftarrow> set_presence name r;
     _ \<leftarrow> presence_persist E name r;
     ret r
   }"

definition RegisterAuthKey :: "env \<Rightarrow> string \<Rightarrow> string option go" where
  "RegisterAuthKey E name = do {
     found \<leftarrow> gets (\<lambda>w. map_of (presence w) name);
     case found of
       None \<Rightarrow> ret None
     | Some r \<Rightarrow> do {
         key \<leftarrow> GenerateRandomToken E 64;
         let r' = r\<lparr>pr_InternalKey := key\<rparr>;
         _ \<leftarrow> set_presence name r';
         _ \<leftarrow> presence_persist E name r';
         ret (Some key)
       }
   }"

definition RevokeAuthKey :: "env \<Rightarrow> string \<Rightarrow> unit go" where
  "RevokeAuthKey E name = do {
     found \<leftarrow> gets (\<lambda>w. map_of (presence w) name);
     case found of
       None \<Rightarrow> ret ()
     | Some r \<Rightarrow> do {
         let r' = r\<lparr>pr_InternalKey := []\<rparr>;
         _ \<leftarrow> set_presence name r';
         presence_persist E name r'
       }
   }"

definition GetAllRecords :: "presence_record list go" where
  "GetAllRecords = gets (\<lambda>w. map snd (presence w))"

definition presence_evict :: "env \<Rightarrow> string \<Rightarrow> unit go" where
  "presence_evict E name =
     (if \<not> redis_ready E then ret ()
      else do {
        _ \<leftarrow> kv_del E (presenceKey (redis_prefix E) name);
        _ \<leftarrow> kv_srem E (presenceIndexKey (redis_prefix E)) name;
        ret ()
      })"

definition presence_Get :: "env \<Rightarrow> string \<Rightarrow> presence_record option go" where
  "presence_Get E name = do {
     found \<leftarrow> gets (\<lambda>w. map_of (presence w) name);
     case found of
       None \<Rightarrow> ret None
     | Some r \<Rightarrow>
       if pr_ExpiresAt r = zero_time then ret (Some r)
       else do {
         t \<leftarrow> now E;
         if t > pr_ExpiresAt r then do {
           _ \<leftarrow> modify (\<lambda>w. w\<lparr>presence := AList.delete name (presence w)\<rparr>);
           _ \<leftarrow> presence_evict E name;
           ret None
         } else ret (Some r)
       }
   }"

text \<open>Loading one name of the index.\<close>

definition load_presence :: "env \<Rightarrow> string \<Rightarrow> unit go" where
  "load_presence E name = do {
     let key = presenceKey (redis_prefix E) name;
     let index = presenceIndexKey (redis_prefix E);
     raw \<leftarrow> kv_get E key;
     case raw of
       Inl e \<Rightarrow> if e = KvNil then do { _ \<leftarrow> kv_srem E index name; ret () } else ret ()
     | Inr text \<Rightarrow>
       (case unmarshal_record E text of
          None \<Rightarrow> ret ()
        | Some r \<Rightarrow>
          if pr_ExpiresAt r = zero_time then set_presence name r
          else do {
            t \<leftarrow> now E;
            if t > pr_ExpiresAt r then do {
              _ \<leftarrow> kv_del E key;
              _ \<leftarrow> kv_srem E index name;
              ret ()
            } else set_presence name r
          })
   }"

fun load_presences :: "env \<Rightarrow> string list \<Rightarrow> unit go" where
  "load_presences E [] = ret ()"
| "load_presences E (n # ns) = do { _ \<leftarrow> load_presence E n; load_presences E ns }"

definition presence_Load :: "env \<Rightarrow> (kv_error + unit) go" where
  "presence_Load E =
     (if \<not> redis_ready E then ret (Inr ())
      else do {
        names \<leftarrow> kv_smembers E (presenceIndexKey (redis_prefix E));
        case names of
          Inl e \<Rightarrow> ret (Inl e)
        | Inr ns \<Rightarrow> do { _ \<leftarrow> load_presences E ns; ret (Inr ()) }
      })"

section \<open>The heartbeat\<close>

definition checkService :: "env \<Rightarrow> presence_record \<Rightarrow> unit go" where
  "checkService E r =
     (let url = yggdrasil_url E @ ''/internal/heartbeat'' in
      if \<not> valid_url E url then ret ()
      else do {
        reply \<leftarrow> http_do E \<lparr>hc_Method = ''GET'', hc_URL = url, hc_Headers = [(''X-Internal-Key'', pr_InternalKey r)], hc_Body = []\<rparr>;
        case reply of
          None \<Rightarrow> RevokeAuthKey E (pr_Name r)
        | Some p \<Rightarrow> if hp_Status p \<noteq> 200 then RevokeAuthKey E (pr_Name r) else ret ()
      })"

fun check_records :: "env \<Rightarrow> presence_record list \<Rightarrow> unit go" where
  "check_records E [] = ret ()"
| "check_records E (r # rs) = do {
     _ \<leftarrow> (if pr_InternalKey r = [] then ret ()
          else if pr_Name r = SuperClientID (oauth2 E) then checkService E r else ret ());
     check_records E rs
   }"

definition CheckAll :: "env \<Rightarrow> unit go" where
  "CheckAll E = do { rs \<leftarrow> GetAllRecords; check_records E rs }"

end
