(* ===== verification/Registries.thy ===== *)
theory Registries
  imports Presence
begin

text \<open>
  The rule registries of the micro-services: relay_controller.go, route_controller.go and hook_controller.go.
  The three keep their rules in memory and copy them, per service, to the key-value server as a JSON array, from
  which a restarted process loads them.

  Routes and hooks are kept per service (\<open>service_rules\<close>); relay rules are kept per destination path.
  A slice that is nil and an empty one are the same list.
\<close>

section \<open>Loading from the key-value server\<close>

text \<open>The loop over the keys found by the scan; \<open>kind\<close> is \<open>relay:\<close>, \<open>route:\<close> or \<open>hook:\<close>.\<close>

definition load_entry :: "env \<Rightarrow> string \<Rightarrow> (string \<Rightarrow> 'a option) \<Rightarrow> (string \<Rightarrow> 'a \<Rightarrow> unit go) \<Rightarrow> string \<Rightarrow> unit go" where
  "load_entry E kind dec put key =
     (let service = TrimPrefix key (redis_prefix E @ kind) in
      if service = [] \<or> Contains service '':'' then ret ()
      else do {
        raw \<leftarrow> kv_get E key;
        case raw of
          Inl _ \<Rightarrow> ret ()
        | Inr text \<Rightarrow> (case dec text of None \<Rightarrow> ret () | Some rules \<Rightarrow> put service rules)
      })"

fun load_entries :: "env \<Rightarrow> string \<Rightarrow> (string \<Rightarrow> 'a option) \<Rightarrow> (string \<Rightarrow> 'a \<Rightarrow> unit go) \<Rightarrow> string list \<Rightarrow> unit go" where
  "load_entries E kind dec put [] = ret ()"
| "load_entries E kind dec put (k # ks) = do { _ \<leftarrow> load_entry E kind dec put k; load_entries E kind dec put ks }"

definition load_registry :: "env \<Rightarrow> string \<Rightarrow> (string \<Rightarrow> 'a option) \<Rightarrow> (string \<Rightarrow> 'a \<Rightarrow> unit go) \<Rightarrow> (kv_error + unit) go" where
  "load_registry E kind dec put =
     (if \<not> redis_ready E then ret (Inr ())
      else do {
        keys \<leftarrow> kv_scan E (redis_prefix E @ kind);
        case keys of
          Inl e \<Rightarrow> ret (Inl e)
        | Inr ks \<Rightarrow> do { _ \<leftarrow> load_entries E kind dec put ks; ret (Inr ()) }
      })"

definition rulesTTL :: int where
  "rulesTTL = nanos (30 * 24 * 3600)"

definition store_rules :: "env \<Rightarrow> string \<Rightarrow> string \<Rightarrow> unit go" where
  "store_rules E key text =
     (if \<not> redis_ready E then ret () else do { _ \<leftarrow> kv_set E key text rulesTTL; ret () })"

section \<open>Relay rules\<close>

definition relayKey :: "string \<Rightarrow> string \<Rightarrow> string" where
  "relayKey prefix service = prefix @ ''relay:'' @ service"

definition relay_json :: "relay_rule \<Rightarrow> json" where
  "relay_json r = JObj [(''service'', JStr (rl_Service r)), (''dest'', JStr (rl_Dest r)), (''source'', JStr (rl_Source r))]"

definition read_relay :: "(string \<times> json) list \<Rightarrow> relay_rule option" where
  "read_relay kvs =
     (case (obj_field read_str ''service'' [] kvs, obj_field read_str ''dest'' [] kvs, obj_field read_str ''source'' [] kvs) of
        (Some s, Some d, Some u) \<Rightarrow> Some \<lparr>rl_Service = s, rl_Dest = d, rl_Source = u\<rparr> | _ \<Rightarrow> None)"

definition unmarshal_relays :: "string \<Rightarrow> relay_rule list option" where
  "unmarshal_relays raw = Option.bind (parse_json raw) (\<lambda>j. read_list (read_struct read_relay) j [])"

definition marshal_relays :: "relay_rule list \<Rightarrow> string" where
  "marshal_relays rs = print_json (JArr (map relay_json rs))"

definition own_relays :: "string \<Rightarrow> (string \<times> relay_rule) list \<Rightarrow> relay_rule list" where
  "own_relays service m =
     map (\<lambda>(d, r). \<lparr>rl_Service = service, rl_Dest = d, rl_Source = rl_Source r\<rparr>)
       (filter (\<lambda>(d, r). rl_Service r = service) m)"

definition relay_persist :: "env \<Rightarrow> string \<Rightarrow> unit go" where
  "relay_persist E service = do {
     stored \<leftarrow> gets (\<lambda>w. own_relays service (relays w));
     store_rules E (relayKey (redis_prefix E) service) (marshal_relays stored)
   }"

definition add_relay :: "string \<Rightarrow> relay_rule \<Rightarrow> (string \<times> relay_rule) list \<Rightarrow> (string \<times> relay_rule) list" where
  "add_relay service r m =
     (if rl_Dest r = [] \<or> rl_Source r = [] then m else AList.update (rl_Dest r) (r\<lparr>rl_Service := service\<rparr>) m)"

definition put_relays :: "string \<Rightarrow> relay_rule list \<Rightarrow> unit go" where
  "put_relays service rules = modify (\<lambda>w. w\<lparr>relays := fold (add_relay service) rules (relays w)\<rparr>)"

definition relay_Upsert :: "env \<Rightarrow> string \<Rightarrow> relay_rule list \<Rightarrow> unit go" where
  "relay_Upsert E service rules = do {
     _ \<leftarrow> modify (\<lambda>w. w\<lparr>relays := filter (\<lambda>(d, r). rl_Service r \<noteq> service) (relays w)\<rparr>);
     _ \<leftarrow> put_relays service rules;
     relay_persist E service
   }"

definition relay_Load :: "env \<Rightarrow> (kv_error + unit) go" where
  "relay_Load E = load_registry E ''relay:'' unmarshal_relays put_relays"

definition relay_Delete :: "env \<Rightarrow> string \<Rightarrow> string \<Rightarrow> bool go" where
  "relay_Delete E service dest = do {
     found \<leftarrow> gets (\<lambda>w. map_of (relays w) dest);
     case found of
       None \<Rightarrow> ret False
     | Some r \<Rightarrow>
       if rl_Service r \<noteq> service then ret False
       else do {
         _ \<leftarrow> modify (\<lambda>w. w\<lparr>relays := AList.delete dest (relays w)\<rparr>);
         _ \<leftarrow> relay_persist E service;
         ret True
       }
   }"

definition relay_List :: "string \<Rightarrow> relay_rule list go" where
  "relay_List service = gets (\<lambda>w. filter (\<lambda>r. \<not> (service \<noteq> [] \<and> rl_Service r \<noteq> service)) (map snd (relays w)))"

text \<open>The rest of a path under a rule, and the loop that keeps the longest match.\<close>

definition relay_rest :: "string \<Rightarrow> relay_rule \<Rightarrow> string option" where
  "relay_rest path r =
     (if path = rl_Dest r then Some []
      else if HasPrefix path (rl_Dest r @ ''/'') then Some (TrimPrefix path (rl_Dest r)) else None)"

definition better_relay :: "string \<Rightarrow> relay_rule \<Rightarrow> (relay_rule \<times> string) option \<Rightarrow> (relay_rule \<times> string) option" where
  "better_relay path r best =
     (case relay_rest path r of
        None \<Rightarrow> best
      | Some rest \<Rightarrow>
        (case best of
           None \<Rightarrow> Some (r, rest)
         | Some (b, _) \<Rightarrow> if length (rl_Dest r) > length (rl_Dest b) then Some (r, rest) else best))"

definition match_relays :: "(string \<times> relay_rule) list \<Rightarrow> string \<Rightarrow> (relay_rule \<times> string) option" where
  "match_relays m path = fold (better_relay path) (map snd m) None"

definition relay_Match :: "string \<Rightarrow> (relay_rule \<times> string) option go" where
  "relay_Match path = gets (\<lambda>w. match_relays (relays w) path)"

definition normalizeDest :: "string \<Rightarrow> string" where
  "normalizeDest dest = CHR ''/'' # Trim (TrimSpace dest) CHR ''/''"

definition relayAllowsAnonymous :: "relay_rule \<Rightarrow> bool" where
  "relayAllowsAnonymous rule =
     (let dest = normalizeDest (rl_Dest rule) in dest = ''/yggdrasil-api'' \<or> HasPrefix dest ''/yggdrasil-api/'')"

section \<open>Path patterns of routes and hooks\<close>

definition path_matches :: "string \<Rightarrow> string \<Rightarrow> bool" where
  "path_matches path pattern =
     (let p = TrimSpace pattern in
      if p = [] then False
      else if HasSuffix p ''*'' then HasPrefix path (TrimSuffix p ''*'') else path = p)"

definition MatchPath :: "string list \<Rightarrow> string \<Rightarrow> bool" where
  "MatchPath paths path = list_ex (path_matches path) paths"

section \<open>Route rules\<close>

definition routeKey :: "string \<Rightarrow> string \<Rightarrow> string" where
  "routeKey prefix service = prefix @ ''route:'' @ service"

definition route_json :: "route_rule \<Rightarrow> json" where
  "route_json r = JObj [(''service'', JStr (rr_Service r)), (''scope'', JStr (rr_Scope r)), (''paths'', strs_json (rr_Paths r)),
     (''pre_url'', JStr (rr_PreURL r)), (''post_url'', JStr (rr_PostURL r))]"

definition read_route :: "(string \<times> json) list \<Rightarrow> route_rule option" where
  "read_route kvs =
     (case (obj_field read_str ''service'' [] kvs, obj_field read_str ''scope'' [] kvs, obj_field read_strs ''paths'' [] kvs,
            obj_field read_str ''pre_url'' [] kvs, obj_field read_str ''post_url'' [] kvs) of
        (Some s, Some c, Some p, Some a, Some b) \<Rightarrow>
          Some \<lparr>rr_Service = s, rr_Scope = c, rr_Paths = p, rr_PreURL = a, rr_PostURL = b\<rparr>
      | _ \<Rightarrow> None)"

definition unmarshal_routes :: "string \<Rightarrow> route_rule list option" where
  "unmarshal_routes raw = Option.bind (parse_json raw) (\<lambda>j. read_list (read_struct read_route) j [])"

definition marshal_routes :: "route_rule list \<Rightarrow> string" where
  "marshal_routes rs = print_json (JArr (map route_json rs))"

definition put_routes :: "string \<Rightarrow> route_rule list \<Rightarrow> unit go" where
  "put_routes service rules = modify (\<lambda>w. w\<lparr>routes := AList.update service rules (routes w)\<rparr>)"

definition route_Upsert :: "env \<Rightarrow> string \<Rightarrow> route_rule list \<Rightarrow> unit go" where
  "route_Upsert E service rules = do {
     _ \<leftarrow> put_routes service rules;
     store_rules E (routeKey (redis_prefix E) service) (marshal_routes rules)
   }"

definition route_Load :: "env \<Rightarrow> (kv_error + unit) go" where
  "route_Load E = load_registry E ''route:'' unmarshal_routes put_routes"

text \<open>The nested loops over the services and their rules; \<open>pre\<close> selects the forwarding rules, otherwise the delivery rules.\<close>

definition route_match :: "(string \<times> route_rule list) list \<Rightarrow> string \<Rightarrow> bool \<Rightarrow> route_rule list" where
  "route_match m path pre =
     filter (\<lambda>r. MatchPath (rr_Paths r) path \<and> (if pre then rr_PreURL r \<noteq> [] else rr_PostURL r \<noteq> [])) (concat (map snd m))"

definition MatchPre :: "string \<Rightarrow> route_rule list go" where
  "MatchPre path = gets (\<lambda>w. route_match (routes w) path True)"

definition MatchPost :: "string \<Rightarrow> route_rule list go" where
  "MatchPost path = gets (\<lambda>w. route_match (routes w) path False)"

section \<open>Hook rules\<close>

definition hookKey :: "string \<Rightarrow> string \<Rightarrow> string" where
  "hookKey prefix service = prefix @ ''hook:'' @ service"

definition hook_json :: "hook_rule \<Rightarrow> json" where
  "hook_json r = JObj [(''service'', JStr (hk_Service r)), (''paths'', strs_json (hk_Paths r)), (''phase'', JStr (hk_Phase r)),
     (''capability'', JStr (hk_Capability r)), (''priority'', JNum (int_text (hk_Priority r))),
     (''fail_policy'', JStr (hk_FailPolicy r)), (''patch_allowlist'', strs_json (hk_PatchAllowlist r)), (''url'', JStr (hk_URL r))]"

definition read_hook :: "(string \<times> json) list \<Rightarrow> hook_rule option" where
  "read_hook kvs =
     (case (obj_field read_str ''service'' [] kvs, obj_field read_strs ''paths'' [] kvs, obj_field read_str ''phase'' [] kvs,
            obj_field read_str ''capability'' [] kvs, obj_field read_int ''priority'' 0 kvs,
            obj_field read_str ''fail_policy'' [] kvs, obj_field read_strs ''patch_allowlist'' [] kvs,
            obj_field read_str ''url'' [] kvs) of
        (Some s, Some p, Some h, Some c, Some n, Some f, Some a, Some u) \<Rightarrow>
          Some \<lparr>hk_Service = s, hk_Paths = p, hk_Phase = h, hk_Capability = c, hk_Priority = n, hk_FailPolicy = f,
            hk_PatchAllowlist = a, hk_URL = u\<rparr>
      | _ \<Rightarrow> None)"

definition unmarshal_hooks :: "string \<Rightarrow> hook_rule list option" where
  "unmarshal_hooks raw = Option.bind (parse_json raw) (\<lambda>j. read_list (read_struct read_hook) j [])"

definition marshal_hooks :: "hook_rule list \<Rightarrow> string" where
  "marshal_hooks rs = print_json (JArr (map hook_json rs))"

definition put_hooks :: "string \<Rightarrow> hook_rule list \<Rightarrow> unit go" where
  "put_hooks service rules = modify (\<lambda>w. w\<lparr>hooks := AList.update service rules (hooks w)\<rparr>)"

definition hook_Upsert :: "env \<Rightarrow> string \<Rightarrow> hook_rule list \<Rightarrow> unit go" where
  "hook_Upsert E service rules = do {
     _ \<leftarrow> put_hooks service rules;
     store_rules E (hookKey (redis_prefix E) service) (marshal_hooks rules)
   }"

definition hook_Load :: "env \<Rightarrow> (kv_error + unit) go" where
  "hook_Load E = load_registry E ''hook:'' unmarshal_hooks put_hooks"

text \<open>The stable sort by priority, ties by service name.\<close>

definition hook_before :: "hook_rule \<Rightarrow> hook_rule \<Rightarrow> bool" where
  "hook_before a b =
     (if hk_Priority a = hk_Priority b then hk_Service a < hk_Service b else hk_Priority a < hk_Priority b)"

fun hook_insert :: "hook_rule \<Rightarrow> hook_rule list \<Rightarrow> hook_rule list" where
  "hook_insert r [] = [r]"
| "hook_insert r (x # xs) = (if hook_before x r then x # hook_insert r xs else r # x # xs)"

definition sort_hooks :: "hook_rule list \<Rightarrow> hook_rule list" where
  "sort_hooks rs = foldr hook_insert rs []"

definition match_hooks :: "(string \<times> hook_rule list) list \<Rightarrow> string \<Rightarrow> string \<Rightarrow> hook_rule list" where
  "match_hooks m path phase =
     sort_hooks (filter (\<lambda>r. \<not> (hk_Phase r \<noteq> phase \<or> \<not> MatchPath (hk_Paths r) path \<or> TrimSpace (hk_URL r) = []))
       (concat (map snd m)))"

definition hook_Match :: "string \<Rightarrow> string \<Rightarrow> hook_rule list go" where
  "hook_Match path phase = gets (\<lambda>w. match_hooks (hooks w) path phase)"

end
