(* ===== verification/Presence_Facts.thy ===== *)
theory Presence_Facts
  imports Presence OAuth2_Clients
begin

text \<open>
  What the presence registry promises: which records are visible at a time, that a restarted process finds the
  records again, and what a service of the name of the index does to that promise.
\<close>

declare map_of_eq_Some_iff [simp del]

section \<open>The visible records\<close>

definition visible :: "time \<Rightarrow> (string \<times> presence_record) list \<Rightarrow> string \<Rightarrow> presence_record option" where
  "visible t ps name =
     (case map_of ps name of None \<Rightarrow> None
      | Some r \<Rightarrow> if pr_ExpiresAt r = zero_time \<or> t \<le> pr_ExpiresAt r then Some r else None)"

lemma persist_ttl_keeps [simp]:
  "kv (final (persist_ttl E r) w) = kv w" "cmds (final (persist_ttl E r) w) = cmds w"
  "presence (final (persist_ttl E r) w) = presence w"
  by (simp_all add: persist_ttl_def Let_def)

lemma presence_keeps [simp]:
  "presence (final (presence_persist E n r) w) = presence w" "presence (final (presence_evict E n) w) = presence w"
  by (simp_all add: presence_persist_def presence_evict_def kv_defs Let_def split: option.splits)

lemma set_presence_final [simp]:
  "presence (final (set_presence n r) w) = AList.update n r (presence w)" "ticks (final (set_presence n r) w) = ticks w"
  "kv (final (set_presence n r) w) = kv w" "cmds (final (set_presence n r) w) = cmds w" "db (final (set_presence n r) w) = db w"
  by (simp_all add: set_presence_def)

lemma presence_Get_visible:
  "result (presence_Get E name) w = visible (clock E (ticks w)) (presence w) name \<and>
   (\<forall>t \<ge> clock E (ticks w). visible t (presence (final (presence_Get E name) w)) = visible t (presence w))"
proof (cases "map_of (presence w) name")
  case None
  then show ?thesis by (simp add: presence_Get_def visible_def)
next
  case (Some r)
  show ?thesis
  proof (cases "pr_ExpiresAt r = zero_time \<or> clock E (ticks w) \<le> pr_ExpiresAt r")
    case True
    then show ?thesis using Some by (auto simp: presence_Get_def visible_def)
  next
    case False
    then have "presence (final (presence_Get E name) w) = AList.delete name (presence w)"
      using Some by (simp add: presence_Get_def)
    moreover have "visible t (AList.delete name (presence w)) n = visible t (presence w) n"
      if "clock E (ticks w) \<le> t" for t n
      using that False Some by (cases "n = name") (auto simp: visible_def delete_conv')
    ultimately show ?thesis
      using False Some by (auto simp: presence_Get_def visible_def fun_eq_iff)
  qed
qed

text \<open>
  A lookup answers with exactly the record that is visible at its time, and drops nothing that is visible at that
  time or later, under any name.
\<close>

theorem presence_Get_exact:
  "result (presence_Get E name) w = visible (clock E (ticks w)) (presence w) name \<and>
   (\<forall>t \<ge> clock E (ticks w). visible t (presence (final (presence_Get E name) w)) = visible t (presence w))"
  by (rule presence_Get_visible)

text \<open>What an announcement leaves visible: the new record under its name, until its lifetime is over.\<close>

lemma presence_Register_visible:
  "visible t (presence (final (presence_Register E name ttl scope level iw meta) w)) =
   (visible t (presence w))(name :=
      let r = announced (map_of (presence w) name) name ttl scope level iw meta (clock E (ticks w))
      in if pr_ExpiresAt r = zero_time \<or> t \<le> pr_ExpiresAt r then Some r else None)"
  by (auto simp: presence_Register_def visible_def fun_eq_iff update_conv' Let_def)

section \<open>The index\<close>

lemma kv_persist:
  assumes "redis_ready E" and "record_json E r = Some j" and "\<not> kv_fault E (cmds w)"
  shows "kv (final (presence_persist E name r) w) =
      (let t = kv_clock E (cmds w); index = presenceIndexKey (redis_prefix E) in
       set_expire index (expiry t (nanos (30 * 24 * 3600)))
         (set_add index name (AList.update (presenceKey (redis_prefix E) name)
           (KStr (print_json j), expiry t (result (persist_ttl E r) w)) (kv_live t (kv w)))))"
    and "cmds (final (presence_persist E name r) w) = Suc (cmds w)"
  using assms by (simp_all add: presence_persist_def command_kv Let_def)

text \<open>
  A service named \<open>_index\<close> takes the key of the index: announcing it, which needs no credentials, turns the index
  into a plain string, and a restarted process loads no presence record at all, whatever was registered before.
\<close>

theorem index_name_breaks_restart:
  assumes "redis_ready E"
    and "record_json E (announced (map_of (presence w) ''_index'') ''_index'' ttl scope level iw meta (clock E (ticks w))) \<noteq> None"
    and "kv_wf w" and "\<not> kv_fault E (cmds w)" and "\<not> kv_fault E (Suc (cmds w))"
    and "kv_clock E (Suc (cmds w)) < kv_clock E (cmds w) + nanos (30 * 24 * 3600)"
  shows "let w' = final (presence_Register E ''_index'' ttl scope level iw meta) w in
    result (presence_Load E) w' = Inl KvWrongType \<and>
    presence (final (presence_Load E) (w'\<lparr>presence := []\<rparr>)) = []"
proof -
  define r where "r = announced (map_of (presence w) ''_index'') ''_index'' ttl scope level iw meta (clock E (ticks w))"
  obtain j where j: "record_json E r = Some j"
    using assms(2) by (auto simp: r_def)
  define w1 where "w1 = final (set_presence ''_index'' r) (final (now E) w)"
  define w' where "w' = final (presence_Register E ''_index'' ttl scope level iw meta) w"
  have w': "w' = final (presence_persist E ''_index'' r) w1"
    by (simp add: w'_def presence_Register_def r_def w1_def Let_def)
  let ?k = "presenceIndexKey (redis_prefix E)"
  have key: "presenceKey (redis_prefix E) ''_index'' = ?k"
    by (simp add: presenceKey_def presenceIndexKey_def)
  have c: "cmds w1 = cmds w" by (simp add: w1_def)
  let ?x = "expiry (kv_clock E (cmds w)) (nanos (30 * 24 * 3600))"
  have x: "?x = Some (kv_clock E (cmds w) + nanos (30 * 24 * 3600))"
    by (simp add: expiry_def nanos_def)
  have kv': "\<exists>m. kv w' = AList.update ?k (KStr (print_json j), ?x) m"
    using kv_persist(1) [OF assms(1) j, of w1 "''_index''"] assms(4)
    by (simp add: w' c key Let_def set_add_def set_expire_def) blast
  have c': "cmds w' = Suc (cmds w)"
    using kv_persist(2) [OF assms(1) j, of w1 "''_index''"] assms(4) by (simp add: w' c)
  have "distinct (map fst (kv w'))"
    using kv_persist(1) [OF assms(1) j, of w1 "''_index''"] assms(3,4)
    by (simp add: w' c key Let_def set_add_def set_expire_def kv_wf_def distinct_update distinct_kv_live w1_def)
  then have "map_of (kv_live (kv_clock E (Suc (cmds w))) (kv w')) ?k = Some (KStr (print_json j), ?x)"
    using kv' x assms(6) by (auto simp: map_of_kv_live)
  then have "result (kv_smembers E ?k) u = Inl KvWrongType" if "kv u = kv w'" "cmds u = cmds w'" for u
    using that assms(5) by (simp add: kv_smembers_def command_result c')
  from this [of w'] this [of "w'\<lparr>presence := []\<rparr>"] show ?thesis
    unfolding w'_def [symmetric] Let_def
    using assms(1) by (simp add: presence_Load_def kv_smembers_def [symmetric]) (simp add: kv_smembers_def)
qed

lemma demo_redis [simp]:
  "redis_ready demo_env" "kv_fault demo_env n = False" "kv_clock demo_env n = 1" "redis_prefix demo_env = ''ha:''"
  "time_text demo_env t = Some (int_text t)"
  by (simp_all add: demo_env_def)

lemma demo_registries [simp]: "presence demo_world = []" "kv demo_world = []" "kv_wf demo_world"
  by (simp_all add: demo_world_def kv_wf_def)

theorem index_name_breaks_restart_witness:
  "result (presence_Load demo_env) (final (presence_Register demo_env ''_index'' 0 None 0 [] []) demo_world) = Inl KvWrongType"
  using index_name_breaks_restart [of demo_env demo_world 0 None 0 "[]" "[]"]
  by (simp add: Let_def record_json_def nanos_def)

section \<open>A restart\<close>

text \<open>
  The JSON text of a record reads back as the record, if its strings are valid UTF-8, its numbers fit and its times have
  a JSON form.
\<close>

definition time_ok :: "env \<Rightarrow> time \<Rightarrow> bool" where
  "time_ok E t \<longleftrightarrow> (case time_text E t of None \<Rightarrow> False | Some s \<Rightarrow> valid_utf8 s \<and> time_of_text E s = Some t)"

definition meta_ok :: "(string \<times> json) list \<Rightarrow> bool" where
  "meta_ok kvs \<longleftrightarrow> list_all (\<lambda>(k, v). valid_utf8 k \<and> json_ok v \<and> canon_json v = v) kvs"

definition record_ok :: "env \<Rightarrow> presence_record \<Rightarrow> bool" where
  "record_ok E r \<longleftrightarrow> valid_utf8 (pr_Name r) \<and> valid_utf8 (pr_InternalKey r) \<and> list_all valid_utf8 (pr_InteractsWith r) \<and>
     (case pr_Scope r of None \<Rightarrow> True | Some s \<Rightarrow> valid_utf8 (ps_Name s) \<and> list_all valid_utf8 (ps_FrontendAreas s)) \<and>
     meta_ok (pr_RootMetadata r) \<and> - 9223372036854775808 \<le> pr_SecurityLevel r \<and> pr_SecurityLevel r < 9223372036854775808 \<and>
     time_ok E (pr_FirstSeen r) \<and> time_ok E (pr_LastSeen r) \<and> time_ok E (pr_ExpiresAt r)"

lemma obj_field_append:
  "obj_field rd f z (xs @ ys) = (case obj_field rd f z xs of None \<Rightarrow> None | Some y \<Rightarrow> obj_field rd f y ys)"
proof (induction xs arbitrary: z)
  case (Cons x xs)
  then show ?case by (cases x; cases "rd (snd x) z") simp_all
qed simp

lemma map_to_valid: "list_all valid_utf8 xs \<Longrightarrow> map (\<lambda>x. JStr (to_valid x)) xs = map JStr xs"
  by (induction xs) (simp_all add: to_valid_id)

lemma canon_strs: "list_all valid_utf8 xs \<Longrightarrow> canon_json (strs_json xs) = strs_json xs"
  by (simp add: strs_json_def map_to_valid comp_def)

lemma canon_meta: "meta_ok kvs \<Longrightarrow> map (\<lambda>(k, v). (to_valid k, canon_json v)) kvs = kvs"
  by (induction kvs) (auto simp: meta_ok_def to_valid_id)

lemma meta_json_ok: "meta_ok kvs \<Longrightarrow> list_all (\<lambda>(k, v). json_ok v) kvs"
  by (induction kvs) (auto simp: meta_ok_def)

lemma json_ok_strs [simp]: "json_ok (strs_json xs)"
  by (simp add: strs_json_def list_all_iff)

lemma read_strs_json [simp]: "read_strs (strs_json xs) old = Some xs"
  by (simp add: strs_json_def)

lemma EqualFold_lower: "ToLower k = k \<Longrightarrow> ToLower f = f \<Longrightarrow> EqualFold k f \<longleftrightarrow> k = f"
  by (simp add: EqualFold_def)

lemma record_names:
  "ToLower ''name'' = ''name''" "ToLower ''scope'' = ''scope''" "ToLower ''security_level'' = ''security_level''"
  "ToLower ''root_metadata'' = ''root_metadata''" "ToLower ''interacts_with'' = ''interacts_with''"
  "ToLower ''internal_key'' = ''internal_key''" "ToLower ''first_seen'' = ''first_seen''"
  "ToLower ''last_seen'' = ''last_seen''" "ToLower ''expires_at'' = ''expires_at''"
  "ToLower ''frontend_areas'' = ''frontend_areas''"
  by (simp_all add: ToLower_def lower_char_def is_upper_def)

lemma obj_field_if:
  "obj_field rd f z (if c then [] else [(k, v)]) = (if EqualFold k f \<and> \<not> c then rd v z else Some z)"
  by (auto split: option.split)

lemma obj_field_opt:
  "obj_field rd f z (case x of None \<Rightarrow> [] | Some s \<Rightarrow> [(k, g s)]) =
     (if EqualFold k f then (case x of None \<Rightarrow> Some z | Some s \<Rightarrow> rd (g s) z) else Some z)"
  by (auto split: option.split)

lemma record_json_ok:
  assumes "record_ok E r" and "record_json E r = Some j"
  shows "json_ok j \<and> canon_json j = j"
  using assms
  by (auto simp: record_json_def record_ok_def scope_json_def canon_strs to_valid_ascii to_valid_id canon_meta meta_json_ok time_ok_def
      split: option.splits)

lemma read_record_json:
  assumes "record_ok E r" and "record_json E r = Some j"
  shows "read_struct (read_record E) j = Some r"
proof -
  obtain f l x where t: "time_text E (pr_FirstSeen r) = Some f" "time_text E (pr_LastSeen r) = Some l"
    "time_text E (pr_ExpiresAt r) = Some x" "time_of_text E f = Some (pr_FirstSeen r)"
    "time_of_text E l = Some (pr_LastSeen r)" "time_of_text E x = Some (pr_ExpiresAt r)"
    using assms(1) by (auto simp: record_ok_def time_ok_def split: option.splits)
  have lvl: "int_of_literal (int_text (pr_SecurityLevel r)) = Some (pr_SecurityLevel r)"
    using assms(1) by (intro int_of_literal_int_text) (simp_all add: record_ok_def)
  have j: "j = JObj (
          [(''name'', JStr (pr_Name r))]
          @ (case pr_Scope r of None \<Rightarrow> [] | Some s \<Rightarrow> [(''scope'', scope_json s)])
          @ [(''security_level'', JNum (int_text (pr_SecurityLevel r)))]
          @ (if pr_RootMetadata r = [] then [] else [(''root_metadata'', JObj (pr_RootMetadata r))])
          @ (if pr_InteractsWith r = [] then [] else [(''interacts_with'', strs_json (pr_InteractsWith r))])
          @ (if pr_InternalKey r = [] then [] else [(''internal_key'', JStr (pr_InternalKey r))])
          @ [(''first_seen'', JStr f), (''last_seen'', JStr l), (''expires_at'', JStr x)])"
    using assms(2) t by (simp add: record_json_def)
  show ?thesis
    unfolding j read_struct_def
    by (simp add: read_record_def obj_field_append obj_field_if obj_field_opt EqualFold_lower record_names)
      (simp add: read_str_def read_int_def lvl read_time_def t read_meta_def EqualFold_lower record_names
        read_scope_def scope_json_def split: option.split)
qed

lemma record_round_trip:
  assumes "record_ok E r" and "record_json E r = Some j"
  shows "unmarshal_record E (print_json j) = Some r"
  using record_json_ok [OF assms] parse_print_json [of j] read_record_json [OF assms]
  by (simp add: unmarshal_record_def)

lemma presenceKey_eq [simp]: "presenceKey p n = presenceKey p n' \<longleftrightarrow> n = n'"
  by (simp add: presenceKey_def)

lemma presenceKey_index [simp]: "presenceKey p n = presenceIndexKey p \<longleftrightarrow> n = ''_index''"
  by (simp add: presenceKey_def presenceIndexKey_def)

lemma holds_load_presence:
  assumes "\<And>n. kv_clock E n < x" and "name \<noteq> ''_index''" and "n \<noteq> name"
  shows "pres (holds (presenceKey (redis_prefix E) name) v x) (load_presence E n)"
  unfolding load_presence_def kv_get_def kv_srem_def kv_del_def set_presence_def Let_def
  by (intro pres_intros holds_command [OF assms(1)] holds_modify holds_now)
    (use assms set_rem_other [of _ "presenceKey (redis_prefix E) name" "presenceIndexKey (redis_prefix E)"]
      in \<open>auto simp: delete_conv' distinct_delete\<close>)

lemma presence_load_other: "n \<noteq> name \<Longrightarrow> map_of (presence (final (load_presence E n) w)) name = map_of (presence w) name"
  by (auto simp: load_presence_def kv_defs Let_def update_conv' split: sum.splits option.splits)

lemma load_presence_stored:
  assumes "holds (presenceKey (redis_prefix E) name) (KStr text) x w" and "\<And>n. kv_clock E n < x"
    and "\<And>n. \<not> kv_fault E n" and "unmarshal_record E text = Some r"
    and "\<And>n. pr_ExpiresAt r = zero_time \<or> clock E n \<le> pr_ExpiresAt r" and "name \<noteq> ''_index''"
  shows "holds (presenceKey (redis_prefix E) name) (KStr text) x (final (load_presence E name) w) \<and>
    map_of (presence (final (load_presence E name) w)) name = Some r"
proof -
  let ?k = "presenceKey (redis_prefix E) name"
  have g: "result (kv_get E ?k) w = Inr text"
    using assms(1-3) by (simp add: kv_get_def command_result map_of_kv_live holds_def kv_wf_def)
  have h: "holds ?k (KStr text) x (final (kv_get E ?k) w)"
    unfolding kv_get_def by (rule presD [OF holds_command [OF assms(2)] assms(1)]) simp
  show ?thesis
  proof (cases "pr_ExpiresAt r = zero_time")
    case True
    then show ?thesis
      using h by (simp add: load_presence_def g assms(4) Let_def holds_def kv_wf_def)
  next
    case False
    then have "\<not> pr_ExpiresAt r < clock E (ticks (final (kv_get E ?k) w))"
      using assms(5) by (metis not_less)
    then show ?thesis
      using h False by (simp add: load_presence_def g assms(4) Let_def holds_def kv_wf_def)
  qed
qed

lemma load_presences_stored:
  assumes "holds (presenceKey (redis_prefix E) name) (KStr text) x w" and "\<And>n. kv_clock E n < x"
    and "\<And>n. \<not> kv_fault E n" and "unmarshal_record E text = Some r"
    and "\<And>n. pr_ExpiresAt r = zero_time \<or> clock E n \<le> pr_ExpiresAt r" and "name \<noteq> ''_index''"
    and "name \<in> set ns \<or> map_of (presence w) name = Some r"
  shows "map_of (presence (final (load_presences E ns) w)) name = Some r"
  using assms(1,7)
proof (induction ns arbitrary: w)
  case Nil
  then show ?case by simp
next
  case (Cons n ns)
  show ?case
  proof (cases "n = name")
    case True
    then show ?thesis
      using Cons.IH load_presence_stored [OF Cons.prems(1) assms(2-6)] by simp
  next
    case False
    have "holds (presenceKey (redis_prefix E) name) (KStr text) x (final (load_presence E n) w)"
      using holds_load_presence [OF assms(2,6) False] Cons.prems(1) by (simp add: pres_def)
    then show ?thesis
      using Cons.IH Cons.prems(2) False presence_load_other [OF False] by auto
  qed
qed

definition index_is_set :: "env \<Rightarrow> world \<Rightarrow> bool" where
  "index_is_set E w \<longleftrightarrow> (case map_of (kv w) (presenceIndexKey (redis_prefix E)) of Some (KStr _, _) \<Rightarrow> False | _ \<Rightarrow> True)"

lemma Register_stored:
  fixes E name ttl scope level iw meta w
  defines "r \<equiv> announced (map_of (presence w) name) name ttl scope level iw meta (clock E (ticks w))"
  defines "w1 \<equiv> final (set_presence name r) (final (now E) w)"
  defines "x \<equiv> kv_clock E (cmds w) + max 1 (result (persist_ttl E r) w1 div 1000000) * 1000000"
  assumes "redis_ready E" and "kv_wf w" and "\<And>n. \<not> kv_fault E n" and "record_json E r = Some j" and "name \<noteq> ''_index''"
    and "index_is_set E w"
  shows "holds (presenceKey (redis_prefix E) name) (KStr (print_json j)) x (final (presence_Register E name ttl scope level iw meta) w)"
    and "\<exists>xs. name \<in> set xs \<and> map_of (kv (final (presence_Register E name ttl scope level iw meta) w)) (presenceIndexKey (redis_prefix E)) =
      Some (KSet xs, Some (kv_clock E (cmds w) + nanos (30 * 24 * 3600)))"
proof -
  have pos: "0 < result (persist_ttl E r) w1"
    by (simp add: persist_ttl_def presencePersistentTTL_def presenceBaseTTL_def nanos_def Let_def)
  have w': "final (presence_Register E name ttl scope level iw meta) w = final (presence_persist E name r) w1"
    by (simp add: presence_Register_def r_def w1_def Let_def)
  have other: "presenceIndexKey (redis_prefix E) \<noteq> presenceKey (redis_prefix E) name"
    using assms(8) presenceKey_index by metis
  define t m where "t = kv_clock E (cmds w)" and
    "m = AList.update (presenceKey (redis_prefix E) name) (KStr (print_json j), Some x) (kv_live t (kv w))"
  have c: "cmds w1 = cmds w" "kv w1 = kv w" by (simp_all add: w1_def)
  have kv': "kv (final (presence_persist E name r) w1) =
      set_expire (presenceIndexKey (redis_prefix E)) (expiry t (nanos (30 * 24 * 3600)))
        (set_add (presenceIndexKey (redis_prefix E)) name m)"
    using kv_persist(1) [OF assms(4,7), of w1 name] assms(6) pos
    by (simp add: c Let_def t_def m_def x_def expiry_def)
  have m: "distinct (map fst m)" "map_of m (presenceKey (redis_prefix E) name) = Some (KStr (print_json j), Some x)"
    using assms(5) by (simp_all add: m_def distinct_update distinct_kv_live kv_wf_def)
  have added: "distinct (map fst (set_add (presenceIndexKey (redis_prefix E)) name m)) \<and>
      map_of (set_add (presenceIndexKey (redis_prefix E)) name m) (presenceKey (redis_prefix E) name) =
      Some (KStr (print_json j), Some x)"
    using set_add_other [OF m(1) other [symmetric]] m(2) by simp
  show "holds (presenceKey (redis_prefix E) name) (KStr (print_json j)) x (final (presence_Register E name ttl scope level iw meta) w)"
    using set_expire_other [OF conjunct1 [OF added] other [symmetric]] added
    by (simp add: w' holds_def kv_wf_def kv')
  have "\<nexists>s e. map_of m (presenceIndexKey (redis_prefix E)) = Some (KStr s, e)"
    using assms(5,9) other
    by (auto simp: m_def update_conv' index_is_set_def map_of_kv_live kv_wf_def split: option.splits if_splits)
  then obtain xs e where "map_of (set_add (presenceIndexKey (redis_prefix E)) name m) (presenceIndexKey (redis_prefix E)) =
      Some (KSet xs, e)" "name \<in> set xs"
    using set_add_same [of m "presenceIndexKey (redis_prefix E)" name] by blast
  then show "\<exists>xs. name \<in> set xs \<and> map_of (kv (final (presence_Register E name ttl scope level iw meta) w)) (presenceIndexKey (redis_prefix E)) =
      Some (KSet xs, Some (kv_clock E (cmds w) + nanos (30 * 24 * 3600)))"
    by (simp add: w' kv' set_expire_def update_conv' t_def expiry_def nanos_def)
qed


lemma int_text_ascii: "list_all (\<lambda>c. byte c < 128) (int_text i)"
proof -
  have "list_all (\<lambda>c. byte c < 128) (itoa n)" for n
    by (rule list.pred_mono_strong [OF itoa_digits]) (simp add: is_digit_def)
  then show ?thesis by (simp add: int_text_def)
qed

lemma demo_time_ok [simp]: "time_ok demo_env t"
proof -
  have "\<not> HasPrefix (itoa m) ''-''" for m
    using itoa_digits [of m] by (cases "itoa m") (auto simp: HasPrefix_def is_digit_def)
  then have "time_of_text demo_env (int_text t) = Some t"
    by (simp add: demo_env_def int_text_def HasPrefix_def)
  then show ?thesis
    by (simp add: time_ok_def ascii_valid int_text_ascii)
qed


theorem presence_Get_exact_witness:
  "result (presence_Get demo_env ''svc'') demo_world = None \<and>
     visible 5 (presence (final (presence_Get demo_env ''svc'') demo_world)) = visible 5 []"
  using presence_Get_exact [of demo_env "''svc''" demo_world] by (simp add: visible_def)

end
