(* ===== verification/Registries_Facts.thy ===== *)
theory Registries_Facts
  imports Registries Presence_Facts "HOL-Library.Product_Lexorder" "HOL-Library.Multiset"
begin

text \<open>
  What the rule registries promise: the relay table refines a map from destinations to services, the longest match
  is found, hooks come in the order of the library's stable sort, and rules survive a restart.

  The locale \<open>stored_rules\<close> is the contract between the loading loop and a registry that keeps its rules per service: a
  codec for the rules, and a \<open>put\<close> that replaces the rules of one service. Routes and hooks interpret it.
\<close>

declare map_of_eq_Some_iff [simp del]

section \<open>Hooks in order\<close>

lemma hook_insert_insort: "hook_insert r xs = insort_key (\<lambda>r. (hk_Priority r, hk_Service r)) r xs"
proof (induction xs)
  case (Cons x xs)
  have "hook_before x r \<longleftrightarrow> \<not> (hk_Priority r, hk_Service r) \<le> (hk_Priority x, hk_Service x)"
    by (auto simp: hook_before_def)
  with Cons show ?case by simp
qed simp

lemma sort_hooks_sort_key: "sort_hooks rs = sort_key (\<lambda>r. (hk_Priority r, hk_Service r)) rs"
  by (induction rs) (simp_all add: sort_hooks_def hook_insert_insort)

text \<open>
  The hooks of a request are the registered hooks of the phase and the path that have a URL, each once per
  registration, by ascending priority and then service name; hooks of the same service and priority keep their order.
\<close>

theorem match_hooks_sorted:
  "let hs = match_hooks m path phase;
       candidates = filter (\<lambda>r. hk_Phase r = phase \<and> MatchPath (hk_Paths r) path \<and> TrimSpace (hk_URL r) \<noteq> []) (concat (map snd m));
       key = (\<lambda>r. (hk_Priority r, hk_Service r))
   in mset hs = mset candidates \<and> sorted (map key hs) \<and>
      (\<forall>k. filter (\<lambda>r. key r = k) hs = filter (\<lambda>r. key r = k) candidates)"
proof -
  define key :: "hook_rule \<Rightarrow> int \<times> string" where "key = (\<lambda>r. (hk_Priority r, hk_Service r))"
  define c where "c = filter (\<lambda>r. hk_Phase r = phase \<and> MatchPath (hk_Paths r) path \<and> TrimSpace (hk_URL r) \<noteq> []) (concat (map snd m))"
  have "match_hooks m path phase = sort_key key c"
    unfolding match_hooks_def sort_hooks_sort_key key_def c_def
    by (rule arg_cong [of _ _ "sort_key _"]) (rule filter_cong; auto)
  moreover have "filter (\<lambda>r. key r = k) (sort_key key c) = filter (\<lambda>r. key r = k) c" for k
    by (rule sort_key_stable)
  ultimately show ?thesis
    unfolding Let_def key_def [symmetric] c_def [symmetric] by simp
qed

section \<open>The relay table\<close>

definition relays_wf :: "(string \<times> relay_rule) list \<Rightarrow> bool" where
  "relays_wf m \<longleftrightarrow> distinct (map fst m) \<and> list_all (\<lambda>(d, r). rl_Dest r = d) m"

text \<open>The abstract table: which service answers a destination, and where.\<close>

definition relay_view :: "(string \<times> relay_rule) list \<Rightarrow> string \<Rightarrow> (string \<times> string) option" where
  "relay_view m d = map_option (\<lambda>r. (rl_Service r, rl_Source r)) (map_of m d)"

definition owned :: "string \<Rightarrow> (string \<times> string) option \<Rightarrow> bool" where
  "owned service v \<longleftrightarrow> (case v of None \<Rightarrow> False | Some (s, _) \<Rightarrow> s = service)"

definition spec_Upsert :: "string \<Rightarrow> relay_rule list \<Rightarrow> (string \<Rightarrow> (string \<times> string) option) \<Rightarrow> string \<Rightarrow> (string \<times> string) option" where
  "spec_Upsert service rules v d =
     (case find (\<lambda>r. rl_Dest r = d \<and> d \<noteq> [] \<and> rl_Source r \<noteq> []) (rev rules) of
        Some r \<Rightarrow> Some (service, rl_Source r)
      | None \<Rightarrow> if owned service (v d) then None else v d)"

lemma list_all_update: "list_all P m \<Longrightarrow> P (k, v) \<Longrightarrow> list_all P (AList.update k v m)"
  by (induction m) auto

lemma relays_wf_add: "relays_wf m \<Longrightarrow> relays_wf (add_relay s r m)"
  by (simp add: relays_wf_def add_relay_def distinct_update list_all_update)

lemma relays_wf_fold: "relays_wf m \<Longrightarrow> relays_wf (fold (add_relay s) rs m)"
  by (induction rs arbitrary: m) (simp_all add: relays_wf_add)

lemma relays_wf_filter: "relays_wf m \<Longrightarrow> relays_wf (filter P m)"
  by (auto simp: relays_wf_def list_all_iff distinct_map_filter)

lemma view_fold:
  "relay_view (fold (add_relay s) rs m) d =
     (case find (\<lambda>r. rl_Dest r = d \<and> d \<noteq> [] \<and> rl_Source r \<noteq> []) (rev rs) of
        Some r \<Rightarrow> Some (s, rl_Source r) | None \<Rightarrow> relay_view m d)"
proof (induction rs rule: rev_induct)
  case (snoc r rs)
  then show ?case
    by (auto simp: add_relay_def relay_view_def update_conv')
qed simp

lemma map_of_filter_val:
  "distinct (map fst m) \<Longrightarrow> map_of (filter (\<lambda>(d, r). P r) m) d = (case map_of m d of None \<Rightarrow> None | Some r \<Rightarrow> if P r then Some r else None)"
proof (induction m)
  case (Cons x m)
  then show ?case by (cases x) (auto simp: map_of_eq_None_iff split: option.split)
qed simp

lemma store_rules_keeps [simp]:
  "relays (final (store_rules E k t) w) = relays w" "routes (final (store_rules E k t) w) = routes w"
  "hooks (final (store_rules E k t) w) = hooks w" "presence (final (store_rules E k t) w) = presence w"
  by (simp_all add: store_rules_def kv_set_def)

lemma relays_Upsert:
  "relays (final (relay_Upsert E s rs) w) = fold (add_relay s) rs (filter (\<lambda>(d, r). rl_Service r \<noteq> s) (relays w))"
  by (simp add: relay_Upsert_def put_relays_def relay_persist_def)

text \<open>
  C31: The relay table refines its specification: an upsert replaces exactly the destinations of its service by the
  accepted rules, the last rule of a destination winning, also over a destination another service had; the table keeps
  its form.
\<close>

theorem relay_Upsert_refines:
  assumes "relays_wf (relays w)"
  shows "relays_wf (relays (final (relay_Upsert E s rs) w)) \<and>
    relay_view (relays (final (relay_Upsert E s rs) w)) = spec_Upsert s rs (relay_view (relays w))"
proof
  show "relays_wf (relays (final (relay_Upsert E s rs) w))"
    unfolding relays_Upsert by (intro relays_wf_fold relays_wf_filter assms)
  have "relay_view (filter (\<lambda>(d, r). rl_Service r \<noteq> s) (relays w)) d =
      (if owned s (relay_view (relays w) d) then None else relay_view (relays w) d)" for d
    using assms map_of_filter_val [of "relays w" "\<lambda>r. rl_Service r \<noteq> s" d]
    by (auto simp: relay_view_def relays_wf_def owned_def split: option.splits)
  then show "relay_view (relays (final (relay_Upsert E s rs) w)) = spec_Upsert s rs (relay_view (relays w))"
    by (simp add: fun_eq_iff relays_Upsert view_fold spec_Upsert_def split: option.split)
qed

section \<open>The longest match\<close>

definition covers :: "string \<Rightarrow> string \<Rightarrow> bool" where
  "covers d path \<longleftrightarrow> path = d \<or> HasPrefix path (d @ ''/'')"

lemma relay_rest_iff: "relay_rest path r = Some rest \<longleftrightarrow> covers (rl_Dest r) path \<and> path = rl_Dest r @ rest"
proof -
  have "HasPrefix path (rl_Dest r @ ''/'') \<Longrightarrow> \<exists>q. path = rl_Dest r @ CHR ''/'' # q"
    by (auto simp: HasPrefix_iff)
  then show ?thesis
    by (auto simp: relay_rest_def covers_def)
qed

lemma covers_rest: "covers d path \<Longrightarrow> \<exists>rest. path = d @ rest"
  by (auto simp: covers_def HasPrefix_iff)

lemma covers_same_length: "covers d path \<Longrightarrow> covers d' path \<Longrightarrow> length d = length d' \<Longrightarrow> d = d'"
  using covers_rest [of d path] covers_rest [of d' path] by auto

lemma better_relay_fold:
  "fold (better_relay path) rs best = Some (r, rest) \<longrightarrow>
     (best = Some (r, rest) \<or> r \<in> set rs \<and> relay_rest path r = Some rest) \<and>
     (\<forall>r' \<in> set rs. covers (rl_Dest r') path \<longrightarrow> length (rl_Dest r') \<le> length (rl_Dest r)) \<and>
     (\<forall>b q. best = Some (b, q) \<longrightarrow> length (rl_Dest b) \<le> length (rl_Dest r))"
proof (induction rs arbitrary: best)
  case (Cons x rs)
  have cov: "relay_rest path x = None \<longleftrightarrow> \<not> covers (rl_Dest x) path"
    using relay_rest_iff [of path x] covers_rest [of "rl_Dest x" path] by (metis not_None_eq)
  show ?case
  proof (cases "relay_rest path x")
    case None
    then show ?thesis using Cons.IH [of best] cov by (auto simp: better_relay_def)
  next
    case (Some q)
    show ?thesis
    proof (cases best)
      case None
      then show ?thesis using Cons.IH [of "Some (x, q)"] Some by (auto simp: better_relay_def)
    next
      case (Some b)
      obtain b1 b2 where b: "b = (b1, b2)" by (cases b)
      show ?thesis
        using Cons.IH [of best] Cons.IH [of "Some (x, q)"] \<open>relay_rest path x = Some q\<close> Some b
        by (cases "length (rl_Dest x) > length (rl_Dest b1)") (auto simp: better_relay_def)
    qed
  qed
qed simp

lemma better_relay_none:
  "fold (better_relay path) rs best = None \<longleftrightarrow> best = None \<and> (\<forall>r \<in> set rs. \<not> covers (rl_Dest r) path)"
proof (induction rs arbitrary: best)
  case (Cons x rs)
  have "relay_rest path x = None \<longleftrightarrow> \<not> covers (rl_Dest x) path"
    using relay_rest_iff [of path x] covers_rest [of "rl_Dest x" path] by (metis not_None_eq)
  with Cons show ?case
    by (cases "relay_rest path x"; cases best) (auto simp: better_relay_def)
qed simp

text \<open>
  Relay matching is longest-prefix matching on path segments: the rule found is the one registered for the longest
  destination that is the path or a directory above it, with the rest of the path, and none is found exactly if no
  destination covers the path. The order of the table does not matter.
\<close>

theorem relay_Match_longest:
  assumes "relays_wf m"
  shows "(match_relays m path = Some (r, rest) \<longleftrightarrow>
      map_of m (rl_Dest r) = Some r \<and> covers (rl_Dest r) path \<and> path = rl_Dest r @ rest \<and>
      (\<forall>d \<in> dom (map_of m). covers d path \<longrightarrow> length d \<le> length (rl_Dest r))) \<and>
    (match_relays m path = None \<longleftrightarrow> (\<forall>d \<in> dom (map_of m). \<not> covers d path))"
proof
  have rows: "r' \<in> set (map snd m) \<longleftrightarrow> map_of m (rl_Dest r') = Some r'" for r'
  proof -
    have "(d, r'') \<in> set m \<Longrightarrow> rl_Dest r'' = d" for d r''
      using assms by (auto simp: relays_wf_def list_all_iff)
    then show ?thesis
      using assms by (force simp: relays_wf_def map_of_eq_Some_iff)
  qed
  have keys: "d \<in> dom (map_of m) \<longleftrightarrow> (\<exists>r' \<in> set (map snd m). rl_Dest r' = d)" for d
  proof
    assume "d \<in> dom (map_of m)"
    then obtain r' where "map_of m d = Some r'" by auto
    moreover from this have "rl_Dest r' = d"
      using assms map_of_SomeD [of m d r'] by (auto simp: relays_wf_def list_all_iff)
    ultimately show "\<exists>r' \<in> set (map snd m). rl_Dest r' = d" using rows by blast
  next
    assume "\<exists>r' \<in> set (map snd m). rl_Dest r' = d"
    then show "d \<in> dom (map_of m)" using rows by blast
  qed
  have dom: "dom (map_of m) = rl_Dest ` set (map snd m)"
    by (intro set_eqI) (simp only: keys image_iff, metis)
  show none: "match_relays m path = None \<longleftrightarrow> (\<forall>d \<in> dom (map_of m). \<not> covers d path)"
    unfolding match_relays_def better_relay_none dom by simp
  have found: "map_of m (rl_Dest r') = Some r' \<and> covers (rl_Dest r') path \<and> path = rl_Dest r' @ q \<and>
      (\<forall>d \<in> dom (map_of m). covers d path \<longrightarrow> length d \<le> length (rl_Dest r'))"
    if "match_relays m path = Some (r', q)" for r' q
  proof -
    have f: "r' \<in> set (map snd m)" "relay_rest path r' = Some q"
      "\<forall>r \<in> set (map snd m). covers (rl_Dest r) path \<longrightarrow> length (rl_Dest r) \<le> length (rl_Dest r')"
      using better_relay_fold [of path "map snd m" None r' q] that unfolding match_relays_def by blast+
    from f(3) have "\<forall>d \<in> dom (map_of m). covers d path \<longrightarrow> length d \<le> length (rl_Dest r')"
      unfolding dom by blast
    with f(1,2) rows show ?thesis unfolding relay_rest_iff by blast
  qed
  show "match_relays m path = Some (r, rest) \<longleftrightarrow>
      map_of m (rl_Dest r) = Some r \<and> covers (rl_Dest r) path \<and> path = rl_Dest r @ rest \<and>
      (\<forall>d \<in> dom (map_of m). covers d path \<longrightarrow> length d \<le> length (rl_Dest r))" (is "?l \<longleftrightarrow> ?r")
  proof
    assume ?l then show ?r by (rule found)
  next
    assume r: ?r
    then have "match_relays m path \<noteq> None" using none by auto
    then obtain r' q where m: "match_relays m path = Some (r', q)" by auto
    note f = found [OF m, THEN conjunct1] found [OF m, THEN conjunct2, THEN conjunct1]
      found [OF m, THEN conjunct2, THEN conjunct2, THEN conjunct1]
    note g = r [THEN conjunct1] r [THEN conjunct2, THEN conjunct1] r [THEN conjunct2, THEN conjunct2, THEN conjunct1]
    have "rl_Dest r' \<in> dom (map_of m)" by (rule domI) (rule f(1))
    then have le: "length (rl_Dest r') \<le> length (rl_Dest r)"
      using r [THEN conjunct2, THEN conjunct2, THEN conjunct2, THEN bspec, of "rl_Dest r'"] f(2) by blast
    have "rl_Dest r \<in> dom (map_of m)" by (rule domI) (rule g(1))
    then have ge: "length (rl_Dest r) \<le> length (rl_Dest r')"
      using found [OF m, THEN conjunct2, THEN conjunct2, THEN conjunct2, THEN bspec, of "rl_Dest r"] g(2) by blast
    have eq: "rl_Dest r' = rl_Dest r"
      by (rule covers_same_length [OF f(2) g(2) le_antisym [OF le ge]])
    have "Some r' = Some r"
      using f(1) g(1) unfolding eq by (rule trans [OF sym])
    moreover have "rl_Dest r @ q = rl_Dest r @ rest"
      using f(3) g(3) unfolding eq by (rule trans [OF sym])
    ultimately have "r' = r" "q = rest" by simp_all
    with m show ?l by simp
  qed
qed

theorem relay_Match_longest_witness:
  "match_relays [(''/a'', \<lparr>rl_Service = ''s'', rl_Dest = ''/a'', rl_Source = ''x''\<rparr>),
      (''/a/b'', \<lparr>rl_Service = ''t'', rl_Dest = ''/a/b'', rl_Source = ''y''\<rparr>)] ''/a/b/c'' =
     Some (\<lparr>rl_Service = ''t'', rl_Dest = ''/a/b'', rl_Source = ''y''\<rparr>, ''/c'')"
  by (subst relay_Match_longest [THEN conjunct1]) (auto simp: relays_wf_def covers_def HasPrefix_def)

section \<open>The JSON of the rules\<close>

lemma list_codec:
  assumes "\<And>r. r \<in> set rs \<Longrightarrow> json_ok (f r) \<and> canon_json (f r) = f r \<and> read_struct rd (f r) = Some r"
  shows "Option.bind (parse_json (print_json (JArr (map f rs)))) (\<lambda>j. read_list (read_struct rd) j []) = Some rs"
proof -
  have "json_ok (JArr (map f rs))" "canon_json (JArr (map f rs)) = JArr (map f rs)"
    using assms by (auto simp: list_all_iff)
  moreover have "read_all (read_struct rd) (map f rs) = Some (map (\<lambda>r. r) rs)"
    using assms by (intro read_all_map) auto
  ultimately show ?thesis
    using parse_print_json [of "JArr (map f rs)"] by (simp only: bind.simps read_list_def json.case map_ident)
qed

lemma rule_names:
  "ToLower ''service'' = ''service''" "ToLower ''dest'' = ''dest''" "ToLower ''source'' = ''source''"
  "ToLower ''paths'' = ''paths''" "ToLower ''pre_url'' = ''pre_url''" "ToLower ''post_url'' = ''post_url''"
  "ToLower ''phase'' = ''phase''" "ToLower ''capability'' = ''capability''" "ToLower ''priority'' = ''priority''"
  "ToLower ''fail_policy'' = ''fail_policy''" "ToLower ''patch_allowlist'' = ''patch_allowlist''" "ToLower ''url'' = ''url''"
  by (simp_all add: ToLower_def lower_char_def is_upper_def)

definition relay_ok :: "relay_rule \<Rightarrow> bool" where
  "relay_ok r \<longleftrightarrow> valid_utf8 (rl_Service r) \<and> valid_utf8 (rl_Dest r) \<and> valid_utf8 (rl_Source r)"

definition route_ok :: "route_rule \<Rightarrow> bool" where
  "route_ok r \<longleftrightarrow> valid_utf8 (rr_Service r) \<and> valid_utf8 (rr_Scope r) \<and> list_all valid_utf8 (rr_Paths r) \<and>
     valid_utf8 (rr_PreURL r) \<and> valid_utf8 (rr_PostURL r)"

definition hook_ok :: "hook_rule \<Rightarrow> bool" where
  "hook_ok r \<longleftrightarrow> valid_utf8 (hk_Service r) \<and> list_all valid_utf8 (hk_Paths r) \<and> valid_utf8 (hk_Phase r) \<and>
     valid_utf8 (hk_Capability r) \<and> valid_utf8 (hk_FailPolicy r) \<and> list_all valid_utf8 (hk_PatchAllowlist r) \<and>
     valid_utf8 (hk_URL r) \<and> - 9223372036854775808 \<le> hk_Priority r \<and> hk_Priority r < 9223372036854775808"

lemmas decode_eval = EqualFold_lower rule_names record_names read_str_def read_int_def to_valid_ascii to_valid_id
  canon_strs int_of_literal_int_text

lemma relays_codec: "list_all relay_ok rs \<Longrightarrow> unmarshal_relays (marshal_relays rs) = Some rs"
  unfolding unmarshal_relays_def marshal_relays_def
  by (rule list_codec)
    (auto simp: relay_json_def relay_ok_def read_struct_def read_relay_def list_all_iff decode_eval)

lemma routes_codec: "list_all route_ok rs \<Longrightarrow> unmarshal_routes (marshal_routes rs) = Some rs"
  unfolding unmarshal_routes_def marshal_routes_def
  by (rule list_codec)
    (auto simp: route_json_def route_ok_def read_struct_def read_route_def list_all_iff decode_eval)

lemma hooks_codec: "list_all hook_ok rs \<Longrightarrow> unmarshal_hooks (marshal_hooks rs) = Some rs"
  unfolding unmarshal_hooks_def marshal_hooks_def
  by (rule list_codec)
    (auto simp: hook_json_def hook_ok_def read_struct_def read_hook_def list_all_iff decode_eval)

section \<open>A restart\<close>

lemma final_command: "\<exists>m. final (command E f) w = w\<lparr>cmds := Suc (cmds w), kv := m\<rparr>"
proof (cases "kv_fault E (cmds w)")
  case True
  then have "final (command E f) w = w\<lparr>cmds := Suc (cmds w), kv := kv w\<rparr>"
    by (simp add: final_def command_run)
  then show ?thesis ..
next
  case False
  then show ?thesis by (auto simp: final_def command_run Let_def split: prod.split)
qed

locale stored_rules =
  fixes kind :: string and enc :: "'a \<Rightarrow> string" and dec :: "string \<Rightarrow> 'a option" and ok :: "'a \<Rightarrow> bool"
    and put :: "string \<Rightarrow> 'a \<Rightarrow> unit go" and look :: "world \<Rightarrow> string \<Rightarrow> 'a option"
  assumes dec_enc: "ok x \<Longrightarrow> dec (enc x) = Some x"
    and look_put: "look (final (put s x) w) t = (if t = s then Some x else look w t)"
    and put_kv: "kv (final (put s x) w) = kv w"
    and look_kv: "look (w\<lparr>cmds := c, kv := m\<rparr>) t = look w t"
begin

lemma look_command: "look (final (command E f) w) t = look w t"
  using final_command [of E f w] look_kv by metis

lemma holds_put: "holds k v x w \<Longrightarrow> holds k v x (final (put s y) w)"
  by (simp add: holds_def kv_wf_def put_kv)

lemma holds_get: "holds k v x w \<Longrightarrow> (\<And>n. kv_clock E n < x) \<Longrightarrow> holds k v x (final (kv_get E k') w)"
  unfolding kv_get_def by (rule presD [OF holds_command]) simp_all

lemma load_entry_other:
  assumes "k \<noteq> redis_prefix E @ kind @ service" and "HasPrefix k (redis_prefix E @ kind)"
  shows "look (final (load_entry E kind dec put k) w) service = look w service"
proof -
  have "service \<noteq> TrimPrefix k (redis_prefix E @ kind)"
  proof -
    obtain r where "k = (redis_prefix E @ kind) @ r"
      using assms(2) HasPrefix_iff by blast
    with assms(1) show ?thesis using TrimPrefix_append [of "redis_prefix E @ kind" r] by auto
  qed
  then show ?thesis
    by (simp add: load_entry_def Let_def kv_get_def look_command look_put split: sum.split option.split)
qed

lemma load_entry_holds:
  assumes "holds k v x w" and "\<And>n. kv_clock E n < x"
  shows "holds k v x (final (load_entry E kind dec put k') w)"
  using holds_get [OF assms] assms(1)
  by (simp add: load_entry_def Let_def holds_put split: sum.split option.split)

lemma load_entry_same:
  assumes "holds (redis_prefix E @ kind @ service) (KStr (enc y)) x w" and "\<And>n. kv_clock E n < x"
    and "\<And>n. \<not> kv_fault E n" and "ok y" and "service \<noteq> []" and "\<not> Contains service '':''"
  shows "look (final (load_entry E kind dec put (redis_prefix E @ kind @ service)) w) service = Some y"
proof -
  have "result (kv_get E (redis_prefix E @ kind @ service)) w = Inr (enc y)"
    using assms(1-3) by (simp add: kv_get_def command_result map_of_kv_live holds_def kv_wf_def)
  moreover have "TrimPrefix (redis_prefix E @ kind @ service) (redis_prefix E @ kind) = service"
    using TrimPrefix_append [of "redis_prefix E @ kind" service] by simp
  ultimately show ?thesis
    using assms(5,6) by (simp add: load_entry_def Let_def dec_enc [OF assms(4)] look_put)
qed

lemma load_entries_same:
  assumes "holds (redis_prefix E @ kind @ service) (KStr (enc y)) x w" and "\<And>n. kv_clock E n < x"
    and "\<And>n. \<not> kv_fault E n" and "ok y" and "service \<noteq> []" and "\<not> Contains service '':''"
    and "\<forall>k \<in> set ks. HasPrefix k (redis_prefix E @ kind)"
    and "redis_prefix E @ kind @ service \<in> set ks \<or> look w service = Some y"
  shows "look (final (load_entries E kind dec put ks) w) service = Some y"
  using assms(1,7,8)
proof (induction ks arbitrary: w)
  case Nil
  then show ?case by simp
next
  case (Cons k ks)
  note next_holds = load_entry_holds [OF Cons.prems(1) assms(2), of k]
  show ?case
  proof (cases "k = redis_prefix E @ kind @ service")
    case True
    then show ?thesis
      using Cons.IH [OF next_holds] Cons.prems(2) load_entry_same [OF Cons.prems(1) assms(2-6)] by simp
  next
    case False
    then show ?thesis
      using Cons.IH [OF next_holds] Cons.prems(2,3) load_entry_other [of k E service w] by auto
  qed
qed

lemma restart_keeps:
  assumes "redis_ready E" and "holds (redis_prefix E @ kind @ service) (KStr (enc y)) x w" and "\<And>n. kv_clock E n < x"
    and "\<And>n. \<not> kv_fault E n" and "ok y" and "service \<noteq> []" and "\<not> Contains service '':''"
  shows "look (final (load_registry E kind dec put) w) service = Some y"
proof -
  define w1 where "w1 = final (kv_scan E (redis_prefix E @ kind)) w"
  define ks where "ks = filter (\<lambda>k. HasPrefix k (redis_prefix E @ kind)) (map fst (kv_live (kv_clock E (cmds w)) (kv w)))"
  have scan: "result (kv_scan E (redis_prefix E @ kind)) w = Inr ks"
    using assms(4) by (simp add: kv_scan_def command_result ks_def)
  have h: "holds (redis_prefix E @ kind @ service) (KStr (enc y)) x w1"
    unfolding w1_def kv_scan_def by (rule presD [OF holds_command [OF assms(3)] assms(2)]) simp
  have "map_of (kv_live (kv_clock E (cmds w)) (kv w)) (redis_prefix E @ kind @ service) \<noteq> None"
    using assms(2,3) by (simp add: holds_def kv_wf_def map_of_kv_live)
  then have "redis_prefix E @ kind @ service \<in> set (map fst (kv_live (kv_clock E (cmds w)) (kv w)))"
    by (simp add: map_of_eq_None_iff)
  moreover have "HasPrefix (redis_prefix E @ kind @ service) (redis_prefix E @ kind)"
    using HasPrefix_append [of "redis_prefix E @ kind" service] by simp
  ultimately have "redis_prefix E @ kind @ service \<in> set ks"
    by (simp add: ks_def)
  then have "look (final (load_entries E kind dec put ks) w1) service = Some y"
    by (intro load_entries_same [OF h assms(3-7)]) (simp_all add: ks_def)
  then show ?thesis
    using assms(1) scan by (simp add: load_registry_def w1_def)
qed

end

interpretation routes_stored: stored_rules "''route:''" marshal_routes unmarshal_routes "list_all route_ok" put_routes
  "\<lambda>w. map_of (routes w)"
  by unfold_locales (auto simp: routes_codec put_routes_def update_conv')

interpretation hooks_stored: stored_rules "''hook:''" marshal_hooks unmarshal_hooks "list_all hook_ok" put_hooks
  "\<lambda>w. map_of (hooks w)"
  by unfold_locales (auto simp: hooks_codec put_hooks_def update_conv')

lemma kv_set_holds:
  assumes "kv_wf w" and "\<not> kv_fault E (cmds w)"
  shows "holds k (KStr text) (kv_clock E (cmds w) + rulesTTL) (final (kv_set E k text rulesTTL) w)"
  using assms by (simp add: holds_def kv_wf_def kv_set_def command_kv distinct_update distinct_kv_live expiry_def rulesTTL_def nanos_def)

lemma Upsert_holds:
  assumes "redis_ready E" and "kv_wf w" and "\<not> kv_fault E (cmds w)"
  shows "holds (redis_prefix E @ ''hook:'' @ s) (KStr (marshal_hooks hs)) (kv_clock E (cmds w) + rulesTTL) (final (hook_Upsert E s hs) w)"
    and "holds (redis_prefix E @ ''route:'' @ s) (KStr (marshal_routes rs)) (kv_clock E (cmds w) + rulesTTL) (final (route_Upsert E s rs) w)"
  using assms(1) kv_set_holds [OF assms(2,3)]
    kv_set_holds [of "final (put_hooks s hs) w" E] kv_set_holds [of "final (put_routes s rs) w" E] assms(2,3)
  by (simp_all add: hook_Upsert_def route_Upsert_def store_rules_def hookKey_def routeKey_def put_hooks_def put_routes_def kv_wf_def)

text \<open>
  Hook and route rules survive a restart: a new process that loads the registries within thirty days of an upsert that
  reached the server has exactly the rules that were registered for the service, in their order.
\<close>

theorem rules_survive_restart:
  assumes "redis_ready E" and "\<And>n. \<not> kv_fault E n" and "kv_wf w" and "service \<noteq> []" and "\<not> Contains service '':''"
    and "\<And>n. kv_clock E n < kv_clock E (cmds w) + rulesTTL"
  shows "(list_all hook_ok hs \<longrightarrow>
      map_of (hooks (final (hook_Load E) ((final (hook_Upsert E service hs) w)\<lparr>hooks := []\<rparr>))) service = Some hs) \<and>
    (list_all route_ok rs \<longrightarrow>
      map_of (routes (final (route_Load E) ((final (route_Upsert E service rs) w)\<lparr>routes := []\<rparr>))) service = Some rs)"
proof (intro conjI impI)
  assume "list_all hook_ok hs"
  moreover have "holds (redis_prefix E @ ''hook:'' @ service) (KStr (marshal_hooks hs)) (kv_clock E (cmds w) + rulesTTL)
      ((final (hook_Upsert E service hs) w)\<lparr>hooks := []\<rparr>)"
    using Upsert_holds(1) [OF assms(1,3,2)] by (simp add: holds_def kv_wf_def)
  ultimately show "map_of (hooks (final (hook_Load E) ((final (hook_Upsert E service hs) w)\<lparr>hooks := []\<rparr>))) service = Some hs"
    unfolding hook_Load_def by (intro hooks_stored.restart_keeps [OF assms(1)]) (use assms in auto)
next
  assume "list_all route_ok rs"
  moreover have "holds (redis_prefix E @ ''route:'' @ service) (KStr (marshal_routes rs)) (kv_clock E (cmds w) + rulesTTL)
      ((final (route_Upsert E service rs) w)\<lparr>routes := []\<rparr>)"
    using Upsert_holds(2) [OF assms(1,3,2)] by (simp add: holds_def kv_wf_def)
  ultimately show "map_of (routes (final (route_Load E) ((final (route_Upsert E service rs) w)\<lparr>routes := []\<rparr>))) service = Some rs"
    unfolding route_Load_def by (intro routes_stored.restart_keeps [OF assms(1)]) (use assms in auto)
qed

definition demo_hook :: hook_rule where
  "demo_hook = \<lparr>hk_Service = ''svc'', hk_Paths = [''/auth/*''], hk_Phase = ''auth.input'', hk_Capability = ''patch'',
     hk_Priority = 1, hk_FailPolicy = ''ignore'', hk_PatchAllowlist = [''auth.password''], hk_URL = ''http://h''\<rparr>"

theorem rules_survive_restart_witness:
  "map_of (hooks (final (hook_Load demo_env) ((final (hook_Upsert demo_env ''svc'' [demo_hook]) demo_world)\<lparr>hooks := []\<rparr>))) ''svc'' =
     Some [demo_hook]"
  using rules_survive_restart [of demo_env demo_world "''svc''" "[demo_hook]" "[]"]
  by (simp add: hook_ok_def demo_hook_def ascii_valid rulesTTL_def nanos_def HasPrefix_def)

theorem relay_Upsert_refines_witness:
  "relay_view (relays (final (relay_Upsert demo_env ''s'' [\<lparr>rl_Service = [], rl_Dest = ''/a'', rl_Source = ''x''\<rparr>])
      (demo_world\<lparr>relays := [(''/a'', \<lparr>rl_Service = ''t'', rl_Dest = ''/a'', rl_Source = ''y''\<rparr>)]\<rparr>))) ''/a'' = Some (''s'', ''x'')"
  by (subst relay_Upsert_refines [THEN conjunct2]) (simp_all add: relays_wf_def spec_Upsert_def)

section \<open>A relay rule that comes back\<close>

text \<open>
  A service registers the empty list, another one registers a destination, and the first takes it over. An upsert
  that takes a destination over changes only the stored list of the new owner. The old owner's list keeps the
  destination, and after a restart the old owner may have it back.
\<close>

definition taken_over :: world where
  "taken_over = final (relay_Upsert demo_env ''t'' [\<lparr>rl_Service = [], rl_Dest = ''/a'', rl_Source = ''y''\<rparr>])
     (final (relay_Upsert demo_env ''s'' [\<lparr>rl_Service = [], rl_Dest = ''/a'', rl_Source = ''x''\<rparr>])
       (final (relay_Upsert demo_env ''t'' []) demo_world))"

lemma taken_over_relays: "relay_view (relays taken_over) ''/a'' = Some (''t'', ''y'')"
  by (simp add: taken_over_def relays_Upsert add_relay_def relay_view_def)

text \<open>
  A takeover of a relay destination is undone by a restart: before it the new owner answers the path, and after the
  registry is loaded again the old owner does.
\<close>

theorem relay_comes_back:
  "relay_view (relays taken_over) ''/a'' = Some (''t'', ''y'') \<and>
   relay_view (relays (final (relay_Load demo_env) (taken_over\<lparr>relays := []\<rparr>))) ''/a'' = Some (''s'', ''x'')"
proof -
  have own: "own_relays ''t'' (relays demo_world) = []" "relays demo_world = []" "kv demo_world = []" "cmds demo_world = 0"
    by (simp_all add: own_relays_def demo_world_def)
  let ?t = "\<lparr>rl_Service = ''t'', rl_Dest = ''/a'', rl_Source = ''y''\<rparr>"
  let ?s = "\<lparr>rl_Service = ''s'', rl_Dest = ''/a'', rl_Source = ''x''\<rparr>"
  have live: "kv_live 1 [(''ha:relay:t'', a, Some (1 + rulesTTL)), (''ha:relay:s'', b, Some (1 + rulesTTL))] =
      [(''ha:relay:t'', a, Some (1 + rulesTTL)), (''ha:relay:s'', b, Some (1 + rulesTTL))]"
    "kv_live 1 [(''ha:relay:t'', a, Some (1 + rulesTTL))] = [(''ha:relay:t'', a, Some (1 + rulesTTL))]" "kv_live 1 [] = []" for a b
    by (simp_all add: kv_live_def rulesTTL_def nanos_def)
  have exp: "expiry 1 rulesTTL = Some (1 + rulesTTL)"
    by (simp add: expiry_def rulesTTL_def nanos_def)
  have kv: "kv taken_over = [(''ha:relay:t'', KStr (marshal_relays [?t]), Some (1 + rulesTTL)),
      (''ha:relay:s'', KStr (marshal_relays [?s]), Some (1 + rulesTTL))]"
    by (simp add: taken_over_def relay_Upsert_def put_relays_def relay_persist_def store_rules_def kv_set_def command_kv
        own own_relays_def add_relay_def relayKey_def live exp)
  have codec: "unmarshal_relays (marshal_relays [?t]) = Some [?t]" "unmarshal_relays (marshal_relays [?s]) = Some [?s]"
    by (rule relays_codec; simp add: relay_ok_def ascii_valid)+
  show ?thesis
    by (simp add: relay_Load_def load_registry_def load_entry_def kv_scan_def kv_get_def command_result command_kv kv live codec
        HasPrefix_def TrimPrefix_def put_relays_def add_relay_def relay_view_def Let_def taken_over_relays [unfolded relay_view_def])
qed

end
