(* ===== verification/Http.thy ===== *)
theory Http
  imports Key_Value
begin

text \<open>
  Requests and responses, and controllers/api_response.go.

  A request holds what the handlers read through gin: the headers, the query and the form parameters as gin has
  parsed them, and the request id the first middleware sets. Binding a body to a struct is gin's, so a handler takes
  the bound struct, \<open>None\<close> if binding fails. A response is a status with a JSON object, whose members are the payload
  map, or with raw data.

  A step of a handler that may write a response and stop returns a sum: \<open>Inl\<close> the response it wrote, \<open>Inr\<close> the value
  the handler goes on with.
\<close>

record request =
  rq_ID :: string
  rq_Method :: string
  rq_Path :: string
  rq_RawQuery :: string
  rq_Header :: "(string \<times> string) list"
  rq_Query :: "(string \<times> string) list"
  rq_Form :: "(string \<times> string) list"
  rq_Body :: "string option"
  rq_IP :: string

datatype response = Json nat "(string \<times> json) list" | Data nat string string

type_synonym 'a step = "(world, response + 'a) state"

definition default_value :: "string \<Rightarrow> string option \<Rightarrow> string" where
  "default_value d x = (case x of None \<Rightarrow> d | Some v \<Rightarrow> v)"

definition GetHeader :: "request \<Rightarrow> string \<Rightarrow> string" where
  "GetHeader rq k = default_value [] (map_of (rq_Header rq) k)"

definition Query :: "request \<Rightarrow> string \<Rightarrow> string" where
  "Query rq k = default_value [] (map_of (rq_Query rq) k)"

definition DefaultQuery :: "request \<Rightarrow> string \<Rightarrow> string \<Rightarrow> string" where
  "DefaultQuery rq k d = default_value d (map_of (rq_Query rq) k)"

definition PostForm :: "request \<Rightarrow> string \<Rightarrow> string" where
  "PostForm rq k = default_value [] (map_of (rq_Form rq) k)"

text \<open>Go on with the value of a step, or stop with its response.\<close>

definition continue_with :: "'a step \<Rightarrow> ('a \<Rightarrow> response go) \<Rightarrow> response go" where
  "continue_with m f = do { r \<leftarrow> m; case r of Inl resp \<Rightarrow> ret resp | Inr x \<Rightarrow> f x }"

definition next_step :: "'a step \<Rightarrow> ('a \<Rightarrow> 'b step) \<Rightarrow> 'b step" where
  "next_step m f = do { r \<leftarrow> m; case r of Inl resp \<Rightarrow> ret (Inl resp) | Inr x \<Rightarrow> f x }"

section \<open>Writing a response\<close>

definition respondJSON :: "request \<Rightarrow> nat \<Rightarrow> bool \<Rightarrow> string \<Rightarrow> string \<Rightarrow> json option \<Rightarrow> response" where
  "respondJSON rq status success code message data = Json status (
     let payload = [(''success'', JBool success), (''meta'', JObj [(''request_id'', JStr (rq_ID rq))])];
         payload = (if message \<noteq> [] then AList.update ''message'' (JStr message) payload else payload);
         payload = (if code \<noteq> [] then AList.update ''error'' (JStr code) (AList.update ''code'' (JStr code) payload) else payload)
     in case data of None \<Rightarrow> payload
        | Some d \<Rightarrow>
          let payload = AList.update ''data'' d payload in
          if success then (case d of JObj kvs \<Rightarrow> fold (\<lambda>(k, v). AList.update k v) kvs payload | _ \<Rightarrow> payload) else payload)"

definition respondOK :: "request \<Rightarrow> string \<Rightarrow> json option \<Rightarrow> response" where
  "respondOK rq message data = respondJSON rq 200 True [] message data"

definition respondCreated :: "request \<Rightarrow> string \<Rightarrow> json option \<Rightarrow> response" where
  "respondCreated rq message data = respondJSON rq 201 True [] message data"

definition respondError :: "request \<Rightarrow> nat \<Rightarrow> string \<Rightarrow> string \<Rightarrow> response" where
  "respondError rq status code message = respondJSON rq status False code message None"

definition newRequestID :: "env \<Rightarrow> string go" where
  "newRequestID E = State (\<lambda>w.
     case entropy E (draws w) 8 of
       Some buf \<Rightarrow> (hex_encode buf, w\<lparr>draws := Suc (draws w)\<rparr>)
     | None \<Rightarrow> (int_text (clock E (ticks w)), w\<lparr>draws := Suc (draws w), ticks := Suc (ticks w)\<rparr>))"

text \<open>The middleware: the request the handlers see. Every later \<open>requestIDFrom\<close> reads this id.\<close>

definition RequestIDMiddleware :: "env \<Rightarrow> request \<Rightarrow> request go" where
  "RequestIDMiddleware E rq = do {
     let requestID = TrimSpace (GetHeader rq ''X-Request-Id'');
     i \<leftarrow> (if requestID = [] then newRequestID E else ret requestID);
     ret (rq\<lparr>rq_ID := i\<rparr>)
   }"

definition requestIDFrom :: "request \<Rightarrow> string" where
  "requestIDFrom rq = rq_ID rq"

section \<open>Reading a response\<close>

definition status :: "response \<Rightarrow> nat" where
  "status r = (case r of Json s _ \<Rightarrow> s | Data s _ _ \<Rightarrow> s)"

definition member_of :: "response \<Rightarrow> string \<Rightarrow> json option" where
  "member_of r k = (case r of Json _ kvs \<Rightarrow> map_of kvs k | Data _ _ _ \<Rightarrow> None)"

lemma status_respond [simp]:
  "status (respondOK rq m d) = 200" "status (respondCreated rq m d) = 201" "status (respondError rq s c m) = s"
  by (simp_all add: respondOK_def respondCreated_def respondError_def respondJSON_def status_def)

lemma map_of_updates:
  "map_of (fold (\<lambda>(k, v). AList.update k v) kvs p) k = (case map_of (rev kvs) k of Some v \<Rightarrow> Some v | None \<Rightarrow> map_of p k)"
proof (induction kvs arbitrary: p)
  case (Cons x kvs)
  then show ?case
    by (cases x) (auto simp: update_conv' map_add_def split: option.split)
qed simp

lemma member_respondOK:
  "member_of (respondOK rq m (Some (JObj kvs))) k =
     (case map_of (rev kvs) k of Some v \<Rightarrow> Some v
      | None \<Rightarrow> if k = ''data'' then Some (JObj kvs) else member_of (respondOK rq m None) k)"
  by (auto simp: member_of_def respondOK_def respondJSON_def Let_def map_of_updates update_conv' split: option.split)

lemma member_respondError [simp]:
  "member_of (respondError rq s c m) ''success'' = Some (JBool False)"
  "c \<noteq> [] \<Longrightarrow> member_of (respondError rq s c m) ''code'' = Some (JStr c)"
  by (auto simp: member_of_def respondError_def respondJSON_def Let_def update_conv')

lemma respondError_plain [simp]: "m \<noteq> [] \<Longrightarrow> member_of (respondError rq s c m) ''data'' = None"
  by (auto simp: member_of_def respondError_def respondJSON_def Let_def update_conv')

lemma response_distinct [simp]:
  "s \<noteq> 200 \<Longrightarrow> respondError rq s c m \<noteq> respondOK rq' m' d" "s \<noteq> 200 \<Longrightarrow> respondOK rq' m' d \<noteq> respondError rq s c m"
  using status_respond by metis+

lemma result_continue [simp]:
  "result (continue_with m f) w = (case result m w of Inl r \<Rightarrow> r | Inr x \<Rightarrow> result (f x) (final m w))"
  by (simp add: continue_with_def split: sum.split)

lemma final_continue [simp]:
  "final (continue_with m f) w = (case result m w of Inl r \<Rightarrow> final m w | Inr x \<Rightarrow> final (f x) (final m w))"
  by (simp add: continue_with_def split: sum.split)

lemma result_next_step [simp]:
  "result (next_step m f) w = (case result m w of Inl r \<Rightarrow> Inl r | Inr x \<Rightarrow> result (f x) (final m w))"
  by (simp add: next_step_def split: sum.split)

lemma final_next_step [simp]:
  "final (next_step m f) w = (case result m w of Inl r \<Rightarrow> final m w | Inr x \<Rightarrow> final (f x) (final m w))"
  by (simp add: next_step_def split: sum.split)

lemma pres_continue [pres_intros]: "pres P m \<Longrightarrow> (\<And>x. pres P (f x)) \<Longrightarrow> pres P (continue_with m f)"
  unfolding continue_with_def by (intro pres_intros)

lemma pres_next_step [pres_intros]: "pres P m \<Longrightarrow> (\<And>x. pres P (f x)) \<Longrightarrow> pres P (next_step m f)"
  unfolding next_step_def by (intro pres_intros)

end
