(* ===== verification/Site_Auth.thy ===== *)
theory Site_Auth
  imports Http OAuth2_Properties
begin

text \<open>
  Who may call what: controllers/site_auth.go, controllers/auth_level.go and controllers/oauth2_token_helper.go.

  An endpoint of the site either asks for a level (none, a user, an operator) or for a scope, which a user's token
  must carry for the user's own account and a service's token for the account it names.
\<close>

section \<open>Credentials of a request\<close>

definition bearerTokenFromRequest :: "request \<Rightarrow> string" where
  "bearerTokenFromRequest rq =
     (let authHeader = TrimSpace (GetHeader rq ''Authorization'') in
      if length authHeader < 7 \<or> \<not> EqualFold (take 7 authHeader) ''Bearer '' then []
      else TrimSpace (drop 7 authHeader))"

definition hasScope :: "string list \<Rightarrow> string \<Rightarrow> bool" where
  "hasScope scopes required = list_ex (\<lambda>scope. scope = required) scopes"

fun firstNonEmpty :: "string list \<Rightarrow> string" where
  "firstNonEmpty [] = []"
| "firstNonEmpty (value # values) = (if TrimSpace value \<noteq> [] then TrimSpace value else firstNonEmpty values)"

section \<open>Levels\<close>

definition SecurityLevelNone :: int where "SecurityLevelNone = 0"
definition SecurityLevelUser :: int where "SecurityLevelUser = 1"
definition SecurityLevelOps :: int where "SecurityLevelOps = 2"

lemmas security_levels = SecurityLevelNone_def SecurityLevelUser_def SecurityLevelOps_def

definition maxSecurity :: "int list \<Rightarrow> int" where
  "maxSecurity levels = fold (\<lambda>l m. if l > m then l else m) levels SecurityLevelNone"

definition resolveAuthLevel :: "env \<Rightarrow> request \<Rightarrow> int go" where
  "resolveAuthLevel E rq =
     (let accessToken = bearerTokenFromRequest rq in
      if accessToken = [] then ret SecurityLevelNone
      else if manage_token E \<noteq> [] \<and> accessToken = manage_token E then ret SecurityLevelOps
      else do {
        tokenContext \<leftarrow> ResolveAccessToken E accessToken;
        ret (case tokenContext of Inl _ \<Rightarrow> SecurityLevelNone
          | Inr tc \<Rightarrow> if tc_IsService tc then SecurityLevelOps else SecurityLevelUser)
      })"

definition RequireAuthLevel :: "env \<Rightarrow> request \<Rightarrow> int \<Rightarrow> unit step" where
  "RequireAuthLevel E rq required =
     (if required \<le> SecurityLevelNone then ret (Inr ())
      else do {
        level \<leftarrow> resolveAuthLevel E rq;
        ret (if level \<ge> required then Inr ()
          else if level = SecurityLevelNone
          then Inl (respondError rq 401 ''oauth_login_required'' ''authentication required'')
          else Inl (respondError rq 403 ''insufficient_auth_level'' ''insufficient auth level''))
      })"

section \<open>Scopes\<close>

definition loadTargetUser :: "env \<Rightarrow> string \<Rightarrow> string \<Rightarrow> user option go" where
  "loadTargetUser E uid email = do {
     r \<leftarrow> db_first E users (\<lambda>u. (uid \<noteq> [] \<longrightarrow> uid_eq E uid (UID u)) \<and> (email \<noteq> [] \<longrightarrow> coll E (Email u) = coll E email));
     ret (case r of Inl _ \<Rightarrow> None | Inr u \<Rightarrow> Some u)
   }"

record site_auth =
  TokenContext :: token_context
  site_User :: user

definition resolveSiteBearerAuth ::
  "env \<Rightarrow> request \<Rightarrow> string \<Rightarrow> string \<Rightarrow> bool \<Rightarrow> string \<Rightarrow> string \<Rightarrow> site_auth step" where
  "resolveSiteBearerAuth E rq userScope adminScope requireExplicitTarget providedUID providedEmail =
     (let accessToken = bearerTokenFromRequest rq in
      if accessToken = [] then ret (Inl (respondError rq 401 ''oauth_login_required'' ''missing bearer token''))
      else do {
        resolved \<leftarrow> ResolveAccessToken E accessToken;
        case resolved of
          Inl _ \<Rightarrow> ret (Inl (respondError rq 401 ''oauth_invalid_grant'' ''invalid access token''))
        | Inr tc \<Rightarrow>
          if tc_IsService tc then
            (if \<not> hasScope (tc_Scopes tc) adminScope
             then ret (Inl (respondError rq 403 ''oauth_insufficient_scope'' ''insufficient scope''))
             else let uid = firstNonEmpty [providedUID, PostForm rq ''uid'', Query rq ''uid'', tc_TargetUID tc];
                      email = firstNonEmpty [providedEmail, PostForm rq ''email'', Query rq ''email'', tc_TargetEmail tc]
             in if requireExplicitTarget \<and> uid = [] \<and> email = []
             then ret (Inl (respondError rq 400 ''manage_target_required'' ''target uid or email is required''))
             else do {
               found \<leftarrow> loadTargetUser E uid email;
               ret (case found of None \<Rightarrow> Inl (respondError rq 404 ''user_not_found'' ''user not found'')
                 | Some u \<Rightarrow> Inr \<lparr>TokenContext = tc, site_User = u\<rparr>)
             })
          else if \<not> hasScope (tc_Scopes tc) userScope
          then ret (Inl (respondError rq 403 ''oauth_insufficient_scope'' ''insufficient scope''))
          else ret (case tc_User tc of
              None \<Rightarrow> Inl (respondError rq 401 ''oauth_invalid_grant'' ''invalid user token'')
            | Some u \<Rightarrow> Inr \<lparr>TokenContext = tc, site_User = u\<rparr>)
      })"

section \<open>Answering with tokens\<close>

definition parseScopesOrNil :: "string \<Rightarrow> string list" where
  "parseScopesOrNil raw =
     (if TrimSpace raw = [] then []
      else case unmarshal_strings raw of None \<Rightarrow> [] | Some scopes \<Rightarrow> scopes)"

definition issueAndRespondFirstPartyUserTokens :: "env \<Rightarrow> request \<Rightarrow> string \<Rightarrow> string \<Rightarrow> (string \<times> json) list \<Rightarrow> response go" where
  "issueAndRespondFirstPartyUserTokens E rq userUUID message extras = do {
     r \<leftarrow> IssueFirstPartyUserTokens E userUUID;
     ret (case r of
       Inl _ \<Rightarrow> respondError rq 500 ''internal_error'' ''Failed to issue OAuth2 token''
     | Inr (a, f) \<Rightarrow> respondOK rq message (Some (JObj (fold (\<lambda>(k, v). AList.update k v) extras
         [(''access_token'', JStr (at_AccessToken a)), (''refresh_token'', JStr (rt_RefreshToken f)),
          (''token_type'', JStr ''Bearer''), (''expires_in'', JNum (int_text (AccessTokenTTL (oauth2 E)))),
          (''scope'', JStr (Join (parseScopesOrNil (at_Scopes a)) '' ''))]))))
   }"

end
