(* ===== verification/Site_Auth_Facts.thy ===== *)
theory Site_Auth_Facts
  imports Site_Auth
begin

text \<open>
  Who passes: the levels and the scopes stated over the rows of the database, and two cases in which a service token
  acts on an account it does not name.
\<close>

section \<open>Live access tokens\<close>

text \<open>The row of a token that is not revoked and not expired, its active client, and the scopes of the row.\<close>

definition live_token :: "env \<Rightarrow> world \<Rightarrow> string \<Rightarrow> access_token \<Rightarrow> client \<Rightarrow> string list \<Rightarrow> bool" where
  "live_token E w bt tok c scopes \<longleftrightarrow>
     tok \<in> set (access_tokens (db w)) \<and> coll E (at_AccessToken tok) = coll E bt \<and>
     at_RevokedAt tok = None \<and> clock E (ticks w) \<le> at_ExpiresAt tok \<and>
     c \<in> set (clients (db w)) \<and> active_client E (at_ClientID tok) c \<and> unmarshal_strings (at_Scopes tok) = Some scopes"

definition user_named :: "env \<Rightarrow> string \<Rightarrow> user \<Rightarrow> bool" where
  "user_named E uuid u \<longleftrightarrow> coll E (u_UUID u) = coll E uuid"

definition context_of :: "env \<Rightarrow> world \<Rightarrow> access_token \<Rightarrow> client \<Rightarrow> string list \<Rightarrow> token_context" where
  "context_of E w tok c scopes = \<lparr>tc_Token = tok, tc_Client = c,
     tc_User = Option.bind (at_UserID tok) (\<lambda>u. find (user_named E u) (users (db w))), tc_Scopes = scopes,
     tc_IsSuper = cl_IsSuper c, tc_IsService = (at_SubjectType tok = ''service''),
     tc_TargetUID = (case at_TargetUID tok of None \<Rightarrow> [] | Some n \<Rightarrow> itoa n),
     tc_TargetEmail = (case at_TargetEmail tok of None \<Rightarrow> [] | Some m \<Rightarrow> m)\<rparr>"

lemma find_unique:
  assumes "distinct (map f xs)" and "x \<in> set xs" and "P x" and "\<And>y. y \<in> set xs \<Longrightarrow> P y \<Longrightarrow> f y = f x"
  shows "find P xs = Some x"
proof -
  have "find P xs \<noteq> None"
    using assms(2,3) by (auto simp: find_None_iff)
  then obtain y where y: "find P xs = Some y" by blast
  have "y = x"
    by (rule unique_row [OF assms(1)]) (use find_SomeD [OF y] assms(2,4) in blast)+
  with y show ?thesis by simp
qed

lemma find_none: "(\<And>x. x \<in> set xs \<Longrightarrow> \<not> P x) \<Longrightarrow> find P xs = None"
  by (simp add: find_None_iff)

lemma wf_token_row:
  "wf_tables E d \<Longrightarrow> tok \<in> set (access_tokens d) \<Longrightarrow> coll E (at_AccessToken tok) = coll E bt \<Longrightarrow>
    find (\<lambda>r. coll E (at_AccessToken r) = coll E bt) (access_tokens d) = Some tok"
  by (rule find_unique [of "\<lambda>r. coll E (at_AccessToken r)"]) (auto simp: wf_tables_def)

lemma wf_client_row:
  "wf_tables E d \<Longrightarrow> c \<in> set (clients d) \<Longrightarrow> active_client E cid c \<Longrightarrow> find (active_client E cid) (clients d) = Some c"
  by (rule find_unique [of "\<lambda>r. coll E (cl_ClientID r)"]) (auto simp: wf_tables_def active_client_def by_client_id_def)

lemma GetClient_db [simp]: "db (final (GetClient E cid) w) = db w"
  by (simp add: GetClient_def)

lemma Resolve_db [simp]: "db (final (ResolveAccessToken E bt) w) = db w"
  by (simp add: ResolveAccessToken_def GetClient_def load_user_def split: sum.split option.split)

lemma named_fold: "(\<lambda>x. coll E (u_UUID x) = coll E u) = user_named E u"
  by (auto simp: user_named_def fun_eq_iff)

lemma load_user_Some:
  assumes "result (load_user E uid) w = Some u"
  shows "u \<in> set (users (db w)) \<and> (\<exists>x. uid = Some x \<and> user_named E x u)"
proof -
  obtain x where x: "uid = Some x" "result (db_first E users (user_named E x)) w = Inr u"
    using assms by (auto simp: load_user_def named_fold split: option.splits sum.splits)
  then show ?thesis using db_first_Inr(1,2) [OF x(2)] by blast
qed

lemma Resolve_live:
  assumes "wf_tables E (db w)" and "\<And>n. \<not> db_fault E n" and "live_token E w bt tok c scopes"
  shows "result (ResolveAccessToken E bt) w = Inr (context_of E w tok c scopes)"
  using assms(2,3) wf_token_row [OF assms(1), of tok bt] wf_client_row [OF assms(1), of c "at_ClientID tok"]
  by (auto simp: ResolveAccessToken_def GetClient_def load_user_def db_first_result live_token_def token_live_def
      context_of_def named_fold split: option.split sum.split)

lemma Resolve_result:
  assumes "result (ResolveAccessToken E bt) w = Inr tc"
  shows "\<exists>tok c scopes. live_token E w bt tok c scopes \<and> tc_Token tc = tok \<and> tc_Scopes tc = scopes \<and>
    tc_IsService tc = (at_SubjectType tok = ''service'') \<and> tc_TargetUID tc = tc_TargetUID (context_of E w tok c scopes) \<and>
    tc_TargetEmail tc = tc_TargetEmail (context_of E w tok c scopes) \<and>
    (\<forall>u. tc_User tc = Some u \<longrightarrow> u \<in> set (users (db w)) \<and> (\<exists>x. at_UserID tok = Some x \<and> user_named E x u))"
proof -
  obtain tok where tok: "result (db_first E access_tokens (\<lambda>r. coll E (at_AccessToken r) = coll E bt)) w = Inr tok"
    using assms by (cases "result (db_first E access_tokens (\<lambda>r. coll E (at_AccessToken r) = coll E bt)) w")
      (auto simp: ResolveAccessToken_def)
  let ?w1 = "final (db_first E access_tokens (\<lambda>r. coll E (at_AccessToken r) = coll E bt)) w"
  let ?w2 = "final (now E) ?w1"
  have t: "token_live tok (clock E (ticks w))"
    using assms tok by (auto simp: ResolveAccessToken_def split: if_splits)
  obtain c where c: "result (db_first E clients (active_client E (at_ClientID tok))) ?w2 = Inr c"
    using assms tok t
    by (cases "result (db_first E clients (active_client E (at_ClientID tok))) ?w2")
      (auto simp: ResolveAccessToken_def GetClient_def split: if_splits)
  obtain scopes where s: "unmarshal_strings (at_Scopes tok) = Some scopes"
    using assms tok t c by (auto simp: ResolveAccessToken_def GetClient_def split: if_splits option.splits)
  have "live_token E w bt tok c scopes"
    using db_first_Inr(1,2) [OF tok] db_first_Inr(1,2) [OF c] t s by (auto simp: live_token_def token_live_def)
  moreover have "\<exists>x. at_UserID tok = Some x \<and> user_named E x u \<and> u \<in> set (users (db w))" if "tc_User tc = Some u" for u
  proof -
    have "result (load_user E (at_UserID tok)) (final (GetClient E (at_ClientID tok)) ?w2) = Some u"
      using assms tok t c s that
      by (auto simp: ResolveAccessToken_def token_live_def GetClient_def split: if_splits)
    from load_user_Some [OF this] show ?thesis by auto
  qed
  ultimately show ?thesis
    using assms tok t c s
    by (intro exI [of _ tok] exI [of _ c] exI [of _ scopes])
      (auto simp: ResolveAccessToken_def token_live_def GetClient_def context_of_def split: if_splits)
qed

section \<open>Who passes\<close>

definition is_manage_token :: "env \<Rightarrow> string \<Rightarrow> bool" where
  "is_manage_token E key \<longleftrightarrow> manage_token E \<noteq> [] \<and> key = manage_token E"

lemma RequireAuthLevel_db [simp]: "db (final (RequireAuthLevel E rq l) w) = db w"
  by (simp add: RequireAuthLevel_def resolveAuthLevel_def Let_def)

lemma RequireAuthLevel_passes:
  assumes "wf_tables E (db w)" and "\<And>n. \<not> db_fault E n"
  shows "(result (RequireAuthLevel E rq l) w = Inr () \<longleftrightarrow>
      l \<le> 0 \<or> bearerTokenFromRequest rq \<noteq> [] \<and>
        (if is_manage_token E (bearerTokenFromRequest rq) then l \<le> 2
         else \<exists>tok c scopes. live_token E w (bearerTokenFromRequest rq) tok c scopes \<and>
           l \<le> (if at_SubjectType tok = ''service'' then 2 else 1))) \<and>
    db (final (RequireAuthLevel E rq l) w) = db w"
proof (rule conjI)
  let ?k = "bearerTokenFromRequest rq"
  have pass: "result (RequireAuthLevel E rq l) w = Inr () \<longleftrightarrow> l \<le> 0 \<or> l \<le> result (resolveAuthLevel E rq) w"
    by (auto simp: RequireAuthLevel_def SecurityLevelNone_def)
  have level: "result (resolveAuthLevel E rq) w =
      (if at_SubjectType tok = ''service'' then 2 else 1)"
    if "live_token E w ?k tok c scopes" "?k \<noteq> []" "\<not> is_manage_token E ?k" for tok c scopes
    using that(2,3) Resolve_live [OF assms that(1)]
    by (auto simp: resolveAuthLevel_def is_manage_token_def security_levels context_of_def Let_def)
  show "result (RequireAuthLevel E rq l) w = Inr () \<longleftrightarrow>
      l \<le> 0 \<or> ?k \<noteq> [] \<and>
        (if is_manage_token E ?k then l \<le> 2
         else \<exists>tok c scopes. live_token E w ?k tok c scopes \<and> l \<le> (if at_SubjectType tok = ''service'' then 2 else 1))"
  proof (cases "?k \<noteq> [] \<and> \<not> is_manage_token E ?k \<and> (\<exists>tok c scopes. live_token E w ?k tok c scopes)")
    case True
    then obtain tok c scopes where t: "live_token E w ?k tok c scopes" by blast
    have "l \<le> (if at_SubjectType tok' = ''service'' then 2 else 1) \<longleftrightarrow> l \<le> result (resolveAuthLevel E rq) w"
      if "live_token E w ?k tok' c' scopes'" for tok' c' scopes'
      using level [OF that] True by simp
    then have "(\<exists>tok c scopes. live_token E w ?k tok c scopes \<and> l \<le> (if at_SubjectType tok = ''service'' then 2 else 1)) \<longleftrightarrow>
        l \<le> result (resolveAuthLevel E rq) w"
      using t by blast
    with True pass show ?thesis by simp
  next
    case False
    then have "result (resolveAuthLevel E rq) w =
        (if ?k \<noteq> [] \<and> is_manage_token E ?k then 2 else 0)"
      using Resolve_result [of E ?k w]
      by (auto simp: resolveAuthLevel_def is_manage_token_def security_levels Let_def split: sum.split)
    with False pass show ?thesis by auto
  qed
qed simp

text \<open>
  C16: A request that passes a scope carries a live token with that scope. A user's token gives the account of its
  owner, whatever account the request names; a service's token gives an existing account that agrees with the
  uid and the email it was resolved for.
\<close>

theorem resolveSiteBearerAuth_sound:
  assumes "result (resolveSiteBearerAuth E rq us as exp uid email) w = Inr a"
  shows "\<exists>tok c scopes. live_token E w (bearerTokenFromRequest rq) tok c scopes \<and> site_User a \<in> set (users (db w)) \<and>
    db (final (resolveSiteBearerAuth E rq us as exp uid email) w) = db w \<and>
    (if at_SubjectType tok = ''service''
     then as \<in> set scopes \<and>
       (let i = firstNonEmpty [uid, PostForm rq ''uid'', Query rq ''uid'', tc_TargetUID (TokenContext a)];
            m = firstNonEmpty [email, PostForm rq ''email'', Query rq ''email'', tc_TargetEmail (TokenContext a)]
        in (i = [] \<or> uid_eq E i (UID (site_User a))) \<and> (m = [] \<or> coll E (Email (site_User a)) = coll E m))
     else us \<in> set scopes \<and> (\<exists>x. at_UserID tok = Some x \<and> user_named E x (site_User a)) \<and>
       (\<forall>exp' uid' email'. result (resolveSiteBearerAuth E rq us as exp' uid' email') w = Inr a))"
proof -
  let ?k = "bearerTokenFromRequest rq"
  have k: "?k \<noteq> []" using assms by (auto simp: resolveSiteBearerAuth_def)
  obtain tc where tc: "result (ResolveAccessToken E ?k) w = Inr tc"
    using assms k by (cases "result (ResolveAccessToken E ?k) w") (auto simp: resolveSiteBearerAuth_def Let_def)
  obtain tok c scopes where t: "live_token E w ?k tok c scopes" "tc_Scopes tc = scopes"
      "tc_IsService tc = (at_SubjectType tok = ''service'')"
      "\<And>u. tc_User tc = Some u \<Longrightarrow> u \<in> set (users (db w)) \<and> (\<exists>x. at_UserID tok = Some x \<and> user_named E x u)"
    using Resolve_result [OF tc] by blast
  have scope: "hasScope s x \<longleftrightarrow> x \<in> set s" for s x
    by (auto simp: hasScope_def list_ex_iff)
  show ?thesis
  proof (cases "tc_IsService tc")
    case False
    then obtain u where u: "tc_User tc = Some u" "a = \<lparr>TokenContext = tc, site_User = u\<rparr>" "us \<in> set scopes"
      using assms k tc t(2) by (auto simp: resolveSiteBearerAuth_def Let_def scope split: if_splits option.splits)
    have "result (resolveSiteBearerAuth E rq us as exp' uid' email') w = Inr a" for exp' uid' email'
      using k tc u False t(2) by (simp add: resolveSiteBearerAuth_def Let_def scope)
    with u t False show ?thesis
      by (intro exI [of _ tok] exI [of _ c] exI [of _ scopes])
        (auto simp: resolveSiteBearerAuth_def Let_def tc k scope)
  next
    case True
    let ?i = "firstNonEmpty [uid, PostForm rq ''uid'', Query rq ''uid'', tc_TargetUID tc]"
    let ?m = "firstNonEmpty [email, PostForm rq ''email'', Query rq ''email'', tc_TargetEmail tc]"
    let ?w1 = "final (ResolveAccessToken E ?k) w"
    obtain u where u: "result (loadTargetUser E ?i ?m) ?w1 = Some u" "a = \<lparr>TokenContext = tc, site_User = u\<rparr>" "as \<in> set scopes"
      using assms k tc t(2) True
      by (auto simp: resolveSiteBearerAuth_def Let_def scope simp del: firstNonEmpty.simps split: if_splits option.splits)
    have "u \<in> set (users (db w)) \<and> (?i \<noteq> [] \<longrightarrow> uid_eq E ?i (UID u)) \<and> (?m \<noteq> [] \<longrightarrow> coll E (Email u) = coll E ?m)"
      using u(1)
      by (auto simp: loadTargetUser_def simp del: firstNonEmpty.simps split: sum.splits dest: db_first_Inr(1) db_first_Inr(2))
    moreover have "db (final (resolveSiteBearerAuth E rq us as exp uid email) w) = db w"
      by (simp add: resolveSiteBearerAuth_def Let_def tc k loadTargetUser_def del: firstNonEmpty.simps)
    ultimately have "site_User a \<in> set (users (db w)) \<and> db (final (resolveSiteBearerAuth E rq us as exp uid email) w) = db w \<and>
        as \<in> set scopes \<and> (?i = [] \<or> uid_eq E ?i (UID (site_User a))) \<and> (?m = [] \<or> coll E (Email (site_User a)) = coll E ?m)"
      using u(2,3) by (simp del: firstNonEmpty.simps) blast
    moreover have "TokenContext a = tc" "at_SubjectType tok = ''service''"
      using u(2) True t(3) by simp_all
    ultimately show ?thesis
      using t(1) by (intro exI [of _ tok] exI [of _ c] exI [of _ scopes]) (simp add: Let_def del: firstNonEmpty.simps)
  qed
qed


lemma digits_no_space:
  assumes "list_all is_digit s"
  shows "drop_space s = None" and "drop_space_rev s = None"
proof -
  have "\<not> space1 c \<and> \<not> space2 c d \<and> \<not> space2 d c \<and> \<not> space3 c d e \<and> \<not> space3 e d c" if "is_digit c" for c d e
    using that by (auto simp: is_digit_def space1_def space2_def space3_def)
  then show "drop_space s = None" "drop_space_rev s = None"
    using assms by (auto simp: drop_space_def drop_space_rev_def split: list.split)
qed

section \<open>Two ways past the target of a service token\<close>

lemma service_auth_loads:
  assumes "wf_tables E (db w)" and "\<And>n. \<not> db_fault E n"
    and "live_token E w (bearerTokenFromRequest rq) tok c scopes" and "bearerTokenFromRequest rq \<noteq> []"
    and "at_SubjectType tok = ''service''" and "as \<in> set scopes"
    and "find (\<lambda>u. (i \<noteq> [] \<longrightarrow> uid_eq E i (UID u)) \<and> (m \<noteq> [] \<longrightarrow> coll E (Email u) = coll E m)) (users (db w)) = Some u"
    and "i = firstNonEmpty [uid, PostForm rq ''uid'', Query rq ''uid'', tc_TargetUID (context_of E w tok c scopes)]"
    and "m = firstNonEmpty [email, PostForm rq ''email'', Query rq ''email'', tc_TargetEmail (context_of E w tok c scopes)]"
  shows "result (resolveSiteBearerAuth E rq us as False uid email) w = Inr \<lparr>TokenContext = context_of E w tok c scopes, site_User = u\<rparr>"
proof -
  have "tc_IsService (context_of E w tok c scopes)" "hasScope (tc_Scopes (context_of E w tok c scopes)) as"
    using assms(5,6) by (auto simp: context_of_def hasScope_def list_ex_iff)
  then show ?thesis
    using Resolve_live [OF assms(1-3)] assms(2,4,7)
    by (simp add: resolveSiteBearerAuth_def Let_def loadTargetUser_def db_first_result assms(8,9) [symmetric] del: firstNonEmpty.simps)
qed

text \<open>
  A service token that names no account acts on the first account of the table, if the request names none either:
  no endpoint asks for an explicit target.
\<close>

theorem untargeted_service_acts_on_first:
  assumes "wf_tables E (db w)" and "\<And>n. \<not> db_fault E n"
    and "live_token E w (bearerTokenFromRequest rq) tok c scopes" and "bearerTokenFromRequest rq \<noteq> []"
    and "at_SubjectType tok = ''service''" and "as \<in> set scopes" and "at_TargetUID tok = None" and "at_TargetEmail tok = None"
    and "rq_Form rq = []" and "rq_Query rq = []" and "users (db w) = u # us'"
  shows "\<exists>a. result (resolveSiteBearerAuth E rq us as False [] []) w = Inr a \<and> site_User a = u"
  using service_auth_loads [OF assms(1-6), of "[]" "[]" u "[]" "[]" us] assms(7-11)
  by (simp add: context_of_def PostForm_def Query_def default_value_def)

text \<open>
  The account a service token is bound to is only a default: with a token issued for one uid, a request that names
  another account acts on that account.
\<close>

theorem bound_target_is_overridden:
  assumes "wf_tables E (db w)" and "\<And>n. \<not> db_fault E n"
    and "live_token E w (bearerTokenFromRequest rq) tok c scopes" and "bearerTokenFromRequest rq \<noteq> []"
    and "at_SubjectType tok = ''service''" and "as \<in> set scopes" and "at_TargetUID tok = Some bound" and "at_TargetEmail tok = None"
    and "rq_Form rq = []" and "rq_Query rq = [(''uid'', itoa victim)]" and "\<And>n. uid_eq E (itoa victim) n \<longleftrightarrow> n = victim"
    and "u \<in> set (users (db w))" and "UID u = victim" and "distinct (map UID (users (db w)))"
  shows "\<exists>a. result (resolveSiteBearerAuth E rq us as False [] []) w = Inr a \<and> site_User a = u"
proof -
  have "find (\<lambda>u. UID u = victim) (users (db w)) = Some u"
    by (rule find_unique [OF assms(14,12)]) (simp_all add: assms(13))
  moreover have "TrimSpace (itoa victim) = itoa victim"
  proof (rule TrimSpace_id)
    show "drop_space (itoa victim) = None" "drop_space_rev (rev (itoa victim)) = None"
      using digits_no_space [of "itoa victim"] digits_no_space [of "rev (itoa victim)"] itoa_digits [of victim]
      by (simp_all add: list_all_iff)
  qed
  ultimately have i: "firstNonEmpty [[], PostForm rq ''uid'', Query rq ''uid'', tc_TargetUID (context_of E w tok c scopes)] = itoa victim"
      "firstNonEmpty [[], PostForm rq ''email'', Query rq ''email'', tc_TargetEmail (context_of E w tok c scopes)] = []"
      "find (\<lambda>u. (itoa victim \<noteq> [] \<longrightarrow> uid_eq E (itoa victim) (UID u)) \<and> ([] \<noteq> [] \<longrightarrow> coll E (Email u) = coll E [])) (users (db w)) = Some u"
    using assms(8-11) by (simp_all add: context_of_def PostForm_def Query_def default_value_def)
  from service_auth_loads [OF assms(1-6) i(3) i(1) [symmetric] i(2) [symmetric], of us] show ?thesis by auto
qed

section \<open>On the concrete service\<close>

definition demo_rq :: "string \<Rightarrow> request" where
  "demo_rq auth = \<lparr>rq_ID = ''r'', rq_Method = ''POST'', rq_Path = ''/x'', rq_RawQuery = [], rq_Header = [(''Authorization'', auth)],
     rq_Query = [], rq_Form = [], rq_Body = Some [], rq_IP = ''1.2.3.4''\<rparr>"

definition demo_service_token :: "nat option \<Rightarrow> access_token" where
  "demo_service_token target = \<lparr>at_ID = 2, at_AccessToken = ''srv'', at_ClientID = ''super'', at_UserID = None,
     at_Scopes = marshal_strings [''user.delete.as-service''], at_SubjectType = ''service'', at_TargetUID = target,
     at_TargetEmail = None, at_ExpiresAt = 5, at_RevokedAt = None\<rparr>"

definition with_service_token :: "nat option \<Rightarrow> world" where
  "with_service_token target = demo_world\<lparr>db := (db demo_world)\<lparr>access_tokens := [demo_access, demo_service_token target],
     users := [demo_user, demo_user\<lparr>UID := 2, u_UUID := ''u2''\<rparr>]\<rparr>\<rparr>"

lemma demo_bearer: "bearerTokenFromRequest (demo_rq ''Bearer acc'') = ''acc''" "bearerTokenFromRequest (demo_rq ''Bearer srv'') = ''srv''"
  "bearerTokenFromRequest (demo_rq ''Bearer srv''\<lparr>rq_Query := q\<rparr>) = ''srv''"
  by (simp_all add: bearerTokenFromRequest_def demo_rq_def GetHeader_def default_value_def TrimSpace_id space_eval Let_def
      EqualFold_def ToLower_def lower_char_def is_upper_def)

lemma demo_live:
  "live_token demo_env demo_world ''acc'' demo_access ((public_client demo_env)\<lparr>cl_ID := 1\<rparr>) [''user.read'']"
proof -
  have "unmarshal_strings (marshal_strings [''user.read'']) = Some [''user.read'']"
    by (rule unmarshal_marshal_valid) (simp add: ascii_valid)
  then show ?thesis
    by (simp add: live_token_def active_client_def by_client_id_def demo_access_def public_client_def) (simp add: demo_env_def)
qed

lemma service_live:
  "live_token demo_env (with_service_token target) ''srv'' (demo_service_token target) ((super_client demo_env)\<lparr>cl_ID := 2\<rparr>)
     [''user.delete.as-service'']"
proof -
  have "unmarshal_strings (marshal_strings [''user.delete.as-service'']) = Some [''user.delete.as-service'']"
    by (rule unmarshal_marshal_valid) (simp add: ascii_valid)
  then show ?thesis
    by (simp add: live_token_def with_service_token_def active_client_def by_client_id_def demo_service_token_def super_client_def)
      (simp add: demo_env_def)
qed

lemma with_service_wf: "wf_tables demo_env (db (with_service_token target))"
  using demo_wf
  by (simp add: with_service_token_def wf_tables_def owner_exists_def user_exists_def demo_service_token_def demo_access_def demo_user_def demo_code_def demo_refresh_def)


theorem resolveSiteBearerAuth_sound_witness:
  "\<exists>a. result (resolveSiteBearerAuth demo_env (demo_rq ''Bearer acc'') ''user.read'' ''user.read.as-service'' False ''9'' ''z@z'') demo_world = Inr a \<and>
     site_User a \<in> set (users (db demo_world))"
proof -
  let ?tc = "context_of demo_env demo_world demo_access ((public_client demo_env)\<lparr>cl_ID := 1\<rparr>) [''user.read'']"
  have "tc_User ?tc = Some demo_user" "tc_IsService ?tc = False" "tc_Scopes ?tc = [''user.read'']"
    by (simp_all add: context_of_def demo_access_def user_named_def) (simp add: demo_user_def)
  then have "result (resolveSiteBearerAuth demo_env (demo_rq ''Bearer acc'') ''user.read'' ''user.read.as-service'' False ''9'' ''z@z'') demo_world =
      Inr \<lparr>TokenContext = ?tc, site_User = demo_user\<rparr>"
    using Resolve_live [OF demo_wf _ demo_live]
    by (simp add: resolveSiteBearerAuth_def demo_bearer hasScope_def Let_def)
  note r = this
  have "site_User \<lparr>TokenContext = ?tc, site_User = demo_user\<rparr> \<in> set (users (db demo_world))"
    using resolveSiteBearerAuth_sound [OF r] by (elim exE conjE)
  with r show ?thesis by blast
qed

theorem untargeted_service_acts_on_first_witness:
  "\<exists>a. result (resolveSiteBearerAuth demo_env (demo_rq ''Bearer srv'') ''user.delete'' ''user.delete.as-service'' False [] [])
     (with_service_token None) = Inr a \<and> site_User a = demo_user"
proof -
  have "live_token demo_env (with_service_token None) (bearerTokenFromRequest (demo_rq ''Bearer srv'')) (demo_service_token None)
      ((super_client demo_env)\<lparr>cl_ID := 2\<rparr>) [''user.delete.as-service'']"
    using service_live by (simp only: demo_bearer)
  note u = untargeted_service_acts_on_first [OF with_service_wf _ this]
  have "bearerTokenFromRequest (demo_rq ''Bearer srv'') \<noteq> []" by (simp add: demo_bearer)
  then show ?thesis
    by (intro u [where us' = "[demo_user\<lparr>UID := 2, u_UUID := ''u2''\<rparr>]"])
      (simp_all add: demo_service_token_def demo_rq_def with_service_token_def)
qed

theorem bound_target_is_overridden_witness:
  "\<exists>a. result (resolveSiteBearerAuth demo_env (demo_rq ''Bearer srv''\<lparr>rq_Query := [(''uid'', itoa 2)]\<rparr>)
     ''user.delete'' ''user.delete.as-service'' False [] []) (with_service_token (Some 1)) = Inr a \<and> site_User a = demo_user\<lparr>UID := 2, u_UUID := ''u2''\<rparr>"
proof -
  let ?rq = "demo_rq ''Bearer srv''\<lparr>rq_Query := [(''uid'', itoa 2)]\<rparr>"
  have "live_token demo_env (with_service_token (Some 1)) (bearerTokenFromRequest ?rq) (demo_service_token (Some 1))
      ((super_client demo_env)\<lparr>cl_ID := 2\<rparr>) [''user.delete.as-service'']"
    using service_live by (simp only: demo_bearer)
  note b = bound_target_is_overridden [OF with_service_wf _ this, where bound = 1 and victim = 2]
  have "itoa 2 = itoa n \<longleftrightarrow> n = 2" for n
    using digits_value_itoa [of n] digits_value_itoa [of 2] by metis
  then have "uid_eq demo_env (itoa 2) n \<longleftrightarrow> n = 2" for n
    by (simp only: demo_env_def env.simps)
  moreover have "bearerTokenFromRequest ?rq \<noteq> []" by (simp add: demo_bearer)
  ultimately show ?thesis
    by (intro b) (simp_all add: demo_service_token_def demo_rq_def with_service_token_def demo_user_def)
qed

end
