(* ===== verification/Hooks.thy ===== *)
theory Hooks
  imports Registries Site_Auth
begin

text \<open>
  controllers/hook_runtime.go, and the rule checks of controllers/hook_controller.go.

  During a login the executor calls the hooks registered for the phase one after the other. A hook may deny the
  login or patch the payload the later steps read. A payload is passed on and returned instead of mutated; a patch that
  fails half way keeps what it has done. Errors are not told apart where the code only logs them.
\<close>

section \<open>Payload\<close>

record hook_request_context =
  hq_ID :: string
  hq_Path :: string
  hq_Method :: string

record hook_auth_context =
  ha_Email :: string
  ha_Password :: string
  ha_PasswordEncoding :: string
  ha_RiskTags :: "string list"
  ha_UserUUID :: string
  ha_AvailableFactors :: "string list"
  ha_RequiredSecondFactor :: string

record hook_policy_context =
  hy_PatchAllowlist :: "string list"
  hy_Capabilities :: "string list"

record hook_payload =
  pl_Request :: hook_request_context
  pl_Auth :: hook_auth_context
  pl_Policy :: hook_policy_context

record hook_response =
  hr_Result :: string
  hr_Patch :: "(string \<times> json) list"

definition opt_str :: "string \<Rightarrow> string \<Rightarrow> (string \<times> json) list" where
  "opt_str k s = (if s = [] then [] else [(k, JStr s)])"

definition opt_strs :: "string \<Rightarrow> string list \<Rightarrow> (string \<times> json) list" where
  "opt_strs k xs = (if xs = [] then [] else [(k, strs_json xs)])"

definition payload_json :: "hook_payload \<Rightarrow> json" where
  "payload_json p =
     (let q = pl_Request p; a = pl_Auth p; y = pl_Policy p in
      JObj [(''request'', JObj [(''id'', JStr (hq_ID q)), (''path'', JStr (hq_Path q)), (''method'', JStr (hq_Method q))]),
        (''auth'', JObj (opt_str ''email'' (ha_Email a) @ opt_str ''password'' (ha_Password a) @
           opt_str ''password_encoding'' (ha_PasswordEncoding a) @ opt_strs ''risk_tags'' (ha_RiskTags a) @
           opt_str ''user_uuid'' (ha_UserUUID a) @ opt_strs ''available_factors'' (ha_AvailableFactors a) @
           opt_str ''required_second_factor'' (ha_RequiredSecondFactor a))),
        (''policy'', JObj (opt_strs ''patch_allowlist'' (hy_PatchAllowlist y) @ opt_strs ''capabilities'' (hy_Capabilities y)))])"

text \<open>\<open>json.Unmarshal\<close> into a response; a member that comes twice in a patch is the last one.\<close>

definition go_map :: "(string \<times> json) list \<Rightarrow> (string \<times> json) list" where
  "go_map kvs = fold (\<lambda>(k, v). AList.update k v) kvs []"

definition read_response :: "(string \<times> json) list \<Rightarrow> hook_response option" where
  "read_response kvs =
     (case (obj_field read_str ''result'' [] kvs, obj_field read_meta ''patch'' [] kvs) of
        (Some r, Some p) \<Rightarrow> Some \<lparr>hr_Result = r, hr_Patch = go_map p\<rparr> | _ \<Rightarrow> None)"

definition unmarshal_response :: "string \<Rightarrow> hook_response option" where
  "unmarshal_response raw =
     Option.bind (parse_json raw) (read_struct read_response)"

section \<open>Patches\<close>

fun trim_strings :: "json list \<Rightarrow> string list option" where
  "trim_strings [] = Some []"
| "trim_strings (item # items) =
     (case item of
        JStr raw \<Rightarrow> map_option (\<lambda>out. if TrimSpace raw = [] then out else TrimSpace raw # out) (trim_strings items)
      | _ \<Rightarrow> None)"

definition parseHookStringSlice :: "json \<Rightarrow> string list option" where
  "parseHookStringSlice value = (case value of JArr items \<Rightarrow> trim_strings items | _ \<Rightarrow> None)"

text \<open>One member of a patch; \<open>None\<close> is the type error that ends the loop.\<close>

definition patch_field :: "string \<Rightarrow> json \<Rightarrow> hook_auth_context \<Rightarrow> hook_auth_context option" where
  "patch_field key value a =
     (if key = ''auth.password'' then
        (case value of JStr raw \<Rightarrow> Some (a\<lparr>ha_Password := raw\<rparr>) | _ \<Rightarrow> None)
      else if key = ''auth.password_encoding'' then
        (case value of JStr raw \<Rightarrow> Some (a\<lparr>ha_PasswordEncoding := TrimSpace raw\<rparr>) | _ \<Rightarrow> None)
      else if key = ''auth.required_second_factor'' then
        (case value of JStr raw \<Rightarrow> Some (a\<lparr>ha_RequiredSecondFactor := TrimSpace raw\<rparr>) | _ \<Rightarrow> None)
      else if key = ''auth.risk_tags'' then
        map_option (\<lambda>tags. a\<lparr>ha_RiskTags := tags\<rparr>) (parseHookStringSlice value)
      else Some a)"

fun patch_fields :: "string list \<Rightarrow> (string \<times> json) list \<Rightarrow> hook_auth_context \<Rightarrow> hook_auth_context \<times> bool" where
  "patch_fields allowlist [] a = (a, True)"
| "patch_fields allowlist ((key, value) # patch) a =
     (if key \<notin> set allowlist then patch_fields allowlist patch a
      else case patch_field key value a of
        None \<Rightarrow> (a, False)
      | Some a' \<Rightarrow> patch_fields allowlist patch a')"

text \<open>The payload after the patch, and whether it went through.\<close>

definition applyHookPatch :: "hook_payload \<Rightarrow> string list \<Rightarrow> (string \<times> json) list \<Rightarrow> hook_payload \<times> bool" where
  "applyHookPatch payload allowlist patch =
     (case patch_fields allowlist patch (pl_Auth payload) of (a, ok) \<Rightarrow> (payload\<lparr>pl_Auth := a\<rparr>, ok))"

section \<open>Calling hooks\<close>

definition callHook :: "env \<Rightarrow> request \<Rightarrow> hook_rule \<Rightarrow> hook_payload \<Rightarrow> hook_response option go" where
  "callHook E rq rule payload =
     (let body = print_json (payload_json (payload\<lparr>pl_Policy :=
            \<lparr>hy_PatchAllowlist = hk_PatchAllowlist rule, hy_Capabilities = [hk_Capability rule]\<rparr>\<rparr>))
      in if \<not> valid_url E (hk_URL rule) then ret None
      else do {
        found \<leftarrow> presence_Get E (hk_Service rule);
        let key = (case found of Some r \<Rightarrow> if TrimSpace (pr_InternalKey r) \<noteq> [] then [(''X-Internal-Key'', pr_InternalKey r)] else []
                   | None \<Rightarrow> []);
        reply \<leftarrow> http_do E \<lparr>hc_Method = ''POST'', hc_URL = hk_URL rule,
           hc_Headers = [(''Content-Type'', ''application/json''), (''X-Request-Id'', requestIDFrom rq)] @ key, hc_Body = body\<rparr>;
        ret (case reply of
          None \<Rightarrow> None
        | Some p \<Rightarrow>
          if hp_Status p < 200 \<or> hp_Status p \<ge> 300 then None
          else if TrimSpace (hp_Body p) = [] then Some \<lparr>hr_Result = ''ok'', hr_Patch = []\<rparr>
          else unmarshal_response (hp_Body p))
      })"

definition hook_failed :: "request \<Rightarrow> response" where
  "hook_failed rq = respondError rq 502 ''hook_failed'' ''hook execution failed''"

definition hook_denied :: "request \<Rightarrow> response" where
  "hook_denied rq = respondError rq 403 ''hook_denied'' ''request denied by hook policy''"

text \<open>What a failure of a hook means under its policy.\<close>

definition on_failure :: "request \<Rightarrow> hook_rule \<Rightarrow> hook_payload \<Rightarrow> response + hook_payload" where
  "on_failure rq rule payload =
     (if hk_FailPolicy rule = ''fail_closed'' then Inl (hook_failed rq) else Inr payload)"

definition runRule :: "env \<Rightarrow> request \<Rightarrow> hook_rule \<Rightarrow> hook_payload \<Rightarrow> hook_payload step" where
  "runRule E rq rule payload = do {
     resp \<leftarrow> callHook E rq rule payload;
     case resp of
       None \<Rightarrow> ret (on_failure rq rule payload)
     | Some r \<Rightarrow>
       (let kind = ToLower (TrimSpace (hr_Result r)) in
        if kind \<in> {[], ''ok'', ''observe''} then ret (Inr payload)
        else if kind \<in> {''deny'', ''veto''} then ret (Inl (hook_denied rq))
        else if kind = ''patch'' then
          (if hk_Capability rule \<noteq> ''patch'' then ret (on_failure rq rule payload)
           else do {
             n \<leftarrow> gets calls;
             let (payload', ok) = applyHookPatch payload (hk_PatchAllowlist rule) (range_order E n (hr_Patch r));
             ret (if ok then Inr payload' else on_failure rq rule payload')
           })
        else ret (on_failure rq rule payload))
   }"

fun run_rules :: "env \<Rightarrow> request \<Rightarrow> hook_rule list \<Rightarrow> hook_payload \<Rightarrow> hook_payload step" where
  "run_rules E rq [] payload = ret (Inr payload)"
| "run_rules E rq (rule # rules) payload =
     next_step (runRule E rq rule payload) (\<lambda>payload'. run_rules E rq rules payload')"

definition hook_Run :: "env \<Rightarrow> request \<Rightarrow> string \<Rightarrow> hook_payload \<Rightarrow> hook_payload step" where
  "hook_Run E rq phase payload = do {
     rules \<leftarrow> hook_Match (rq_Path rq) phase;
     run_rules E rq rules payload
   }"

section \<open>Checking rules\<close>

definition validHookPhase :: "string \<Rightarrow> bool" where
  "validHookPhase phase \<longleftrightarrow> phase \<in> {''auth.input'', ''auth.risk'', ''auth.post_verify''}"

definition validHookCapability :: "string \<Rightarrow> bool" where
  "validHookCapability capability \<longleftrightarrow> capability \<in> {''observe'', ''patch'', ''veto''}"

definition validHookFailPolicy :: "string \<Rightarrow> bool" where
  "validHookFailPolicy policy \<longleftrightarrow> policy \<in> {''ignore'', ''fail_open'', ''fail_closed''}"

definition validHookPatchField :: "string \<Rightarrow> bool" where
  "validHookPatchField field \<longleftrightarrow>
     field \<in> {''auth.password'', ''auth.password_encoding'', ''auth.risk_tags'', ''auth.required_second_factor''}"

fun clean_paths :: "string list \<Rightarrow> string list" where
  "clean_paths [] = []"
| "clean_paths (p # ps) =
     (let path = TrimSpace p in
      if path = [] then clean_paths ps
      else (if HasPrefix path ''/'' then path else CHR ''/'' # path) # clean_paths ps)"

fun clean_fields :: "string list \<Rightarrow> string list \<Rightarrow> string list" where
  "clean_fields seen [] = []"
| "clean_fields seen (f # fs) =
     (let field = TrimSpace f in
      if field = [] \<or> \<not> validHookPatchField field \<or> field \<in> set seen then clean_fields seen fs
      else field # clean_fields (field # seen) fs)"

definition normalizeHookRule :: "hook_rule \<Rightarrow> string \<Rightarrow> hook_rule option" where
  "normalizeHookRule rule service =
     (let phase = TrimSpace (hk_Phase rule); capability = TrimSpace (hk_Capability rule);
          policy = TrimSpace (hk_FailPolicy rule); url = TrimSpace (hk_URL rule) in
      if url = [] \<or> \<not> validHookPhase phase \<or> \<not> validHookCapability capability then None
      else let policy = (if policy = [] then ''ignore'' else policy) in
      if \<not> validHookFailPolicy policy then None
      else let paths = clean_paths (hk_Paths rule) in
      if paths = [] then None
      else let allowlist = clean_fields [] (hk_PatchAllowlist rule) in
      if capability = ''patch'' \<and> allowlist = [] then None
      else Some \<lparr>hk_Service = service, hk_Paths = paths, hk_Phase = phase, hk_Capability = capability,
        hk_Priority = hk_Priority rule, hk_FailPolicy = policy, hk_PatchAllowlist = allowlist, hk_URL = url\<rparr>)"

end
