(* ===== verification/Hooks_Facts.thy ===== *)
theory Hooks_Facts
  imports Hooks Registries_Facts Site_Auth_Facts
begin

text \<open>
  What a hook can do to a login: a patch reaches only the fields the rule allows, a failure stops the login only
  under a fail-closed policy, and a stored rule is a valid one.
\<close>

declare map_of_eq_Some_iff [simp del]

section \<open>Rules\<close>

text \<open>The rules the executor and the registry expect.\<close>

definition hook_valid :: "hook_rule \<Rightarrow> bool" where
  "hook_valid r \<longleftrightarrow>
     hk_URL r \<noteq> [] \<and> TrimSpace (hk_URL r) = hk_URL r \<and>
     validHookPhase (hk_Phase r) \<and> validHookCapability (hk_Capability r) \<and> validHookFailPolicy (hk_FailPolicy r) \<and>
     hk_Paths r \<noteq> [] \<and> list_all (\<lambda>p. HasPrefix p ''/'' \<and> TrimSpace p = p) (hk_Paths r) \<and>
     list_all validHookPatchField (hk_PatchAllowlist r) \<and> distinct (hk_PatchAllowlist r) \<and>
     (hk_Capability r = ''patch'' \<longrightarrow> hk_PatchAllowlist r \<noteq> [])"

lemma slash_not_space: "drop_space (CHR ''/'' # s) = None"
  by (simp add: space_eval split: list.split)

lemma TrimSpace_slash:
  assumes "TrimSpace s = s" and "s \<noteq> []"
  shows "TrimSpace (CHR ''/'' # s) = CHR ''/'' # s"
proof (rule TrimSpace_id [OF slash_not_space])
  have n: "drop_space_rev (rev s) = None"
  proof -
    have "drop_space s = None" using drop_TrimSpace [of s] assms(1) by simp
    then have "rev (trim_rev (rev s)) = s"
      using assms(1) TrimLeftSpace_id [of s] by (simp add: TrimSpace_def)
    then have "trim_rev (rev s) = rev s" by (metis rev_rev_ident)
    then show ?thesis using drop_trim_rev [of "rev s"] by simp
  qed
  obtain e t where e: "rev s = e # t" using assms(2) by (cases "rev s") auto
  have "\<not> space1 e" using n by (auto simp: e drop_space_rev_def split: if_splits)
  then show "drop_space_rev (rev (CHR ''/'' # s)) = None"
    using n by (auto simp: e drop_space_rev_def space2_def space3_def split: list.splits if_splits)
qed

lemma clean_paths_ok: "list_all (\<lambda>p. HasPrefix p ''/'' \<and> TrimSpace p = p) (clean_paths ps)"
  by (induction ps) (auto simp: Let_def TrimSpace_slash HasPrefix_def)

lemma clean_paths_id: "list_all (\<lambda>p. HasPrefix p ''/'' \<and> TrimSpace p = p) ps \<Longrightarrow> clean_paths ps = ps"
  by (induction ps) (auto simp: Let_def HasPrefix_def)

lemma clean_fields_ok:
  "list_all validHookPatchField (clean_fields seen fs) \<and> distinct (clean_fields seen fs) \<and> set (clean_fields seen fs) \<inter> set seen = {}"
  by (induction seen fs rule: clean_fields.induct) (auto simp: Let_def)

lemma patch_field_trim: "validHookPatchField f \<Longrightarrow> TrimSpace f = f \<and> f \<noteq> []"
  by (auto simp: validHookPatchField_def TrimSpace_id space_eval)

lemma clean_fields_id:
  "list_all validHookPatchField fs \<Longrightarrow> distinct fs \<Longrightarrow> set fs \<inter> set seen = {} \<Longrightarrow> clean_fields seen fs = fs"
  by (induction seen fs rule: clean_fields.induct) (auto simp: Let_def patch_field_trim)

lemma keyword_trim:
  "validHookPhase p \<Longrightarrow> TrimSpace p = p" "validHookCapability p \<Longrightarrow> TrimSpace p = p" "validHookFailPolicy p \<Longrightarrow> TrimSpace p = p \<and> p \<noteq> []"
  by (auto simp: validHookPhase_def validHookCapability_def validHookFailPolicy_def TrimSpace_id space_eval)

lemma normalized_hook_valid:
  "(case normalizeHookRule r s of None \<Rightarrow> True
    | Some r' \<Rightarrow> hook_valid r' \<and> hk_Service r' = s \<and> hk_Priority r' = hk_Priority r \<and> normalizeHookRule r' s = Some r') \<and>
   (normalizeHookRule q s = Some q \<longleftrightarrow> hook_valid q \<and> hk_Service q = s)"
proof -
  have ok: "hook_valid r' \<and> hk_Service r' = s \<and> hk_Priority r' = hk_Priority r" if "normalizeHookRule r s = Some r'" for r r'
    using that clean_paths_ok [of "hk_Paths r"] clean_fields_ok [of "[]" "hk_PatchAllowlist r"]
    by (auto simp: normalizeHookRule_def hook_valid_def Let_def split: if_splits)
  have fix_point: "normalizeHookRule q s = Some q" if "hook_valid q" "hk_Service q = s" for q
    using that keyword_trim
    by (cases q) (auto simp: normalizeHookRule_def hook_valid_def Let_def clean_paths_id clean_fields_id)
  show ?thesis
    using ok fix_point by (auto split: option.split)
qed

text \<open>
  Every rule the registration accepts is valid: it has a trimmed URL, a known phase, capability and policy, at least one
  absolute path, and an allowlist of distinct known fields that is not empty for a patching hook. The valid rules of a service
  are exactly the rules registration leaves as they are.
\<close>

theorem normalizeHookRule_valid:
  "(case normalizeHookRule r s of None \<Rightarrow> True
    | Some r' \<Rightarrow> hook_valid r' \<and> hk_Service r' = s \<and> hk_Priority r' = hk_Priority r \<and> normalizeHookRule r' s = Some r') \<and>
   (normalizeHookRule q s = Some q \<longleftrightarrow> hook_valid q \<and> hk_Service q = s)"
  by (rule normalized_hook_valid)

section \<open>Patches\<close>

definition auth_fields :: "(string \<times> (hook_auth_context \<Rightarrow> string + string list)) list" where
  "auth_fields = [(''auth.password'', Inl \<circ> ha_Password), (''auth.password_encoding'', Inl \<circ> ha_PasswordEncoding),
     (''auth.required_second_factor'', Inl \<circ> ha_RequiredSecondFactor), (''auth.risk_tags'', Inr \<circ> ha_RiskTags)]"

text \<open>Two contexts that agree but for the allowed fields.\<close>

definition patched :: "(string \<Rightarrow> bool) \<Rightarrow> hook_auth_context \<Rightarrow> hook_auth_context \<Rightarrow> bool" where
  "patched allowed a b \<longleftrightarrow>
     ha_Email b = ha_Email a \<and> ha_UserUUID b = ha_UserUUID a \<and> ha_AvailableFactors b = ha_AvailableFactors a \<and>
     list_all (\<lambda>(k, f). allowed k \<or> f b = f a) auth_fields"

lemma patched_refl [simp]: "patched allowed a a"
  by (simp add: patched_def auth_fields_def)

lemma patched_trans: "patched allowed a b \<Longrightarrow> patched allowed b c \<Longrightarrow> patched allowed a c"
  by (auto simp: patched_def auth_fields_def)

lemma patched_mono: "patched allowed a b \<Longrightarrow> (\<And>k. allowed k \<Longrightarrow> allowed' k) \<Longrightarrow> patched allowed' a b"
  by (auto simp: patched_def auth_fields_def)

lemma patch_field_patched: "patch_field k v a = Some b \<Longrightarrow> k \<in> set al \<Longrightarrow> patched (\<lambda>k. k \<in> set al) a b"
  by (auto simp: patch_field_def patched_def auth_fields_def split: if_splits json.splits option.splits)

lemma patch_fields_patched: "patched (\<lambda>k. k \<in> set al) a (fst (patch_fields al patch a))"
proof (induction al patch a rule: patch_fields.induct)
  case (2 al k v patch a)
  then show ?case
    by (cases "patch_field k v a")
      (auto intro: patched_trans [OF patch_field_patched])
qed simp

definition patchable :: "hook_rule list \<Rightarrow> string \<Rightarrow> bool" where
  "patchable rules k \<longleftrightarrow> list_ex (\<lambda>r. hk_Capability r = ''patch'' \<and> k \<in> set (hk_PatchAllowlist r)) rules"

lemma runRule_Inr:
  assumes "result (runRule E rq r p) w = Inr p'"
  shows "pl_Request p' = pl_Request p \<and> pl_Policy p' = pl_Policy p \<and> patched (patchable [r]) (pl_Auth p) (pl_Auth p')"
proof -
  have same: "on_failure rq r q = Inr p' \<Longrightarrow> p' = q" for q
    by (simp add: on_failure_def split: if_splits)
  show ?thesis
  proof (cases "result (callHook E rq r p) w")
    case None
    with assms same [of p] show ?thesis by (simp add: runRule_def)
  next
    case (Some resp)
    let ?q = "applyHookPatch p (hk_PatchAllowlist r) (range_order E (calls (final (callHook E rq r p) w)) (hr_Patch resp))"
    have "p' = p \<or> p' = fst ?q \<and> hk_Capability r = ''patch''"
      using assms Some same [of p] same [of "fst ?q"]
      by (auto simp: runRule_def Let_def split: if_splits prod.splits)
    moreover have "pl_Request (fst ?q) = pl_Request p \<and> pl_Policy (fst ?q) = pl_Policy p \<and>
        patched (\<lambda>k. k \<in> set (hk_PatchAllowlist r)) (pl_Auth p) (pl_Auth (fst ?q))"
      using patch_fields_patched [of "hk_PatchAllowlist r" "pl_Auth p" "range_order E (calls (final (callHook E rq r p) w)) (hr_Patch resp)"]
      by (simp add: applyHookPatch_def case_prod_beta)
    moreover have "patched (patchable [r]) (pl_Auth p) (pl_Auth p')"
      if "hk_Capability r = ''patch''" "patched (\<lambda>k. k \<in> set (hk_PatchAllowlist r)) (pl_Auth p) (pl_Auth p')"
      using that by (auto intro: patched_mono simp: patchable_def)
    ultimately show ?thesis by auto
  qed
qed

lemma run_rules_Inr:
  assumes "result (run_rules E rq rules p) w = Inr p'"
  shows "pl_Request p' = pl_Request p \<and> pl_Policy p' = pl_Policy p \<and> patched (patchable rules) (pl_Auth p) (pl_Auth p')"
  using assms
proof (induction rules arbitrary: p w)
  case (Cons r rules)
  then obtain q where q: "result (runRule E rq r p) w = Inr q"
      "result (run_rules E rq rules q) (final (runRule E rq r p) w) = Inr p'"
    by (auto split: sum.splits)
  have wide: "patched (patchable rs) a b \<Longrightarrow> set rs \<subseteq> set (r # rules) \<Longrightarrow> patched (patchable (r # rules)) a b" for rs a b
    by (erule patched_mono) (auto simp: patchable_def list_ex_iff)
  have "patched (patchable (r # rules)) (pl_Auth p) (pl_Auth q)" "patched (patchable (r # rules)) (pl_Auth q) (pl_Auth p')"
    using runRule_Inr [OF q(1)] Cons.IH [OF q(2)] by (auto intro: wide [of "[r]"] wide [of rules])
  from patched_trans [OF this] show ?case
    using runRule_Inr [OF q(1)] Cons.IH [OF q(2)] by simp
qed simp

text \<open>
  C32: Whatever the hooks of a phase answer, the login goes on with the payload it had but for the fields that some hook of this
  phase and path, registered with the patch capability, has on its allowlist: the email, the user and the
  list of available factors never change.
\<close>

theorem hook_Run_patches_allowed:
  assumes "result (hook_Run E rq phase p) w = Inr p'"
  shows "pl_Request p' = pl_Request p \<and> pl_Policy p' = pl_Policy p \<and>
    patched (patchable (match_hooks (hooks w) (rq_Path rq) phase)) (pl_Auth p) (pl_Auth p')"
  using run_rules_Inr assms by (simp add: hook_Run_def hook_Match_def)

section \<open>Failures and refusals\<close>

lemma runRule_Inl:
  "result (runRule E rq r p) w = Inl resp \<Longrightarrow> resp = hook_denied rq \<or> resp = hook_failed rq \<and> hk_FailPolicy r = ''fail_closed''"
  by (auto simp: runRule_def on_failure_def Let_def split: option.splits if_splits prod.splits)

lemma run_rules_Inl:
  "result (run_rules E rq rules p) w = Inl resp \<Longrightarrow>
    resp = hook_denied rq \<or> resp = hook_failed rq \<and> (\<exists>r \<in> set rules. hk_FailPolicy r = ''fail_closed'')"
proof (induction rules arbitrary: p w)
  case (Cons r rules)
  then show ?case using runRule_Inl [of E rq r p w resp] by (auto split: sum.splits)
qed simp

text \<open>
  A hook stops a login only with a refusal (403) or, if its policy is fail-closed, with a failure (502): where no
  hook of the phase and path is fail-closed, no unreachable or broken hook can stop it.
\<close>

theorem hook_Run_refusals:
  assumes "result (hook_Run E rq phase p) w = Inl resp"
  shows "status resp = 403 \<and> member_of resp ''code'' = Some (JStr ''hook_denied'') \<or>
    status resp = 502 \<and> member_of resp ''code'' = Some (JStr ''hook_failed'') \<and>
    (\<exists>r \<in> set (match_hooks (hooks w) (rq_Path rq) phase). hk_FailPolicy r = ''fail_closed'')"
proof -
  have "result (run_rules E rq (match_hooks (hooks w) (rq_Path rq) phase) p) w = Inl resp"
    using assms by (simp add: hook_Run_def hook_Match_def)
  from run_rules_Inl [OF this] show ?thesis
    by (auto simp: hook_denied_def hook_failed_def)
qed

text \<open>
  A refusal is honoured whatever capability the hook was registered with: one that may only observe denies the
  login as well.
\<close>

theorem any_hook_may_deny:
  assumes "match_hooks (hooks w) (rq_Path rq) phase = r # rs" and "result (callHook E rq r p) w = Some resp"
    and "ToLower (TrimSpace (hr_Result resp)) = ''deny''"
  shows "result (hook_Run E rq phase p) w = Inl (hook_denied rq)"
  using assms by (simp add: hook_Run_def hook_Match_def runRule_def)

section \<open>On the concrete service\<close>

definition demo_payload :: hook_payload where
  "demo_payload = \<lparr>pl_Request = \<lparr>hq_ID = ''r'', hq_Path = ''/x'', hq_Method = ''POST''\<rparr>,
     pl_Auth = \<lparr>ha_Email = ''a@b.c'', ha_Password = ''pw'', ha_PasswordEncoding = ''plain'', ha_RiskTags = [], ha_UserUUID = [],
       ha_AvailableFactors = [], ha_RequiredSecondFactor = []\<rparr>,
     pl_Policy = \<lparr>hy_PatchAllowlist = [], hy_Capabilities = []\<rparr>\<rparr>"

definition any_path :: "string \<Rightarrow> string \<Rightarrow> hook_rule" where
  "any_path capability policy = demo_hook\<lparr>hk_Paths := [''/*''], hk_Capability := capability, hk_FailPolicy := policy\<rparr>"

definition answering :: "json \<Rightarrow> env" where
  "answering j = demo_env\<lparr>network := \<lambda>_ _. Some \<lparr>hp_Status = 200, hp_ContentType = [], hp_Body = print_json j\<rparr>\<rparr>"

definition hooked :: "hook_rule \<Rightarrow> world" where
  "hooked r = demo_world\<lparr>hooks := [(''svc'', [r])]\<rparr>"

lemma hooked_match: "match_hooks (hooks (hooked (any_path c f))) (rq_Path (demo_rq a)) ''auth.input'' = [any_path c f]"
  by (simp add: match_hooks_def hooked_def any_path_def demo_hook_def demo_rq_def MatchPath_def path_matches_def sort_hooks_def
      TrimSpace_id space_eval HasSuffix_def HasPrefix_def TrimSuffix_def Let_def)

lemma answering_call:
  assumes "json_ok j" and "canon_json j = j" and "TrimSpace (print_json j) \<noteq> []"
  shows "result (callHook (answering j) rq (any_path c f) p) (hooked r) = read_struct read_response j"
proof -
  have "presence (hooked r) = []" by (simp add: hooked_def demo_world_def)
  then show ?thesis
    using assms parse_print_json [OF assms(1)]
    by (simp add: callHook_def Let_def presence_Get_def answering_def unmarshal_response_def demo_env_def)
qed

lemma brace_kept: "TrimSpace (CHR 0x7B # s) \<noteq> []"
proof
  assume "TrimSpace (CHR 0x7B # s) = []"
  moreover have "TrimLeftSpace (CHR 0x7B # s) = CHR 0x7B # s"
    by (rule TrimLeftSpace_id) (simp add: space_eval split: list.split)
  ultimately have e: "trim_rev (rev (CHR 0x7B # s)) = []" by (simp add: TrimSpace_def)
  have "\<exists>u. trim_rev (t @ [CHR 0x7B]) = u @ [CHR 0x7B]" for t
  proof (induction t rule: length_induct)
    case (1 t)
    show ?case
    proof (cases "drop_space_rev (t @ [CHR 0x7B])")
      case None
      then show ?thesis by (simp add: trim_rev.simps [of "t @ [CHR 0x7B]"])
    next
      case (Some r)
      then obtain q where q: "t @ [CHR 0x7B] = q @ r" "q \<noteq> []" using drop_space_rev_suffix by blast
      have "r \<noteq> []"
      proof
        assume "r = []"
        with Some obtain e d c where "t @ [CHR 0x7B] \<in> {[e], [e, d], [e, d, c]}" "last (t @ [CHR 0x7B]) \<noteq> CHR 0x7B"
          by (auto simp: drop_space_rev_def space1_def space2_def space3_def split: list.splits if_splits)
        then show False by simp
      qed
      then obtain t' where "r = t' @ [CHR 0x7B]" "length t' < length t"
        using q by (metis append_butlast_last_id last_appendR last_snoc length_append length_append_singleton
            length_greater_0_conv less_add_same_cancel2 nat_add_left_cancel_less add.commute Suc_less_eq)
      with 1 Some show ?thesis by (simp add: trim_rev.simps [of "t @ [CHR 0x7B]"])
    qed
  qed
  from this [of "rev s"] e show False by auto
qed

definition demo_patch :: json where
  "demo_patch = JObj [(''result'', JStr ''patch''), (''patch'', JObj [(''auth.password'', JStr ''new''), (''auth.risk_tags'', JArr [])])]"

definition demo_deny :: json where
  "demo_deny = JObj [(''result'', JStr ''deny'')]"

lemma response_names:
  "ToLower ''result'' = ''result''" "ToLower ''patch'' = ''patch''" "ToLower ''deny'' = ''deny''"
  by (simp_all add: ToLower_def lower_char_def is_upper_def)

lemma demo_answers:
  "result (callHook (answering demo_patch) rq (any_path c f) p) (hooked r) =
     Some \<lparr>hr_Result = ''patch'', hr_Patch = [(''auth.password'', JStr ''new''), (''auth.risk_tags'', JArr [])]\<rparr>"
  "result (callHook (answering demo_deny) rq (any_path c f) p) (hooked r) = Some \<lparr>hr_Result = ''deny'', hr_Patch = []\<rparr>"
  by (subst answering_call;
      simp add: demo_patch_def demo_deny_def brace_kept to_valid_ascii read_struct_def read_response_def read_str_def read_meta_def
        EqualFold_lower response_names go_map_def)+

theorem hook_Run_patches_allowed_witness:
  "\<exists>p'. result (hook_Run (answering demo_patch) (demo_rq ''x'') ''auth.input'' demo_payload) (hooked (any_path ''patch'' ''ignore'')) = Inr p' \<and>
     ha_Password (pl_Auth p') = ''new'' \<and> ha_Email (pl_Auth p') = ''a@b.c''"
proof -
  let ?p = "demo_payload\<lparr>pl_Auth := (pl_Auth demo_payload)\<lparr>ha_Password := ''new''\<rparr>\<rparr>"
  have "range_order (answering j) n m = m" for j n m by (simp add: answering_def demo_env_def)
  then have r: "result (hook_Run (answering demo_patch) (demo_rq ''x'') ''auth.input'' demo_payload) (hooked (any_path ''patch'' ''ignore'')) = Inr ?p"
    by (simp add: hook_Run_def hook_Match_def hooked_match runRule_def demo_answers response_names TrimSpace_id space_eval
        applyHookPatch_def patch_field_def Let_def)
      (simp add: any_path_def demo_hook_def patch_field_def)
  from hook_Run_patches_allowed [OF r] have "ha_Email (pl_Auth ?p) = ha_Email (pl_Auth demo_payload)"
    by (simp add: patched_def)
  with r show ?thesis by (intro exI [of _ ?p]) (simp add: demo_payload_def)
qed

theorem hook_Run_refusals_witness:
  "\<exists>resp. result (hook_Run demo_env (demo_rq ''x'') ''auth.input'' demo_payload) (hooked (any_path ''observe'' ''fail_closed'')) = Inl resp \<and>
     status resp \<in> {403, 502}"
proof -
  have "result (callHook demo_env (demo_rq ''x'') (any_path ''observe'' ''fail_closed'') demo_payload) (hooked r) = None" for r
    by (simp add: callHook_def presence_Get_def hooked_def Let_def) (simp add: demo_env_def demo_world_def presence_Get_def)
  then have r: "result (hook_Run demo_env (demo_rq ''x'') ''auth.input'' demo_payload) (hooked (any_path ''observe'' ''fail_closed'')) =
      Inl (hook_failed (demo_rq ''x''))"
    by (simp add: hook_Run_def hook_Match_def hooked_match runRule_def on_failure_def) (simp add: any_path_def)
  from hook_Run_refusals [OF r] r show ?thesis by auto
qed

theorem any_hook_may_deny_witness:
  "result (hook_Run (answering demo_deny) (demo_rq ''x'') ''auth.input'' demo_payload) (hooked (any_path ''observe'' ''ignore'')) =
     Inl (hook_denied (demo_rq ''x''))"
  by (rule any_hook_may_deny [OF hooked_match demo_answers(2)]) (simp add: TrimSpace_id space_eval response_names)

end
