(* ===== verification/Registry_Http.thy ===== *)
theory Registry_Http
  imports Hooks
begin

text \<open>
  The endpoints under /services and the two middlewares that hand requests to micro-services: the controllers of
  presence_controller.go, relay_controller.go, route_controller.go and hook_controller.go, and
  controllers/orchestration_middleware.go.

  A middleware takes the rest of the chain as a function of the request. Forwarding reads the body of the request to
  its end, so the request that goes on afterwards has an empty one. The deliveries after a response run in
  goroutines; here they follow the response in the order of the rules, and nothing reads what they return.
\<close>

section \<open>Endpoints\<close>

record presence_request =
  pq_Name :: string
  pq_TTLSeconds :: int
  pq_Scope :: "presence_scope option"
  pq_SecurityLevel :: int
  pq_InteractsWith :: "string list"
  pq_RootMetadata :: "(string \<times> json) list"

definition time_json :: "env \<Rightarrow> time \<Rightarrow> json" where
  "time_json E t = (case time_text E t of Some s \<Rightarrow> JStr s | None \<Rightarrow> JNull)"

definition name_required :: "request \<Rightarrow> response" where
  "name_required rq = respondError rq 400 ''invalid_request'' ([CHR 0x22] @ ''name'' @ [CHR 0x22] @ '' is required'')"

text \<open>The greeting of the source, in UTF-8.\<close>

definition greeting :: string where
  "greeting = [CHR 0xC3, CHR 0xA7] @ ''a va tr'' @ [CHR 0xC3, CHR 0xA8] @ ''s bien, merci''"

definition Bonjour :: "env \<Rightarrow> request \<Rightarrow> presence_request option \<Rightarrow> response go" where
  "Bonjour E rq bound =
     (case bound of None \<Rightarrow> ret (name_required rq)
      | Some req \<Rightarrow>
        let name = TrimSpace (pq_Name req) in
        if name = [] then ret (name_required rq)
        else do {
          r \<leftarrow> presence_Register E name (pq_TTLSeconds req) (pq_Scope req) (pq_SecurityLevel req) (pq_InteractsWith req)
                 (pq_RootMetadata req);
          ret (respondOK rq greeting (Some (JObj [(''service'', JStr (pr_Name r)), (''first_seen'', time_json E (pr_FirstSeen r)),
            (''last_seen'', time_json E (pr_LastSeen r)),
            (''expires_at'', if pr_ExpiresAt r = zero_time then JNull else time_json E (pr_ExpiresAt r))])))
        })"

definition AuthKey :: "env \<Rightarrow> request \<Rightarrow> string option \<Rightarrow> response go" where
  "AuthKey E rq bound = continue_with (RequireAuthLevel E rq SecurityLevelOps) (\<lambda>_.
     (case bound of None \<Rightarrow> ret (name_required rq)
      | Some n \<Rightarrow>
        let name = TrimSpace n in
        if name = [] then ret (name_required rq)
        else do {
          key \<leftarrow> RegisterAuthKey E name;
          ret (case key of
            None \<Rightarrow> respondError rq 404 ''invalid_request'' ''service not found''
          | Some k \<Rightarrow> respondOK rq ''Internal key generated/updated'' (Some (JObj [(''internal_key'', JStr k)])))
        }))"

text \<open>The three registrations share their checks: a name, and a service that has announced itself.\<close>

definition registered_service :: "env \<Rightarrow> request \<Rightarrow> (string \<times> 'a) option \<Rightarrow> (string \<times> 'a) step" where
  "registered_service E rq bound =
     (case bound of None \<Rightarrow> ret (Inl (name_required rq))
      | Some (n, rules) \<Rightarrow>
        let name = TrimSpace n in
        if name = [] then ret (Inl (name_required rq))
        else do {
          found \<leftarrow> presence_Get E name;
          ret (case found of
            None \<Rightarrow> Inl (respondError rq 400 ''service_not_registered'' ''service not registered, send /services/presence first'')
          | Some _ \<Rightarrow> Inr (name, rules))
        })"

definition registered_rules :: "request \<Rightarrow> string \<Rightarrow> string \<Rightarrow> nat \<Rightarrow> response" where
  "registered_rules rq message name count =
     respondOK rq message (Some (JObj [(''service'', JStr name), (''count'', JNum (int_text (int count)))]))"

definition relay_Register :: "env \<Rightarrow> request \<Rightarrow> (string \<times> relay_rule list) option \<Rightarrow> response go" where
  "relay_Register E rq bound = continue_with (registered_service E rq bound) (\<lambda>(name, rules). do {
     let rules = map (\<lambda>r. r\<lparr>rl_Dest := normalizeDest (rl_Dest r)\<rparr>) rules;
     _ \<leftarrow> relay_Upsert E name rules;
     ret (registered_rules rq ''relay rules registered'' name (length rules))
   })"

definition relay_DeleteRule :: "env \<Rightarrow> request \<Rightarrow> (string \<times> string) option \<Rightarrow> response go" where
  "relay_DeleteRule E rq bound =
     (let missing = respondError rq 400 ''invalid_request'' ([CHR 0x22] @ ''name'' @ [CHR 0x22] @ '' and '' @ [CHR 0x22] @ ''dest'' @ [CHR 0x22] @ '' are required'') in
      case bound of None \<Rightarrow> ret missing
      | Some (name, dest) \<Rightarrow>
        if TrimSpace name = [] \<or> TrimSpace dest = [] then ret missing
        else do {
          hit \<leftarrow> relay_Delete E (TrimSpace name) (normalizeDest dest);
          ret (if hit then respondOK rq ''relay rule deleted'' None
            else respondError rq 404 ''relay_not_found'' ''relay rule not found'')
        })"

definition relay_ListRules :: "request \<Rightarrow> response go" where
  "relay_ListRules rq = do {
     rules \<leftarrow> relay_List (TrimSpace (Query rq ''name''));
     ret (respondOK rq ''relay rules fetched'' (Some (JArr (map relay_json rules))))
   }"

definition route_Register :: "env \<Rightarrow> request \<Rightarrow> (string \<times> route_rule list) option \<Rightarrow> response go" where
  "route_Register E rq bound = continue_with (registered_service E rq bound) (\<lambda>(name, rules). do {
     let rules = map (\<lambda>r. r\<lparr>rr_Service := name\<rparr>) rules;
     _ \<leftarrow> route_Upsert E name rules;
     ret (registered_rules rq ''route rules registered'' name (length rules))
   })"

fun normalize_all :: "string \<Rightarrow> hook_rule list \<Rightarrow> hook_rule list option" where
  "normalize_all name [] = Some []"
| "normalize_all name (r # rs) =
     (case normalizeHookRule r name of None \<Rightarrow> None | Some n \<Rightarrow> map_option (\<lambda>ns. n # ns) (normalize_all name rs))"

definition hook_Register :: "env \<Rightarrow> request \<Rightarrow> (string \<times> hook_rule list) option \<Rightarrow> response go" where
  "hook_Register E rq bound = continue_with (registered_service E rq bound) (\<lambda>(name, hs).
     (case normalize_all name hs of
        None \<Rightarrow> ret (respondError rq 400 ''invalid_request'' ''invalid hook rule'')
      | Some rules \<Rightarrow> do {
          _ \<leftarrow> hook_Upsert E name rules;
          ret (registered_rules rq ''hook rules registered'' name (length rules))
        }))"

section \<open>Forwarding\<close>

definition without :: "string \<Rightarrow> (string \<times> string) list \<Rightarrow> (string \<times> string) list" where
  "without k hs = filter (\<lambda>(n, v). n \<noteq> k) hs"

text \<open>The URL on the wire: the target's own query and fragment are replaced by the query of the request.\<close>

definition with_query :: "string \<Rightarrow> string \<Rightarrow> string" where
  "with_query target q = takeWhile (\<lambda>c. c \<noteq> CHR ''?'' \<and> c \<noteq> CHR ''#'') target @ (if q = [] then [] else CHR ''?'' # q)"

text \<open>The response, if forwarding succeeds, and the request with what is left of its body.\<close>

definition forwardTo :: "env \<Rightarrow> request \<Rightarrow> string \<Rightarrow> (response option \<times> request) go" where
  "forwardTo E rq target =
     (case rq_Body rq of
        None \<Rightarrow> ret (None, rq)
      | Some body \<Rightarrow>
        let drained = rq\<lparr>rq_Body := Some []\<rparr> in
        if \<not> valid_url E target then ret (None, drained)
        else do {
          reply \<leftarrow> http_do E \<lparr>hc_Method = rq_Method rq, hc_URL = with_query target (rq_RawQuery rq),
             hc_Headers = without ''X-Request-Id'' (rq_Header rq) @ [(''X-Request-Id'', requestIDFrom rq)], hc_Body = body\<rparr>;
          ret (map_option (\<lambda>p. Data (hp_Status p)
                 (if hp_ContentType p = [] then ''application/octet-stream'' else hp_ContentType p) (hp_Body p)) reply, drained)
        })"

definition forwardRequest :: "env \<Rightarrow> request \<Rightarrow> string \<Rightarrow> (response option \<times> request) go" where
  "forwardRequest E rq targetBase = forwardTo E rq (TrimRight targetBase CHR ''/'' @ rq_Path rq)"

definition serviceSecurityLevel :: "env \<Rightarrow> string \<Rightarrow> int go" where
  "serviceSecurityLevel E service = do {
     found \<leftarrow> presence_Get E service;
     ret (case found of Some r \<Rightarrow> pr_SecurityLevel r | None \<Rightarrow> SecurityLevelNone)
   }"

fun service_levels :: "env \<Rightarrow> string list \<Rightarrow> int list go" where
  "service_levels E [] = ret []"
| "service_levels E (s # ss) = do { l \<leftarrow> serviceSecurityLevel E s; ls \<leftarrow> service_levels E ss; ret (l # ls) }"

definition maxSecurityForRules :: "env \<Rightarrow> route_rule list \<Rightarrow> int go" where
  "maxSecurityForRules E rules = do { levels \<leftarrow> service_levels E (map rr_Service rules); ret (maxSecurity levels) }"

definition RelayMiddleware :: "env \<Rightarrow> request \<Rightarrow> (request \<Rightarrow> response go) \<Rightarrow> response go" where
  "RelayMiddleware E rq handler =
     (if HasPrefix (rq_Path rq) ''/services/'' then handler rq
      else do {
        hit \<leftarrow> relay_Match (rq_Path rq);
        case hit of
          None \<Rightarrow> handler rq
        | Some (rule, rest) \<Rightarrow> do {
            level \<leftarrow> serviceSecurityLevel E (rl_Service rule);
            continue_with (RequireAuthLevel E rq level) (\<lambda>_. do {
              (r, _) \<leftarrow> forwardTo E rq (TrimRight (rl_Source rule) CHR ''/'' @ rest);
              ret (case r of Some resp \<Rightarrow> resp | None \<Rightarrow> respondError rq 502 ''relay_failed'' ''relay forwarding failed'')
            })
          }
      })"

text \<open>The loop over the forwarding rules: the first answer, or the request as the attempts leave it.\<close>

fun try_forward :: "env \<Rightarrow> request \<Rightarrow> route_rule list \<Rightarrow> (response option \<times> request) go" where
  "try_forward E rq [] = ret (None, rq)"
| "try_forward E rq (rule # rules) = do {
     (r, rq') \<leftarrow> forwardRequest E rq (rr_PreURL rule);
     case r of Some resp \<Rightarrow> ret (Some resp, rq') | None \<Rightarrow> try_forward E rq' rules
   }"

definition dispatchPost :: "env \<Rightarrow> string \<Rightarrow> (string \<times> json) list \<Rightarrow> unit go" where
  "dispatchPost E url payload =
     (if \<not> valid_url E url then ret ()
      else do {
        _ \<leftarrow> http_do E \<lparr>hc_Method = ''POST'', hc_URL = url, hc_Headers = [(''Content-Type'', ''application/json'')],
               hc_Body = json_text E payload\<rparr>;
        ret ()
      })"

fun dispatch_all :: "env \<Rightarrow> route_rule list \<Rightarrow> (string \<times> json) list \<Rightarrow> unit go" where
  "dispatch_all E [] payload = ret ()"
| "dispatch_all E (rule # rules) payload = do { _ \<leftarrow> dispatchPost E (rr_PostURL rule) payload; dispatch_all E rules payload }"

definition body_text :: "env \<Rightarrow> response \<Rightarrow> string" where
  "body_text E r = (case r of Json _ kvs \<Rightarrow> json_text E kvs | Data _ _ body \<Rightarrow> body)"

text \<open>The handler and the deliveries after it.\<close>

definition handle_and_post :: "env \<Rightarrow> string \<Rightarrow> request \<Rightarrow> (request \<Rightarrow> response go) \<Rightarrow> response go" where
  "handle_and_post E path rq handler = do {
     resp \<leftarrow> handler rq;
     if 200 \<le> status resp \<and> status resp < 300 then do {
       rules \<leftarrow> MatchPost path;
       _ \<leftarrow> dispatch_all E rules [(''path'', JStr path), (''method'', JStr (rq_Method rq)), (''request_id'', JStr (requestIDFrom rq)),
              (''status'', JNum (int_text (int (status resp)))), (''response'', JStr (body_text E resp))];
       ret resp
     } else ret resp
   }"

definition OrchestrationMiddleware :: "env \<Rightarrow> request \<Rightarrow> (request \<Rightarrow> response go) \<Rightarrow> response go" where
  "OrchestrationMiddleware E rq handler =
     (let path = rq_Path rq in
      if HasPrefix path ''/services/'' then handler rq
      else do {
        rules \<leftarrow> MatchPre path;
        if rules = [] then handle_and_post E path rq handler
        else do {
          level \<leftarrow> maxSecurityForRules E rules;
          continue_with (RequireAuthLevel E rq level) (\<lambda>_. do {
            (r, rq') \<leftarrow> try_forward E rq rules;
            case r of Some resp \<Rightarrow> ret resp | None \<Rightarrow> handle_and_post E path rq' handler
          })
        }
      })"

end
