(* ===== verification/Registry_Http_Facts.thy ===== *)
theory Registry_Http_Facts
  imports Registry_Http Hooks_Facts
begin

text \<open>
  What the middlewares and the registrations keep: a relayed request has passed the level of its service, the rule tables
  stay well-formed and a registration changes the rules of its own service only.
\<close>

declare map_of_eq_Some_iff [simp del]

section \<open>The level of a relayed request\<close>

lemma presence_Get_keeps [simp]:
  "db (final (presence_Get E n) w) = db w" "calls (final (presence_Get E n) w) = calls w"
  "hooks (final (presence_Get E n) w) = hooks w" "routes (final (presence_Get E n) w) = routes w"
  "relays (final (presence_Get E n) w) = relays w"
  by (simp_all add: presence_Get_def presence_evict_def kv_del_def kv_srem_def split: option.split)

lemma serviceSecurityLevel_keeps [simp]:
  "db (final (serviceSecurityLevel E n) w) = db w" "calls (final (serviceSecurityLevel E n) w) = calls w"
  by (simp_all add: serviceSecurityLevel_def)

lemma Require_calls [simp]: "calls (final (RequireAuthLevel E rq l) w) = calls w"
  by (simp add: RequireAuthLevel_def resolveAuthLevel_def Let_def ResolveAccessToken_def GetClient_def load_user_def
      db_first_def split: sum.split option.split)

text \<open>
  Nothing is sent to a micro-service for a request the relay answers unless the request has passed the level the
  service has announced: for an operator level the manage token or a live service token, for a user level one of them or a live
  user token.
\<close>

theorem relay_needs_level:
  assumes "wf_tables E (db w)" and "\<And>n. \<not> db_fault E n"
    and "\<not> HasPrefix (rq_Path rq) ''/services/''" and "match_relays (relays w) (rq_Path rq) = Some (rule, rest)"
    and "calls (final (RelayMiddleware E rq handler) w) \<noteq> calls w"
  shows "let l = result (serviceSecurityLevel E (rl_Service rule)) w;
       w' = final (serviceSecurityLevel E (rl_Service rule)) w; key = bearerTokenFromRequest rq in
    l \<le> 0 \<or> key \<noteq> [] \<and> (if is_manage_token E key then l \<le> 2
      else \<exists>tok c scopes. live_token E w' key tok c scopes \<and> l \<le> (if at_SubjectType tok = ''service'' then 2 else 1))"
proof -
  let ?l = "result (serviceSecurityLevel E (rl_Service rule)) w"
  let ?w' = "final (serviceSecurityLevel E (rl_Service rule)) w"
  have "result (RequireAuthLevel E rq ?l) ?w' = Inr ()"
    using assms(3-5) by (auto simp: RelayMiddleware_def relay_Match_def split: sum.splits)
  moreover have "wf_tables E (db ?w')" using assms(1) by simp
  ultimately show ?thesis
    using RequireAuthLevel_passes [OF _ assms(2), of ?w' rq ?l] by (simp add: Let_def)
qed

section \<open>A forwarding rule that fails\<close>

lemma try_forward_none:
  assumes "\<And>n c. network E n c = None" and "rules \<noteq> []" and "rq_Body rq \<noteq> None"
  shows "result (try_forward E rq rules) w = (None, rq\<lparr>rq_Body := Some []\<rparr>)"
  using assms(2,3)
proof (induction rules arbitrary: rq w)
  case (Cons r rules)
  have one: "result (forwardRequest E rq u) w = (None, rq\<lparr>rq_Body := Some []\<rparr>)" for u
    using Cons.prems(2) assms(1) by (auto simp: forwardRequest_def forwardTo_def Let_def split: option.split)
  show ?case
  proof (cases "rules = []")
    case True
    then show ?thesis using one by simp
  next
    case False
    then show ?thesis using one Cons.IH [of "rq\<lparr>rq_Body := Some []\<rparr>"] by simp
  qed
qed simp

text \<open>
  The orchestration fails open, but not without a trace: where forwarding rules match and no micro-service can be
  reached, the handler is called with an empty body instead of the body of the request.
\<close>

theorem fail_open_empties_body:
  assumes "\<not> HasPrefix (rq_Path rq) ''/services/''" and "route_match (routes w) (rq_Path rq) True = rules" and "rules \<noteq> []"
    and "\<And>n c. network E n c = None" and "rq_Body rq = Some body"
    and "result (maxSecurityForRules E rules) w \<le> 0"
  shows "\<exists>w'. db w' = db w \<and> result (OrchestrationMiddleware E rq handler) w = result (handler (rq\<lparr>rq_Body := Some []\<rparr>)) w'"
proof -
  have pass: "result (RequireAuthLevel E rq (result (maxSecurityForRules E rules) w)) w1 = Inr ()" for w1
    using assms(6) by (simp add: RequireAuthLevel_def SecurityLevelNone_def)
  have "result (try_forward E rq rules) w1 = (None, rq\<lparr>rq_Body := Some []\<rparr>)" for w1
    by (rule try_forward_none [OF assms(4,3)]) (simp add: assms(5))
  moreover have "db (final (try_forward E rq rs) w1) = db w1" for rq rs w1
    by (induction rs arbitrary: rq w1)
      (simp_all add: forwardRequest_def forwardTo_def Let_def case_prod_beta split: option.split)
  moreover have "db (final (service_levels E ss) w1) = db w1" for ss w1
    by (induction ss arbitrary: w1) simp_all
  ultimately show ?thesis
    using assms(1-3) pass
    by (intro exI [of _ "final (try_forward E rq rules) (final (RequireAuthLevel E rq (result (maxSecurityForRules E rules) w))
          (final (maxSecurityForRules E rules) w))"])
      (simp add: OrchestrationMiddleware_def MatchPre_def handle_and_post_def maxSecurityForRules_def Let_def case_prod_beta)
qed

theorem fail_open_empties_body_witness:
  "let rq = demo_rq ''x''\<lparr>rq_Body := Some ''secret''\<rparr>;
       w = demo_world\<lparr>routes := [(''svc'', [\<lparr>rr_Service = ''svc'', rr_Scope = [], rr_Paths = [''/*''], rr_PreURL = ''http://s'', rr_PostURL = []\<rparr>])]\<rparr>
   in result (OrchestrationMiddleware demo_env rq (\<lambda>r. ret (Data 200 [] (the (rq_Body r))))) w = Data 200 [] []"
proof -
  let ?rule = "\<lparr>rr_Service = ''svc'', rr_Scope = [], rr_Paths = [''/*''], rr_PreURL = ''http://s'', rr_PostURL = []\<rparr>"
  let ?w = "demo_world\<lparr>routes := [(''svc'', [?rule])]\<rparr>"
  have m: "route_match (routes ?w) (rq_Path (demo_rq ''x''\<lparr>rq_Body := Some ''secret''\<rparr>)) True = [?rule]"
    by (simp add: route_match_def demo_rq_def MatchPath_def path_matches_def TrimSpace_id space_eval HasSuffix_def HasPrefix_def
        TrimSuffix_def Let_def)
  have l: "result (maxSecurityForRules demo_env [?rule]) ?w \<le> 0"
    by (simp add: maxSecurityForRules_def serviceSecurityLevel_def presence_Get_def maxSecurity_def SecurityLevelNone_def)
  have n: "network demo_env n c = None" for n c by (simp add: demo_env_def)
  from fail_open_empties_body [OF _ m _ n _ l, of "''secret''" "\<lambda>r. ret (Data 200 [] (the (rq_Body r)))"]
  show ?thesis by (simp add: demo_rq_def HasPrefix_def)
qed

definition guarded_world :: world where
  "guarded_world = demo_world\<lparr>relays := [(''/x'', \<lparr>rl_Service = ''svc'', rl_Dest = ''/x'', rl_Source = ''http://s''\<rparr>)],
     presence := [(''svc'', announced None ''svc'' 0 None 1 [] [] 0)]\<rparr>"

theorem relay_needs_level_witness:
  "calls (final (RelayMiddleware demo_env (demo_rq ''Bearer acc'') (\<lambda>_. ret (Data 200 [] []))) guarded_world) \<noteq> calls guarded_world \<and>
   (\<exists>tok c scopes. live_token demo_env guarded_world ''acc'' tok c scopes)"
proof -
  let ?rule = "\<lparr>rl_Service = ''svc'', rl_Dest = ''/x'', rl_Source = ''http://s''\<rparr>"
  have level: "run_state (serviceSecurityLevel demo_env ''svc'') guarded_world = (1, guarded_world)"
    by (simp add: run_state_split serviceSecurityLevel_def presence_Get_def guarded_world_def announced_def Let_def)
  then have level': "result (serviceSecurityLevel demo_env ''svc'') guarded_world = 1"
      "final (serviceSecurityLevel demo_env ''svc'') guarded_world = guarded_world"
    by (simp_all add: result_def final_def)
  have wf: "wf_tables demo_env (db guarded_world)" using demo_wf by (simp add: guarded_world_def)
  have live: "live_token demo_env guarded_world ''acc'' demo_access ((public_client demo_env)\<lparr>cl_ID := 1\<rparr>) [''user.read'']"
    using demo_live by (simp add: live_token_def guarded_world_def)
  have pass: "result (RequireAuthLevel demo_env (demo_rq ''Bearer acc'') 1) guarded_world = Inr ()"
    using RequireAuthLevel_passes [OF wf, of "demo_rq ''Bearer acc''" 1] live
    by (auto simp: demo_bearer is_manage_token_def demo_access_def)
  have hit: "match_relays (relays guarded_world) (rq_Path (demo_rq ''Bearer acc'')) = Some (?rule, [])"
    by (simp add: guarded_world_def match_relays_def better_relay_def relay_rest_def demo_rq_def)
  have "calls (final (RelayMiddleware demo_env (demo_rq ''Bearer acc'') (\<lambda>_. ret (Data 200 [] []))) guarded_world) = Suc (calls guarded_world)"
  proof -
    have "valid_url demo_env u" for u by (simp add: demo_env_def)
    then have "calls (final (forwardTo demo_env (demo_rq ''Bearer acc'') u) w) = Suc (calls w)" for u w
      by (simp add: forwardTo_def demo_rq_def Let_def http_do_def final_def result_def)
    then show ?thesis
      using hit level' pass
      by (simp add: RelayMiddleware_def relay_Match_def case_prod_beta) (simp add: demo_rq_def HasPrefix_def)
  qed
  then have moved: "calls (final (RelayMiddleware demo_env (demo_rq ''Bearer acc'') (\<lambda>_. ret (Data 200 [] []))) guarded_world) \<noteq> calls guarded_world"
    by simp
  moreover have "\<not> HasPrefix (rq_Path (demo_rq ''Bearer acc'')) ''/services/''" by (simp add: demo_rq_def HasPrefix_def)
  ultimately show ?thesis
    using relay_needs_level [OF wf _ _ hit moved] level'
    by (auto simp: Let_def demo_bearer is_manage_token_def)
qed

section \<open>The rule tables\<close>

text \<open>
  The tables of the registries: hooks are valid and carry the name they are stored under, routes carry it, and
  every relay rule has an absolute destination, under which it is stored, and a source.
\<close>

definition rules_ok :: "world \<Rightarrow> bool" where
  "rules_ok w \<longleftrightarrow>
     list_all (\<lambda>(s, rs). list_all (\<lambda>r. hook_valid r \<and> hk_Service r = s) rs) (hooks w) \<and>
     list_all (\<lambda>(s, rs). list_all (\<lambda>r. rr_Service r = s) rs) (routes w) \<and>
     relays_wf (relays w) \<and> list_all (\<lambda>(d, r). HasPrefix d ''/'' \<and> rl_Source r \<noteq> []) (relays w)"

lemma rules_ok_same: "hooks w' = hooks w \<Longrightarrow> routes w' = routes w \<Longrightarrow> relays w' = relays w \<Longrightarrow> rules_ok w \<Longrightarrow> rules_ok w'"
  by (simp add: rules_ok_def)

lemma keeps_rules [pres_intros]:
  "pres rules_ok (command E f)" "pres rules_ok (now E)" "pres rules_ok (GenerateRandomToken E n)" "pres rules_ok (set_presence s r)"
  "pres rules_ok (stmt E g)" "pres rules_ok (modify (\<lambda>w. w\<lparr>presence := AList.delete s (presence w)\<rparr>))"
  by (auto simp: pres_def set_presence_def intro: rules_ok_same)

lemma keeps_rules_presence [pres_intros]:
  "pres rules_ok (presence_Register E s ttl sc l iw meta)" "pres rules_ok (RegisterAuthKey E s)" "pres rules_ok (presence_Get E s)"
  unfolding presence_Register_def RegisterAuthKey_def presence_Get_def presence_persist_def persist_ttl_def presence_evict_def
    kv_del_def kv_srem_def
  by (intro pres_intros)+

lemma keeps_rules_auth [pres_intros]: "pres rules_ok (RequireAuthLevel E rq l)"
  unfolding RequireAuthLevel_def resolveAuthLevel_def ResolveAccessToken_def GetClient_def load_user_def db_first_def
  by (intro pres_intros)

lemma keeps_rules_registered [pres_intros]: "pres rules_ok (registered_service E rq b)"
  unfolding registered_service_def by (intro pres_intros)

lemma keeps_rules_store [pres_intros]: "pres rules_ok (store_rules E k t)"
  unfolding store_rules_def kv_set_def by (intro pres_intros)

lemma normalize_all_ok:
  "normalize_all s rs = Some ns \<Longrightarrow> list_all (\<lambda>r. hook_valid r \<and> hk_Service r = s) ns"
proof (induction rs arbitrary: ns)
  case (Cons r rs)
  then obtain n ms where "normalizeHookRule r s = Some n" "normalize_all s rs = Some ms" "ns = n # ms"
    by (auto split: option.splits)
  with Cons.IH [of ms] normalized_hook_valid [where r = r and s = s] show ?case by simp
qed simp

lemma normalizeDest_slash: "HasPrefix (normalizeDest d) ''/''"
  by (simp add: normalizeDest_def HasPrefix_def)

lemma list_all_filter [simp]: "list_all P xs \<Longrightarrow> list_all P (filter Q xs)"
  by (auto simp: list_all_iff)

lemma rules_ok_filter: "rules_ok w \<Longrightarrow> rules_ok (w\<lparr>relays := filter P (relays w)\<rparr>)"
  by (simp add: rules_ok_def relays_wf_filter)

lemma rules_ok_add:
  "rules_ok w \<Longrightarrow> HasPrefix (rl_Dest r) ''/'' \<Longrightarrow> rules_ok (w\<lparr>relays := add_relay s r (relays w)\<rparr>)"
  by (auto simp: rules_ok_def relays_wf_add) (simp add: add_relay_def list_all_update)

lemma keeps_rules_put_relays:
  "list_all (\<lambda>r. HasPrefix (rl_Dest r) ''/'') rs \<Longrightarrow> pres rules_ok (put_relays s rs)"
proof (induction rs)
  case (Cons r rs)
  show ?case
  proof (rule presI)
    fix w assume w: "rules_ok w"
    have "rules_ok (w\<lparr>relays := add_relay s r (relays w)\<rparr>)"
      using Cons.prems by (intro rules_ok_add [OF w]) simp
    from presD [OF Cons.IH this] Cons.prems show "rules_ok (final (put_relays s (r # rs)) w)"
      by (simp add: put_relays_def)
  qed
qed (simp add: put_relays_def pres_def)

lemma keeps_rules_relay_Upsert:
  "list_all (\<lambda>r. HasPrefix (rl_Dest r) ''/'') rs \<Longrightarrow> pres rules_ok (relay_Upsert E s rs)"
  unfolding relay_Upsert_def relay_persist_def
  by (intro pres_intros keeps_rules_put_relays) (auto simp: pres_def intro: rules_ok_filter)

lemma keeps_rules_relay_Delete [pres_intros]: "pres rules_ok (relay_Delete E s d)"
  unfolding relay_Delete_def relay_persist_def
  by (intro pres_intros) (auto simp: pres_def AList.delete_eq intro: rules_ok_filter)

lemma keeps_rules_route_Upsert: "list_all (\<lambda>r. rr_Service r = s) rs \<Longrightarrow> pres rules_ok (route_Upsert E s rs)"
  unfolding route_Upsert_def put_routes_def
  by (intro pres_intros) (auto simp: pres_def rules_ok_def list_all_update)

lemma keeps_rules_hook_Upsert: "list_all (\<lambda>r. hook_valid r \<and> hk_Service r = s) rs \<Longrightarrow> pres rules_ok (hook_Upsert E s rs)"
  unfolding hook_Upsert_def put_hooks_def
  by (intro pres_intros) (auto simp: pres_def rules_ok_def list_all_update)

text \<open>
  No endpoint of the registries can put a malformed rule into the tables: announcements, keys, registrations and deletions
  keep every hook valid and under its own service, every route under its own service, and every relay rule under its
  absolute destination, once, with a source.
\<close>

theorem endpoints_keep_rules_ok:
  "pres rules_ok (Bonjour E rq b1) \<and> pres rules_ok (AuthKey E rq b2) \<and> pres rules_ok (relay_Register E rq b3) \<and>
   pres rules_ok (relay_DeleteRule E rq b4) \<and> pres rules_ok (relay_ListRules rq) \<and>
   pres rules_ok (route_Register E rq b5) \<and> pres rules_ok (hook_Register E rq b6)"
proof (intro conjI)
  show "pres rules_ok (Bonjour E rq b1)" "pres rules_ok (AuthKey E rq b2)"
    "pres rules_ok (relay_DeleteRule E rq b4)" "pres rules_ok (relay_ListRules rq)"
    unfolding Bonjour_def AuthKey_def relay_DeleteRule_def relay_ListRules_def relay_List_def
    by (intro pres_intros)+
  show "pres rules_ok (relay_Register E rq b3)"
    unfolding relay_Register_def
    by (intro pres_intros keeps_rules_relay_Upsert) (simp add: list_all_iff normalizeDest_slash)
  show "pres rules_ok (route_Register E rq b5)"
    unfolding route_Register_def
    by (intro pres_intros keeps_rules_route_Upsert) (simp add: list_all_iff)
  show "pres rules_ok (hook_Register E rq b6)"
    unfolding hook_Register_def
  proof (intro pres_continue pres_case_prod keeps_rules_registered)
    fix name hs
    show "pres rules_ok (case normalize_all name hs of
        None \<Rightarrow> ret (respondError rq 400 ''invalid_request'' ''invalid hook rule'')
      | Some rules \<Rightarrow> do {
          _ \<leftarrow> hook_Upsert E name rules;
          ret (registered_rules rq ''hook rules registered'' name (length rules))
        })"
      by (cases "normalize_all name hs") (simp_all, (intro pres_intros keeps_rules_hook_Upsert normalize_all_ok | assumption)+)
  qed
qed

end
