(* ===== verification/Accounts.thy ===== *)
theory Accounts
  imports Site_Auth
begin

text \<open>
  services/auth_service.go, one run of account_cleanup_controller.go, user_info_controller.go and
  user_profile_controller.go.

  The field \<open>DeletedAt\<close> of the user model is a plain time, not gorm's type for soft deletes: queries do not filter on it,
  and deleting a user removes the row with everything that refers to it.
\<close>

definition runes :: "nat list \<Rightarrow> string" where
  "runes rs = concat (map encode_rune rs)"

section \<open>Statements on the user tables\<close>

definition insert_user :: "env \<Rightarrow> user \<Rightarrow> user result_of" where
  "insert_user E u = stmt E (\<lambda>d q.
     if list_ex (\<lambda>r. UID r = UID u \<or> coll E (u_UUID r) = coll E (u_UUID u)) (users d) then (Inl DuplicateKey, d, q)
     else (Inr u, d\<lparr>users := insort_key UID (u\<lparr>LastSignAt := map_option (db_ts E) (LastSignAt u),
       RegisterAt := map_option (db_ts E) (RegisterAt u)\<rparr>) (users d)\<rparr>, q))"

definition insert_deleted_account :: "env \<Rightarrow> deleted_account \<Rightarrow> unit result_of" where
  "insert_deleted_account E a = stmt E (\<lambda>d q.
     if list_ex (\<lambda>r. da_UID r = da_UID a) (deleted_accounts d) then (Inl DuplicateKey, d, q)
     else (Inr (), d\<lparr>deleted_accounts := insort_key da_UID (a\<lparr>da_DeletedAt := db_ts E (da_DeletedAt a)\<rparr>) (deleted_accounts d)\<rparr>, q))"

text \<open>\<open>SELECT COALESCE(MAX(uid), 0)\<close>; the code ignores an error and goes on with 0.\<close>

definition max_uid :: "env \<Rightarrow> nat go" where
  "max_uid E = do {
     r \<leftarrow> stmt E (\<lambda>d q. (Inr (fold max (map UID (users d)) 0), d, q));
     ret (case r of Inl _ \<Rightarrow> 0 | Inr n \<Rightarrow> n)
   }"

definition by_uuid :: "env \<Rightarrow> string \<Rightarrow> user \<Rightarrow> bool" where
  "by_uuid E uuid u \<longleftrightarrow> coll E (u_UUID u) = coll E uuid"

section \<open>The service\<close>

record user_info =
  ui_UUID :: string
  ui_Email :: string
  ui_Username :: string
  ui_Password :: string

definition info_of :: "user \<Rightarrow> user_info" where
  "info_of u = \<lparr>ui_UUID = u_UUID u, ui_Email = Email u, ui_Username = Username u, ui_Password = u_Password u\<rparr>"

definition answers_to :: "env \<Rightarrow> string \<Rightarrow> user \<Rightarrow> bool" where
  "answers_to E identifier u \<longleftrightarrow> coll E (Email u) = coll E identifier \<or> coll E (Username u) = coll E identifier"

definition restore_account :: "env \<Rightarrow> user \<Rightarrow> unit result_of" where
  "restore_account E u = transaction E (do {
     r \<leftarrow> update_users E (\<lambda>r. UID r = UID u) (\<lambda>r. r\<lparr>u_DeletedAt := None\<rparr>);
     case r of Inl e \<Rightarrow> ret (Inl e)
     | Inr _ \<Rightarrow> do {
         r \<leftarrow> delete_deleted_accounts E (\<lambda>a. da_UID a = UID u);
         ret (case r of Inl e \<Rightarrow> Inl e | Inr _ \<Rightarrow> Inr ())
       }
   })"

definition VerifyCredentials :: "env \<Rightarrow> string \<Rightarrow> string \<Rightarrow> bool \<Rightarrow> user_info option go" where
  "VerifyCredentials E identifier password allowUsernameLogin = do {
     found \<leftarrow> db_first E users (answers_to E identifier);
     case found of
       Inl _ \<Rightarrow> ret None
     | Inr u \<Rightarrow>
       if \<not> bcrypt_check E password (u_Password u) then ret None
       else do {
         _ \<leftarrow> (if u_DeletedAt u \<noteq> None then restore_account E u else ret (Inr ()));
         ret (Some (info_of u))
       }
   }"

text \<open>A statement of a transaction, and the rest unless it fails.\<close>

definition then_stmt :: "'a result_of \<Rightarrow> unit result_of \<Rightarrow> unit result_of" where
  "then_stmt m n = do { r \<leftarrow> m; case r of Inl e \<Rightarrow> ret (Inl e) | Inr _ \<Rightarrow> n }"

definition deleteUserCascade :: "env \<Rightarrow> user \<Rightarrow> unit result_of" where
  "deleteUserCascade E u = transaction E (
     then_stmt (delete_auth_codes E (\<lambda>a. coll E (ac_UserID a) = coll E (u_UUID u)))
    (then_stmt (delete_access_tokens E (\<lambda>t. case at_UserID t of None \<Rightarrow> False | Some x \<Rightarrow> coll E x = coll E (u_UUID u)))
    (then_stmt (delete_refresh_tokens E (\<lambda>t. coll E (rt_UserID t) = coll E (u_UUID u)))
    (then_stmt (delete_credentials E (\<lambda>c. coll E (wc_UserID c) = coll E (u_UUID u)))
    (then_stmt (delete_deleted_accounts E (\<lambda>a. da_UID a = UID u))
    (then_stmt (delete_users E (\<lambda>r. UID r = UID u)) (ret (Inr ()))))))))"

fun delete_all :: "env \<Rightarrow> user list \<Rightarrow> nat \<Rightarrow> nat go" where
  "delete_all E [] deleted = ret deleted"
| "delete_all E (u # us) deleted = do {
     r \<leftarrow> deleteUserCascade E u;
     delete_all E us (case r of Inl _ \<Rightarrow> deleted | Inr _ \<Rightarrow> Suc deleted)
   }"

definition CleanupDeletedAccounts :: "env \<Rightarrow> nat go" where
  "CleanupDeletedAccounts E = do {
     t \<leftarrow> now E;
     let cutoff = t - nanos (3 * 24 * 3600);
     candidates \<leftarrow> db_find E users (\<lambda>u. case u_DeletedAt u of None \<Rightarrow> False | Some x \<Rightarrow> x < cutoff);
     case candidates of Inl _ \<Rightarrow> ret 0 | Inr us \<Rightarrow> delete_all E us 0
   }"

definition account_runOnce :: "env \<Rightarrow> unit go" where
  "account_runOnce E = do { _ \<leftarrow> CleanupDeletedAccounts E; ret () }"

datatype username_error = UsernameUserNotFound | UsernameExists | UsernameOther string

definition service_ChangeUsername :: "env \<Rightarrow> string \<Rightarrow> string \<Rightarrow> (world, username_error + unit) state" where
  "service_ChangeUsername E userUUID newUsername = do {
     found \<leftarrow> db_first E users (by_uuid E userUUID);
     case found of
       Inl _ \<Rightarrow> ret (Inl UsernameUserNotFound)
     | Inr u \<Rightarrow>
       if Username u = newUsername then ret (Inr ())
       else do {
         other \<leftarrow> db_first E users (\<lambda>r. coll E (Username r) = coll E newUsername \<and> coll E (u_UUID r) \<noteq> coll E (u_UUID u));
         case other of
           Inr _ \<Rightarrow> ret (Inl UsernameExists)
         | Inl _ \<Rightarrow> do {
             n \<leftarrow> gets stmts;
             r \<leftarrow> update_users E (by_uuid E (u_UUID u)) (\<lambda>r. r\<lparr>Username := newUsername\<rparr>);
             ret (case r of Inl _ \<Rightarrow> Inl (UsernameOther (error_text E n)) | Inr _ \<Rightarrow> Inr ())
           }
       }
   }"

section \<open>User information\<close>

definition fallback :: "string \<Rightarrow> string \<Rightarrow> string" where
  "fallback x y = (if x = [] then y else x)"

definition num :: "nat \<Rightarrow> json" where
  "num n = JNum (int_text (int n))"

definition GetUser :: "env \<Rightarrow> request \<Rightarrow> (string \<times> string) option \<Rightarrow> response go" where
  "GetUser E rq bound =
     (let (uid, email) = (case bound of Some p \<Rightarrow> p | None \<Rightarrow> ([], []));
          uid = fallback (fallback uid (PostForm rq ''uid'')) (Query rq ''uid'');
          email = fallback (fallback email (PostForm rq ''email'')) (Query rq ''email'')
      in continue_with (resolveSiteBearerAuth E rq ''user.read'' ''user.read.as-service'' False uid email) (\<lambda>auth.
        let u = site_User auth in
        ret (respondOK rq (runes [0x83B7, 0x53D6, 0x7528, 0x6237, 0x4FE1, 0x606F, 0x6210, 0x529F]) (Some (JObj [(''uid'', num (UID u)), (''email'', JStr (Email u)),
          (''username'', JStr (Username u)), (''avatar'', JStr (Avatar u)), (''verified'', JBool (Verified u))])))))"

definition LookupUser :: "env \<Rightarrow> request \<Rightarrow> (nat option \<times> string option) option \<Rightarrow> response go" where
  "LookupUser E rq bound =
     (case bound of None \<Rightarrow> ret (respondError rq 400 ''invalid_request'' ''invalid request body'')
      | Some (uid, username) \<Rightarrow>
        let hasUID = uid \<noteq> None; hasUsername = (case username of None \<Rightarrow> False | Some s \<Rightarrow> TrimSpace s \<noteq> []) in
        if \<not> hasUID \<and> \<not> hasUsername then ret (respondError rq 400 ''invalid_request'' ''please provide uid or username'')
        else if hasUID \<and> hasUsername then ret (respondError rq 400 ''invalid_request'' ''please provide only uid or username, not both'')
        else do {
          found \<leftarrow> db_first E users (\<lambda>u. case uid of
            Some i \<Rightarrow> UID u = i
          | None \<Rightarrow> coll E (Username u) = coll E (TrimSpace (default_value [] username)));
          ret (case found of
            Inl _ \<Rightarrow> respondError rq 404 ''user_not_found'' ''user not found''
          | Inr u \<Rightarrow> respondOK rq ''lookup successful'' (Some (JObj [(''uid'', num (UID u)), (''username'', JStr (Username u))])))
        })"

definition delete_account_rows :: "env \<Rightarrow> user \<Rightarrow> unit result_of" where
  "delete_account_rows E u = transaction E (
     then_stmt (delete_auth_codes E (\<lambda>a. coll E (ac_UserID a) = coll E (u_UUID u)))
    (then_stmt (delete_access_tokens E (\<lambda>t. case at_UserID t of None \<Rightarrow> False | Some x \<Rightarrow> coll E x = coll E (u_UUID u)))
    (then_stmt (delete_refresh_tokens E (\<lambda>t. coll E (rt_UserID t) = coll E (u_UUID u)))
    (then_stmt (delete_users E (\<lambda>r. UID r = UID u))
    (do {
       t \<leftarrow> now E;
       insert_deleted_account E \<lparr>da_UID = UID u, da_DeletedAt = t\<rparr>
     })))))"

definition DeleteAccount :: "env \<Rightarrow> request \<Rightarrow> string option \<Rightarrow> response go" where
  "DeleteAccount E rq bound =
     (case bound of None \<Rightarrow> ret (respondError rq 400 ''invalid_request'' ''password is required'')
      | Some password \<Rightarrow>
        continue_with (resolveSiteBearerAuth E rq ''user.delete'' ''user.delete.as-service'' False [] []) (\<lambda>auth.
          let u = site_User auth in
          if \<not> bcrypt_check E password (u_Password u) then ret (respondError rq 403 ''invalid_credentials'' (runes [0x5BC6, 0x7801, 0x9519, 0x8BEF]))
          else do {
            r \<leftarrow> delete_account_rows E u;
            ret (case r of Inl _ \<Rightarrow> respondError rq 500 ''internal_error'' (runes [0x6CE8, 0x9500, 0x5931, 0x8D25])
              | Inr _ \<Rightarrow> respondOK rq (runes [0x8D26, 0x53F7, 0x6CE8, 0x9500, 0x6210, 0x529F]) None)
          }))"

definition ListDeletedAccounts :: "env \<Rightarrow> request \<Rightarrow> response go" where
  "ListDeletedAccounts E rq =
     continue_with (resolveSiteBearerAuth E rq ''user.delete.list'' ''user.delete.list.as-service'' False [] []) (\<lambda>_. do {
       r \<leftarrow> db_find E deleted_accounts (\<lambda>_. True);
       ret (case r of
         Inl _ \<Rightarrow> respondError rq 500 ''internal_error'' (runes [0x83B7, 0x53D6, 0x5220, 0x9664, 0x5217, 0x8868, 0x5931, 0x8D25])
       | Inr rows \<Rightarrow> respondOK rq (runes [0x83B7, 0x53D6, 0x5220, 0x9664, 0x5217, 0x8868, 0x6210, 0x529F]) (Some (JObj [(''deleted_accounts'',
           JArr (map (\<lambda>a. JObj [(''UID'', num (da_UID a)), (''DeletedAt'', case time_text E (da_DeletedAt a) of None \<Rightarrow> JNull | Some s \<Rightarrow> JStr s)])
             (sort_key (\<lambda>a. - da_DeletedAt a) rows)))])))
     })"

definition GetUserInfoInternal :: "env \<Rightarrow> request \<Rightarrow> string \<Rightarrow> response go" where
  "GetUserInfoInternal E rq uuid = continue_with (RequireAuthLevel E rq SecurityLevelOps) (\<lambda>_. do {
     found \<leftarrow> db_first E users (by_uuid E uuid);
     ret (case found of
       Inl _ \<Rightarrow> respondError rq 404 ''user_not_found'' ''user not found''
     | Inr u \<Rightarrow> respondOK rq ''success'' (Some (JObj [(''uid'', num (UID u)), (''uuid'', JStr (u_UUID u)),
         (''email'', JStr (Email u)), (''username'', JStr (Username u))])))
   })"

section \<open>The user name\<close>

definition username_char :: "char \<Rightarrow> bool" where
  "username_char c \<longleftrightarrow> is_lower c \<or> is_upper c \<or> is_digit c \<or> c = CHR ''_''"

definition ChangeUsername :: "env \<Rightarrow> request \<Rightarrow> (string \<times> string \<times> string) option \<Rightarrow> response go" where
  "ChangeUsername E rq bound =
     (let (uid, email, username) = (case bound of Some p \<Rightarrow> p | None \<Rightarrow> ([], [], []));
          newUsername = fallback (fallback username (PostForm rq ''username'')) (Query rq ''username'');
          uid = fallback (fallback uid (PostForm rq ''uid'')) (Query rq ''uid'');
          email = fallback (fallback email (PostForm rq ''email'')) (Query rq ''email'')
      in if newUsername = [] then ret (respondError rq 400 ''invalid_username'' (runes [0x8BF7, 0x63D0, 0x4F9B, 0x65B0, 0x7528, 0x6237, 0x540D]))
      else if length newUsername < 3 \<or> length newUsername > 16
      then ret (respondError rq 400 ''invalid_username'' (runes [0x7528, 0x6237, 0x540D, 0x957F, 0x5EA6, 0x5FC5, 0x987B, 0x5728] @ ''3-16'' @ runes [0x4E2A, 0x5B57, 0x7B26, 0x4E4B, 0x95F4]))
      else if \<not> list_all username_char newUsername
      then ret (respondError rq 400 ''invalid_username'' (runes [0x7528, 0x6237, 0x540D, 0x53EA, 0x80FD, 0x5305, 0x542B, 0x5B57, 0x6BCD, 0x3001, 0x6570, 0x5B57, 0x548C, 0x4E0B, 0x5212, 0x7EBF]))
      else continue_with (resolveSiteBearerAuth E rq ''profile.change-username'' ''profile.change-username.as-service'' False uid email) (\<lambda>auth. do {
        r \<leftarrow> service_ChangeUsername E (u_UUID (site_User auth)) newUsername;
        ret (case r of
          Inr _ \<Rightarrow> respondOK rq (runes [0x7528, 0x6237, 0x540D, 0x4FEE, 0x6539, 0x6210, 0x529F]) (Some (JObj [(''username'', JStr newUsername)]))
        | Inl UsernameExists \<Rightarrow> respondError rq 409 ''username_conflict'' ''username already exists''
        | Inl UsernameUserNotFound \<Rightarrow> respondError rq 404 ''user_not_found'' ''user not found''
        | Inl (UsernameOther message) \<Rightarrow> respondError rq 500 ''internal_error'' message)
      }))"

end
