(* ===== verification/Codes.thy ===== *)
theory Codes
  imports Key_Value Go_Hash
begin

unbundle bit_operations_syntax

text \<open>
  services/email_service.go and services/captcha_service.go: mails, the files that hold verification codes, and captchas.

  A code file is named by the MD5 of the email address (RFC 1321, computed here) and holds a JSON object with the code and the Unix second
  it expires. Of the file system only the directory of the codes is kept, as a map from file names to texts.
\<close>

section \<open>Base64 of a mail\<close>

definition base64_table :: string where
  "base64_table = ''ABCDEFGHIJKLMNOPQRSTUVWXYZabcdefghijklmnopqrstuvwxyz0123456789+/''"

definition sextet :: "64 word \<Rightarrow> nat \<Rightarrow> char" where
  "sextet b n = base64_table ! unat (drop_bit n b AND 0x3F)"

definition octets :: "char \<Rightarrow> char \<Rightarrow> char \<Rightarrow> 64 word" where
  "octets x y z = push_bit 16 (of_nat (byte x)) OR push_bit 8 (of_nat (byte y)) OR of_nat (byte z)"

fun base64Encode :: "string \<Rightarrow> string" where
  "base64Encode (x # y # z # data) =
     (let b = octets x y z in [sextet b 18, sextet b 12, sextet b 6, sextet b 0] @ base64Encode data)"
| "base64Encode [x, y] =
     (let b = push_bit 16 (of_nat (byte x)) OR push_bit 8 (of_nat (byte y)) in [sextet b 18, sextet b 12, sextet b 6, CHR ''=''])"
| "base64Encode [x] = (let b = push_bit 16 (of_nat (byte x)) in [sextet b 18, sextet b 12, CHR ''='', CHR ''=''])"
| "base64Encode [] = []"

definition b64Encode :: "string \<Rightarrow> string" where
  "b64Encode s = base64Encode s"

definition crlf :: string where
  "crlf = [CHR 0x0D, CHR 0x0A]"

text \<open>The loop ends for a positive line length, the only one the program uses; otherwise the model returns nothing.\<close>

function wrapBase64 :: "string \<Rightarrow> nat \<Rightarrow> string" where
  "wrapBase64 s lineLen =
     (if s = [] \<or> lineLen = 0 then [] else take lineLen s @ crlf @ wrapBase64 (drop lineLen s) lineLen)"
  by pat_completeness auto
termination
  by (relation "measure (\<lambda>(s, n). length s)") auto

declare wrapBase64.simps [simp del]

section \<open>Mails\<close>

definition mail_headers :: "env \<Rightarrow> string \<Rightarrow> string \<Rightarrow> (string \<times> string) list" where
  "mail_headers E to subject =
     [(''From'', ''=?UTF-8?B?'' @ b64Encode (FromName (smtp E)) @ ''?= <'' @ FromEmail (smtp E) @ ''>''),
      (''To'', to), (''Subject'', ''=?UTF-8?B?'' @ b64Encode subject @ ''?=''), (''MIME-Version'', ''1.0''),
      (''Content-Type'', ''text/plain; charset=UTF-8''), (''Content-Transfer-Encoding'', ''base64'')]"

definition header_text :: "(string \<times> string) list \<Rightarrow> string" where
  "header_text hs = concat (map (\<lambda>(k, v). k @ '': '' @ v @ crlf) hs)"

text \<open>An error is the text of the error \<open>smtp.SendMail\<close> returns; a refused mail is not in the outbox.\<close>

definition SendMail :: "env \<Rightarrow> string \<Rightarrow> string \<Rightarrow> string \<Rightarrow> (world, string + unit) state" where
  "SendMail E to subject message = State (\<lambda>w.
     let cfg = smtp E;
         text = header_text (header_order E (calls w) (mail_headers E to subject)) @ crlf @ wrapBase64 (b64Encode message) 76;
         auth = (if m_Username cfg \<noteq> [] \<and> m_Password cfg \<noteq> [] then Some (m_Username cfg, m_Password cfg) else None);
         m = \<lparr>ml_Addr = m_Host cfg @ '':'' @ int_text (m_Port cfg), ml_Auth = auth, ml_From = FromEmail cfg, ml_To = to, ml_Text = text\<rparr>;
         w1 = w\<lparr>calls := Suc (calls w)\<rparr>
     in case mail_fault E (calls w) of
          Some e \<Rightarrow> (Inl e, w1)
        | None \<Rightarrow> (Inr (), w1\<lparr>outbox := outbox w @ [m]\<rparr>))"

section \<open>MD5\<close>

definition md5_k :: "w32 list" where
  "md5_k = [0xd76aa478, 0xe8c7b756, 0x242070db, 0xc1bdceee, 0xf57c0faf, 0x4787c62a, 0xa8304613, 0xfd469501, 0x698098d8,
     0x8b44f7af, 0xffff5bb1, 0x895cd7be, 0x6b901122, 0xfd987193, 0xa679438e, 0x49b40821, 0xf61e2562, 0xc040b340,
     0x265e5a51, 0xe9b6c7aa, 0xd62f105d, 0x02441453, 0xd8a1e681, 0xe7d3fbc8, 0x21e1cde6, 0xc33707d6, 0xf4d50d87,
     0x455a14ed, 0xa9e3e905, 0xfcefa3f8, 0x676f02d9, 0x8d2a4c8a, 0xfffa3942, 0x8771f681, 0x6d9d6122, 0xfde5380c,
     0xa4beea44, 0x4bdecfa9, 0xf6bb4b60, 0xbebfbc70, 0x289b7ec6, 0xeaa127fa, 0xd4ef3085, 0x04881d05, 0xd9d4d039,
     0xe6db99e5, 0x1fa27cf8, 0xc4ac5665, 0xf4292244, 0x432aff97, 0xab9423a7, 0xfc93a039, 0x655b59c3, 0x8f0ccc92,
     0xffeff47d, 0x85845dd1, 0x6fa87e4f, 0xfe2ce6e0, 0xa3014314, 0x4e0811a1, 0xf7537e82, 0xbd3af235, 0x2ad7d2bb,
     0xeb86d391]"

definition md5_s :: "nat list" where
  "md5_s = concat (map (\<lambda>r. concat (replicate 4 r)) [[7, 12, 17, 22], [5, 9, 14, 20], [4, 11, 16, 23], [6, 10, 15, 21]])"

definition md5_mix :: "nat \<Rightarrow> w32 \<Rightarrow> w32 \<Rightarrow> w32 \<Rightarrow> w32" where
  "md5_mix i b c d =
     (if i < 16 then (b AND c) OR (not32 b AND d)
      else if i < 32 then (d AND b) OR (not32 d AND c)
      else if i < 48 then b XOR c XOR d
      else c XOR (b OR not32 d))"

definition md5_index :: "nat \<Rightarrow> nat" where
  "md5_index i = (if i < 16 then i else if i < 32 then (5 * i + 1) mod 16 else if i < 48 then (3 * i + 5) mod 16 else (7 * i) mod 16)"

definition md5_round :: "w32 list \<Rightarrow> nat \<Rightarrow> w32 \<times> w32 \<times> w32 \<times> w32 \<Rightarrow> w32 \<times> w32 \<times> w32 \<times> w32" where
  "md5_round m i = (\<lambda>(a, b, c, d).
     (d, add32 [b, rotl (md5_s ! i) (add32 [a, md5_mix i b c d, md5_k ! i, m ! md5_index i])], b, c))"

definition md5_block :: "w32 list \<Rightarrow> w32 \<times> w32 \<times> w32 \<times> w32 \<Rightarrow> w32 \<times> w32 \<times> w32 \<times> w32" where
  "md5_block m = (\<lambda>(a, b, c, d). case fold (md5_round m) [0..<64] (a, b, c, d) of
     (a', b', c', d') \<Rightarrow> (add32 [a, a'], add32 [b, b'], add32 [c, c'], add32 [d, d']))"

text \<open>Little-endian words.\<close>

fun le_words :: "string \<Rightarrow> w32 list" where
  "le_words (a # b # c # d # s) = be32 d c b a # le_words s"
| "le_words _ = []"

definition md5_pad :: "string \<Rightarrow> string" where
  "md5_pad m = m @ [char_of (128::nat)] @ replicate (pad_zeros (length m)) (char_of (0::nat)) @
     rev (PutUint64 (word_of_nat (8 * length m)))"

definition md5 :: "string \<Rightarrow> string" where
  "md5 m = (let ws = le_words (md5_pad m) in
     case fold md5_block (blocks_from (length ws div 16) ws) (0x67452301, 0xefcdab89, 0x98badcfe, 0x10325476) of
       (a, b, c, d) \<Rightarrow> concat (map (rev \<circ> w32_bytes) [a, b, c, d]))"

definition md5Hash :: "string \<Rightarrow> string" where
  "md5Hash s = hex_encode (md5 s)"

section \<open>The code store\<close>

definition code_file :: "string \<Rightarrow> string" where
  "code_file email = md5Hash email @ ''.json''"

text \<open>A file operation fails if the environment says so; a failed write may leave a part of the data.\<close>

definition file_op :: "env \<Rightarrow> (bool \<Rightarrow> nat option \<Rightarrow> (string \<times> string) list \<Rightarrow> 'a \<times> (string \<times> string) list) \<Rightarrow> 'a go" where
  "file_op E f = State (\<lambda>w.
     case f (file_fault E (file_ops w)) (file_torn E (file_ops w)) (code_files w) of
       (x, fs) \<Rightarrow> (x, w\<lparr>file_ops := Suc (file_ops w), code_files := fs\<rparr>))"

definition unix :: "time \<Rightarrow> int" where
  "unix t = t div 1000000000"

definition code_text :: "string \<Rightarrow> int \<Rightarrow> string" where
  "code_text code expires = print_json (JObj [(''code'', JStr code), (''expires_at'', JNum (int_text expires))])"

definition read_code :: "string \<Rightarrow> (string \<times> int) option" where
  "read_code data = Option.bind (parse_json data) (read_struct (\<lambda>kvs.
     case (obj_field read_str ''code'' [] kvs, obj_field read_int ''expires_at'' 0 kvs) of
       (Some c, Some x) \<Rightarrow> Some (c, x) | _ \<Rightarrow> None))"

definition code_Store :: "env \<Rightarrow> string \<Rightarrow> string \<Rightarrow> bool go" where
  "code_Store E email code = do {
     dir_ok \<leftarrow> file_op E (\<lambda>fault _ fs. (\<not> fault, fs));
     if \<not> dir_ok then ret False
     else do {
       t \<leftarrow> now E;
       let data = code_text code (int64_wrap (unix t + CodeTTL (code_store E)));
       file_op E (\<lambda>fault torn fs.
         if \<not> fault then (True, AList.update (code_file email) data fs)
         else (False, case torn of None \<Rightarrow> fs | Some k \<Rightarrow> AList.update (code_file email) (take k data) fs))
     }
   }"

definition code_Get :: "env \<Rightarrow> string \<Rightarrow> string option go" where
  "code_Get E email = do {
     data \<leftarrow> file_op E (\<lambda>fault _ fs. (if fault then None else map_of fs (code_file email), fs));
     case Option.bind data read_code of
       None \<Rightarrow> ret None
     | Some (code, expires) \<Rightarrow> do {
         t \<leftarrow> now E;
         if expires < unix t then do {
           _ \<leftarrow> file_op E (\<lambda>fault _ fs. ((), if fault then fs else AList.delete (code_file email) fs));
           ret None
         } else ret (Some code)
       }
   }"

definition code_Delete :: "env \<Rightarrow> string \<Rightarrow> bool go" where
  "code_Delete E email = do {
     missing \<leftarrow> file_op E (\<lambda>fault _ fs. (\<not> fault \<and> map_of fs (code_file email) = None, fs));
     if missing then ret True
     else file_op E (\<lambda>fault _ fs.
       if fault \<or> map_of fs (code_file email) = None then (False, fs) else (True, AList.delete (code_file email) fs))
   }"

text \<open>\<open>rand.Int\<close> below a bound; with the Go version of the module the random source does not fail.\<close>

definition rand_Int :: "env \<Rightarrow> nat \<Rightarrow> nat go" where
  "rand_Int E n = State (\<lambda>w. (draw_int E (draws w) mod n, w\<lparr>draws := Suc (draws w)\<rparr>))"

definition GenerateCode :: "env \<Rightarrow> string go" where
  "GenerateCode E = do { n \<leftarrow> rand_Int E 1000000; ret (pad_dec 6 n) }"

definition Generate4DigitCode :: "env \<Rightarrow> string go" where
  "Generate4DigitCode E = do { n \<leftarrow> rand_Int E 10000; ret (pad_dec 4 n) }"

section \<open>Captchas\<close>

definition captchaKey :: "env \<Rightarrow> string \<Rightarrow> string" where
  "captchaKey E token = redis_prefix E @ ''captcha:code:'' @ token"

definition captcha_Generate :: "env \<Rightarrow> (world, kv_error + string \<times> string) state" where
  "captcha_Generate E = do {
     n \<leftarrow> gets draws;
     _ \<leftarrow> modify (\<lambda>w. w\<lparr>draws := Suc (draws w)\<rparr>);
     let (i, content) = captcha_question E n;
     r \<leftarrow> kv_set E (captchaKey E i) content (seconds (CaptchaTTL (security E)));
     ret (case r of Inl e \<Rightarrow> Inl e | Inr _ \<Rightarrow> Inr (i, content))
   }"

definition captcha_Render :: "env \<Rightarrow> string \<Rightarrow> string option go" where
  "captcha_Render E token =
     (if token = [] then ret None
      else do {
        r \<leftarrow> kv_get E (captchaKey E token);
        ret (case r of Inl _ \<Rightarrow> None | Inr code \<Rightarrow> captcha_image E code)
      })"

definition captcha_Verify :: "env \<Rightarrow> string \<Rightarrow> string \<Rightarrow> bool go" where
  "captcha_Verify E token userCode =
     (if token = [] \<or> userCode = [] then ret False
      else do {
        stored \<leftarrow> kv_get E (captchaKey E token);
        case stored of
          Inl _ \<Rightarrow> ret False
        | Inr code \<Rightarrow>
          if \<not> EqualFold (TrimSpace code) (TrimSpace userCode) then ret False
          else do {
            _ \<leftarrow> kv_del E (captchaKey E token);
            ret True
          }
      })"

end
