(* ===== verification/OAuth2_Controller.thy ===== *)
theory OAuth2_Controller
  imports Accounts Codes Hooks
begin

text \<open>
  controllers/oauth2_controller.go: the endpoints of the authorization server, and the login tickets of the site's own
  sign-in. A ticket is a key on the key-value server that holds the account whose password was right; the endpoints for
  the second factors read it, check their factor, delete it and hand out tokens. The lines of the audit log are left out.
\<close>

section \<open>Login tickets\<close>

definition login_ticket_key :: "env \<Rightarrow> string \<Rightarrow> string" where
  "login_ticket_key E ticket = redis_prefix E @ ''oauth2:login_ticket:'' @ ticket"

text \<open>The JSON text of a \<open>LoginTicketPayload\<close>, and how it is read; a ticket without a user is none.\<close>

definition ticket_text :: "string \<Rightarrow> string" where
  "ticket_text userID = print_json (JObj [(''user_id'', JStr userID)])"

definition read_ticket :: "string \<Rightarrow> string option" where
  "read_ticket raw =
     (case Option.bind (parse_json raw) (read_struct (obj_field read_str ''user_id'' [])) of
        None \<Rightarrow> None
      | Some userID \<Rightarrow> if userID = [] then None else Some userID)"

definition loadLoginTicket :: "env \<Rightarrow> string \<Rightarrow> string option go" where
  "loadLoginTicket E ticket = do {
     raw \<leftarrow> kv_get E (login_ticket_key E ticket);
     ret (case raw of Inl _ \<Rightarrow> None | Inr s \<Rightarrow> read_ticket s)
   }"

definition deleteLoginTicket :: "env \<Rightarrow> string \<Rightarrow> (world, kv_error + unit) state" where
  "deleteLoginTicket E ticket = kv_del E (login_ticket_key E ticket)"

section \<open>Helpers\<close>

definition availableSecondFactors :: "bool \<Rightarrow> bool \<Rightarrow> bool \<Rightarrow> bool \<Rightarrow> string list" where
  "availableSecondFactors hasTOTP hasWebAuthn hasEmail2FA hasRecoveryKey =
     (if hasTOTP then [''totp''] else []) @ (if hasWebAuthn then [''webauthn''] else []) @
     (if hasEmail2FA then [''email''] else []) @ (if hasRecoveryKey then [''recovery_key''] else [])"

definition containsString :: "string list \<Rightarrow> string \<Rightarrow> bool" where
  "containsString values target \<longleftrightarrow> list_ex (\<lambda>value. value = target) values"

definition newAuthHookPayload :: "request \<Rightarrow> string \<Rightarrow> string \<Rightarrow> hook_payload" where
  "newAuthHookPayload rq email password =
     \<lparr>pl_Request = \<lparr>hq_ID = requestIDFrom rq, hq_Path = rq_Path rq, hq_Method = rq_Method rq\<rparr>,
      pl_Auth = \<lparr>ha_Email = TrimSpace email, ha_Password = password, ha_PasswordEncoding = ''plain'', ha_RiskTags = [],
        ha_UserUUID = [], ha_AvailableFactors = [], ha_RequiredSecondFactor = []\<rparr>,
      pl_Policy = \<lparr>hy_PatchAllowlist = [], hy_Capabilities = []\<rparr>\<rparr>"

definition basicClientCredentials :: "string \<Rightarrow> (string \<times> string) option" where
  "basicClientCredentials authHeader =
     (if length authHeader < 6 \<or> \<not> EqualFold (take 6 authHeader) ''basic '' then None
      else Option.bind (b64_std_decode (TrimSpace (drop 6 authHeader))) (Cut CHR '':''))"

definition clientCredentialsFromRequest :: "request \<Rightarrow> string \<Rightarrow> string \<Rightarrow> string \<times> string" where
  "clientCredentialsFromRequest rq bodyClientID bodyClientSecret =
     (let authHeader = TrimSpace (GetHeader rq ''Authorization'') in
      if HasPrefix (ToLower authHeader) ''basic '' then
        (case Option.bind (b64_std_decode (TrimSpace (drop 6 authHeader))) (Cut CHR '':'') of
           Some parts \<Rightarrow> parts | None \<Rightarrow> (bodyClientID, bodyClientSecret))
      else (bodyClientID, bodyClientSecret))"

definition respondOAuthError :: "request \<Rightarrow> go_error \<Rightarrow> response" where
  "respondOAuthError rq err =
     (case err of
        OAuth InvalidClient \<Rightarrow> respondError rq 401 ''oauth_invalid_client'' ''invalid client''
      | OAuth InvalidGrant \<Rightarrow> respondError rq 400 ''oauth_invalid_grant'' ''invalid grant''
      | OAuth InvalidScope \<Rightarrow> respondError rq 400 ''oauth_invalid_scope'' ''invalid scope''
      | OAuth UnauthorizedClient \<Rightarrow> respondError rq 400 ''oauth_unauthorized_client'' ''unauthorized client''
      | OAuth InvalidRedirectURI \<Rightarrow> respondError rq 400 ''oauth_invalid_redirect_uri'' ''invalid redirect_uri''
      | OAuth UnsupportedGrantType \<Rightarrow> respondError rq 400 ''oauth_unsupported_grant_type'' ''unsupported grant_type''
      | OAuth InvalidCodeChallenge \<Rightarrow> respondError rq 400 ''oauth_invalid_code_challenge'' ''invalid code challenge''
      | OAuth InsufficientScope \<Rightarrow> respondError rq 403 ''oauth_insufficient_scope'' ''insufficient scope''
      | OAuth AccessDenied \<Rightarrow> respondError rq 403 ''oauth_access_denied'' ''access denied''
      | OAuth InvalidClientMetadata \<Rightarrow> respondError rq 400 ''invalid_client_metadata'' ''invalid client metadata''
      | _ \<Rightarrow> respondError rq 500 ''internal_error'' ''oauth2 error'')"

definition respondTokenPair :: "env \<Rightarrow> request \<Rightarrow> access_token \<Rightarrow> refresh_token \<Rightarrow> response" where
  "respondTokenPair E rq accessToken refreshToken =
     respondOK rq ''OAuth2 token issued'' (Some (JObj [(''access_token'', JStr (at_AccessToken accessToken)),
       (''token_type'', JStr ''Bearer''), (''expires_in'', JNum (int_text (AccessTokenTTL (oauth2 E)))),
       (''refresh_token'', JStr (rt_RefreshToken refreshToken)),
       (''scope'', JStr (Join (parseScopesOrNil (at_Scopes accessToken)) '' ''))]))"

section \<open>Signing in\<close>

definition CountCredentials :: "env \<Rightarrow> string \<Rightarrow> nat result_of" where
  "CountCredentials E userUUID = db_count E credentials (\<lambda>c. coll E (wc_UserID c) = coll E userUUID)"

definition bad_login :: "request \<Rightarrow> response" where
  "bad_login rq = respondError rq 401 ''invalid_credentials'' ''Email or password incorrect''"

text \<open>The part of \<open>LoginTicket\<close> before the third hook: the account, and which second factors it has.\<close>

definition login_account :: "env \<Rightarrow> request \<Rightarrow> string \<Rightarrow> string \<Rightarrow> (user \<times> bool \<times> bool \<times> bool \<times> bool) step" where
  "login_account E rq email password = do {
     verified \<leftarrow> VerifyCredentials E email password False;
     case verified of
       None \<Rightarrow> ret (Inl (bad_login rq))
     | Some info \<Rightarrow> do {
         found \<leftarrow> db_first E users (by_uuid E (ui_UUID info));
         case found of
           Inl _ \<Rightarrow> ret (Inl (bad_login rq))
         | Inr u \<Rightarrow> do {
             count \<leftarrow> CountCredentials E (u_UUID u);
             ret (case count of
               Inl _ \<Rightarrow> Inl (respondError rq 500 ''internal_error'' ''Failed to inspect WebAuthn credentials'')
             | Inr n \<Rightarrow> Inr (u, TwoFA u \<and> TOTP u \<noteq> [], WebAuthn2FAEnabled u \<and> n > 0, Email2FAEnabled u,
                 RecoveryKeyEnabled u \<and> RecoveryKey u \<noteq> []))
           }
       }
   }"

text \<open>The part after it: tokens at once, or a ticket for the factors.\<close>

definition issue_ticket :: "env \<Rightarrow> request \<Rightarrow> user \<Rightarrow> bool \<times> bool \<times> bool \<times> bool \<Rightarrow> response go" where
  "issue_ticket E rq u = (\<lambda>(hasTOTP, hasWebAuthn, hasEmail2FA, hasRecoveryKey). do {
     ticket \<leftarrow> GenerateRandomToken E 24;
     r \<leftarrow> kv_set E (login_ticket_key E ticket) (ticket_text (u_UUID u)) (seconds (AuthorizationCodeTTL (oauth2 E)));
     ret (case r of
       Inl _ \<Rightarrow> respondError rq 500 ''internal_error'' ''Failed to create login ticket''
     | Inr _ \<Rightarrow> respondOK rq ''Login ticket issued'' (Some (JObj [(''totp_required'', JBool hasTOTP),
         (''webauthn_required'', JBool hasWebAuthn), (''email_required'', JBool hasEmail2FA),
         (''recovery_key_required'', JBool hasRecoveryKey),
         (''second_factors'', strs_json (availableSecondFactors hasTOTP hasWebAuthn hasEmail2FA hasRecoveryKey)),
         (''login_ticket'', JStr ticket), (''expires_in'', JNum (int_text (AuthorizationCodeTTL (oauth2 E))))])))
   })"

definition finish_login :: "env \<Rightarrow> request \<Rightarrow> user \<Rightarrow> bool \<times> bool \<times> bool \<times> bool \<Rightarrow> hook_payload \<Rightarrow> response go" where
  "finish_login E rq u factors payload =
     (let selected = TrimSpace (ha_RequiredSecondFactor (pl_Auth payload));
          (hasTOTP, hasWebAuthn, hasEmail2FA, hasRecoveryKey) =
            (if selected \<noteq> [] then (selected = ''totp'', selected = ''webauthn'', selected = ''email'', selected = ''recovery_key'')
             else factors)
      in if selected \<noteq> [] \<and> \<not> containsString (ha_AvailableFactors (pl_Auth payload)) selected then ret (hook_denied rq)
      else if \<not> hasTOTP \<and> \<not> hasWebAuthn \<and> \<not> hasEmail2FA \<and> selected = []
      then issueAndRespondFirstPartyUserTokens E rq (u_UUID u) ''OAuth2 token issued'' []
      else issue_ticket E rq u (hasTOTP, hasWebAuthn, hasEmail2FA, hasRecoveryKey))"

definition LoginTicket :: "env \<Rightarrow> request \<Rightarrow> (string \<times> string) option \<Rightarrow> response go" where
  "LoginTicket E rq bound =
     (case bound of None \<Rightarrow> ret (respondError rq 400 ''invalid_json_body'' ''Invalid request body'')
      | Some (email, password) \<Rightarrow>
        continue_with (hook_Run E rq ''auth.input'' (newAuthHookPayload rq email password)) (\<lambda>payload.
          let password = ha_Password (pl_Auth payload) in
          if \<not> valid_address E email then ret (respondError rq 400 ''invalid_email'' ''Invalid email'')
          else continue_with (hook_Run E rq ''auth.risk'' payload) (\<lambda>payload.
            continue_with (login_account E rq email password) (\<lambda>(u, t, w, e, r).
              continue_with (hook_Run E rq ''auth.post_verify'' (payload\<lparr>pl_Auth := (pl_Auth payload)\<lparr>ha_UserUUID := u_UUID u,
                  ha_AvailableFactors := availableSecondFactors t w e r\<rparr>\<rparr>))
                (finish_login E rq u (t, w, e, r))))))"

section \<open>Authorization codes\<close>

definition Authorize :: "env \<Rightarrow> request \<Rightarrow> response go" where
  "Authorize E rq =
     (let redirectURI = Query rq ''redirect_uri'' in
      if DefaultQuery rq ''response_type'' ''code'' \<noteq> ''code'' then ret (respondError rq 400 ''invalid_request'' ''unsupported response_type'')
      else do {
        r \<leftarrow> ValidateAuthorizationRequest E (Query rq ''client_id'') redirectURI (Query rq ''scope'') (Query rq ''code_challenge'')
               (DefaultQuery rq ''code_challenge_method'' ''S256'');
        ret (case r of
          Inl e \<Rightarrow> respondOAuthError rq e
        | Inr (c, scopes) \<Rightarrow> respondOK rq ''OAuth2 authorization request accepted'' (Some (JObj [
            (''client_id'', JStr (cl_ClientID c)), (''client_name'', JStr (cl_Name c)), (''redirect_uri'', JStr redirectURI),
            (''scope'', JStr (Join scopes '' '')), (''state'', JStr (Query rq ''state'')), (''skip_consent'', JBool True),
            (''authorization_code_ttl'', JNum (int_text (AuthorizationCodeTTL (oauth2 E))))])))
      })"

record decision_request =
  dq_Email :: string
  dq_Password :: string
  dq_ClientID :: string
  dq_RedirectURI :: string
  dq_Scope :: string
  dq_State :: string
  dq_CodeChallenge :: string
  dq_CodeChallengeMethod :: string

text \<open>A step of a service that answers its error as an OAuth2 error.\<close>

definition or_oauth_error :: "request \<Rightarrow> 'a result_of \<Rightarrow> 'a step" where
  "or_oauth_error rq m = do { r \<leftarrow> m; ret (case r of Inl e \<Rightarrow> Inl (respondOAuthError rq e) | Inr x \<Rightarrow> Inr x) }"

definition grant_code :: "env \<Rightarrow> request \<Rightarrow> decision_request \<Rightarrow> client \<Rightarrow> string list \<Rightarrow> user_info \<Rightarrow> response go" where
  "grant_code E rq req c scopes info = do {
     r \<leftarrow> CreateAuthorizationCode E (cl_ClientID c) (ui_UUID info) (dq_RedirectURI req) scopes (dq_CodeChallenge req) (dq_CodeChallengeMethod req);
     ret (case r of
       Inl _ \<Rightarrow> respondError rq 500 ''internal_error'' ''Failed to create authorization code''
     | Inr a \<Rightarrow> respondOK rq ''OAuth2 authorization granted'' (Some (JObj [(''code'', JStr (ac_Code a)),
         (''state'', JStr (dq_State req)), (''redirect_uri'', JStr (dq_RedirectURI req))])))
   }"

definition AuthorizeDecision :: "env \<Rightarrow> request \<Rightarrow> decision_request option \<Rightarrow> response go" where
  "AuthorizeDecision E rq bound =
     (case bound of None \<Rightarrow> ret (respondError rq 400 ''invalid_json_body'' ''Invalid request body'')
      | Some req \<Rightarrow>
        continue_with (hook_Run E rq ''auth.input'' (newAuthHookPayload rq (dq_Email req) (dq_Password req))) (\<lambda>payload.
          let password = ha_Password (pl_Auth payload) in
          continue_with (or_oauth_error rq (ValidateAuthorizationRequest E (dq_ClientID req) (dq_RedirectURI req) (dq_Scope req)
              (dq_CodeChallenge req) (dq_CodeChallengeMethod req))) (\<lambda>(c, scopes).
            continue_with (hook_Run E rq ''auth.risk'' payload) (\<lambda>payload. do {
              verified \<leftarrow> VerifyCredentials E (dq_Email req) password False;
              case verified of
                None \<Rightarrow> ret (bad_login rq)
              | Some info \<Rightarrow>
                continue_with (hook_Run E rq ''auth.post_verify'' (payload\<lparr>pl_Auth := (pl_Auth payload)\<lparr>ha_UserUUID := ui_UUID info\<rparr>\<rparr>))
                  (\<lambda>_. grant_code E rq req c scopes info)
            }))))"

section \<open>Tokens\<close>

record token_request =
  tq_GrantType :: string
  tq_Code :: string
  tq_RedirectURI :: string
  tq_CodeVerifier :: string
  tq_RefreshToken :: string
  tq_ClientID :: string
  tq_ClientSecret :: string
  tq_Scope :: string
  tq_TargetUID :: string
  tq_TargetEmail :: string

definition grant_tokens :: "env \<Rightarrow> request \<Rightarrow> token_request \<Rightarrow> client \<Rightarrow> response go" where
  "grant_tokens E rq req c =
     (if tq_GrantType req = ''authorization_code'' then
        continue_with (or_oauth_error rq (ExchangeAuthorizationCode E (cl_ClientID c) (tq_Code req) (tq_RedirectURI req) (tq_CodeVerifier req)))
          (\<lambda>(a, r). ret (respondTokenPair E rq a r))
      else if tq_GrantType req = ''refresh_token'' then
        continue_with (or_oauth_error rq (RefreshUserToken E (cl_ClientID c) (tq_RefreshToken req)))
          (\<lambda>(a, r). ret (respondTokenPair E rq a r))
      else if tq_GrantType req = ''client_credentials'' then
        continue_with (or_oauth_error rq (IssueClientCredentialsToken E c (tq_Scope req) (tq_TargetUID req) (tq_TargetEmail req)))
          (\<lambda>a. ret (respondOK rq ''OAuth2 token issued'' (Some (JObj [(''access_token'', JStr (at_AccessToken a)),
             (''token_type'', JStr ''Bearer''), (''expires_in'', JNum (int_text (AccessTokenTTL (oauth2 E)))),
             (''scope'', JStr (tq_Scope req))]))))
      else ret (respondOAuthError rq (OAuth UnsupportedGrantType)))"

definition Token :: "env \<Rightarrow> request \<Rightarrow> token_request option \<Rightarrow> response go" where
  "Token E rq bound =
     (case bound of None \<Rightarrow> ret (respondError rq 400 ''invalid_request'' ''Invalid token request'')
      | Some req \<Rightarrow>
        let (clientID, clientSecret) = clientCredentialsFromRequest rq (tq_ClientID req) (tq_ClientSecret req) in
        if clientID = [] then ret (respondError rq 401 ''oauth_invalid_client'' ''client authentication required'')
        else continue_with (or_oauth_error rq (AuthenticateClient E clientID clientSecret)) (grant_tokens E rq req))"

definition Revoke :: "env \<Rightarrow> request \<Rightarrow> string option \<Rightarrow> response go" where
  "Revoke E rq bound =
     (case bound of None \<Rightarrow> ret (respondError rq 400 ''invalid_request'' ''token is required'')
      | Some token \<Rightarrow>
        if TrimSpace token = [] then ret (respondError rq 400 ''invalid_request'' ''token is required'')
        else do {
          r \<leftarrow> RevokeAccessToken E token;
          ret (case r of Inl _ \<Rightarrow> respondError rq 500 ''internal_error'' ''Failed to revoke token''
            | Inr _ \<Rightarrow> respondOK rq ''OAuth2 token revoked'' None)
        })"

section \<open>Registration of clients\<close>

definition conflict_message :: string where
  "conflict_message = ''client_name conflicts with a legacy client row carrying the super client secret; '' @
     ''an operator must remove or re-secret that row before self-registration can proceed''"

definition register_for :: "env \<Rightarrow> request \<Rightarrow> string \<Rightarrow> string list \<Rightarrow> response go" where
  "register_for E rq serviceName scopes = do {
     r \<leftarrow> RegisterServiceClient E serviceName scopes;
     ret (case r of
       Inl (OAuth RegistrationConflict) \<Rightarrow> respondError rq 400 ''invalid_client_metadata'' conflict_message
     | Inl _ \<Rightarrow> respondError rq 500 ''internal_error'' ''Failed to register client''
     | Inr (c, created) \<Rightarrow> respondCreated rq ''OAuth2 client registered'' (Some (JObj [
         (''client_id'', JStr (cl_ClientID c)), (''client_secret'', JStr (cl_ClientSecret c)),
         (''client_id_issued_at'', JNum (int_text (unix (client_created E (cl_ID c))))),
         (''client_secret_expires_at'', JNum ''0''), (''scope'', JStr (Join (parseScopesOrNil (cl_Scopes c)) '' ''))])))
   }"

definition is_super_caller :: "env \<Rightarrow> client \<Rightarrow> bool" where
  "is_super_caller E c \<longleftrightarrow> cl_IsSuper c \<and> cl_IsInternal c \<and> cl_ClientID c = SuperClientID (oauth2 E)"

definition RegisterClient :: "env \<Rightarrow> request \<Rightarrow> (string \<times> string) option \<Rightarrow> response go" where
  "RegisterClient E rq bound =
     (case basicClientCredentials (GetHeader rq ''Authorization'') of
        None \<Rightarrow> ret (respondOAuthError rq (OAuth InvalidClient))
      | Some (clientID, clientSecret) \<Rightarrow> do {
          caller \<leftarrow> AuthenticateClient E clientID clientSecret;
          case caller of
            Inl _ \<Rightarrow> ret (respondOAuthError rq (OAuth InvalidClient))
          | Inr c \<Rightarrow>
            if \<not> is_super_caller E c then ret (respondOAuthError rq (OAuth InvalidClient))
            else case bound of
              None \<Rightarrow> ret (respondOAuthError rq (OAuth InvalidClientMetadata))
            | Some (name, scope) \<Rightarrow>
              let serviceName = TrimSpace name in
              if serviceName = [] then ret (respondOAuthError rq (OAuth InvalidClientMetadata))
              else do {
                registered \<leftarrow> presence_Get E serviceName;
                case registered of
                  None \<Rightarrow> ret (respondOAuthError rq (OAuth InvalidClientMetadata))
                | Some _ \<Rightarrow>
                  case ServiceRegistrationScopes E serviceName scope of
                    Inl e \<Rightarrow> ret (respondOAuthError rq e)
                  | Inr scopes \<Rightarrow> register_for E rq serviceName scopes
              }
        })"

end
