(* ===== verification/Regex.thy ===== *)
theory Regex
  imports Go_Base
begin

text \<open>
  The regular expressions of controllers/auth_controller.go: their syntax, the language they denote, and an executable
  matcher by derivatives (\<open>MatchString_denotes\<close>). All three are anchored at both ends and use ASCII classes only, so
  matching bytes is matching runes.
\<close>

datatype regex =
  RNone
| REmpty
| RChar "char \<Rightarrow> bool"
| RSeq regex regex
| RAlt regex regex
| RStar regex

section \<open>Language\<close>

inductive_set repeats :: "string set \<Rightarrow> string set" for A where
  stop: "[] \<in> repeats A"
| again: "u \<in> A \<Longrightarrow> v \<in> repeats A \<Longrightarrow> u @ v \<in> repeats A"

fun denotes :: "regex \<Rightarrow> string set" where
  "denotes RNone = {}"
| "denotes REmpty = {[]}"
| "denotes (RChar p) = {[c] |c. p c}"
| "denotes (RSeq r s) = {u @ v |u v. u \<in> denotes r \<and> v \<in> denotes s}"
| "denotes (RAlt r s) = denotes r \<union> denotes s"
| "denotes (RStar r) = repeats (denotes r)"

section \<open>Matcher\<close>

fun nullable :: "regex \<Rightarrow> bool" where
  "nullable RNone = False"
| "nullable REmpty = True"
| "nullable (RChar p) = False"
| "nullable (RSeq r s) = (nullable r \<and> nullable s)"
| "nullable (RAlt r s) = (nullable r \<or> nullable s)"
| "nullable (RStar r) = True"

fun after_char :: "char \<Rightarrow> regex \<Rightarrow> regex" where
  "after_char c RNone = RNone"
| "after_char c REmpty = RNone"
| "after_char c (RChar p) = (if p c then REmpty else RNone)"
| "after_char c (RSeq r s) =
     (if nullable r then RAlt (RSeq (after_char c r) s) (after_char c s) else RSeq (after_char c r) s)"
| "after_char c (RAlt r s) = RAlt (after_char c r) (after_char c s)"
| "after_char c (RStar r) = RSeq (after_char c r) (RStar r)"

definition MatchString :: "regex \<Rightarrow> string \<Rightarrow> bool" where
  "MatchString r s = nullable (fold after_char s r)"

lemma nullable_denotes: "nullable r \<longleftrightarrow> [] \<in> denotes r"
  by (induction r) (auto intro: repeats.stop)

text \<open>A repetition that starts with a character starts with a round that does.\<close>

lemma repeats_Cons: "w \<in> repeats A \<Longrightarrow> w = c # s \<Longrightarrow> \<exists>u v. s = u @ v \<and> c # u \<in> A \<and> v \<in> repeats A"
proof (induction rule: repeats.induct)
  case (again u v)
  show ?case
  proof (cases u)
    case Nil
    with again show ?thesis by simp
  next
    case (Cons d u')
    with again show ?thesis by auto
  qed
qed simp

lemma after_char_denotes: "s \<in> denotes (after_char c r) \<longleftrightarrow> c # s \<in> denotes r"
proof (induction r arbitrary: s)
  case (RSeq r1 r2)
  have split: "c # s = u @ v \<longleftrightarrow> (u = [] \<and> v = c # s) \<or> (\<exists>u'. u = c # u' \<and> s = u' @ v)" for u v
    by (cases u) auto
  show ?case
    using RSeq by (auto simp: split nullable_denotes)
next
  case (RStar r)
  show ?case
  proof
    assume "s \<in> denotes (after_char c (RStar r))"
    then show "c # s \<in> denotes (RStar r)"
      using RStar repeats.again by fastforce
  next
    assume "c # s \<in> denotes (RStar r)"
    then show "s \<in> denotes (after_char c (RStar r))"
      using RStar repeats_Cons by fastforce
  qed
qed auto

lemma MatchString_denotes: "MatchString r s \<longleftrightarrow> s \<in> denotes r"
  unfolding MatchString_def by (induction s arbitrary: r) (simp_all add: nullable_denotes after_char_denotes)

section \<open>Abbreviated forms\<close>

definition RPlus :: "regex \<Rightarrow> regex" where
  "RPlus r = RSeq r (RStar r)"

definition RTimes :: "nat \<Rightarrow> regex \<Rightarrow> regex" where
  "RTimes n r = (RSeq r ^^ n) REmpty"

text \<open>At least \<open>n\<close> times.\<close>

definition RAtLeast :: "nat \<Rightarrow> regex \<Rightarrow> regex" where
  "RAtLeast n r = (RSeq r ^^ n) (RStar r)"

lemma repeats_chars [simp]: "s \<in> repeats {[c] |c. p c} \<longleftrightarrow> list_all p s"
proof
  show "s \<in> repeats {[c] |c. p c} \<Longrightarrow> list_all p s"
    by (induction rule: repeats.induct) auto
  show "list_all p s \<Longrightarrow> s \<in> repeats {[c] |c. p c}"
  proof (induction s)
    case (Cons c s)
    then show ?case using repeats.again [of "[c]" "{[c] |c. p c}" s] by auto
  qed (simp add: repeats.stop)
qed

lemma seq_char:
  "[] \<notin> denotes (RSeq (RChar p) r)" "c # u \<in> denotes (RSeq (RChar p) r) \<longleftrightarrow> p c \<and> u \<in> denotes r"
  by (auto intro: exI [where x = "[c]"])

lemma denotes_plus [simp]: "s \<in> denotes (RPlus (RChar p)) \<longleftrightarrow> s \<noteq> [] \<and> list_all p s"
  by (cases s) (simp_all only: RPlus_def seq_char, simp_all)

lemma denotes_times [simp]: "s \<in> denotes (RTimes n (RChar p)) \<longleftrightarrow> length s = n \<and> list_all p s"
proof -
  have "s \<in> denotes ((RSeq (RChar p) ^^ n) REmpty) \<longleftrightarrow> length s = n \<and> list_all p s"
  proof (induction n arbitrary: s)
    case (Suc n)
    then show ?case by (cases s) (simp_all only: funpow.simps comp_apply seq_char, auto)
  qed auto
  then show ?thesis by (simp add: RTimes_def)
qed

lemma denotes_at_least [simp]: "s \<in> denotes (RAtLeast n (RChar p)) \<longleftrightarrow> n \<le> length s \<and> list_all p s"
proof -
  have "s \<in> denotes ((RSeq (RChar p) ^^ n) (RStar (RChar p))) \<longleftrightarrow> n \<le> length s \<and> list_all p s"
  proof (induction n arbitrary: s)
    case (Suc n)
    then show ?case by (cases s) (simp_all only: funpow.simps comp_apply seq_char, auto)
  qed simp
  then show ?thesis by (simp add: RAtLeast_def)
qed

section \<open>The expressions\<close>

definition is_letter :: "char \<Rightarrow> bool" where
  "is_letter c \<longleftrightarrow> is_lower c \<or> is_upper c"

definition is_alnum :: "char \<Rightarrow> bool" where
  "is_alnum c \<longleftrightarrow> is_letter c \<or> is_digit c"

definition local_char :: "char \<Rightarrow> bool" where
  "local_char c \<longleftrightarrow> is_alnum c \<or> c \<in> set ''._%+-''"

definition domain_char :: "char \<Rightarrow> bool" where
  "domain_char c \<longleftrightarrow> is_alnum c \<or> c \<in> set ''.-''"

definition emailRegex :: regex where
  "emailRegex = RSeq (RPlus (RChar local_char)) (RSeq (RChar (\<lambda>c. c = CHR ''@''))
     (RSeq (RPlus (RChar domain_char)) (RSeq (RChar (\<lambda>c. c = CHR ''.'')) (RAtLeast 2 (RChar is_letter)))))"

definition captchaRegex :: regex where
  "captchaRegex = RTimes 4 (RChar is_alnum)"

definition emailCodeRegex :: regex where
  "emailCodeRegex = RTimes 4 (RChar is_digit)"

lemma emailRegex_match:
  "MatchString emailRegex s \<longleftrightarrow>
     (\<exists>l d t. s = l @ ''@'' @ d @ ''.'' @ t \<and> l \<noteq> [] \<and> list_all local_char l \<and> d \<noteq> [] \<and> list_all domain_char d \<and>
        2 \<le> length t \<and> list_all is_letter t)"
  by (auto simp: MatchString_denotes emailRegex_def) (metis append_Cons append_Nil)

lemma captchaRegex_match: "MatchString captchaRegex s \<longleftrightarrow> length s = 4 \<and> list_all is_alnum s"
  by (simp add: MatchString_denotes captchaRegex_def)

lemma emailCodeRegex_match: "MatchString emailCodeRegex s \<longleftrightarrow> length s = 4 \<and> list_all is_digit s"
  by (simp add: MatchString_denotes emailCodeRegex_def)

end
