(* ===== verification/Auth_Controller.thy ===== *)
theory Auth_Controller
  imports OAuth2_Controller Regex
begin

text \<open>
  controllers/auth_controller.go and controllers/captcha_controller.go: registration, claimed accounts, the checks of
  credentials and tokens for other services, sign-out and the reset of a password by a mailed code.

  A count whose statement fails leaves its variable at zero, because the code does not look at the error.
\<close>

section \<open>Helpers\<close>

definition HashPassword :: "env \<Rightarrow> string \<Rightarrow> string option go" where
  "HashPassword E password = State (\<lambda>w. (bcrypt_hash E (draws w) password, w\<lparr>draws := Suc (draws w)\<rparr>))"

definition GenerateUnsignedUUID :: "env \<Rightarrow> string go" where
  "GenerateUnsignedUUID E = GenerateRandomToken E 16"

definition isValidEmail :: "env \<Rightarrow> string \<Rightarrow> bool" where
  "isValidEmail E email = valid_address E email"

definition unchecked_count :: "env \<Rightarrow> (user \<Rightarrow> bool) \<Rightarrow> nat go" where
  "unchecked_count E P = do { r \<leftarrow> db_count E users P; ret (case r of Inl _ \<Rightarrow> 0 | Inr n \<Rightarrow> n) }"

definition new_user :: "nat \<Rightarrow> string \<Rightarrow> string \<Rightarrow> string \<Rightarrow> string \<Rightarrow> string \<Rightarrow> time \<Rightarrow> bool \<Rightarrow> user" where
  "new_user uid uuid email username hash ip t verified =
     \<lparr>UID = uid, u_UUID = uuid, Email = email, Avatar = [], u_Password = hash, IP = ip, Permission = 0, LastSignAt = Some t,
      RegisterAt = Some t, Verified = verified, Username = username, RegIP = ip, TOTP = [], TwoFA = False,
      WebAuthn2FAEnabled = False, Email2FAEnabled = False, RecoveryKey = [], RecoveryKeyEnabled = False, u_DeletedAt = None\<rparr>"

definition ids_json :: "user \<Rightarrow> json" where
  "ids_json u = JObj [(''uid'', num (UID u)), (''uuid'', JStr (u_UUID u))]"

definition blank_line :: string where
  "blank_line = [CHR 0x0A, CHR 0x0A]"

section \<open>For other services\<close>

definition VerifyToken :: "env \<Rightarrow> request \<Rightarrow> string option \<Rightarrow> response go" where
  "VerifyToken E rq bound = continue_with (RequireAuthLevel E rq SecurityLevelOps) (\<lambda>_.
     (case bound of None \<Rightarrow> ret (respondError rq 400 ''invalid_json_body'' ''Invalid request body'')
      | Some token \<Rightarrow> do {
          r \<leftarrow> ResolveAccessToken E token;
          ret (case r of
            Inl _ \<Rightarrow> respondError rq 401 ''oauth_invalid_grant'' ''Invalid or expired token''
          | Inr tc \<Rightarrow>
            if tc_IsService tc then respondOK rq ''Token verified'' (Some (JObj [(''is_service'', JBool True),
              (''scopes'', strs_json (tc_Scopes tc))]))
            else case tc_User tc of
              None \<Rightarrow> respondError rq 401 ''oauth_invalid_grant'' ''Token is not associated with a user''
            | Some u \<Rightarrow> respondOK rq ''Token verified'' (Some (JObj [(''uid'', num (UID u)), (''uuid'', JStr (u_UUID u)),
                (''email'', JStr (Email u)), (''username'', JStr (Username u)), (''is_service'', JBool False),
                (''scopes'', strs_json (tc_Scopes tc))])))
        }))"

definition VerifyCredentialsInternal :: "env \<Rightarrow> request \<Rightarrow> (string \<times> string) option \<Rightarrow> response go" where
  "VerifyCredentialsInternal E rq bound = continue_with (RequireAuthLevel E rq SecurityLevelOps) (\<lambda>_.
     (case bound of None \<Rightarrow> ret (Json 400 [(''error'', JStr ''invalid request'')])
      | Some (identifier, password) \<Rightarrow> do {
          r \<leftarrow> VerifyCredentials E identifier password True;
          ret (case r of
            None \<Rightarrow> Json 401 [(''error'', JStr ''invalid credentials'')]
          | Some info \<Rightarrow> Json 200 [(''UUID'', JStr (ui_UUID info)), (''Email'', JStr (ui_Email info)),
              (''Username'', JStr (ui_Username info)), (''Password'', JStr (ui_Password info))])
        }))"

definition create_user :: "env \<Rightarrow> request \<Rightarrow> user \<Rightarrow> string \<Rightarrow> response go" where
  "create_user E rq u message = do {
     r \<leftarrow> insert_user E u;
     ret (case r of
       Inl _ \<Rightarrow> respondError rq 500 ''internal_error'' ''Failed to create user''
     | Inr u \<Rightarrow> respondOK rq message (Some (ids_json u)))
   }"

definition claim_checked :: "env \<Rightarrow> request \<Rightarrow> string \<Rightarrow> string \<Rightarrow> string \<Rightarrow> response go" where
  "claim_checked E rq username email password = do {
     existing \<leftarrow> db_first E users (\<lambda>u. coll E (Username u) = coll E username);
     case existing of
       Inr u \<Rightarrow> ret (if Email u = email then respondOK rq ''User claimed'' (Some (ids_json u))
         else respondError rq 409 ''username_already_bound'' ''Username already bound'')
     | Inl _ \<Rightarrow> do {
         emailCount \<leftarrow> unchecked_count E (\<lambda>u. coll E (Email u) = coll E email);
         if emailCount > 0 then ret (respondError rq 409 ''email_already_registered'' ''Email already registered'')
         else do {
           hash \<leftarrow> HashPassword E password;
           case hash of
             None \<Rightarrow> ret (respondError rq 500 ''internal_error'' ''Password hashing failed'')
           | Some h \<Rightarrow> do {
               maxUID \<leftarrow> max_uid E;
               t \<leftarrow> now E;
               uuid \<leftarrow> GenerateUnsignedUUID E;
               create_user E rq (new_user (maxUID + 1) uuid email username h [] t True) ''User claimed''
             }
         }
       }
   }"

definition ClaimUserInternal :: "env \<Rightarrow> request \<Rightarrow> (string \<times> string \<times> string) option \<Rightarrow> response go" where
  "ClaimUserInternal E rq bound = continue_with (RequireAuthLevel E rq SecurityLevelOps) (\<lambda>_.
     (case bound of None \<Rightarrow> ret (respondError rq 400 ''invalid_json_body'' ''Invalid request body'')
      | Some (name, mail, password) \<Rightarrow>
        let username = TrimSpace name; email = ToLower (TrimSpace mail) in
        if length username < 3 then ret (respondError rq 400 ''username_too_short'' ''Username too short'')
        else if \<not> isValidEmail E email then ret (respondError rq 400 ''invalid_email'' ''Invalid email'')
        else if length password < 6 then ret (respondError rq 400 ''password_too_short'' ''Password too short'')
        else claim_checked E rq username email password))"

section \<open>Registration\<close>

record register_request =
  gq_Email :: string
  gq_Username :: string
  gq_Password :: string
  gq_CaptchaToken :: string
  gq_CaptchaCode :: string

definition captcha_refused :: "request \<Rightarrow> response" where
  "captcha_refused rq = respondError rq 400 ''captcha_invalid'' ''Invalid or expired captcha''"

definition register_captcha :: "env \<Rightarrow> request \<Rightarrow> register_request \<Rightarrow> unit step" where
  "register_captcha E rq req =
     (if \<not> EnableCaptcha (security E) then ret (Inr ())
      else if gq_CaptchaToken req = [] \<or> gq_CaptchaCode req = [] then ret (Inl (captcha_refused rq))
      else do {
        ok \<leftarrow> captcha_Verify E (gq_CaptchaToken req) (gq_CaptchaCode req);
        ret (if ok then Inr () else Inl (captcha_refused rq))
      })"

definition create_account :: "env \<Rightarrow> request \<Rightarrow> register_request \<Rightarrow> response go" where
  "create_account E rq req = do {
     hash \<leftarrow> HashPassword E (gq_Password req);
     case hash of
       None \<Rightarrow> ret (respondError rq 500 ''internal_error'' ''Password hashing failed'')
     | Some h \<Rightarrow> do {
         t \<leftarrow> now E;
         emails \<leftarrow> unchecked_count E (\<lambda>u. coll E (Email u) = coll E (gq_Email req));
         if emails > 0 then ret (respondError rq 409 ''email_already_registered'' ''Email already registered'')
         else do {
           names \<leftarrow> unchecked_count E (\<lambda>u. coll E (Username u) = coll E (gq_Username req));
           if names > 0 then ret (respondError rq 409 ''username_already_taken'' ''Username already taken'')
           else do {
             maxUID \<leftarrow> max_uid E;
             uuid \<leftarrow> GenerateUnsignedUUID E;
             create_user E rq (new_user (maxUID + 1) uuid (gq_Email req) (gq_Username req) h (rq_IP rq) t False) ''Register successful''
           }
         }
       }
   }"

definition Register :: "env \<Rightarrow> request \<Rightarrow> register_request option \<Rightarrow> response go" where
  "Register E rq bound =
     (case bound of None \<Rightarrow> ret (respondError rq 400 ''invalid_json_body'' ''Invalid request body'')
      | Some req \<Rightarrow>
        if length (gq_Username req) < 3 then ret (respondError rq 400 ''username_too_short'' ''Username too short'')
        else if length (gq_Password req) < 6 then ret (respondError rq 400 ''password_too_short'' ''Password too short'')
        else if \<not> isValidEmail E (gq_Email req) then ret (respondError rq 400 ''invalid_email'' ''Invalid email'')
        else continue_with (register_captcha E rq req) (\<lambda>_. create_account E rq req))"

section \<open>Signing out and resetting a password\<close>

definition Logout :: "env \<Rightarrow> request \<Rightarrow> response go" where
  "Logout E rq =
     (let accessToken = bearerTokenFromRequest rq in
      if accessToken = [] then ret (respondError rq 401 ''oauth_login_required'' ''missing bearer token'')
      else do {
        r \<leftarrow> RevokeAccessToken E accessToken;
        ret (case r of Inl _ \<Rightarrow> respondError rq 500 ''internal_error'' ''Failed to revoke token''
          | Inr _ \<Rightarrow> respondOK rq ''Logout successful'' None)
      })"

definition forgot_answer :: "request \<Rightarrow> response" where
  "forgot_answer rq = respondOK rq ''If the email is registered, a verification code has been sent.'' None"

definition mail_reset_code :: "env \<Rightarrow> request \<Rightarrow> string \<Rightarrow> response go" where
  "mail_reset_code E rq email = do {
     code \<leftarrow> Generate4DigitCode E;
     stored \<leftarrow> code_Store E email code;
     if \<not> stored then ret (respondError rq 500 ''internal_error'' ''Failed to store verification code'')
     else do {
       sent \<leftarrow> SendMail E email ''HRPAuth - Password Recovery''
         (''Your password recovery code is: '' @ code @ blank_line @
          ''The code is valid for 10 minutes. If you did not request this, please ignore this email.'');
       case sent of
         Inl _ \<Rightarrow> do {
           _ \<leftarrow> code_Delete E email;
           ret (respondError rq 500 ''email_send_failed'' ''Failed to send recovery email'')
         }
       | Inr _ \<Rightarrow> ret (forgot_answer rq)
     }
   }"

definition ForgotPassword :: "env \<Rightarrow> request \<Rightarrow> (string \<times> string \<times> string) option \<Rightarrow> response go" where
  "ForgotPassword E rq bound =
     (case bound of None \<Rightarrow> ret (respondError rq 400 ''invalid_json_body'' ''Invalid request body'')
      | Some (mail, captchaToken, code) \<Rightarrow>
        let email = TrimSpace mail; captchaCode = TrimSpace code in
        if \<not> MatchString emailRegex email then ret (respondError rq 400 ''invalid_email'' ''Invalid email format'')
        else if \<not> MatchString captchaRegex captchaCode then ret (respondError rq 400 ''captcha_invalid'' ''Invalid captcha format'')
        else if captchaToken = [] then ret (captcha_refused rq)
        else do {
          ok \<leftarrow> captcha_Verify E captchaToken captchaCode;
          if \<not> ok then ret (captcha_refused rq)
          else do {
            found \<leftarrow> db_first E users (\<lambda>u. coll E (Email u) = coll E email);
            case found of
              Inl e \<Rightarrow> ret (if e = Db RecordNotFound then forgot_answer rq else respondError rq 500 ''internal_error'' ''Database error'')
            | Inr _ \<Rightarrow> mail_reset_code E rq email
          }
        })"

definition set_password :: "env \<Rightarrow> request \<Rightarrow> string \<Rightarrow> string \<Rightarrow> response go" where
  "set_password E rq email newPassword = do {
     hash \<leftarrow> HashPassword E newPassword;
     case hash of
       None \<Rightarrow> ret (respondError rq 500 ''internal_error'' ''Password hashing failed'')
     | Some h \<Rightarrow> do {
         r \<leftarrow> update_users E (\<lambda>u. coll E (Email u) = coll E email) (\<lambda>u. u\<lparr>u_Password := h\<rparr>);
         case r of
           Inl _ \<Rightarrow> ret (respondError rq 500 ''internal_error'' ''Failed to update password'')
         | Inr affected \<Rightarrow>
           if affected = 0 then ret (respondError rq 404 ''user_not_found'' ''User not found'')
           else do {
             _ \<leftarrow> code_Delete E email;
             ret (respondOK rq ''Password reset successful'' None)
           }
       }
   }"

definition bad_code :: "request \<Rightarrow> response" where
  "bad_code rq = respondError rq 400 ''verification_code_invalid'' ''Invalid or expired verification code''"

definition ResetPassword :: "env \<Rightarrow> request \<Rightarrow> (string \<times> string \<times> string) option \<Rightarrow> response go" where
  "ResetPassword E rq bound =
     (case bound of None \<Rightarrow> ret (respondError rq 400 ''invalid_json_body'' ''Invalid request body'')
      | Some (mail, c, newPassword) \<Rightarrow>
        let email = TrimSpace mail; code = TrimSpace c in
        if \<not> MatchString emailRegex email then ret (respondError rq 400 ''invalid_email'' ''Invalid email format'')
        else if \<not> MatchString emailCodeRegex code
        then ret (respondError rq 400 ''verification_code_invalid'' ''Invalid verification code format'')
        else if length newPassword < 6 then ret (respondError rq 400 ''password_too_short'' ''Password too short'')
        else do {
          stored \<leftarrow> code_Get E email;
          if stored \<noteq> Some code then ret (bad_code rq) else set_password E rq email newPassword
        })"

section \<open>Captchas\<close>

definition captcha_endpoint_Status :: "env \<Rightarrow> request \<Rightarrow> response go" where
  "captcha_endpoint_Status E rq = ret (respondOK rq ''Captcha status retrieved''
     (Some (JObj [(''enabled'', JNum (if EnableCaptcha (security E) then ''1'' else ''0''))])))"

definition captcha_endpoint_Generate :: "env \<Rightarrow> request \<Rightarrow> response go" where
  "captcha_endpoint_Generate E rq =
     (if \<not> EnableCaptcha (security E) then ret (respondError rq 403 ''captcha_disabled'' ''Captcha is disabled'')
      else do {
        r \<leftarrow> captcha_Generate E;
        ret (case r of
          Inl _ \<Rightarrow> respondError rq 500 ''internal_error'' ''Failed to generate captcha''
        | Inr (token, _) \<Rightarrow> respondOK rq ''Captcha generated successfully'' (Some (JObj [(''token'', JStr token),
            (''image_url'', JStr (''/captcha/image/'' @ token)), (''expires_in'', JNum (int_text (CaptchaTTL (security E))))])))
      })"

definition captcha_endpoint_Image :: "env \<Rightarrow> request \<Rightarrow> string \<Rightarrow> response go" where
  "captcha_endpoint_Image E rq token =
     (if token = [] then ret (respondError rq 400 ''invalid_request'' ''Missing captcha token'')
      else do {
        r \<leftarrow> captcha_Render E token;
        ret (case r of None \<Rightarrow> respondError rq 404 ''captcha_invalid'' ''Captcha not found or expired''
          | Some png \<Rightarrow> Data 200 ''image/png'' png)
      })"

end
