(* ===== verification/WebAuthn_Service.thy ===== *)
theory WebAuthn_Service
  imports Auth_Controller
begin

text \<open>
  services/webauthn_service.go: passkeys. The cryptography is the third-party library of the environment; what is modelled
  is which account and which stored session each ceremony is run for, and what it changes.

  A ceremony is a flow: an entry of the key-value server with the kind of the ceremony, its account, its login ticket
  and the session data of the library. The debug reports the source posts to a port of the local machine are left out,
  as are log lines. \<open>instance\<close> calls \<open>wa.New\<close> once and keeps the result; it is a function of the configuration.
\<close>

section \<open>Accounts and their credentials\<close>

definition WebAuthnName :: "user \<Rightarrow> string" where
  "WebAuthnName u = (if TrimSpace (Email u) \<noteq> [] then Email u else Username u)"

definition WebAuthnDisplayName :: "user \<Rightarrow> string" where
  "WebAuthnDisplayName u = (if TrimSpace (Username u) \<noteq> [] then Username u else WebAuthnName u)"

definition identity_of :: "user \<Rightarrow> string list \<Rightarrow> webauthn_identity" where
  "identity_of u creds = \<lparr>wi_ID = u_UUID u, wi_Name = WebAuthnName u, wi_DisplayName = WebAuthnDisplayName u, wi_Credentials = creds\<rparr>"

definition encodeCredentialID :: "string \<Rightarrow> string" where
  "encodeCredentialID raw = b64_raw_url raw"

definition credentialIDHash :: "string \<Rightarrow> string" where
  "credentialIDHash raw = hex_encode (sha256 raw)"

definition ListCredentials :: "env \<Rightarrow> string \<Rightarrow> webauthn_credential list result_of" where
  "ListCredentials E userUUID = do {
     r \<leftarrow> db_find E credentials (\<lambda>c. coll E (wc_UserID c) = coll E userUUID);
     ret (case r of Inl e \<Rightarrow> Inl e | Inr rows \<Rightarrow> Inr (sort_key (\<lambda>c. - credential_created E (wc_ID c)) rows))
   }"

text \<open>The texts of the stored credentials, as the library reads them; an error is the decoder's.\<close>

fun decode_credentials :: "env \<Rightarrow> webauthn_credential list \<Rightarrow> string list option" where
  "decode_credentials E [] = Some []"
| "decode_credentials E (row # rows) =
     (case wl_credential (webauthn E) (wc_CredentialJSON row) of
        None \<Rightarrow> None
      | Some c \<Rightarrow> map_option (\<lambda>cs. c # cs) (decode_credentials E rows))"

definition loadIdentityByUUIDWithCredentialRequirement :: "env \<Rightarrow> string \<Rightarrow> bool \<Rightarrow> (user \<times> string list) result_of" where
  "loadIdentityByUUIDWithCredentialRequirement E userUUID requireCredentials = do {
     found \<leftarrow> db_first E users (by_uuid E userUUID);
     case found of
       Inl e \<Rightarrow> ret (Inl e)
     | Inr u \<Rightarrow> do {
         listed \<leftarrow> ListCredentials E userUUID;
         case listed of
           Inl e \<Rightarrow> ret (Inl e)
         | Inr rows \<Rightarrow>
           if requireCredentials \<and> rows = [] then ret (Inl (WebAuthn (NotConfigured None)))
           else do {
             n \<leftarrow> gets stmts;
             ret (case decode_credentials E rows of None \<Rightarrow> Inl (OtherError (error_text E n)) | Some creds \<Rightarrow> Inr (u, creds))
           }
       }
   }"

definition loadIdentityByUUID :: "env \<Rightarrow> string \<Rightarrow> (user \<times> string list) result_of" where
  "loadIdentityByUUID E userUUID = loadIdentityByUUIDWithCredentialRequirement E userUUID True"

definition loadIdentityByUUIDAllowEmpty :: "env \<Rightarrow> string \<Rightarrow> (user \<times> string list) result_of" where
  "loadIdentityByUUIDAllowEmpty E userUUID = loadIdentityByUUIDWithCredentialRequirement E userUUID False"

text \<open>A step of the service that may fail, and the rest.\<close>

definition then_try :: "'a result_of \<Rightarrow> ('a \<Rightarrow> 'b result_of) \<Rightarrow> 'b result_of" where
  "then_try m f = do { r \<leftarrow> m; case r of Inl e \<Rightarrow> ret (Inl e) | Inr x \<Rightarrow> f x }"

definition loadIdentityByEmail :: "env \<Rightarrow> string \<Rightarrow> (user \<times> string list) result_of" where
  "loadIdentityByEmail E email =
     then_try (db_first E users (\<lambda>u. coll E (Email u) = coll E email)) (\<lambda>u. loadIdentityByUUID E (u_UUID u))"

definition lookupIdentityByCredential :: "env \<Rightarrow> string \<Rightarrow> string \<Rightarrow> (user \<times> string list) result_of" where
  "lookupIdentityByCredential E rawID userHandle =
     then_try (db_first E credentials (\<lambda>c. coll E (wc_CredentialIDHash c) = coll E (credentialIDHash rawID))) (\<lambda>row.
       then_try (loadIdentityByUUID E (wc_UserID row)) (\<lambda>(u, creds).
         ret (if userHandle \<noteq> [] \<and> userHandle \<noteq> u_UUID u then Inl (OtherError ''user handle mismatch'') else Inr (u, creds))))"

definition insertCredential :: "env \<Rightarrow> string \<Rightarrow> string \<Rightarrow> string \<Rightarrow> webauthn_credential result_of" where
  "insertCredential E userUUID name credential =
     (let raw = wl_credential_id (webauthn E) credential in
      insert_credential E \<lparr>wc_ID = 0, wc_UserID = userUUID, wc_Name = name, wc_CredentialID = encodeCredentialID raw,
        wc_CredentialIDHash = credentialIDHash raw, wc_CredentialJSON = credential, wc_LastUsedAt = None\<rparr>)"

definition updateCredential :: "env \<Rightarrow> string \<Rightarrow> string \<Rightarrow> unit result_of" where
  "updateCredential E userUUID credential = do {
     t \<leftarrow> now E;
     then_try (update_credentials E
         (\<lambda>c. coll E (wc_UserID c) = coll E userUUID \<and>
            coll E (wc_CredentialIDHash c) = coll E (credentialIDHash (wl_credential_id (webauthn E) credential)))
         (\<lambda>c. c\<lparr>wc_CredentialJSON := credential, wc_LastUsedAt := Some (db_ts E t)\<rparr>))
       (\<lambda>n. ret (if n = 0 then Inl (WebAuthn CredentialNotFound) else Inr ()))
   }"

section \<open>Flows\<close>

record flow =
  fl_Type :: string
  fl_UserID :: string
  fl_LoginTicket :: string
  fl_CredentialName :: string
  fl_SessionData :: json

definition flow_json :: "flow \<Rightarrow> json" where
  "flow_json f = JObj ([(''type'', JStr (fl_Type f))] @ opt_str ''user_id'' (fl_UserID f) @
     opt_str ''login_ticket'' (fl_LoginTicket f) @ opt_str ''credential_name'' (fl_CredentialName f) @
     [(''session_data'', fl_SessionData f)])"

definition read_session :: "env \<Rightarrow> json \<Rightarrow> json \<Rightarrow> json option" where
  "read_session E v old = wl_session (webauthn E) v"

definition read_flow :: "env \<Rightarrow> (string \<times> json) list \<Rightarrow> flow option" where
  "read_flow E kvs =
     (case (obj_field read_str ''type'' [] kvs, obj_field read_str ''user_id'' [] kvs, obj_field read_str ''login_ticket'' [] kvs,
            obj_field read_str ''credential_name'' [] kvs, obj_field (read_session E) ''session_data'' (JObj []) kvs) of
        (Some t, Some u, Some l, Some n, Some s) \<Rightarrow>
          Some \<lparr>fl_Type = t, fl_UserID = u, fl_LoginTicket = l, fl_CredentialName = n, fl_SessionData = s\<rparr>
      | _ \<Rightarrow> None)"

definition flow_key :: "env \<Rightarrow> string \<Rightarrow> string" where
  "flow_key E flowID = redis_prefix E @ ''webauthn:flow:'' @ flowID"

text \<open>\<open>time.Until\<close> stops at the largest duration.\<close>

definition flow_ttl :: "env \<Rightarrow> flow \<Rightarrow> int go" where
  "flow_ttl E f =
     (let ttl = seconds (SessionTTL (webauthn_cfg E)); expires = wl_Expires (webauthn E) (fl_SessionData f) in do {
        ttl \<leftarrow> (if expires = zero_time then ret ttl
          else do {
            t \<leftarrow> now E;
            let until = min (expires - t) 9223372036854775807;
            ret (if until > 0 then until else ttl)
          });
        ret (if ttl \<le> 0 then seconds 300 else ttl)
      })"

definition saveFlow :: "env \<Rightarrow> flow \<Rightarrow> string result_of" where
  "saveFlow E f = do {
     flowID \<leftarrow> GenerateRandomToken E 24;
     ttl \<leftarrow> flow_ttl E f;
     n \<leftarrow> gets cmds;
     r \<leftarrow> kv_set E (flow_key E flowID) (print_json (flow_json f)) ttl;
     ret (case r of Inl _ \<Rightarrow> Inl (OtherError (error_text E n)) | Inr _ \<Rightarrow> Inr flowID)
   }"

definition getFlow :: "env \<Rightarrow> string \<Rightarrow> flow result_of" where
  "getFlow E raw_id =
     (let flowID = TrimSpace raw_id in
      if flowID = [] then ret (Inl (WebAuthn InvalidFlow))
      else do {
        raw \<leftarrow> kv_get E (flow_key E flowID);
        ret (case raw of
          Inl _ \<Rightarrow> Inl (WebAuthn InvalidFlow)
        | Inr s \<Rightarrow> (case Option.bind (parse_json s) (read_struct (read_flow E)) of
            None \<Rightarrow> Inl (WebAuthn InvalidFlow) | Some f \<Rightarrow> Inr f))
      })"

definition deleteFlow :: "env \<Rightarrow> string \<Rightarrow> (world, kv_error + unit) state" where
  "deleteFlow E flowID = kv_del E (flow_key E (TrimSpace flowID))"

section \<open>The library\<close>

definition instance_config :: "webauthn_config \<Rightarrow> wa_config" where
  "instance_config cfg =
     \<lparr>wc_RPDisplayName = RPDisplayName cfg, wc_RPID = RPID cfg, wc_RPOrigins = RPOrigins cfg,
      wc_Login = \<lparr>wt_Enforce = True, wt_Timeout = seconds (SessionTTL cfg)\<rparr>,
      wc_Registration = \<lparr>wt_Enforce = True, wt_Timeout = seconds (SessionTTL cfg)\<rparr>\<rparr>"

definition wa_instance :: "env \<Rightarrow> unit result_of" where
  "wa_instance E = ret (case wl_New (webauthn E) (instance_config (webauthn_cfg E)) of None \<Rightarrow> Inr () | Some e \<Rightarrow> Inl (WebAuthn (NotConfigured (Some e))))"

text \<open>A call of the library; calls are told apart by the draws from the random source before them.\<close>

definition wa_call :: "(nat \<Rightarrow> string + 'a) \<Rightarrow> 'a result_of" where
  "wa_call f = State (\<lambda>w. (case f (draws w) of Inl e \<Rightarrow> Inl (OtherError e) | Inr x \<Rightarrow> Inr x, w\<lparr>draws := Suc (draws w)\<rparr>))"

definition wa_parse :: "string + 'a \<Rightarrow> 'a result_of" where
  "wa_parse r = ret (case r of Inl e \<Rightarrow> Inl (OtherError e) | Inr x \<Rightarrow> Inr x)"

definition security_key_words :: "string list" where
  "security_key_words = [''cross-platform'', ''cross_platform'', ''security-key'', ''security_key'']"

definition parseAuthenticatorAttachment :: "string \<Rightarrow> go_error + string" where
  "parseAuthenticatorAttachment v =
     (let w = TrimSpace (ToLower v) in
      if w = ''platform'' then Inr ''platform''
      else if w \<in> set security_key_words then Inr ''cross-platform''
      else Inl (OtherError ''invalid authenticator attachment''))"

definition defaultCredentialName :: "string \<Rightarrow> string \<Rightarrow> string" where
  "defaultCredentialName n attachment =
     (let name = TrimSpace n; w = TrimSpace (ToLower attachment) in
      if name \<noteq> [] then name
      else if w = ''platform'' then ''Platform Passkey''
      else if w \<in> set security_key_words then ''Security Key''
      else ''Passkey'')"

section \<open>Ceremonies\<close>

definition BeginRegistration :: "env \<Rightarrow> user \<Rightarrow> string \<Rightarrow> string \<Rightarrow> (json \<times> string) result_of" where
  "BeginRegistration E usr credentialName attachment =
     then_try (loadIdentityByUUIDAllowEmpty E (u_UUID usr)) (\<lambda>(u, creds).
     then_try (wa_instance E) (\<lambda>_.
     then_try (ret (if attachment = [] then Inr [] else parseAuthenticatorAttachment attachment)) (\<lambda>selection.
     then_try (wa_call (\<lambda>n. wl_BeginRegistration (webauthn E) n (identity_of u creds) selection)) (\<lambda>(creation, session).
     then_try (saveFlow E \<lparr>fl_Type = ''register'', fl_UserID = u_UUID usr, fl_LoginTicket = [],
         fl_CredentialName = defaultCredentialName credentialName attachment, fl_SessionData = session\<rparr>) (\<lambda>flowID.
     ret (Inr (creation, flowID)))))))"

definition FinishRegistration :: "env \<Rightarrow> string \<Rightarrow> string \<Rightarrow> string \<Rightarrow> webauthn_credential result_of" where
  "FinishRegistration E flowID expectedUserID payload =
     then_try (getFlow E flowID) (\<lambda>f.
     if fl_Type f \<noteq> ''register'' \<or> fl_UserID f = [] then ret (Inl (WebAuthn InvalidFlow))
     else if TrimSpace expectedUserID = [] \<or> fl_UserID f \<noteq> expectedUserID then ret (Inl (WebAuthn InvalidFlow))
     else
     then_try (loadIdentityByUUIDAllowEmpty E (fl_UserID f)) (\<lambda>(u, creds).
     then_try (wa_instance E) (\<lambda>_.
     then_try (wa_parse (wl_ParseCreation (webauthn E) payload)) (\<lambda>parsed.
     then_try (wa_call (\<lambda>n. wl_CreateCredential (webauthn E) n (identity_of u creds) (fl_SessionData f) parsed)) (\<lambda>credential.
     then_try (insertCredential E (fl_UserID f) (fl_CredentialName f) credential) (\<lambda>row. do {
       _ \<leftarrow> deleteFlow E flowID;
       ret (Inr row)
     }))))))"

text \<open>The three sign-in ceremonies for a known account.\<close>

definition begin_login :: "env \<Rightarrow> (user \<times> string list) result_of \<Rightarrow> string \<Rightarrow> string \<Rightarrow> (user \<Rightarrow> string) \<Rightarrow> string \<Rightarrow> (json \<times> string) result_of" where
  "begin_login E load verification kind owner loginTicket =
     then_try load (\<lambda>(u, creds).
     if creds = [] then ret (Inl (WebAuthn (NotConfigured None)))
     else
     then_try (wa_instance E) (\<lambda>_.
     then_try (wa_call (\<lambda>n. wl_BeginLogin (webauthn E) n (identity_of u creds) verification)) (\<lambda>(assertion, session).
     then_try (saveFlow E \<lparr>fl_Type = kind, fl_UserID = owner u, fl_LoginTicket = loginTicket, fl_CredentialName = [],
         fl_SessionData = session\<rparr>) (\<lambda>flowID.
     ret (Inr (assertion, flowID))))))"

definition BeginUserLoginByEmail :: "env \<Rightarrow> string \<Rightarrow> (json \<times> string) result_of" where
  "BeginUserLoginByEmail E email =
     (let normalized = TrimSpace (ToLower email) in
      if normalized = [] then ret (Inl (WebAuthn (NotConfigured None)))
      else begin_login E (loadIdentityByEmail E normalized) ''required'' ''login'' u_UUID [])"

definition BeginSecondFactorLogin :: "env \<Rightarrow> string \<Rightarrow> string \<Rightarrow> (json \<times> string) result_of" where
  "BeginSecondFactorLogin E userUUID loginTicket =
     begin_login E (loadIdentityByUUID E userUUID) ''preferred'' ''second_factor'' (\<lambda>_. userUUID) loginTicket"

definition BeginSudoLogin :: "env \<Rightarrow> string \<Rightarrow> (json \<times> string) result_of" where
  "BeginSudoLogin E userUUID = begin_login E (loadIdentityByUUID E userUUID) ''preferred'' ''sudo'' (\<lambda>_. userUUID) []"

definition BeginDiscoverableLogin :: "env \<Rightarrow> (json \<times> string) result_of" where
  "BeginDiscoverableLogin E =
     then_try (wa_instance E) (\<lambda>_.
     then_try (wa_call (\<lambda>n. wl_BeginDiscoverableLogin (webauthn E) n ''required'')) (\<lambda>(assertion, session).
     then_try (saveFlow E \<lparr>fl_Type = ''discoverable_login'', fl_UserID = [], fl_LoginTicket = [], fl_CredentialName = [],
         fl_SessionData = session\<rparr>) (\<lambda>flowID.
     ret (Inr (assertion, flowID)))))"

text \<open>The end of a sign-in: the credential is stored with its new counter and the flow is gone.\<close>

definition login_done :: "env \<Rightarrow> string \<Rightarrow> user \<Rightarrow> string \<Rightarrow> user result_of" where
  "login_done E flowID u credential =
     then_try (updateCredential E (u_UUID u) credential) (\<lambda>_. do {
       _ \<leftarrow> deleteFlow E flowID;
       ret (Inr u)
     })"

definition validate_login :: "env \<Rightarrow> string \<Rightarrow> flow \<Rightarrow> string \<Rightarrow> user result_of" where
  "validate_login E flowID f parsed =
     then_try (loadIdentityByUUID E (fl_UserID f)) (\<lambda>(u, creds).
     then_try (wa_call (\<lambda>n. wl_ValidateLogin (webauthn E) n (identity_of u creds) (fl_SessionData f) parsed)) (\<lambda>credential.
     login_done E flowID u credential))"

text \<open>The library calls back with the credential id and the user handle of the assertion.\<close>

definition validate_passkey :: "env \<Rightarrow> string \<Rightarrow> flow \<Rightarrow> string \<Rightarrow> user result_of" where
  "validate_passkey E flowID f parsed =
     then_try (wa_call (\<lambda>n. wl_handle (webauthn E) n (fl_SessionData f) parsed)) (\<lambda>(rawID, userHandle).
     then_try (do {
         r \<leftarrow> lookupIdentityByCredential E rawID userHandle;
         ret (case r of Inl e \<Rightarrow> Inl (wl_lookup_error (webauthn E) e) | Inr x \<Rightarrow> Inr x)
       }) (\<lambda>(u, creds).
     then_try (wa_call (\<lambda>n. wl_ValidatePasskeyLogin (webauthn E) n (identity_of u creds) (fl_SessionData f) parsed)) (\<lambda>credential.
     login_done E flowID u credential)))"

definition ticket_alive :: "env \<Rightarrow> flow \<Rightarrow> unit result_of" where
  "ticket_alive E f =
     (if fl_Type f \<noteq> ''second_factor'' then ret (Inr ())
      else if TrimSpace (fl_LoginTicket f) = [] then ret (Inl (WebAuthn InvalidFlow))
      else do {
        r \<leftarrow> kv_get E (login_ticket_key E (fl_LoginTicket f));
        ret (case r of Inl _ \<Rightarrow> Inl (WebAuthn InvalidFlow) | Inr _ \<Rightarrow> Inr ())
      })"

definition FinishLogin :: "env \<Rightarrow> string \<Rightarrow> string \<Rightarrow> user result_of" where
  "FinishLogin E flowID payload =
     then_try (getFlow E flowID) (\<lambda>f.
     then_try (ticket_alive E f) (\<lambda>_.
     then_try (wa_parse (wl_ParseAssertion (webauthn E) payload)) (\<lambda>parsed.
     then_try (wa_instance E) (\<lambda>_.
     if fl_Type f \<in> {''login'', ''second_factor'', ''sudo''} then validate_login E flowID f parsed
     else if fl_Type f = ''discoverable_login'' then validate_passkey E flowID f parsed
     else ret (Inl (WebAuthn InvalidFlow))))))"

definition FinishSecondFactor :: "env \<Rightarrow> string \<Rightarrow> string \<Rightarrow> (user \<times> string) result_of" where
  "FinishSecondFactor E flowID payload =
     then_try (getFlow E flowID) (\<lambda>f.
     if fl_Type f \<noteq> ''second_factor'' \<or> TrimSpace (fl_LoginTicket f) = [] then ret (Inl (WebAuthn InvalidFlow))
     else then_try (FinishLogin E flowID payload) (\<lambda>u. ret (Inr (u, fl_LoginTicket f))))"

section \<open>Managing credentials\<close>

definition DeleteCredential :: "env \<Rightarrow> string \<Rightarrow> nat \<Rightarrow> unit result_of" where
  "DeleteCredential E userUUID cid = transaction E (
     then_try (delete_credentials E (\<lambda>c. wc_ID c = cid \<and> coll E (wc_UserID c) = coll E userUUID)) (\<lambda>affected.
     if affected = 0 then ret (Inl (WebAuthn CredentialNotFound))
     else then_try (CountCredentials E userUUID) (\<lambda>count.
     if count = 0
     then then_try (update_users E (by_uuid E userUUID) (\<lambda>u. u\<lparr>WebAuthn2FAEnabled := False\<rparr>)) (\<lambda>_. ret (Inr ()))
     else ret (Inr ()))))"

definition SetTwoFactorEnabled :: "env \<Rightarrow> string \<Rightarrow> bool \<Rightarrow> unit result_of" where
  "SetTwoFactorEnabled E userUUID enabled =
     then_try (if enabled then then_try (CountCredentials E userUUID) (\<lambda>count.
         ret (if count = 0 then Inl (WebAuthn (NotConfigured None)) else Inr ()))
       else ret (Inr ())) (\<lambda>_.
     then_try (update_users E (by_uuid E userUUID) (\<lambda>u. u\<lparr>WebAuthn2FAEnabled := enabled\<rparr>)) (\<lambda>_. ret (Inr ())))"

definition AvailabilityError :: "env \<Rightarrow> go_error option" where
  "AvailabilityError E = (case wl_New (webauthn E) (instance_config (webauthn_cfg E)) of None \<Rightarrow> None | Some e \<Rightarrow> Some (WebAuthn (NotConfigured (Some e))))"

end
