(* ===== verification/Second_Factor.thy ===== *)
theory Second_Factor
  imports WebAuthn_Service Totp
begin

text \<open>
  The second factors: controllers/totp_controller.go, email_2fa_controller.go and email_verification_controller.go, with the
  code generator of utils/utils.go. A handler takes the body its binding has read, \<open>None\<close> if binding fails.
\<close>

section \<open>Shared steps\<close>

definition bad_body :: "request \<Rightarrow> response" where
  "bad_body rq = respondError rq 400 ''invalid_json_body'' ''Invalid request body''"

definition update_account :: "env \<Rightarrow> user \<Rightarrow> (user \<Rightarrow> user) \<Rightarrow> nat result_of" where
  "update_account E u f = update_users E (\<lambda>r. UID r = UID u) f"

text \<open>The account of a login ticket.\<close>

definition with_ticket :: "env \<Rightarrow> request \<Rightarrow> string \<Rightarrow> (string \<Rightarrow> response go) \<Rightarrow> response go" where
  "with_ticket E rq ticket f = do {
     t \<leftarrow> loadLoginTicket E ticket;
     case t of
       None \<Rightarrow> ret (respondError rq 401 ''invalid_login_ticket'' ''Invalid or expired login ticket'')
     | Some userID \<Rightarrow> f userID
   }"

text \<open>The ticket is deleted, then its account gets tokens; a deleted key need not have been there.\<close>

definition redeem_ticket :: "env \<Rightarrow> request \<Rightarrow> string \<Rightarrow> user \<Rightarrow> string \<Rightarrow> response go" where
  "redeem_ticket E rq ticket u message = do {
     r \<leftarrow> deleteLoginTicket E ticket;
     case r of
       Inl _ \<Rightarrow> ret (respondError rq 500 ''internal_error'' ''Failed to consume login ticket'')
     | Inr _ \<Rightarrow> issueAndRespondFirstPartyUserTokens E rq (u_UUID u) message []
   }"

text \<open>A fresh six-digit code by mail, unless one is pending.\<close>

definition mail_code :: "env \<Rightarrow> request \<Rightarrow> string \<Rightarrow> string \<Rightarrow> (string \<Rightarrow> string) \<Rightarrow> string \<Rightarrow> response go" where
  "mail_code E rq email subject message answer = do {
     existing \<leftarrow> code_Get E email;
     if existing \<noteq> None \<and> existing \<noteq> Some [] then
       ret (respondError rq 429 ''verification_code_already_sent'' ''Verification code already sent, please wait'')
     else do {
       code \<leftarrow> GenerateCode E;
       stored \<leftarrow> code_Store E email code;
       if \<not> stored then ret (respondError rq 500 ''internal_error'' ''Failed to store verification code'')
       else do {
         sent \<leftarrow> SendMail E email subject (message code);
         case sent of
           Inl e \<Rightarrow> do { _ \<leftarrow> code_Delete E email; ret (respondError rq 500 ''email_send_failed'' e) }
         | Inr _ \<Rightarrow> ret (respondOK rq answer None)
       }
     }
   }"

section \<open>Time-based codes\<close>

definition GenerateTOTP :: "env \<Rightarrow> string \<Rightarrow> nat \<Rightarrow> string option go" where
  "GenerateTOTP E secret digits = do { t \<leftarrow> now E; ret (computeTOTP secret (totp_counter (unix t)) digits) }"

definition totp_alphabet :: string where
  "totp_alphabet = ''ABCDEFGHIJKLMNOPQRSTUVWXYZ234567''"

fun GenerateTOTPSecret :: "env \<Rightarrow> nat \<Rightarrow> string go" where
  "GenerateTOTPSecret E 0 = ret []"
| "GenerateTOTPSecret E (Suc n) = do {
     i \<leftarrow> rand_Int E (length totp_alphabet);
     s \<leftarrow> GenerateTOTPSecret E n;
     ret (totp_alphabet ! i # s)
   }"

text \<open>A panic is answered by the framework.\<close>

definition totp_Generate :: "env \<Rightarrow> request \<Rightarrow> response go" where
  "totp_Generate E rq =
     (let secret = Query rq ''secret'' in
      if secret = [] then ret (respondError rq 400 ''totp_secret_required'' ''Missing secret'')
      else do {
        otp \<leftarrow> GenerateTOTP E secret 6;
        ret (case otp of None \<Rightarrow> Data 500 [] []
          | Some code \<Rightarrow> respondOK rq ''TOTP generated successfully'' (Some (JObj [(''otp'', JStr code)])))
      })"

definition SetupTOTP :: "env \<Rightarrow> request \<Rightarrow> string option \<Rightarrow> response go" where
  "SetupTOTP E rq bound =
     (case bound of None \<Rightarrow> ret (bad_body rq)
      | Some email \<Rightarrow>
        if email = [] then ret (respondError rq 400 ''invalid_request'' ''Missing email'')
        else if \<not> isValidEmail E email then ret (respondError rq 400 ''invalid_email'' ''Invalid email'')
        else continue_with (resolveSiteBearerAuth E rq ''totp.setup'' ''totp.setup.as-service'' False [] email) (\<lambda>auth. do {
          secret \<leftarrow> GenerateTOTPSecret E 32;
          _ \<leftarrow> update_account E (site_User auth) (\<lambda>u. u\<lparr>TOTP := secret, TwoFA := True\<rparr>);
          ret (respondOK rq ''TOTP configured successfully'' (Some (JObj [(''totpkey'', JStr secret)])))
        }))"

definition VerifyTOTP :: "env \<Rightarrow> request \<Rightarrow> (string \<times> string) option \<Rightarrow> response go" where
  "VerifyTOTP E rq bound =
     (case bound of None \<Rightarrow> ret (bad_body rq)
      | Some (ticket, passcode) \<Rightarrow>
        if ticket = [] \<or> passcode = [] then ret (respondError rq 400 ''invalid_request'' ''Missing login_ticket or passcode'')
        else with_ticket E rq ticket (\<lambda>userID. do {
          found \<leftarrow> db_first E users (by_uuid E userID);
          case found of
            Inl _ \<Rightarrow> ret (respondError rq 401 ''totp_not_configured'' ''User not found or TOTP not configured'')
          | Inr u \<Rightarrow>
            if TOTP u = [] then ret (respondError rq 401 ''totp_not_configured'' ''User not found or TOTP not configured'')
            else do {
              t \<leftarrow> now E;
              if \<not> verifyTOTP (unix t) (TOTP u) passcode then ret (respondError rq 401 ''invalid_passcode'' ''Invalid passcode'')
              else redeem_ticket E rq ticket u ''TOTP verified successfully''
            }
        }))"

definition totp_Toggle2FA :: "env \<Rightarrow> request \<Rightarrow> bool option \<Rightarrow> response go" where
  "totp_Toggle2FA E rq bound =
     (case bound of None \<Rightarrow> ret (bad_body rq)
      | Some enabled \<Rightarrow>
        continue_with (resolveSiteBearerAuth E rq ''totp.toggle'' ''totp.toggle.as-service'' False [] []) (\<lambda>auth.
          if TOTP (site_User auth) = [] \<and> enabled
          then ret (respondError rq 400 ''totp_not_configured'' ''TOTP not configured, cannot enable 2FA'')
          else do {
            _ \<leftarrow> update_account E (site_User auth) (\<lambda>u. u\<lparr>TwoFA := enabled\<rparr>);
            ret (respondOK rq ''2FA status updated successfully'' (Some (JObj [(''enabled'', JBool enabled)])))
          }))"

section \<open>Mailed codes\<close>

definition no_mail_user :: "request \<Rightarrow> response" where
  "no_mail_user rq = respondError rq 401 ''user_not_found'' ''User not found or email not set''"

definition email2fa_message :: "string \<Rightarrow> string" where
  "email2fa_message code = ''Your 2FA verification code is: '' @ code @ blank_line @
     ''This code is valid for 10 minutes. If you did not request this, please change your password immediately.''"

definition email2fa_SendCode :: "env \<Rightarrow> request \<Rightarrow> string option \<Rightarrow> response go" where
  "email2fa_SendCode E rq bound =
     (case bound of None \<Rightarrow> ret (bad_body rq)
      | Some ticket \<Rightarrow>
        if ticket = [] then ret (respondError rq 400 ''invalid_request'' ''Missing login_ticket'')
        else with_ticket E rq ticket (\<lambda>userID. do {
          found \<leftarrow> db_first E users (by_uuid E userID);
          case found of
            Inl _ \<Rightarrow> ret (no_mail_user rq)
          | Inr u \<Rightarrow>
            if Email u = [] then ret (no_mail_user rq)
            else if \<not> Email2FAEnabled u
            then ret (respondError rq 400 ''email_2fa_not_configured'' ''Email 2FA not enabled for this user'')
            else mail_code E rq (Email u) ''HRPAuth - 2FA Verification Code'' email2fa_message ''Verification code sent to your email''
        }))"

definition email2fa_VerifyCode :: "env \<Rightarrow> request \<Rightarrow> (string \<times> string) option \<Rightarrow> response go" where
  "email2fa_VerifyCode E rq bound =
     (case bound of None \<Rightarrow> ret (bad_body rq)
      | Some (ticket, code) \<Rightarrow>
        if ticket = [] \<or> code = [] then ret (respondError rq 400 ''invalid_request'' ''Missing login_ticket or code'')
        else with_ticket E rq ticket (\<lambda>userID. do {
          found \<leftarrow> db_first E users (by_uuid E userID);
          case found of
            Inl _ \<Rightarrow> ret (no_mail_user rq)
          | Inr u \<Rightarrow>
            if Email u = [] then ret (no_mail_user rq)
            else do {
              stored \<leftarrow> code_Get E (Email u);
              if stored \<noteq> Some code
              then ret (respondError rq 401 ''verification_code_invalid'' ''Invalid or expired verification code'')
              else do {
                _ \<leftarrow> code_Delete E (Email u);
                redeem_ticket E rq ticket u ''Email 2FA verified successfully''
              }
            }
        }))"

definition email2fa_Toggle :: "env \<Rightarrow> request \<Rightarrow> bool option \<Rightarrow> response go" where
  "email2fa_Toggle E rq bound =
     (case bound of None \<Rightarrow> ret (bad_body rq)
      | Some enabled \<Rightarrow>
        continue_with (resolveSiteBearerAuth E rq ''email-2fa.toggle'' ''email-2fa.toggle.as-service'' False [] []) (\<lambda>auth.
          if enabled \<and> \<not> Verified (site_User auth)
          then ret (respondError rq 400 ''invalid_request'' ''Email must be verified before enabling Email 2FA'')
          else do {
            _ \<leftarrow> update_account E (site_User auth) (\<lambda>u. u\<lparr>Email2FAEnabled := enabled\<rparr>);
            ret (respondOK rq ''Email 2FA status updated successfully'' (Some (JObj [(''enabled'', JBool enabled)])))
          }))"

section \<open>Verification of an address\<close>

record email_request =
  eq_Action :: string
  eq_To :: string
  eq_Subject :: string
  eq_Message :: string
  eq_Email :: string
  eq_Code :: string

definition sendTestEmail :: "env \<Rightarrow> request \<Rightarrow> email_request \<Rightarrow> response go" where
  "sendTestEmail E rq req =
     (if eq_To req = [] then ret (respondError rq 400 ''invalid_email'' ''Recipient email cannot be empty'')
      else if \<not> isValidEmail E (eq_To req) then ret (respondError rq 400 ''invalid_email'' ''Invalid recipient email format'')
      else if eq_Subject req = [] then ret (respondError rq 400 ''invalid_request'' ''Email subject cannot be empty'')
      else if eq_Message req = [] then ret (respondError rq 400 ''invalid_request'' ''Email content cannot be empty'')
      else do {
        sent \<leftarrow> SendMail E (eq_To req) (eq_Subject req) (eq_Message req);
        ret (case sent of
          Inl e \<Rightarrow> respondError rq 500 ''email_send_failed'' e
        | Inr _ \<Rightarrow> respondOK rq ''Email sent successfully'' (Some (JObj [(''to'', JStr (eq_To req)), (''subject'', JStr (eq_Subject req))])))
      })"

definition verification_message :: "string \<Rightarrow> string" where
  "verification_message code = ''Your verification code is: '' @ code @ blank_line @
     ''The code is valid for 10 minutes. Please complete the verification as soon as possible.'' @ blank_line @
     ''If you did not request this code, please ignore this email.''"

definition sendVerificationCode :: "env \<Rightarrow> request \<Rightarrow> email_request \<Rightarrow> response go" where
  "sendVerificationCode E rq req =
     (if \<not> isValidEmail E (eq_Email req) then ret (respondError rq 400 ''invalid_email'' ''Invalid email'')
      else mail_code E rq (eq_Email req) ''HRPAuth - Email Verification Code'' verification_message
        ''Verification code sent successfully'')"

definition verifyCode :: "env \<Rightarrow> request \<Rightarrow> email_request \<Rightarrow> response go" where
  "verifyCode E rq req =
     (let email = eq_Email req; code = eq_Code req in
      if \<not> isValidEmail E email then ret (respondError rq 400 ''invalid_email'' ''Invalid email'')
      else if code = [] then ret (respondError rq 400 ''invalid_request'' ''Verification code is required'')
      else do {
        stored \<leftarrow> code_Get E email;
        case stored of
          None \<Rightarrow> ret (respondError rq 400 ''verification_code_expired_or_missing'' ''Verification code expired or not found'')
        | Some storedCode \<Rightarrow>
          if code \<noteq> storedCode then ret (respondError rq 400 ''verification_code_invalid'' ''Invalid verification code'')
          else do {
            _ \<leftarrow> code_Delete E email;
            r \<leftarrow> update_users E (\<lambda>u. coll E (Email u) = coll E email) (\<lambda>u. u\<lparr>Verified := True\<rparr>);
            ret (case r of
              Inl _ \<Rightarrow> respondError rq 500 ''verification_status_update_failed'' ''Failed to update verification status''
            | Inr affected \<Rightarrow> if affected = 0 then respondError rq 404 ''user_not_found'' ''User not found or already verified''
                else respondOK rq ''Verification successful'' None)
          }
      })"

definition email_Handle :: "env \<Rightarrow> request \<Rightarrow> email_request option \<Rightarrow> response go" where
  "email_Handle E rq bound =
     (case bound of None \<Rightarrow> ret (bad_body rq)
      | Some req \<Rightarrow>
        if eq_Action req = ''send-test-email'' then sendTestEmail E rq req
        else if eq_Action req = ''send-verification-code'' then sendVerificationCode E rq req
        else if eq_Action req = ''verify-code'' then verifyCode E rq req
        else ret (respondError rq 400 ''invalid_request'' ''Invalid action''))"

end
