(* ===== verification/User_Security.thy ===== *)
theory User_Security
  imports Second_Factor Registry_Http
begin

text \<open>
  controllers/user_security_controller.go: the change of the email address, recovery keys and the check of a factor before
  them; and the answers to errors of the passkey service, which controllers/webauthn_controller.go shares.
\<close>

section \<open>Errors of the passkey service\<close>

text \<open>The text of an error; \<open>n\<close> tells errors of the database apart.\<close>

definition error_message :: "env \<Rightarrow> nat \<Rightarrow> go_error \<Rightarrow> string" where
  "error_message E n e =
     (case e of
        WebAuthn (NotConfigured None) \<Rightarrow> ''webauthn_not_configured''
      | WebAuthn (NotConfigured (Some cause)) \<Rightarrow> ''webauthn_not_configured: '' @ cause
      | WebAuthn InvalidFlow \<Rightarrow> ''invalid_webauthn_flow''
      | WebAuthn CredentialNotFound \<Rightarrow> ''webauthn_credential_not_found''
      | OtherError s \<Rightarrow> s
      | Db RecordNotFound \<Rightarrow> ''record not found''
      | _ \<Rightarrow> error_text E n)"

definition respondWebAuthnError :: "env \<Rightarrow> request \<Rightarrow> nat \<Rightarrow> go_error \<Rightarrow> response" where
  "respondWebAuthnError E rq n e =
     (case e of
        WebAuthn (NotConfigured _) \<Rightarrow> respondError rq 400 ''webauthn_not_configured'' ''WebAuthn not configured''
      | WebAuthn InvalidFlow \<Rightarrow> respondError rq 401 ''invalid_webauthn_flow'' ''Invalid or expired WebAuthn flow''
      | WebAuthn CredentialNotFound \<Rightarrow> respondError rq 404 ''webauthn_credential_not_found'' ''WebAuthn credential not found''
      | Db RecordNotFound \<Rightarrow> respondError rq 404 ''user_not_found'' ''user not found''
      | _ \<Rightarrow> respondError rq 401 ''webauthn_verification_failed'' (error_message E n e))"

text \<open>A call of the service whose error is answered.\<close>

definition or_webauthn_error :: "env \<Rightarrow> request \<Rightarrow> 'a result_of \<Rightarrow> 'a step" where
  "or_webauthn_error E rq m = do {
     r \<leftarrow> m;
     n \<leftarrow> gets stmts;
     ret (case r of Inl e \<Rightarrow> Inl (respondWebAuthnError E rq n e) | Inr x \<Rightarrow> Inr x)
   }"

section \<open>Any factor\<close>

record factors_request =
  fq_TOTPCode :: string
  fq_EmailCode :: string
  fq_RecoveryKey :: string
  fq_FlowID :: string
  fq_Credential :: string

text \<open>
  One factor after the other: a factor that is given and wrong is answered and ends the check. The value is whether one
  was given and right.
\<close>

definition check_totp :: "env \<Rightarrow> request \<Rightarrow> user \<Rightarrow> factors_request \<Rightarrow> bool step" where
  "check_totp E rq u req =
     (if fq_TOTPCode req = [] then ret (Inr False)
      else if TwoFA u \<and> TOTP u \<noteq> [] then do {
        t \<leftarrow> now E;
        ret (if verifyTOTP (unix t) (TOTP u) (fq_TOTPCode req) then Inr True
          else Inl (respondError rq 401 ''invalid_passcode'' ''Invalid TOTP code''))
      } else ret (Inl (respondError rq 400 ''totp_not_configured'' ''TOTP not configured'')))"

definition check_email :: "env \<Rightarrow> request \<Rightarrow> user \<Rightarrow> factors_request \<Rightarrow> bool step" where
  "check_email E rq u req =
     (if fq_EmailCode req = [] then ret (Inr False)
      else if Email2FAEnabled u \<and> Email u \<noteq> [] then do {
        stored \<leftarrow> code_Get E (Email u);
        if stored = Some (fq_EmailCode req) then do { _ \<leftarrow> code_Delete E (Email u); ret (Inr True) }
        else ret (Inl (respondError rq 401 ''verification_code_invalid'' ''Invalid or expired email verification code''))
      } else ret (Inl (respondError rq 400 ''email_2fa_not_configured'' ''Email 2FA not configured'')))"

definition check_webauthn :: "env \<Rightarrow> request \<Rightarrow> factors_request \<Rightarrow> bool step" where
  "check_webauthn E rq req =
     (if fq_FlowID req = [] \<or> fq_Credential req = [] then ret (Inr False)
      else do {
        r \<leftarrow> FinishLogin E (fq_FlowID req) (fq_Credential req);
        ret (case r of Inr _ \<Rightarrow> Inr True
          | Inl _ \<Rightarrow> Inl (respondError rq 401 ''webauthn_verification_failed'' ''WebAuthn verification failed''))
      })"

definition check_recovery :: "env \<Rightarrow> request \<Rightarrow> user \<Rightarrow> factors_request \<Rightarrow> bool step" where
  "check_recovery E rq u req = ret
     (if fq_RecoveryKey req = [] then Inr False
      else if RecoveryKeyEnabled u \<and> RecoveryKey u \<noteq> [] then
        (if bcrypt_check E (fq_RecoveryKey req) (RecoveryKey u) then Inr True
         else Inl (respondError rq 401 ''invalid_passcode'' ''Invalid recovery key''))
      else Inl (respondError rq 400 ''recovery_key_not_configured'' ''Recovery key not configured''))"

definition verifyAnyFactor :: "env \<Rightarrow> request \<Rightarrow> user \<Rightarrow> factors_request \<Rightarrow> bool step" where
  "verifyAnyFactor E rq u req =
     next_step (check_totp E rq u req) (\<lambda>a.
     next_step (check_email E rq u req) (\<lambda>b.
     next_step (check_webauthn E rq req) (\<lambda>c.
     next_step (check_recovery E rq u req) (\<lambda>d. ret (Inr (a \<or> b \<or> c \<or> d))))))"

section \<open>The email address\<close>

definition manage_auth :: "env \<Rightarrow> request \<Rightarrow> string \<Rightarrow> (site_auth \<Rightarrow> response go) \<Rightarrow> response go" where
  "manage_auth E rq uid f =
     continue_with (resolveSiteBearerAuth E rq ''user.security.manage'' ''user.security.manage.as-service'' False uid []) f"

definition change_email_message :: "string \<Rightarrow> string" where
  "change_email_message code = ''Your verification code for changing email is: '' @ code @ blank_line @
     ''If you did not request this, please secure your account immediately.''"

definition SendChangeEmailCode :: "env \<Rightarrow> request \<Rightarrow> response go" where
  "SendChangeEmailCode E rq = manage_auth E rq [] (\<lambda>auth.
     let u = site_User auth in
     if Email u = [] then ret (respondError rq 400 ''invalid_request'' ''User has no email set'')
     else mail_code E rq (Email u) ''HRPAuth - Email Change Verification Code'' change_email_message
       ''Verification code sent to your current email'')"

definition flow_started :: "request \<Rightarrow> string \<Rightarrow> json \<times> string \<Rightarrow> response" where
  "flow_started rq message = (\<lambda>(options, flowID).
     respondOK rq message (Some (JObj [(''flow_id'', JStr flowID), (''options'', options)])))"

definition BeginWebAuthnSudo :: "env \<Rightarrow> request \<Rightarrow> response go" where
  "BeginWebAuthnSudo E rq = manage_auth E rq [] (\<lambda>auth. do {
     r \<leftarrow> BeginSudoLogin E (u_UUID (site_User auth));
     n \<leftarrow> gets stmts;
     ret (case r of
       Inl e \<Rightarrow>
         if Contains (error_message E n e) ''webauthn_not_configured''
         then respondError rq 400 ''webauthn_not_configured'' ''WebAuthn not configured for this user''
         else respondError rq 500 ''internal_error'' (error_message E n e)
     | Inr started \<Rightarrow> flow_started rq ''WebAuthn sudo auth started'' started)
   })"

definition store_email :: "env \<Rightarrow> request \<Rightarrow> user \<Rightarrow> string \<Rightarrow> response go" where
  "store_email E rq u newEmail = do {
     r \<leftarrow> transaction E (update_account E u (\<lambda>r. r\<lparr>Email := TrimSpace (ToLower newEmail), Verified := False\<rparr>));
     ret (case r of
       Inl _ \<Rightarrow> respondError rq 500 ''internal_error'' ''Failed to update user information''
     | Inr _ \<Rightarrow> respondOK rq ''Email updated successfully'' (Some (JObj [(''email'', JStr newEmail)])))
   }"

definition ChangeEmail :: "env \<Rightarrow> request \<Rightarrow> (string \<times> factors_request) option \<Rightarrow> response go" where
  "ChangeEmail E rq bound = manage_auth E rq [] (\<lambda>auth.
     (case bound of None \<Rightarrow> ret (bad_body rq)
      | Some (newEmail, factors) \<Rightarrow>
        let u = site_User auth in
        if \<not> isValidEmail E newEmail then ret (respondError rq 400 ''invalid_email'' ''Invalid new email format'')
        else do {
          count \<leftarrow> unchecked_count E (\<lambda>r. coll E (Email r) = coll E (TrimSpace (ToLower newEmail)) \<and> coll E (u_UUID r) \<noteq> coll E (u_UUID u));
          if count > 0 then ret (respondError rq 400 ''email_already_registered'' ''Email already registered'')
          else continue_with (verifyAnyFactor E rq u factors) (\<lambda>verified.
            if \<not> verified then ret (respondError rq 403 ''insufficient_auth_level''
              (''Insufficient verification factors. Provide at least one 2FA factor '' @ ''(TOTP, Email Code, WebAuthn, or Recovery Key).''))
            else store_email E rq u newEmail)
        }))"

section \<open>Recovery keys\<close>

definition generateRecoveryKey :: "env \<Rightarrow> string go" where
  "generateRecoveryKey E = do {
     k1 \<leftarrow> GenerateRandomToken E 2;
     k2 \<leftarrow> GenerateRandomToken E 2;
     k3 \<leftarrow> GenerateRandomToken E 2;
     k4 \<leftarrow> GenerateRandomToken E 2;
     ret (ToUpper k1 @ ''-'' @ ToUpper k2 @ ''-'' @ ToUpper k3 @ ''-'' @ ToUpper k4)
   }"

text \<open>A new key: its hash is stored, empty if hashing fails, and the key goes into the answer.\<close>

definition new_recovery_key :: "env \<Rightarrow> request \<Rightarrow> user \<Rightarrow> string \<Rightarrow> string \<Rightarrow> response go" where
  "new_recovery_key E rq u failed message = do {
     key \<leftarrow> generateRecoveryKey E;
     hash \<leftarrow> HashPassword E key;
     r \<leftarrow> update_account E u (\<lambda>r. r\<lparr>RecoveryKey := default_value [] hash, RecoveryKeyEnabled := True\<rparr>);
     ret (case r of
       Inl _ \<Rightarrow> respondError rq 500 ''internal_error'' failed
     | Inr _ \<Rightarrow> respondOK rq message (Some (JObj [(''recovery_key'', JStr key)])))
   }"

definition CreateRecoveryKey :: "env \<Rightarrow> request \<Rightarrow> response go" where
  "CreateRecoveryKey E rq = manage_auth E rq [] (\<lambda>auth.
     let u = site_User auth in
     if RecoveryKeyEnabled u then ret (respondError rq 400 ''recovery_key_already_configured''
       ''Recovery key already configured. Use regenerate instead.'')
     else new_recovery_key E rq u ''Failed to store recovery key'' ''Recovery key created successfully. Please store it securely.'')"

definition with_factor :: "env \<Rightarrow> request \<Rightarrow> factors_request option \<Rightarrow> (user \<Rightarrow> response go) \<Rightarrow> response go" where
  "with_factor E rq bound f = manage_auth E rq [] (\<lambda>auth.
     (case bound of None \<Rightarrow> ret (bad_body rq)
      | Some req \<Rightarrow> continue_with (verifyAnyFactor E rq (site_User auth) req) (\<lambda>verified.
          if \<not> verified then ret (respondError rq 403 ''insufficient_auth_level'' ''Insufficient verification factors.'')
          else f (site_User auth))))"

definition RegenerateRecoveryKey :: "env \<Rightarrow> request \<Rightarrow> factors_request option \<Rightarrow> response go" where
  "RegenerateRecoveryKey E rq bound = with_factor E rq bound (\<lambda>u.
     new_recovery_key E rq u ''Failed to update recovery key'' ''Recovery key regenerated successfully'')"

definition RevokeRecoveryKey :: "env \<Rightarrow> request \<Rightarrow> factors_request option \<Rightarrow> response go" where
  "RevokeRecoveryKey E rq bound = with_factor E rq bound (\<lambda>u. do {
     r \<leftarrow> update_account E u (\<lambda>r. r\<lparr>RecoveryKey := [], RecoveryKeyEnabled := False\<rparr>);
     ret (case r of
       Inl _ \<Rightarrow> respondError rq 500 ''internal_error'' ''Failed to revoke recovery key''
     | Inr _ \<Rightarrow> respondOK rq ''Recovery key revoked successfully'' None)
   })"

definition VerifyRecoveryKey :: "env \<Rightarrow> request \<Rightarrow> (string \<times> string) option \<Rightarrow> response go" where
  "VerifyRecoveryKey E rq bound =
     (case bound of None \<Rightarrow> ret (bad_body rq)
      | Some (ticket, key) \<Rightarrow>
        if ticket = [] \<or> key = [] then ret (respondError rq 400 ''invalid_request'' ''Missing login_ticket or recovery_key'')
        else with_ticket E rq ticket (\<lambda>userID. do {
          found \<leftarrow> db_first E users (by_uuid E userID);
          let missing = respondError rq 401 ''recovery_key_not_configured'' ''User not found or recovery key not configured'';
          case found of
            Inl _ \<Rightarrow> ret missing
          | Inr u \<Rightarrow>
            if \<not> RecoveryKeyEnabled u \<or> RecoveryKey u = [] then ret missing
            else if \<not> bcrypt_check E key (RecoveryKey u) then ret (respondError rq 401 ''invalid_passcode'' ''Invalid recovery key'')
            else redeem_ticket E rq ticket u ''Recovery key verified successfully''
        }))"

definition GetTwoFactorStatus :: "env \<Rightarrow> request \<Rightarrow> string option \<Rightarrow> response go" where
  "GetTwoFactorStatus E rq bound =
     (let uid = (if Query rq ''uid'' = [] then default_value [] bound else Query rq ''uid'') in
      manage_auth E rq uid (\<lambda>auth. let u = site_User auth in do {
        count \<leftarrow> CountCredentials E (u_UUID u);
        ret (case count of
          Inl _ \<Rightarrow> respondError rq 500 ''internal_error'' ''Failed to inspect WebAuthn credentials''
        | Inr n \<Rightarrow> respondOK rq ''Two-factor authentication status retrieved'' (Some (JObj [
            (''totp_enabled'', JBool (TwoFA u \<and> TOTP u \<noteq> [])), (''webauthn_2fa_enabled'', JBool (WebAuthn2FAEnabled u)),
            (''webauthn_credentials'', num n), (''recovery_key_enabled'', JBool (RecoveryKeyEnabled u)),
            (''email_2fa_enabled'', JBool (Email2FAEnabled u))])))
      }))"

end
