(* ===== verification/WebAuthn_Controller.thy ===== *)
theory WebAuthn_Controller
  imports User_Security
begin

text \<open>
  controllers/webauthn_controller.go: the endpoints of the passkey ceremonies. Where the source binds a body only if the
  request has one, the argument is \<open>None\<close> without a body and \<open>Some None\<close> if binding fails. The debug reports are left out.
\<close>

section \<open>Passkeys of an account\<close>

definition endpoint_BeginRegistration :: "env \<Rightarrow> request \<Rightarrow> (string \<times> string) option option \<Rightarrow> response go" where
  "endpoint_BeginRegistration E rq bound =
     continue_with (resolveSiteBearerAuth E rq ''webauthn.register'' ''webauthn.register.as-service'' False [] []) (\<lambda>auth.
     (case (case bound of None \<Rightarrow> Some ([], []) | Some b \<Rightarrow> b) of
        None \<Rightarrow> ret (bad_body rq)
      | Some (name, attachment) \<Rightarrow>
        continue_with (or_webauthn_error E rq (BeginRegistration E (site_User auth) name attachment)) (\<lambda>started.
          ret (flow_started rq ''WebAuthn registration started'' started))))"

definition missing_fields :: "request \<Rightarrow> response" where
  "missing_fields rq = respondError rq 400 ''invalid_request'' ''Missing flow_id or credential''"

definition credential_json :: "env \<Rightarrow> webauthn_credential \<Rightarrow> json" where
  "credential_json E c = JObj [(''id'', num (wc_ID c)), (''name'', JStr (wc_Name c)),
     (''created_at'', time_json E (credential_created E (wc_ID c))),
     (''last_used_at'', case wc_LastUsedAt c of None \<Rightarrow> JNull | Some t \<Rightarrow> time_json E t)]"

definition endpoint_FinishRegistration :: "env \<Rightarrow> request \<Rightarrow> (string \<times> string) option \<Rightarrow> response go" where
  "endpoint_FinishRegistration E rq bound =
     continue_with (resolveSiteBearerAuth E rq ''webauthn.register'' ''webauthn.register.as-service'' False [] []) (\<lambda>auth.
     (case bound of None \<Rightarrow> ret (bad_body rq)
      | Some (flowID, credential) \<Rightarrow>
        if flowID = [] \<or> credential = [] then ret (missing_fields rq)
        else continue_with (or_webauthn_error E rq (FinishRegistration E flowID (u_UUID (site_User auth)) credential)) (\<lambda>c.
          ret (respondCreated rq ''WebAuthn credential registered'' (Some (JObj [(''credential'', credential_json E c)]))))))"

definition endpoint_ListCredentials :: "env \<Rightarrow> request \<Rightarrow> response go" where
  "endpoint_ListCredentials E rq =
     continue_with (resolveSiteBearerAuth E rq ''webauthn.credentials'' ''webauthn.credentials.as-service'' False [] []) (\<lambda>auth. do {
       listed \<leftarrow> ListCredentials E (u_UUID (site_User auth));
       n \<leftarrow> gets stmts;
       ret (case listed of
         Inl _ \<Rightarrow> respondError rq 500 ''internal_error'' ''Failed to load WebAuthn credentials''
       | Inr rows \<Rightarrow> respondOK rq ''WebAuthn credentials loaded'' (Some (JObj [
           (''credentials'', JArr (map (credential_json E) rows)), (''count'', num (length rows)),
           (''available'', JBool (AvailabilityError E = None)),
           (''availability_error'', JStr (case AvailabilityError E of None \<Rightarrow> [] | Some e \<Rightarrow> error_message E n e))])))
     })"

definition endpoint_DeleteCredential :: "env \<Rightarrow> request \<Rightarrow> string \<Rightarrow> response go" where
  "endpoint_DeleteCredential E rq param =
     continue_with (resolveSiteBearerAuth E rq ''webauthn.credentials'' ''webauthn.credentials.as-service'' False [] []) (\<lambda>auth.
     (case ParseUint64 param of
        None \<Rightarrow> ret (respondError rq 400 ''invalid_request'' ''Invalid credential id'')
      | Some cid \<Rightarrow>
        if cid = 0 then ret (respondError rq 400 ''invalid_request'' ''Invalid credential id'')
        else continue_with (or_webauthn_error E rq (DeleteCredential E (u_UUID (site_User auth)) cid)) (\<lambda>_.
          ret (respondOK rq ''WebAuthn credential deleted'' (Some (JObj [(''id'', num cid)]))))))"

definition endpoint_Toggle2FA :: "env \<Rightarrow> request \<Rightarrow> bool option \<Rightarrow> response go" where
  "endpoint_Toggle2FA E rq bound =
     continue_with (resolveSiteBearerAuth E rq ''webauthn.2fa'' ''webauthn.2fa.as-service'' False [] []) (\<lambda>auth.
     (case bound of None \<Rightarrow> ret (bad_body rq)
      | Some enabled \<Rightarrow>
        continue_with (or_webauthn_error E rq (SetTwoFactorEnabled E (u_UUID (site_User auth)) enabled)) (\<lambda>_.
          ret (respondOK rq ''WebAuthn 2FA status updated'' (Some (JObj [(''enabled'', JBool enabled)]))))))"

section \<open>Signing in with a passkey\<close>

definition endpoint_BeginLogin :: "env \<Rightarrow> request \<Rightarrow> string option option \<Rightarrow> response go" where
  "endpoint_BeginLogin E rq bound =
     (case (case bound of None \<Rightarrow> Some [] | Some b \<Rightarrow> b) of
        None \<Rightarrow> ret (bad_body rq)
      | Some email \<Rightarrow>
        continue_with (or_webauthn_error E rq (if email \<noteq> [] then BeginUserLoginByEmail E email else BeginDiscoverableLogin E))
          (\<lambda>started. ret (flow_started rq ''WebAuthn login started'' started)))"

definition endpoint_FinishLogin :: "env \<Rightarrow> request \<Rightarrow> (string \<times> string) option \<Rightarrow> response go" where
  "endpoint_FinishLogin E rq bound =
     (case bound of None \<Rightarrow> ret (bad_body rq)
      | Some (flowID, credential) \<Rightarrow>
        if flowID = [] \<or> credential = [] then ret (missing_fields rq)
        else continue_with (or_webauthn_error E rq (FinishLogin E flowID credential)) (\<lambda>u.
          issueAndRespondFirstPartyUserTokens E rq (u_UUID u) ''WebAuthn login successful''
            [(''uid'', num (UID u)), (''email'', JStr (Email u)), (''username'', JStr (Username u))]))"

definition bad_ticket :: "request \<Rightarrow> response" where
  "bad_ticket rq = respondError rq 401 ''invalid_login_ticket'' ''Invalid or expired login ticket''"

definition endpoint_BeginSecondFactor :: "env \<Rightarrow> request \<Rightarrow> string option \<Rightarrow> response go" where
  "endpoint_BeginSecondFactor E rq bound =
     (case bound of None \<Rightarrow> ret (bad_body rq)
      | Some ticket \<Rightarrow>
        if ticket = [] then ret (respondError rq 400 ''login_ticket_required'' ''Missing login_ticket'')
        else do {
          t \<leftarrow> loadLoginTicket E ticket;
          case t of None \<Rightarrow> ret (bad_ticket rq)
          | Some userID \<Rightarrow> do {
              found \<leftarrow> db_first E users (by_uuid E userID);
              case found of
                Inl _ \<Rightarrow> ret (bad_ticket rq)
              | Inr u \<Rightarrow>
                if \<not> WebAuthn2FAEnabled u then ret (respondError rq 400 ''webauthn_not_configured'' ''WebAuthn 2FA not configured'')
                else continue_with (or_webauthn_error E rq (BeginSecondFactorLogin E (u_UUID u) ticket)) (\<lambda>started.
                  ret (flow_started rq ''WebAuthn second factor started'' started))
            }
        })"

definition endpoint_FinishSecondFactor :: "env \<Rightarrow> request \<Rightarrow> (string \<times> string) option \<Rightarrow> response go" where
  "endpoint_FinishSecondFactor E rq bound =
     (case bound of None \<Rightarrow> ret (bad_body rq)
      | Some (flowID, credential) \<Rightarrow>
        if flowID = [] \<or> credential = [] then ret (missing_fields rq)
        else continue_with (or_webauthn_error E rq (FinishSecondFactor E flowID credential)) (\<lambda>(u, ticket).
          redeem_ticket E rq ticket u ''WebAuthn verification successful''))"

end
