(* ===== verification/Disk.thy ===== *)
theory Disk
  imports Key_Value "HOL-Library.Sublist"
begin

text \<open>
  Slash-separated paths (path, and path/filepath on Unix) and the operations of package os on the tree of the SDK packages.

  A path on the disk is the list of its cleaned segments, with an empty segment in front if it is absolute and none for
  the working directory. The working directory, the root and the directories above the working directory always exist. An
  absolute path and a relative one never meet, but for the root, which holds everything.
\<close>

section \<open>Paths\<close>

fun clean_from :: "bool \<Rightarrow> string list \<Rightarrow> string list \<Rightarrow> string list" where
  "clean_from rooted out [] = rev out"
| "clean_from rooted out (s # ss) =
     (if s = [] \<or> s = ''.'' then clean_from rooted out ss
      else if s = ''..'' then
        (case out of
           t # ts \<Rightarrow> if t \<noteq> ''..'' then clean_from rooted ts ss else clean_from rooted (s # out) ss
         | [] \<Rightarrow> clean_from rooted (if rooted then [] else [s]) ss)
      else clean_from rooted (s # out) ss)"

definition clean_segments :: "string \<Rightarrow> string list" where
  "clean_segments p = clean_from (HasPrefix p ''/'') [] (Split CHR ''/'' p)"

definition path_Clean :: "string \<Rightarrow> string" where
  "path_Clean p =
     (let text = (if HasPrefix p ''/'' then ''/'' else []) @ Join (clean_segments p) ''/'' in
      if text = [] then ''.'' else text)"

definition path_Ext :: "string \<Rightarrow> string" where
  "path_Ext p =
     (let base = takeWhile (\<lambda>c. c \<noteq> CHR ''/'') (rev p) in
      if CHR ''.'' \<in> set base then CHR ''.'' # rev (takeWhile (\<lambda>c. c \<noteq> CHR ''.'') base) else [])"

definition disk_path :: "string \<Rightarrow> string list" where
  "disk_path p = (if HasPrefix p ''/'' then [[]] else []) @ clean_segments p"

text \<open>\<open>filepath.Join\<close> of two elements; an empty one is left out.\<close>

definition path_Join :: "string \<Rightarrow> string \<Rightarrow> string list" where
  "path_Join a b =
     (if a = [] \<and> b = [] then [] else disk_path (if a = [] then b else if b = [] then a else a @ ''/'' @ b))"

section \<open>The tree\<close>

type_synonym tree = "(string list \<times> string option) list"

definition climbs :: "string list \<Rightarrow> bool" where
  "climbs p \<longleftrightarrow> list_all (\<lambda>s. s = ''..'') p"

text \<open>The paths at and below a directory.\<close>

definition within :: "string list \<Rightarrow> string list \<Rightarrow> bool" where
  "within p q \<longleftrightarrow> prefix p q \<or> p = [[]] \<or>
     (climbs p \<and> take 1 q \<noteq> [[]] \<and> length (takeWhile (\<lambda>s. s = ''..'') q) \<le> length p)"

definition always_there :: "string list \<Rightarrow> bool" where
  "always_there p \<longleftrightarrow> p = [[]] \<or> climbs p"

definition is_file :: "tree \<Rightarrow> string list \<Rightarrow> bool" where
  "is_file d p \<longleftrightarrow> (case map_of d p of Some (Some _) \<Rightarrow> True | _ \<Rightarrow> False)"

definition is_dir :: "tree \<Rightarrow> string list \<Rightarrow> bool" where
  "is_dir d p \<longleftrightarrow> always_there p \<or> map_of d p = Some None"

text \<open>A lookup: a file on the way is an error other than a missing file.\<close>

datatype 'a found = Found 'a | Missing | Broken

definition look :: "tree \<Rightarrow> string list \<Rightarrow> string option found" where
  "look d p =
     (if list_ex (\<lambda>q. is_file d q) (butlast (prefixes p)) then Broken
      else if is_dir d p then Found None
      else case map_of d p of Some e \<Rightarrow> Found e | None \<Rightarrow> Missing)"

section \<open>Operations\<close>

text \<open>An operation sees whether it fails, how much of its data a failed write leaves and what a failed removal removes.\<close>

definition disk_op :: "env \<Rightarrow> (bool \<Rightarrow> nat option \<Rightarrow> (string list \<Rightarrow> bool) \<Rightarrow> tree \<Rightarrow> 'a \<times> tree) \<Rightarrow> 'a go" where
  "disk_op E f = State (\<lambda>w.
     case f (file_fault E (file_ops w)) (file_torn E (file_ops w)) (removed E (file_ops w)) (disk w) of
       (x, d) \<Rightarrow> (x, w\<lparr>file_ops := Suc (file_ops w), disk := d\<rparr>))"

definition os_Stat :: "env \<Rightarrow> string list \<Rightarrow> string option found go" where
  "os_Stat E p = disk_op E (\<lambda>fault _ _ d. (if fault then Broken else look d p, d))"

definition add_dirs :: "string list \<Rightarrow> tree \<Rightarrow> tree" where
  "add_dirs p d = fold (\<lambda>q d. if is_dir d q then d else AList.update q None d) (prefixes p) d"

definition os_MkdirAll :: "env \<Rightarrow> string list \<Rightarrow> bool go" where
  "os_MkdirAll E p = disk_op E (\<lambda>fault _ _ d.
     if fault \<or> list_ex (is_file d) (prefixes p) then (False, d) else (True, add_dirs p d))"

definition os_WriteFile :: "env \<Rightarrow> string list \<Rightarrow> string \<Rightarrow> bool go" where
  "os_WriteFile E p data = disk_op E (\<lambda>fault torn _ d.
     if p = [] \<or> \<not> is_dir d (butlast p) \<or> is_dir d p then (False, d)
     else if fault then (False, case torn of None \<Rightarrow> d | Some k \<Rightarrow> AList.update p (Some (take k data)) d)
     else (True, AList.update p (Some data) d))"

definition os_ReadFile :: "env \<Rightarrow> string list \<Rightarrow> string found go" where
  "os_ReadFile E p = disk_op E (\<lambda>fault _ _ d.
     (if fault then Broken
      else case look d p of Found (Some s) \<Rightarrow> Found s | Found None \<Rightarrow> Broken | Missing \<Rightarrow> Missing | Broken \<Rightarrow> Broken, d))"

text \<open>Names and kinds of the direct children, by name.\<close>

definition children :: "tree \<Rightarrow> string list \<Rightarrow> (string \<times> bool) list" where
  "children d p = sort_key fst
     (map (\<lambda>(q, e). (last q, e = None)) (filter (\<lambda>(q, e). q \<noteq> [] \<and> butlast q = p) d))"

definition os_ReadDir :: "env \<Rightarrow> string list \<Rightarrow> (string \<times> bool) list found go" where
  "os_ReadDir E p = disk_op E (\<lambda>fault _ _ d.
     (if fault then Broken
      else case look d p of Found None \<Rightarrow> Found (children d p) | Missing \<Rightarrow> Missing | _ \<Rightarrow> Broken, d))"

text \<open>Removing the working directory by the name \<open>.\<close> is refused; removing what is not there succeeds.\<close>

definition os_RemoveAll :: "env \<Rightarrow> string list \<Rightarrow> bool go" where
  "os_RemoveAll E p = disk_op E (\<lambda>fault _ gone d.
     if p = [] then (False, d)
     else if fault then (False, filter (\<lambda>(q, _). \<not> (within p q \<and> gone q)) d)
     else (True, filter (\<lambda>(q, _). \<not> within p q) d))"

definition moved :: "string list \<Rightarrow> string list \<Rightarrow> tree \<Rightarrow> tree" where
  "moved a b d = map (\<lambda>(q, e). (if prefix a q then b @ drop (length a) q else q, e)) (filter (\<lambda>(q, _). q \<noteq> b) d)"

text \<open>Renaming a directory: the target may be an empty directory.\<close>

definition os_Rename :: "env \<Rightarrow> string list \<Rightarrow> string list \<Rightarrow> bool go" where
  "os_Rename E a b = disk_op E (\<lambda>fault _ _ d.
     if fault \<or> map_of d a \<noteq> Some None \<or> \<not> is_dir d (butlast b) \<or> is_file d b \<or> always_there b \<or> strict_prefix a b \<or>
        (a \<noteq> b \<and> list_ex (\<lambda>(q, _). strict_prefix b q) d)
     then (False, d)
     else (True, if a = b then d else moved a b d))"

end
