(* ===== verification/Sdk_Manifest.thy ===== *)
theory Sdk_Manifest
  imports Disk Hooks
begin

text \<open>
  The checks of an uploaded SDK package, from controllers/sdk_package_controller.go and sdk_package_store.go: the paths in
  the archive, the manifest it must have at its root, and the name of the package. The readers of archives are those of
  the environment; a manifest is the JSON object of its file.
\<close>

section \<open>Names and members\<close>

definition name_char :: "char \<Rightarrow> bool" where
  "name_char c \<longleftrightarrow> is_lower c \<or> is_digit c"

text \<open>\<open>None\<close>, or the text of the error.\<close>

definition validateName :: "string \<Rightarrow> string option" where
  "validateName name =
     (if name = [] \<or> length name > 64 then Some ''invalid package name: length must be 1..64''
      else if ContainsAny name [CHR ''/'', CHR 0x5C] \<or> name = ''.'' \<or> name = ''..''
      then Some (''invalid package name: must not contain path separators or be '' @ [CHR 0x27] @ ''.'' @ [CHR 0x27] @ ''/'' @ [CHR 0x27] @ ''..'' @ [CHR 0x27])
      else if list_all (\<lambda>i. name_char (name ! i) \<or> name ! i = CHR ''-'' \<and> i > 0 \<and> i < length name - 1) [0..<length name] then None
      else Some ''invalid package name: must match [a-z0-9]([a-z0-9-]*[a-z0-9])?'')"

definition strFromMap :: "(string \<times> json) list \<Rightarrow> string \<Rightarrow> string" where
  "strFromMap m key = (case map_of m key of Some (JStr s) \<Rightarrow> s | _ \<Rightarrow> [])"

definition boolFromMap :: "(string \<times> json) list \<Rightarrow> string \<Rightarrow> bool" where
  "boolFromMap m key = (case map_of m key of Some (JBool b) \<Rightarrow> b | _ \<Rightarrow> False)"

text \<open>A Go map from strings to strings is the list of its entries in key order.\<close>

fun string_entries :: "(string \<times> json) list \<Rightarrow> (string \<times> string) list" where
  "string_entries [] = []"
| "string_entries ((k, v) # kvs) = (case v of JStr s \<Rightarrow> (k, s) # string_entries kvs | _ \<Rightarrow> string_entries kvs)"

definition mapStringFromMap :: "(string \<times> json) list \<Rightarrow> string \<Rightarrow> (string \<times> string) list" where
  "mapStringFromMap m key =
     (case map_of m key of Some (JObj kvs) \<Rightarrow> sort_key fst (string_entries (go_map kvs)) | _ \<Rightarrow> [])"

definition isSemver :: "string \<Rightarrow> bool" where
  "isSemver v = (let parts = Split CHR ''.'' v in length parts = 3 \<and> list_all (\<lambda>p. p \<noteq> [] \<and> list_all is_digit p) parts)"

section \<open>Numbers as float64\<close>

text \<open>
  A literal is \<open>m * 10 ^ e\<close>; it is read as 1 if it rounds to 1, to the nearest value and on a tie to the even one, and it is
  out of range if it rounds to \<open>2 ^ 1024\<close>.
\<close>

definition decimal_parts :: "string \<Rightarrow> bool \<times> nat \<times> int" where
  "decimal_parts s =
     (let neg = HasPrefix s ''-''; u = TrimPrefix s ''-'';
          mant = takeWhile (\<lambda>c. c \<noteq> CHR ''e'' \<and> c \<noteq> CHR ''E'') u; ex = drop (Suc (length mant)) u;
          ip = takeWhile (\<lambda>c. c \<noteq> CHR ''.'') mant; fp = drop (Suc (length ip)) mant;
          e = (if HasPrefix ex ''-'' then - int (digits_value (tl ex))
               else int (digits_value (if HasPrefix ex ''+'' then tl ex else ex)))
      in (neg, digits_value (ip @ fp), e - int (length fp)))"

text \<open>\<open>m * 10 ^ e \<le> n / d\<close>.\<close>

definition decimal_le :: "nat \<Rightarrow> int \<Rightarrow> nat \<Rightarrow> nat \<Rightarrow> bool" where
  "decimal_le m e n d = (if e \<ge> 0 then m * 10 ^ nat e * d \<le> n else m * d \<le> n * 10 ^ nat (- e))"

definition reads_as_one :: "string \<Rightarrow> bool" where
  "reads_as_one s = (case decimal_parts s of (neg, m, e) \<Rightarrow>
     \<not> neg \<and> (decimal_le m e (2 ^ 53 + 1) (2 ^ 53)) \<and> (\<not> decimal_le m e (2 ^ 54 - 1) (2 ^ 54) \<or>
       (if e \<ge> 0 then m * 10 ^ nat e * 2 ^ 54 = 2 ^ 54 - 1 else m * 2 ^ 54 = (2 ^ 54 - 1) * 10 ^ nat (- e))))"

definition out_of_range :: "string \<Rightarrow> bool" where
  "out_of_range s = (case decimal_parts s of (neg, m, e) \<Rightarrow>
     if e \<ge> 0 then m * 10 ^ nat e \<ge> 2 ^ 1024 - 2 ^ 970 else m \<ge> (2 ^ 1024 - 2 ^ 970) * 10 ^ nat (- e))"

fun numbers_fit :: "json \<Rightarrow> bool" where
  "numbers_fit (JNum n) = (\<not> out_of_range n)"
| "numbers_fit (JArr vs) = list_all numbers_fit vs"
| "numbers_fit (JObj kvs) = list_all (\<lambda>(k, v). numbers_fit v) kvs"
| "numbers_fit _ = True"

section \<open>Paths\<close>

definition allowedSDKExt :: "string list" where
  "allowedSDKExt = [''.ts'', ''.tsx'', ''.js'', ''.jsx'', ''.mjs'', ''.cjs'', ''.json'', ''.css'', ''.png'', ''.jpg'', ''.jpeg'', ''.gif'',
     ''.svg'', ''.webp'', ''.woff'', ''.woff2'', ''.ttf'', ''.html'', ''.md'', ''.txt'']"

definition isAllowedExt :: "string \<Rightarrow> bool" where
  "isAllowedExt p = List.member allowedSDKExt (ToLower (path_Ext p))"

definition isDirEntry :: "string \<Rightarrow> bool" where
  "isDirEntry name = HasSuffix name ''/''"

datatype upload_error = NotArchive | MultipleManifests | MissingManifest | IllegalPath | Invalid string

definition sanitizeArchivePath :: "string \<Rightarrow> upload_error + string" where
  "sanitizeArchivePath name =
     (let clean = TrimPrefix (map (\<lambda>c. if c = CHR 0x5C then CHR ''/'' else c) name) ''./'' in
      if clean = [] \<or> HasPrefix clean ''/'' then Inl IllegalPath
      else if List.member (Split CHR ''/'' clean) ''..'' then Inl IllegalPath
      else let norm = path_Clean clean in
      if norm = ''..'' \<or> HasPrefix norm ''../'' then Inl IllegalPath else Inr norm)"

definition validRoutePath :: "string \<Rightarrow> bool" where
  "validRoutePath p \<longleftrightarrow>
     HasPrefix p ''/'' \<and> \<not> (length p > 1 \<and> HasSuffix p ''/'') \<and> \<not> ContainsAny p ''?#'' \<and>
     list_all (\<lambda>seg. seg \<noteq> ''..'') (Split CHR ''/'' p)"

definition validModulePath :: "string \<Rightarrow> bool" where
  "validModulePath raw =
     (let p = TrimSpace raw; ext = path_Ext p in
      \<not> (p = [] \<or> HasPrefix p ''/'' \<or> HasPrefix p ''./'') \<and> \<not> Contains p ''..'' \<and>
      (ext = [] \<or> List.member allowedSDKExt (ToLower ext)))"

section \<open>The manifest\<close>

text \<open>The routes: their paths, all different.\<close>

fun validate_routes :: "env \<Rightarrow> string list \<Rightarrow> json list \<Rightarrow> string + string list" where
  "validate_routes E seen [] = Inr seen"
| "validate_routes E seen (r # rs) =
     (case r of
        JObj kvs \<Rightarrow>
          (let rm = go_map kvs; rp = strFromMap rm ''path''; md = strFromMap rm ''module'' in
           if \<not> validRoutePath rp then Inl (''manifest route path '' @ quote E rp @ '' invalid: must start with / and contain no ?, #, .. segments'')
           else if List.member seen rp then Inl (''manifest route path '' @ quote E rp @ '' duplicated'')
           else if md = [] then Inl (''manifest route '' @ quote E rp @ '' missing module'')
           else if \<not> validModulePath md
           then Inl (''manifest route '' @ quote E rp @ '' module '' @ quote E md @ '' invalid: must be a relative in-package path'')
           else validate_routes E (rp # seen) rs)
      | _ \<Rightarrow> Inl ''manifest route entry must be an object'')"

text \<open>A member that refers to routes: absent, an object or an array of objects.\<close>

fun validate_links :: "env \<Rightarrow> string \<Rightarrow> string list \<Rightarrow> json list \<Rightarrow> string option" where
  "validate_links E field seen [] = None"
| "validate_links E field seen (item # items) =
     (case item of
        JObj kvs \<Rightarrow>
          (let p = strFromMap (go_map kvs) ''path'' in
           if \<not> List.member seen p then Some (''manifest '' @ field @ ''.path '' @ quote E p @ '' must reference an entry in routes'')
           else validate_links E field seen items)
      | _ \<Rightarrow> Some (''manifest '' @ field @ '' entry must be an object''))"

definition not_objects :: "string \<Rightarrow> string" where
  "not_objects field = ''manifest '' @ field @ '' must be an object or an array of objects''"

definition validate_menu :: "env \<Rightarrow> string \<Rightarrow> string list \<Rightarrow> json option \<Rightarrow> string option" where
  "validate_menu E field seen v =
     (case v of None \<Rightarrow> None | Some JNull \<Rightarrow> None
      | Some (JArr items) \<Rightarrow> validate_links E field seen items
      | Some (JObj kvs) \<Rightarrow> validate_links E field seen [JObj kvs]
      | _ \<Rightarrow> Some (not_objects field))"

fun critical_entries :: "env \<Rightarrow> string list \<Rightarrow> json list \<Rightarrow> string option" where
  "critical_entries E seen [] = None"
| "critical_entries E seen (item # items) =
     (case item of
        JObj kvs \<Rightarrow>
          (let m = go_map kvs; p = strFromMap m ''path'' in
           if TrimSpace (strFromMap m ''label'') = [] then Some ''manifest critical_operations.label is required''
           else if \<not> List.member seen p then Some (''manifest critical_operations.path '' @ quote E p @ '' must reference an entry in routes'')
           else critical_entries E seen items)
      | _ \<Rightarrow> Some ''manifest critical_operations entry must be an object'')"

definition validateCriticalOperations :: "env \<Rightarrow> string list \<Rightarrow> json option \<Rightarrow> string option" where
  "validateCriticalOperations E seen v =
     (case v of None \<Rightarrow> None | Some JNull \<Rightarrow> None
      | Some (JArr items) \<Rightarrow> critical_entries E seen items
      | Some (JObj kvs) \<Rightarrow> critical_entries E seen [JObj kvs]
      | _ \<Rightarrow> Some (not_objects ''critical_operations''))"

definition first_error :: "string option list \<Rightarrow> string option" where
  "first_error es = Option.bind (find (\<lambda>e. e \<noteq> None) es) (\<lambda>e. e)"

definition validateManifest :: "env \<Rightarrow> (string \<times> json) list \<Rightarrow> string option" where
  "validateManifest E m =
     (if \<not> (case map_of m ''schema_version'' of Some (JNum n) \<Rightarrow> reads_as_one n | _ \<Rightarrow> False)
      then Some ''manifest schema_version must be 1''
      else case validateName (strFromMap m ''name'') of
        Some e \<Rightarrow> Some (''manifest name invalid: '' @ e)
      | None \<Rightarrow>
        if \<not> isSemver (strFromMap m ''version'') then Some ''manifest version must be semantic (major.minor.patch)''
        else case map_of m ''routes'' of
          Some (JArr (r # rs)) \<Rightarrow>
            (case validate_routes E [] (r # rs) of
               Inl e \<Rightarrow> Some e
             | Inr seen \<Rightarrow> first_error [validate_menu E ''menu'' seen (map_of m ''menu''),
                 validate_menu E ''dashboard'' seen (map_of m ''dashboard''),
                 validateCriticalOperations E seen (map_of m ''critical_operations'')])
        | _ \<Rightarrow> Some ''manifest routes must be a non-empty array'')"

text \<open>\<open>json.Unmarshal\<close> into a map: the entries with the last of equal keys.\<close>

definition unmarshal_manifest :: "string \<Rightarrow> (string \<times> json) list option" where
  "unmarshal_manifest raw =
     (case parse_json raw of
        Some (JObj kvs) \<Rightarrow> if numbers_fit (JObj kvs) then Some (go_map kvs) else None
      | Some JNull \<Rightarrow> Some []
      | _ \<Rightarrow> None)"

definition parseManifest :: "env \<Rightarrow> string \<Rightarrow> upload_error + (string \<times> json) list" where
  "parseManifest E raw =
     (case unmarshal_manifest raw of
        None \<Rightarrow> Inl MissingManifest
      | Some m \<Rightarrow> (case validateManifest E m of Some e \<Rightarrow> Inl (Invalid e) | None \<Rightarrow> Inr m))"

section \<open>Archives\<close>

definition manifestPath :: string where
  "manifestPath = ''manifest.json''"

definition disallowed :: "string \<Rightarrow> upload_error" where
  "disallowed p = Invalid (''disallowed file extension: '' @ path_Ext p)"

text \<open>The content a limited reader returns: at most 4 MiB.\<close>

definition limited :: "string \<Rightarrow> string" where
  "limited s = take 4194304 s"

text \<open>The loops over the entries, with the set of root manifests seen and the last one's text.\<close>

fun tar_entries :: "tar_entry list \<Rightarrow> bool \<Rightarrow> string list \<Rightarrow> string \<Rightarrow> upload_error + string list \<times> string" where
  "tar_entries [] ends roots raw = (if ends then Inr (roots, raw) else Inl NotArchive)"
| "tar_entries (e # es) ends roots raw =
     (if te_Kind e = TarSymlink \<or> te_Kind e = TarLink then Inl IllegalPath
      else case sanitizeArchivePath (te_Name e) of
        Inl err \<Rightarrow> Inl err
      | Inr p \<Rightarrow>
        if te_Kind e = TarDir then tar_entries es ends roots raw
        else if p = manifestPath then
          (case te_Content e of None \<Rightarrow> Inl NotArchive | Some s \<Rightarrow> tar_entries es ends (List.insert p roots) (limited s))
        else if \<not> isAllowedExt p then Inl (disallowed p)
        else tar_entries es ends roots raw)"

fun zip_entries :: "(string \<times> string option) list \<Rightarrow> string list \<Rightarrow> string \<Rightarrow> upload_error + string list \<times> string" where
  "zip_entries [] roots raw = Inr (roots, raw)"
| "zip_entries ((name, content) # es) roots raw =
     (case sanitizeArchivePath name of
        Inl err \<Rightarrow> Inl err
      | Inr p \<Rightarrow>
        if p = manifestPath then
          (case content of None \<Rightarrow> Inl NotArchive | Some s \<Rightarrow> zip_entries es (List.insert p roots) (limited s))
        else if \<not> isDirEntry name \<and> \<not> isAllowedExt p then Inl (disallowed p)
        else zip_entries es roots raw)"

definition one_manifest :: "env \<Rightarrow> upload_error + string list \<times> string \<Rightarrow> upload_error + (string \<times> json) list" where
  "one_manifest E r =
     (case r of
        Inl err \<Rightarrow> Inl err
      | Inr (roots, raw) \<Rightarrow>
        if length roots \<noteq> 1 then Inl (if roots = [] then MissingManifest else MultipleManifests)
        else parseManifest E raw)"

definition extractFromTarGz :: "env \<Rightarrow> string \<Rightarrow> upload_error + (string \<times> json) list" where
  "extractFromTarGz E data =
     (case tar_gz E data of None \<Rightarrow> Inl NotArchive | Some (es, ends) \<Rightarrow> one_manifest E (tar_entries es ends [] []))"

definition extractFromZip :: "env \<Rightarrow> string \<Rightarrow> upload_error + (string \<times> json) list" where
  "extractFromZip E data =
     (case zip_files E data of None \<Rightarrow> Inl NotArchive | Some es \<Rightarrow> one_manifest E (zip_entries es [] []))"

definition validateAndExtractManifest :: "env \<Rightarrow> string \<Rightarrow> string \<Rightarrow> upload_error + (string \<times> json) list" where
  "validateAndExtractManifest E data filename =
     (let name = ToLower (TrimSpace filename) in
      if HasSuffix name ''.tar.gz'' \<or> HasSuffix name ''.tgz'' then extractFromTarGz E data
      else if HasSuffix name ''.zip'' then extractFromZip E data
      else Inl NotArchive)"

end
