(* ===== verification/Sdk_Packages.thy ===== *)
theory Sdk_Packages
  imports Sdk_Manifest Registry_Http Accounts
begin

text \<open>
  The store of SDK packages (controllers/sdk_package_store.go) on the disk, and its endpoints
  (controllers/sdk_package_controller.go). A package is a directory with the archive as uploaded and a file of metadata; it is
  written beside its place and renamed into it. The mutex makes an operation on the store one step.
\<close>

section \<open>Metadata\<close>

text \<open>A route has a path, a module and a title; an entry of the menus a label and a path.\<close>

record sdk_meta =
  sm_Name :: string
  sm_Version :: string
  sm_Sha256 :: string
  sm_Size :: int
  sm_UploadedAt :: time
  sm_Routes :: "(string \<times> string \<times> string) list"
  sm_Menu :: "(string \<times> string) list"
  sm_Dashboard :: "(string \<times> string) list"
  sm_CriticalOperations :: "(string \<times> string) list"
  sm_Dependencies :: "(string \<times> string) list"
  sm_RunScripts :: bool

definition sdk_route_json :: "string \<times> string \<times> string \<Rightarrow> json" where
  "sdk_route_json = (\<lambda>(p, md, t). JObj ([(''path'', JStr p), (''module'', JStr md)] @ opt_str ''title'' t))"

definition link_json :: "string \<times> string \<Rightarrow> json" where
  "link_json = (\<lambda>(l, p). JObj [(''label'', JStr l), (''path'', JStr p)])"

definition opt_list :: "string \<Rightarrow> ('a \<Rightarrow> json) \<Rightarrow> 'a list \<Rightarrow> (string \<times> json) list" where
  "opt_list k f xs = (if xs = [] then [] else [(k, JArr (map f xs))])"

definition opt_map :: "string \<Rightarrow> (string \<times> string) list \<Rightarrow> (string \<times> json) list" where
  "opt_map k m = (if m = [] then [] else [(k, JObj (map (\<lambda>(k, v). (k, JStr v)) m))])"

text \<open>\<open>json.Marshal\<close> of the metadata, and \<open>json.Unmarshal\<close> into it.\<close>

definition meta_json :: "env \<Rightarrow> sdk_meta \<Rightarrow> json option" where
  "meta_json E m = map_option (\<lambda>t. JObj (
     [(''name'', JStr (sm_Name m)), (''version'', JStr (sm_Version m)), (''sha256'', JStr (sm_Sha256 m)),
      (''size'', JNum (int_text (sm_Size m))), (''uploaded_at'', JStr t)] @
     opt_list ''routes'' sdk_route_json (sm_Routes m) @ opt_list ''menu'' link_json (sm_Menu m) @
     opt_list ''dashboard'' link_json (sm_Dashboard m) @ opt_list ''critical_operations'' link_json (sm_CriticalOperations m) @
     opt_map ''dependencies'' (sm_Dependencies m) @ [(''run_scripts'', JBool (sm_RunScripts m))]))
     (time_text E (sm_UploadedAt m))"

definition read_bool :: "json \<Rightarrow> bool \<Rightarrow> bool option" where
  "read_bool v old = (case v of JBool b \<Rightarrow> Some b | JNull \<Rightarrow> Some old | _ \<Rightarrow> None)"

definition read_sdk_route :: "json \<Rightarrow> (string \<times> string \<times> string) option" where
  "read_sdk_route = read_struct (\<lambda>kvs.
     case (obj_field read_str ''path'' [] kvs, obj_field read_str ''module'' [] kvs, obj_field read_str ''title'' [] kvs) of
       (Some p, Some md, Some t) \<Rightarrow> Some (p, md, t) | _ \<Rightarrow> None)"

definition read_link :: "json \<Rightarrow> (string \<times> string) option" where
  "read_link = read_struct (\<lambda>kvs.
     case (obj_field read_str ''label'' [] kvs, obj_field read_str ''path'' [] kvs) of
       (Some l, Some p) \<Rightarrow> Some (l, p) | _ \<Rightarrow> None)"

fun read_strings :: "(string \<times> json) list \<Rightarrow> (string \<times> string) list option" where
  "read_strings [] = Some []"
| "read_strings ((k, v) # kvs) =
     (case (read_str v [], read_strings kvs) of (Some s, Some m) \<Rightarrow> Some ((k, s) # m) | _ \<Rightarrow> None)"

definition read_string_map :: "json \<Rightarrow> (string \<times> string) list \<Rightarrow> (string \<times> string) list option" where
  "read_string_map v old =
     (case v of
        JObj kvs \<Rightarrow> map_option (\<lambda>m. sort_key fst (fold (\<lambda>(k, s). AList.update k s) m old)) (read_strings kvs)
      | JNull \<Rightarrow> Some [] | _ \<Rightarrow> None)"

definition read_meta_file :: "env \<Rightarrow> (string \<times> json) list \<Rightarrow> sdk_meta option" where
  "read_meta_file E kvs =
     (case (obj_field read_str ''name'' [] kvs, obj_field read_str ''version'' [] kvs, obj_field read_str ''sha256'' [] kvs,
            obj_field read_int ''size'' 0 kvs, obj_field (read_time E) ''uploaded_at'' zero_time kvs,
            obj_field (read_list read_sdk_route) ''routes'' [] kvs, obj_field (read_list read_link) ''menu'' [] kvs,
            obj_field (read_list read_link) ''dashboard'' [] kvs, obj_field (read_list read_link) ''critical_operations'' [] kvs,
            obj_field read_string_map ''dependencies'' [] kvs, obj_field read_bool ''run_scripts'' False kvs) of
        (Some n, Some v, Some h, Some s, Some t, Some r, Some m, Some d, Some c, Some p, Some b) \<Rightarrow>
          Some \<lparr>sm_Name = n, sm_Version = v, sm_Sha256 = h, sm_Size = s, sm_UploadedAt = t, sm_Routes = r, sm_Menu = m,
            sm_Dashboard = d, sm_CriticalOperations = c, sm_Dependencies = p, sm_RunScripts = b\<rparr>
      | _ \<Rightarrow> None)"

definition unmarshal_meta :: "env \<Rightarrow> string \<Rightarrow> sdk_meta option" where
  "unmarshal_meta E raw = Option.bind (parse_json raw) (read_struct (read_meta_file E))"

text \<open>The entries of a member that are objects.\<close>

fun objects_in :: "json list \<Rightarrow> (string \<times> json) list list" where
  "objects_in [] = []"
| "objects_in (v # vs) = (case v of JObj kvs \<Rightarrow> go_map kvs # objects_in vs | _ \<Rightarrow> objects_in vs)"

definition links_of :: "json option \<Rightarrow> (string \<times> string) list" where
  "links_of v = map (\<lambda>m. (strFromMap m ''label'', strFromMap m ''path''))
     (case v of Some (JArr items) \<Rightarrow> objects_in items | Some (JObj kvs) \<Rightarrow> objects_in [JObj kvs] | _ \<Rightarrow> [])"

definition buildMeta :: "string \<Rightarrow> string \<Rightarrow> (string \<times> json) list \<Rightarrow> string \<Rightarrow> time \<Rightarrow> sdk_meta" where
  "buildMeta name data manifest digest t =
     \<lparr>sm_Name = name, sm_Version = strFromMap manifest ''version'', sm_Sha256 = hex_encode digest, sm_Size = int (length data),
      sm_UploadedAt = t,
      sm_Routes = (case map_of manifest ''routes'' of
        Some (JArr items) \<Rightarrow> map (\<lambda>m. (strFromMap m ''path'', strFromMap m ''module'', strFromMap m ''title'')) (objects_in items)
      | _ \<Rightarrow> []),
      sm_Menu = links_of (map_of manifest ''menu''), sm_Dashboard = links_of (map_of manifest ''dashboard''),
      sm_CriticalOperations = links_of (map_of manifest ''critical_operations''),
      sm_Dependencies = mapStringFromMap manifest ''dependencies'', sm_RunScripts = boolFromMap manifest ''run_scripts''\<rparr>"

section \<open>The store\<close>

datatype sdk_error = SdkConflict | SdkTooLarge | SdkTooMany | SdkOther string

type_synonym 'a sdk = "(world, sdk_error + 'a) state"

definition MaxPackagesOf :: "env \<Rightarrow> int" where
  "MaxPackagesOf E = (if MaxPackages (sdk_packages E) > 0 then MaxPackages (sdk_packages E) else 128)"

definition MaxPackageSizeOf :: "env \<Rightarrow> int" where
  "MaxPackageSizeOf E = (if MaxPackageSize (sdk_packages E) > 0 then MaxPackageSize (sdk_packages E) else 20 * 1048576)"

definition storage_dir :: "env \<Rightarrow> string" where
  "storage_dir E = (if sdk_StorageDir (sdk_packages E) = [] then ''./data/sdk_packages'' else sdk_StorageDir (sdk_packages E))"

definition nameDir :: "env \<Rightarrow> string \<Rightarrow> string list" where
  "nameDir E name = path_Join (storage_dir E) name"

text \<open>\<open>filepath.Join\<close> of a cleaned path and a file name.\<close>

definition archivePath :: "string list \<Rightarrow> string list" where
  "archivePath dir = dir @ [''archive'']"

definition metaPath :: "string list \<Rightarrow> string list" where
  "metaPath dir = dir @ [''.meta.json'']"

text \<open>An error of the system with the text the code puts before it.\<close>

definition os_error :: "env \<Rightarrow> string \<Rightarrow> sdk_error go" where
  "os_error E what = do { n \<leftarrow> gets file_ops; ret (SdkOther (what @ error_text E n)) }"

definition or_os_error :: "env \<Rightarrow> string \<Rightarrow> bool go \<Rightarrow> unit sdk" where
  "or_os_error E what m = do { ok \<leftarrow> m; e \<leftarrow> os_error E what; ret (if ok then Inr () else Inl e) }"

definition then_sdk :: "'a sdk \<Rightarrow> ('a \<Rightarrow> 'b sdk) \<Rightarrow> 'b sdk" where
  "then_sdk m f = do { r \<leftarrow> m; case r of Inl e \<Rightarrow> ret (Inl e) | Inr x \<Rightarrow> f x }"

definition store_root :: "env \<Rightarrow> string list sdk" where
  "store_root E = then_sdk (or_os_error E (runes [0x521B, 0x5EFA] @ '' SDK '' @
       runes [0x5305, 0x5B58, 0x50A8, 0x76EE, 0x5F55, 0x5931, 0x8D25] @ '': '') (os_MkdirAll E (disk_path (storage_dir E))))
     (\<lambda>_. ret (Inr (disk_path (storage_dir E))))"

definition store_Exists :: "env \<Rightarrow> string \<Rightarrow> bool sdk" where
  "store_Exists E name = then_sdk (store_root E) (\<lambda>_. do {
     st \<leftarrow> os_Stat E (archivePath (nameDir E name));
     e \<leftarrow> os_error E [];
     ret (case st of Found _ \<Rightarrow> Inr True | Missing \<Rightarrow> Inr False | Broken \<Rightarrow> Inl e)
   })"

definition store_Count :: "env \<Rightarrow> nat sdk" where
  "store_Count E = then_sdk (store_root E) (\<lambda>root. do {
     entries \<leftarrow> os_ReadDir E root;
     e \<leftarrow> os_error E [];
     ret (case entries of Found es \<Rightarrow> Inr (length (filter snd es)) | Missing \<Rightarrow> Inr 0 | Broken \<Rightarrow> Inl e)
   })"

text \<open>Writing the temporary directory and renaming it; what is left of it is removed in every case.\<close>

definition write_package :: "env \<Rightarrow> string list \<Rightarrow> string list \<Rightarrow> string \<Rightarrow> sdk_meta \<Rightarrow> sdk_meta sdk" where
  "write_package E dir tmp data meta =
     then_sdk (or_os_error E (runes [0x5199, 0x5165, 0x5F52, 0x6863, 0x5931, 0x8D25] @ '': '') (os_WriteFile E (archivePath tmp) data)) (\<lambda>_.
     case meta_json E meta of
       None \<Rightarrow> do { e \<leftarrow> os_error E (runes [0x5E8F, 0x5217, 0x5316, 0x5143, 0x4FE1, 0x606F, 0x5931, 0x8D25] @ '': ''); ret (Inl e) }
     | Some j \<Rightarrow>
       then_sdk (or_os_error E (runes [0x5199, 0x5165, 0x5143, 0x4FE1, 0x606F, 0x5931, 0x8D25] @ '': '')
         (os_WriteFile E (metaPath tmp) (print_json j))) (\<lambda>_.
       then_sdk (or_os_error E (runes [0x53D1, 0x5E03, 0x5305, 0x76EE, 0x5F55, 0x5931, 0x8D25] @ '': '') (os_Rename E tmp dir)) (\<lambda>_.
       ret (Inr meta))))"

text \<open>The temporary name is the name with the time in nanoseconds.\<close>

definition temp_dir :: "string list \<Rightarrow> time \<Rightarrow> string list" where
  "temp_dir dir t = butlast dir @ [last dir @ ''.tmp.'' @ int_text t]"

definition publish_package :: "env \<Rightarrow> string list \<Rightarrow> string \<Rightarrow> sdk_meta \<Rightarrow> sdk_meta sdk" where
  "publish_package E dir data meta = do {
     t \<leftarrow> now E;
     let tmp = temp_dir dir t;
     made \<leftarrow> os_MkdirAll E tmp;
     if \<not> made then do { e \<leftarrow> os_error E (runes [0x521B, 0x5EFA, 0x4E34, 0x65F6, 0x76EE, 0x5F55, 0x5931, 0x8D25] @ '': ''); ret (Inl e) }
     else do {
       r \<leftarrow> write_package E dir tmp data meta;
       _ \<leftarrow> os_RemoveAll E tmp;
       ret r
     }
   }"

definition store_Put :: "env \<Rightarrow> string \<Rightarrow> string \<Rightarrow> (string \<times> json) list \<Rightarrow> sdk_meta sdk" where
  "store_Put E name data manifest =
     (case validateName name of Some e \<Rightarrow> ret (Inl (SdkOther e))
      | None \<Rightarrow>
        if int (length data) > MaxPackageSizeOf E then ret (Inl SdkTooLarge)
        else then_sdk (store_root E) (\<lambda>_. do {
          let dir = nameDir E name;
          st \<leftarrow> os_Stat E (archivePath dir);
          case st of
            Found _ \<Rightarrow> ret (Inl SdkConflict)
          | _ \<Rightarrow> then_sdk (store_Count E) (\<lambda>count.
              if int count \<ge> MaxPackagesOf E then ret (Inl SdkTooMany)
              else do {
                t \<leftarrow> now E;
                publish_package E dir data (buildMeta name data manifest (sha256 data) t)
              })
        }))"

definition store_GetMeta :: "env \<Rightarrow> string \<Rightarrow> sdk_meta option sdk" where
  "store_GetMeta E name = then_sdk (store_root E) (\<lambda>_. do {
     raw \<leftarrow> os_ReadFile E (metaPath (nameDir E name));
     e \<leftarrow> os_error E [];
     ret (case raw of
       Missing \<Rightarrow> Inr None
     | Broken \<Rightarrow> Inl e
     | Found s \<Rightarrow> (case unmarshal_meta E s of None \<Rightarrow> Inl e | Some m \<Rightarrow> Inr (Some m)))
   })"

fun read_metas :: "env \<Rightarrow> string list \<Rightarrow> (string \<times> bool) list \<Rightarrow> sdk_meta list go" where
  "read_metas E root [] = ret []"
| "read_metas E root ((name, directory) # es) =
     (if \<not> directory then read_metas E root es
      else do {
        raw \<leftarrow> os_ReadFile E (metaPath (root @ [name]));
        metas \<leftarrow> read_metas E root es;
        ret (case raw of
          Found s \<Rightarrow> (case unmarshal_meta E s of None \<Rightarrow> metas | Some m \<Rightarrow> m # metas)
        | _ \<Rightarrow> metas)
      })"

definition store_List :: "env \<Rightarrow> sdk_meta list sdk" where
  "store_List E = then_sdk (store_root E) (\<lambda>root. do {
     entries \<leftarrow> os_ReadDir E root;
     e \<leftarrow> os_error E [];
     case entries of
       Missing \<Rightarrow> ret (Inr [])
     | Broken \<Rightarrow> ret (Inl e)
     | Found es \<Rightarrow> do { metas \<leftarrow> read_metas E root es; ret (Inr (sort_key sm_Name metas)) }
   })"

text \<open>\<open>None\<close> is \<open>os.ErrNotExist\<close>. A directory can be opened, and nothing can be read from it.\<close>

definition store_OpenArchive :: "env \<Rightarrow> string \<Rightarrow> string option sdk" where
  "store_OpenArchive E name = then_sdk (store_root E) (\<lambda>_. disk_op E (\<lambda>fault _ _ d.
     (if fault then Inl (SdkOther [])
      else case look d (archivePath (nameDir E name)) of
        Found (Some s) \<Rightarrow> Inr (Some s) | Found None \<Rightarrow> Inr (Some []) | Missing \<Rightarrow> Inr None | Broken \<Rightarrow> Inl (SdkOther []), d)))"

definition store_Delete :: "env \<Rightarrow> string \<Rightarrow> bool sdk" where
  "store_Delete E name = then_sdk (store_root E) (\<lambda>_. do {
     st \<leftarrow> os_Stat E (nameDir E name);
     case st of
       Missing \<Rightarrow> ret (Inr False)
     | _ \<Rightarrow> then_sdk (or_os_error E [] (os_RemoveAll E (nameDir E name))) (\<lambda>_. ret (Inr True))
   })"

text \<open>A limited read of an upload: one byte more than the limit at most.\<close>

definition ReadAllArchive :: "env \<Rightarrow> string \<Rightarrow> string" where
  "ReadAllArchive E s = take (nat (MaxPackageSizeOf E) + 1) s"

section \<open>Endpoints\<close>

text \<open>The members in key order, as they are marshalled.\<close>

definition publicMeta :: "env \<Rightarrow> sdk_meta \<Rightarrow> json" where
  "publicMeta E m = JObj (
     opt_list ''critical_operations'' link_json (sm_CriticalOperations m) @ opt_list ''dashboard'' link_json (sm_Dashboard m) @
     opt_map ''dependencies'' (sm_Dependencies m) @ opt_list ''menu'' link_json (sm_Menu m) @
     [(''name'', JStr (sm_Name m))] @ opt_list ''routes'' sdk_route_json (sm_Routes m) @
     [(''run_scripts'', JBool (sm_RunScripts m)), (''sha256'', JStr (sm_Sha256 m)), (''size'', JNum (int_text (sm_Size m))),
      (''uploaded_at'', time_json E (sm_UploadedAt m)), (''version'', JStr (sm_Version m))])"

definition quoted_hash :: "string \<Rightarrow> string" where
  "quoted_hash s = [CHR 0x22] @ hex_encode (sha256 s) @ [CHR 0x22]"

text \<open>A time that cannot be marshalled leaves no bytes.\<close>

definition packageListETag :: "env \<Rightarrow> sdk_meta list \<Rightarrow> string" where
  "packageListETag E metas =
     quoted_hash (if list_all (\<lambda>m. time_text E (sm_UploadedAt m) \<noteq> None) metas then print_json (JArr (map (publicMeta E) metas)) else [])"

definition classifyUploadError :: "request \<Rightarrow> upload_error \<Rightarrow> response" where
  "classifyUploadError rq err =
     (case err of
        NotArchive \<Rightarrow> respondError rq 400 ''sdk_package_invalid'' ''archive format must be tar.gz or zip''
      | MultipleManifests \<Rightarrow> respondError rq 400 ''sdk_package_invalid_manifest'' ''archive must contain exactly one root-level manifest.json''
      | MissingManifest \<Rightarrow> respondError rq 400 ''sdk_package_invalid_manifest'' ''archive is missing root-level manifest.json''
      | IllegalPath \<Rightarrow> respondError rq 400 ''sdk_package_invalid_path'' ''archive contains illegal path (traversal/absolute/symlink/hard link)''
      | Invalid e \<Rightarrow> respondError rq 400 ''sdk_package_invalid'' (''invalid package: '' @ e))"

definition too_large :: "request \<Rightarrow> response" where
  "too_large rq = respondError rq 413 ''sdk_package_too_large'' ''package exceeds the configured size limit''"

text \<open>An upload: its name and size, and its content, the error of opening it or \<open>None\<close> if reading it fails.\<close>

record upload =
  up_Filename :: string
  up_Size :: int
  up_Content :: "string + string option"

definition store_upload :: "env \<Rightarrow> request \<Rightarrow> string \<Rightarrow> string \<Rightarrow> (string \<times> json) list \<Rightarrow> response go" where
  "store_upload E rq name data manifest = do {
     r \<leftarrow> store_Put E name data manifest;
     ret (case r of
       Inl SdkConflict \<Rightarrow> respondError rq 409 ''sdk_package_conflict'' (''a package with name '' @ [CHR 0x22] @ name @ [CHR 0x22] @
         '' already exists; DELETE it first to replace'')
     | Inl SdkTooLarge \<Rightarrow> too_large rq
     | Inl SdkTooMany \<Rightarrow> respondError rq 413 ''sdk_package_too_large'' ''package count limit reached''
     | Inl (SdkOther e) \<Rightarrow> respondError rq 400 ''sdk_package_invalid'' (''failed to store package: '' @ e)
     | Inr m \<Rightarrow> respondCreated rq ''sdk package uploaded'' (Some (publicMeta E m)))
   }"

definition sdk_Upload :: "env \<Rightarrow> request \<Rightarrow> upload option \<Rightarrow> response go" where
  "sdk_Upload E rq bound = continue_with (RequireAuthLevel E rq SecurityLevelOps) (\<lambda>_.
     (case bound of
        None \<Rightarrow> ret (respondError rq 400 ''invalid_request''
          ([CHR 0x22] @ ''package'' @ [CHR 0x22] @ '' file field is required (multipart/form-data)''))
      | Some up \<Rightarrow>
        if up_Size up > MaxPackageSizeOf E then ret (too_large rq)
        else case up_Content up of
          Inl e \<Rightarrow> ret (respondError rq 400 ''sdk_package_invalid'' (''failed to open uploaded package: '' @ e))
        | Inr None \<Rightarrow> ret (too_large rq)
        | Inr (Some s) \<Rightarrow>
          let data = ReadAllArchive E s in
          case validateAndExtractManifest E data (up_Filename up) of
            Inl err \<Rightarrow> ret (classifyUploadError rq err)
          | Inr manifest \<Rightarrow>
            let name = TrimSpace (strFromMap manifest ''name'') in
            case validateName name of
              Some e \<Rightarrow> ret (respondError rq 400 ''sdk_package_invalid_manifest'' (''manifest '' @ [CHR 0x22] @ ''name'' @ [CHR 0x22] @ '' is invalid: '' @ e))
            | None \<Rightarrow> store_upload E rq name data manifest))"

text \<open>With the value of the header the endpoint sets.\<close>

definition sdk_List :: "env \<Rightarrow> request \<Rightarrow> (string \<times> response) go" where
  "sdk_List E rq = do {
     level \<leftarrow> RequireAuthLevel E rq SecurityLevelOps;
     case level of
       Inl resp \<Rightarrow> ret ([], resp)
     | Inr _ \<Rightarrow> do {
         r \<leftarrow> store_List E;
         ret (case r of
           Inl _ \<Rightarrow> ([], respondError rq 500 ''internal_error'' ''failed to list sdk packages'')
         | Inr metas \<Rightarrow>
           let etag = packageListETag E metas; match = GetHeader rq ''If-None-Match'' in
           (etag, if match \<noteq> [] \<and> match = etag then Data 304 [] []
                  else respondOK rq ''sdk packages fetched'' (Some (JArr (map (publicMeta E) metas)))))
       }
   }"

definition package_missing :: "request \<Rightarrow> response" where
  "package_missing rq = respondError rq 404 ''sdk_package_not_found'' ''sdk package not found''"

definition sdk_Get :: "env \<Rightarrow> request \<Rightarrow> string \<Rightarrow> response go" where
  "sdk_Get E rq param = continue_with (RequireAuthLevel E rq SecurityLevelOps) (\<lambda>_. do {
     r \<leftarrow> store_GetMeta E (TrimSpace param);
     ret (case r of
       Inl _ \<Rightarrow> respondError rq 500 ''internal_error'' ''failed to read sdk package''
     | Inr None \<Rightarrow> package_missing rq
     | Inr (Some m) \<Rightarrow> respondOK rq ''sdk package fetched'' (Some (publicMeta E m)))
   })"

definition sdk_Download :: "env \<Rightarrow> request \<Rightarrow> string \<Rightarrow> response go" where
  "sdk_Download E rq param = continue_with (RequireAuthLevel E rq SecurityLevelOps) (\<lambda>_. do {
     r \<leftarrow> store_OpenArchive E (TrimSpace param);
     ret (case r of
       Inl _ \<Rightarrow> respondError rq 500 ''internal_error'' ''failed to open sdk package''
     | Inr None \<Rightarrow> package_missing rq
     | Inr (Some s) \<Rightarrow> Data 200 ''application/octet-stream'' s)
   })"

definition sdk_Delete :: "env \<Rightarrow> request \<Rightarrow> string \<Rightarrow> response go" where
  "sdk_Delete E rq param = continue_with (RequireAuthLevel E rq SecurityLevelOps) (\<lambda>_.
     let name = TrimSpace param in do {
       r \<leftarrow> store_Delete E name;
       ret (case r of
         Inl _ \<Rightarrow> respondError rq 500 ''internal_error'' ''failed to delete sdk package''
       | Inr False \<Rightarrow> package_missing rq
       | Inr True \<Rightarrow> respondOK rq ''sdk package deleted'' (Some (JObj [(''name'', JStr name), (''deleted'', JBool True)])))
     })"

end
