(* ===== verification/Server.thy ===== *)
theory Server
  imports WebAuthn_Controller Sdk_Packages
begin

text \<open>
  main.go: the table of routes, the middlewares in their order, and the start of the process up to the listener.

  Binding a body to a struct is the framework's: \<open>bindings\<close> has, for each shape of body, what the binding makes of a request.
  A request is matched against the table by method and path; the framework's redirects between a path and the same path
  with a slash at its end are left out. A panic of a handler is not modelled, nor a database that goes away.
\<close>

section \<open>Routes\<close>

datatype endpoint =
  OAuth2_Authorize | OAuth2_LoginTicket | OAuth2_AuthorizeDecision | OAuth2_Token | OAuth2_Revoke
| OAuth2_RegisterClient | WebAuthn_BeginRegistration | WebAuthn_FinishRegistration | WebAuthn_ListCredentials | WebAuthn_DeleteCredential
| WebAuthn_Toggle2FA | WebAuthn_BeginLogin | WebAuthn_FinishLogin | WebAuthn_BeginSecondFactor | WebAuthn_FinishSecondFactor
| Auth_Register | Auth_ForgotPassword | Auth_ResetPassword | Auth_Logout | Auth_VerifyCredentials
| Auth_VerifyToken | Auth_ClaimUserInternal | UserInfo_GetUser | UserInfo_DeleteAccount | UserInfo_ListDeletedAccounts
| UserInfo_GetUserInfoInternal | UserInfo_LookupUser | UserSecurity_SendChangeEmailCode | UserSecurity_BeginWebAuthnSudo | UserSecurity_ChangeEmail
| UserSecurity_CreateRecoveryKey | UserSecurity_RegenerateRecoveryKey | UserSecurity_RevokeRecoveryKey | UserSecurity_VerifyRecoveryKey | UserSecurity_GetTwoFactorStatus
| Email_Handle | Email2FA_SendCode | Email2FA_VerifyCode | Email2FA_Toggle | TOTP_Generate
| TOTP_SetupTOTP | TOTP_VerifyTOTP | TOTP_Toggle2FA | UserProfile_ChangeUsername | Captcha_Generate
| Captcha_Status | Captcha_Image | Presence_Bonjour | Presence_AuthKey | Route_Register
| Hook_Register | Relay_Register | Relay_Delete | Relay_List | SdkPackage_Upload
| SdkPackage_List | SdkPackage_Get | SdkPackage_Download | SdkPackage_Delete

text \<open>The routes behind the check of the database connection, in the order of the source.\<close>

definition api_routes :: "(string \<times> string \<times> endpoint) list" where
  "api_routes = [
     (''GET'', ''/oauth/authorize'', OAuth2_Authorize), (''POST'', ''/oauth/login-ticket'', OAuth2_LoginTicket),
     (''POST'', ''/oauth/authorize/decision'', OAuth2_AuthorizeDecision), (''POST'', ''/oauth/token'', OAuth2_Token),
     (''POST'', ''/oauth/revoke'', OAuth2_Revoke), (''POST'', ''/oauth/register'', OAuth2_RegisterClient),
     (''POST'', ''/webauthn/register/begin'', WebAuthn_BeginRegistration), (''POST'', ''/webauthn/register/finish'', WebAuthn_FinishRegistration),
     (''GET'', ''/webauthn/credentials'', WebAuthn_ListCredentials), (''DELETE'', ''/webauthn/credentials/:id'', WebAuthn_DeleteCredential),
     (''POST'', ''/webauthn/2fa/toggle'', WebAuthn_Toggle2FA), (''POST'', ''/webauthn/login/begin'', WebAuthn_BeginLogin),
     (''POST'', ''/webauthn/login/finish'', WebAuthn_FinishLogin), (''POST'', ''/webauthn/2fa/begin'', WebAuthn_BeginSecondFactor),
     (''POST'', ''/webauthn/2fa/finish'', WebAuthn_FinishSecondFactor), (''POST'', ''/register'', Auth_Register),
     (''POST'', ''/forgot-password'', Auth_ForgotPassword), (''POST'', ''/reset-password'', Auth_ResetPassword),
     (''GET'', ''/logout'', Auth_Logout), (''POST'', ''/internal/verify-credentials'', Auth_VerifyCredentials),
     (''POST'', ''/internal/verify-token'', Auth_VerifyToken), (''POST'', ''/internal/claim-user'', Auth_ClaimUserInternal),
     (''POST'', ''/user'', UserInfo_GetUser), (''DELETE'', ''/user'', UserInfo_DeleteAccount),
     (''GET'', ''/user/deleted'', UserInfo_ListDeletedAccounts), (''GET'', ''/services/users/:uuid'', UserInfo_GetUserInfoInternal),
     (''POST'', ''/user/lookup'', UserInfo_LookupUser), (''POST'', ''/user/security/change-email/send-code'', UserSecurity_SendChangeEmailCode),
     (''POST'', ''/user/security/change-email/webauthn-begin'', UserSecurity_BeginWebAuthnSudo), (''POST'', ''/user/security/change-email'', UserSecurity_ChangeEmail),
     (''POST'', ''/user/security/recovery-key/create'', UserSecurity_CreateRecoveryKey), (''POST'', ''/user/security/recovery-key/regenerate'', UserSecurity_RegenerateRecoveryKey),
     (''POST'', ''/user/security/recovery-key/revoke'', UserSecurity_RevokeRecoveryKey), (''POST'', ''/user/security/recovery-key/verify'', UserSecurity_VerifyRecoveryKey),
     (''POST'', ''/user/security/2fa/status'', UserSecurity_GetTwoFactorStatus), (''POST'', ''/email-verification'', Email_Handle),
     (''POST'', ''/email-2fa/send'', Email2FA_SendCode), (''POST'', ''/email-2fa/verify'', Email2FA_VerifyCode),
     (''POST'', ''/email-2fa/toggle'', Email2FA_Toggle), (''GET'', ''/totpgen'', TOTP_Generate),
     (''POST'', ''/totp/setup'', TOTP_SetupTOTP), (''POST'', ''/totp/verify'', TOTP_VerifyTOTP),
     (''POST'', ''/totp/toggle'', TOTP_Toggle2FA), (''POST'', ''/change-username'', UserProfile_ChangeUsername),
     (''POST'', ''/captcha'', Captcha_Generate), (''GET'', ''/captcha/enabled'', Captcha_Status),
     (''GET'', ''/captcha/image/:token'', Captcha_Image), (''POST'', ''/services/presence'', Presence_Bonjour),
     (''POST'', ''/services/auth-key'', Presence_AuthKey), (''POST'', ''/services/route'', Route_Register),
     (''POST'', ''/services/hook'', Hook_Register), (''POST'', ''/services/relay'', Relay_Register),
     (''DELETE'', ''/services/relay'', Relay_Delete), (''GET'', ''/services/relay'', Relay_List),
     (''POST'', ''/services/sdk-packages'', SdkPackage_Upload), (''GET'', ''/services/sdk-packages'', SdkPackage_List),
     (''GET'', ''/services/sdk-packages/:name'', SdkPackage_Get), (''GET'', ''/services/sdk-packages/:name/download'', SdkPackage_Download),
     (''DELETE'', ''/services/sdk-packages/:name'', SdkPackage_Delete)]"

text \<open>A pattern matches segment by segment; a segment that starts with a colon takes any segment that is not empty.\<close>

fun match_segments :: "string list \<Rightarrow> string list \<Rightarrow> string list option" where
  "match_segments [] [] = Some []"
| "match_segments (p # ps) (s # ss) =
     (if HasPrefix p '':'' then (if s = [] then None else map_option (\<lambda>params. s # params) (match_segments ps ss))
      else if p = s then match_segments ps ss else None)"
| "match_segments _ _ = None"

definition match_route :: "string \<Rightarrow> string \<Rightarrow> string list option" where
  "match_route pattern path = match_segments (Split CHR ''/'' pattern) (Split CHR ''/'' path)"

fun find_route :: "(string \<times> string \<times> endpoint) list \<Rightarrow> string \<Rightarrow> string \<Rightarrow> (endpoint \<times> string list) option" where
  "find_route [] method path = None"
| "find_route ((m, pattern, e) # rs) method path =
     (case (if m = method then match_route pattern path else None) of
        Some params \<Rightarrow> Some (e, params)
      | None \<Rightarrow> find_route rs method path)"

section \<open>Handlers\<close>

record bindings =
  bind_pair :: "string \<Rightarrow> string \<Rightarrow> request \<Rightarrow> (string \<times> string) option"
  bind_triple :: "string \<Rightarrow> string \<Rightarrow> string \<Rightarrow> request \<Rightarrow> (string \<times> string \<times> string) option"
  bind_string :: "string \<Rightarrow> request \<Rightarrow> string option"
  bind_enabled :: "request \<Rightarrow> bool option"
  has_body :: "request \<Rightarrow> bool"
  bind_decision :: "request \<Rightarrow> decision_request option"
  bind_token :: "request \<Rightarrow> token_request option"
  bind_register :: "request \<Rightarrow> register_request option"
  bind_lookup :: "request \<Rightarrow> (nat option \<times> string option) option"
  bind_email :: "request \<Rightarrow> email_request option"
  bind_factors :: "request \<Rightarrow> factors_request option"
  bind_presence :: "request \<Rightarrow> presence_request option"
  bind_routes :: "request \<Rightarrow> (string \<times> route_rule list) option"
  bind_hooks :: "request \<Rightarrow> (string \<times> hook_rule list) option"
  bind_relays :: "request \<Rightarrow> (string \<times> relay_rule list) option"
  bind_upload :: "request \<Rightarrow> upload option"

definition only_with_body :: "bindings \<Rightarrow> (request \<Rightarrow> 'a option) \<Rightarrow> request \<Rightarrow> 'a option option" where
  "only_with_body B f rq = (if has_body B rq then Some (f rq) else None)"

text \<open>The shapes of the simple bodies are the names of their members.\<close>

fun run_endpoint :: "env \<Rightarrow> bindings \<Rightarrow> endpoint \<Rightarrow> string \<Rightarrow> request \<Rightarrow> response go" where
  "run_endpoint E B OAuth2_Authorize param rq = Authorize E rq"
| "run_endpoint E B OAuth2_LoginTicket param rq = LoginTicket E rq (bind_pair B ''email'' ''password'' rq)"
| "run_endpoint E B OAuth2_AuthorizeDecision param rq = AuthorizeDecision E rq (bind_decision B rq)"
| "run_endpoint E B OAuth2_Token param rq = Token E rq (bind_token B rq)"
| "run_endpoint E B OAuth2_Revoke param rq = Revoke E rq (bind_string B ''token'' rq)"
| "run_endpoint E B OAuth2_RegisterClient param rq = RegisterClient E rq (bind_pair B ''client_name'' ''scope'' rq)"
| "run_endpoint E B WebAuthn_BeginRegistration param rq =
     endpoint_BeginRegistration E rq (only_with_body B (bind_pair B ''name'' ''attachment'') rq)"
| "run_endpoint E B WebAuthn_FinishRegistration param rq = endpoint_FinishRegistration E rq (bind_pair B ''flow_id'' ''credential'' rq)"
| "run_endpoint E B WebAuthn_ListCredentials param rq = endpoint_ListCredentials E rq"
| "run_endpoint E B WebAuthn_DeleteCredential param rq = endpoint_DeleteCredential E rq param"
| "run_endpoint E B WebAuthn_Toggle2FA param rq = endpoint_Toggle2FA E rq (bind_enabled B rq)"
| "run_endpoint E B WebAuthn_BeginLogin param rq = endpoint_BeginLogin E rq (only_with_body B (bind_string B ''email'') rq)"
| "run_endpoint E B WebAuthn_FinishLogin param rq = endpoint_FinishLogin E rq (bind_pair B ''flow_id'' ''credential'' rq)"
| "run_endpoint E B WebAuthn_BeginSecondFactor param rq = endpoint_BeginSecondFactor E rq (bind_string B ''login_ticket'' rq)"
| "run_endpoint E B WebAuthn_FinishSecondFactor param rq = endpoint_FinishSecondFactor E rq (bind_pair B ''flow_id'' ''credential'' rq)"
| "run_endpoint E B Auth_Register param rq = Register E rq (bind_register B rq)"
| "run_endpoint E B Auth_ForgotPassword param rq = ForgotPassword E rq (bind_triple B ''email'' ''captcha_token'' ''captcha_code'' rq)"
| "run_endpoint E B Auth_ResetPassword param rq = ResetPassword E rq (bind_triple B ''email'' ''code'' ''new_password'' rq)"
| "run_endpoint E B Auth_Logout param rq = Logout E rq"
| "run_endpoint E B Auth_VerifyCredentials param rq = VerifyCredentialsInternal E rq (bind_pair B ''identifier'' ''password'' rq)"
| "run_endpoint E B Auth_VerifyToken param rq = VerifyToken E rq (bind_string B ''token'' rq)"
| "run_endpoint E B Auth_ClaimUserInternal param rq = ClaimUserInternal E rq (bind_triple B ''username'' ''email'' ''password'' rq)"
| "run_endpoint E B UserInfo_GetUser param rq = GetUser E rq (bind_pair B ''uid'' ''email'' rq)"
| "run_endpoint E B UserInfo_DeleteAccount param rq = DeleteAccount E rq (bind_string B ''password'' rq)"
| "run_endpoint E B UserInfo_ListDeletedAccounts param rq = ListDeletedAccounts E rq"
| "run_endpoint E B UserInfo_GetUserInfoInternal param rq = GetUserInfoInternal E rq param"
| "run_endpoint E B UserInfo_LookupUser param rq = LookupUser E rq (bind_lookup B rq)"
| "run_endpoint E B UserSecurity_SendChangeEmailCode param rq = SendChangeEmailCode E rq"
| "run_endpoint E B UserSecurity_BeginWebAuthnSudo param rq = BeginWebAuthnSudo E rq"
| "run_endpoint E B UserSecurity_ChangeEmail param rq = ChangeEmail E rq
     (case (bind_string B ''new_email'' rq, bind_factors B rq) of (Some m, Some f) \<Rightarrow> Some (m, f) | _ \<Rightarrow> None)"
| "run_endpoint E B UserSecurity_CreateRecoveryKey param rq = CreateRecoveryKey E rq"
| "run_endpoint E B UserSecurity_RegenerateRecoveryKey param rq = RegenerateRecoveryKey E rq (bind_factors B rq)"
| "run_endpoint E B UserSecurity_RevokeRecoveryKey param rq = RevokeRecoveryKey E rq (bind_factors B rq)"
| "run_endpoint E B UserSecurity_VerifyRecoveryKey param rq = VerifyRecoveryKey E rq (bind_pair B ''login_ticket'' ''recovery_key'' rq)"
| "run_endpoint E B UserSecurity_GetTwoFactorStatus param rq = GetTwoFactorStatus E rq (bind_string B ''uid'' rq)"
| "run_endpoint E B Email_Handle param rq = email_Handle E rq (bind_email B rq)"
| "run_endpoint E B Email2FA_SendCode param rq = email2fa_SendCode E rq (bind_string B ''login_ticket'' rq)"
| "run_endpoint E B Email2FA_VerifyCode param rq = email2fa_VerifyCode E rq (bind_pair B ''login_ticket'' ''code'' rq)"
| "run_endpoint E B Email2FA_Toggle param rq = email2fa_Toggle E rq (bind_enabled B rq)"
| "run_endpoint E B TOTP_Generate param rq = totp_Generate E rq"
| "run_endpoint E B TOTP_SetupTOTP param rq = SetupTOTP E rq (bind_string B ''email'' rq)"
| "run_endpoint E B TOTP_VerifyTOTP param rq = VerifyTOTP E rq (bind_pair B ''login_ticket'' ''passcode'' rq)"
| "run_endpoint E B TOTP_Toggle2FA param rq = totp_Toggle2FA E rq (bind_enabled B rq)"
| "run_endpoint E B UserProfile_ChangeUsername param rq = ChangeUsername E rq (bind_triple B ''uid'' ''email'' ''username'' rq)"
| "run_endpoint E B Captcha_Generate param rq = captcha_endpoint_Generate E rq"
| "run_endpoint E B Captcha_Status param rq = captcha_endpoint_Status E rq"
| "run_endpoint E B Captcha_Image param rq = captcha_endpoint_Image E rq param"
| "run_endpoint E B Presence_Bonjour param rq = Bonjour E rq (bind_presence B rq)"
| "run_endpoint E B Presence_AuthKey param rq = AuthKey E rq (bind_string B ''name'' rq)"
| "run_endpoint E B Route_Register param rq = route_Register E rq (bind_routes B rq)"
| "run_endpoint E B Hook_Register param rq = hook_Register E rq (bind_hooks B rq)"
| "run_endpoint E B Relay_Register param rq = relay_Register E rq (bind_relays B rq)"
| "run_endpoint E B Relay_Delete param rq = relay_DeleteRule E rq (bind_pair B ''name'' ''dest'' rq)"
| "run_endpoint E B Relay_List param rq = relay_ListRules rq"
| "run_endpoint E B SdkPackage_Upload param rq = sdk_Upload E rq (bind_upload B rq)"
| "run_endpoint E B SdkPackage_List param rq = do { (_, resp) \<leftarrow> sdk_List E rq; ret resp }"
| "run_endpoint E B SdkPackage_Get param rq = sdk_Get E rq param"
| "run_endpoint E B SdkPackage_Download param rq = sdk_Download E rq param"
| "run_endpoint E B SdkPackage_Delete param rq = sdk_Delete E rq param"

section \<open>The pages outside the API\<close>

text \<open>The front page: the members the announced services bring replace the server's own of the same name.\<close>

definition front_page :: "env \<Rightarrow> request \<Rightarrow> response go" where
  "front_page E rq = do {
     records \<leftarrow> GetAllRecords;
     ret (Json 200 (fold (\<lambda>r page. fold (\<lambda>(k, v). AList.update k v) (pr_RootMetadata r) page) records
       [(''success'', JBool True), (''message'', JStr ''HRPAuth core service is running.''),
        (''site'', JObj [(''name'', JStr (s_Name (site E))), (''implementation'', JStr (s_Implementation (site E))),
          (''version'', JStr (s_Version (site E))), (''url'', JStr (TrimRight (callback_url E) CHR ''/'')),
          (''frontend_url'', JStr (TrimRight (frontend_url E) CHR ''/''))]),
        (''meta'', JObj [(''request_id'', JStr (rq_ID rq))])]))
   }"

definition health_page :: "request \<Rightarrow> response" where
  "health_page rq = Json 200 [(''success'', JBool True), (''message'', JStr ''ok''), (''data'', JObj [(''status'', JStr ''ok'')]),
     (''meta'', JObj [(''request_id'', JStr (rq_ID rq))])]"

definition no_route :: "request \<Rightarrow> response" where
  "no_route rq = Json 404 [(''success'', JBool False), (''message'', JStr ''Not Found''), (''code'', JStr ''route_not_found''),
     (''error'', JStr ''route_not_found''), (''meta'', JObj [(''request_id'', JStr (rq_ID rq))])]"

definition status_redirect :: response where
  "status_redirect = Data 307 ''text/html; charset=utf-8''
     (''<a href='' @ [CHR 0x22, CHR ''/'', CHR 0x22] @ ''>Temporary Redirect</a>.'' @ [CHR 0x0A, CHR 0x0A])"

section \<open>Middlewares\<close>

text \<open>The headers the middleware sets, and the answer to a preflight request.\<close>

definition cors_origin :: "env \<Rightarrow> request \<Rightarrow> string" where
  "cors_origin E rq =
     (let origin = CORSOrigin (server E) in
      if origin = [] then TrimRight (frontend_url E) CHR ''/''
      else if origin = ''*'' \<and> GetHeader rq ''Origin'' \<noteq> [] then GetHeader rq ''Origin''
      else origin)"

definition CORSMiddleware :: "env \<Rightarrow> request \<Rightarrow> response go \<Rightarrow> ((string \<times> string) list \<times> response) go" where
  "CORSMiddleware E rq next_handler = do {
     resp \<leftarrow> (if rq_Method rq = ''OPTIONS'' then ret (Data 204 [] []) else next_handler);
     ret ([(''Access-Control-Allow-Origin'', cors_origin E rq), (''Access-Control-Allow-Credentials'', ''true''),
        (''Access-Control-Allow-Methods'', ''GET, POST, PUT, DELETE, OPTIONS''),
        (''Access-Control-Allow-Headers'', ''Content-Type, Authorization'')], resp)
   }"

definition DatabaseMiddleware :: "env \<Rightarrow> response go \<Rightarrow> response go" where
  "DatabaseMiddleware E next_handler =
     (if \<not> db_ready E then ret (Json 503 [(''success'', JBool False),
        (''message'', JStr ''Database connection is not established yet. Please try again later.''), (''code'', JStr ''database_not_ready'')])
      else next_handler)"

definition dispatch :: "env \<Rightarrow> bindings \<Rightarrow> request \<Rightarrow> response go" where
  "dispatch E B rq =
     (if rq_Method rq = ''GET'' \<and> rq_Path rq = ''/'' then front_page E rq
      else if rq_Method rq = ''GET'' \<and> rq_Path rq = ''/status'' then ret status_redirect
      else if rq_Method rq = ''GET'' \<and> rq_Path rq = ''/health'' then ret (health_page rq)
      else case find_route api_routes (rq_Method rq) (rq_Path rq) of
        Some (e, params) \<Rightarrow> DatabaseMiddleware E (run_endpoint E B e (concat (take 1 params)) rq)
      | None \<Rightarrow> ret (no_route rq))"

text \<open>A request through the middlewares, in the order they are installed.\<close>

definition serve :: "env \<Rightarrow> bindings \<Rightarrow> request \<Rightarrow> ((string \<times> string) list \<times> response) go" where
  "serve E B rq0 = CORSMiddleware E rq0 (do {
     rq \<leftarrow> RequestIDMiddleware E rq0;
     RelayMiddleware E rq (\<lambda>rq. OrchestrationMiddleware E rq (dispatch E B))
   })"

section \<open>The start\<close>

text \<open>What the process reads back from the key-value server; a failure is only logged.\<close>

definition restore_registries :: "env \<Rightarrow> unit go" where
  "restore_registries E = do {
     _ \<leftarrow> presence_Load E;
     _ \<leftarrow> relay_Load E;
     _ \<leftarrow> route_Load E;
     _ \<leftarrow> hook_Load E;
     ret ()
   }"

text \<open>
  What runs once the database is connected, after the schema migrations (\<open>EnsureMigrations\<close> of Schema_Migration, whose failure is only
  logged): the built-in clients and the first run of each clean-up.
\<close>

definition on_connect :: "env \<Rightarrow> unit go" where
  "on_connect E = do {
     _ \<leftarrow> EnsureBuiltInClients E;
     _ \<leftarrow> cleanup_runOnce E;
     account_runOnce E
   }"

end
