(* ===== verification/Table_Relations.thy ===== *)
theory Table_Relations
  imports Server
begin

text \<open>
  The interface between the statements and the server. A relation between the tables before and after that every
  statement follows, as the program uses it, is followed by every endpoint, by the middlewares around them and by what runs
  at the start and in the background.

  The locale \<open>table_relation\<close> names the statements the program sends and what it changes with each; its lemmas go through
  the program once. A relation that discharges the laws is a fact about the whole server.
\<close>

named_theorems moves

locale table_relation =
  fixes E :: env and R :: "tables \<Rightarrow> tables \<Rightarrow> bool"
  assumes same: "R d d"
    and chain: "R d d' \<Longrightarrow> R d' d'' \<Longrightarrow> R d d''"
    and add_client: "evolves (on_db R) (insert_client E c)"
    and add_auth_code: "evolves (on_db R) (insert_auth_code E a)"
    and add_access_token: "evolves (on_db R) (insert_access_token E t)"
    and add_refresh_token: "evolves (on_db R) (insert_refresh_token E f)"
    and add_credential: "evolves (on_db R) (insert_credential E k)"
    and add_user: "u_DeletedAt u = None \<Longrightarrow> evolves (on_db R) (insert_user E u)"
    and add_deleted: "evolves (on_db R) (insert_deleted_account E x)"
    and set_clients: "\<lbrakk>\<And>r. cl_ID (fc r) = cl_ID r; \<And>r. cl_ClientID (fc r) = cl_ClientID r\<rbrakk> \<Longrightarrow>
      evolves (on_db R) (update_clients E pc fc)"
    and set_auth_codes: "\<lbrakk>\<And>r. ac_ID (fa r) = ac_ID r; \<And>r. ac_Code (fa r) = ac_Code r; \<And>r. ac_UserID (fa r) = ac_UserID r\<rbrakk> \<Longrightarrow>
      evolves (on_db R) (update_auth_codes E pa fa)"
    and set_access_tokens: "\<lbrakk>\<And>r. at_AccessToken (ft r) = at_AccessToken r; \<And>r. at_UserID (ft r) = at_UserID r;
        \<And>r. at_ID (ft r) = at_ID r\<rbrakk> \<Longrightarrow> evolves (on_db R) (update_access_tokens E pt ft)"
    and set_refresh_tokens: "\<lbrakk>\<And>r. rt_ID (ff r) = rt_ID r; \<And>r. rt_RefreshToken (ff r) = rt_RefreshToken r;
        \<And>r. rt_UserID (ff r) = rt_UserID r; \<And>r. rt_AccessTokenID (ff r) = rt_AccessTokenID r\<rbrakk> \<Longrightarrow>
      evolves (on_db R) (update_refresh_tokens E pf ff)"
    and set_credentials: "\<lbrakk>\<And>r. wc_ID (fk r) = wc_ID r; \<And>r. wc_UserID (fk r) = wc_UserID r;
        \<And>r. wc_CredentialIDHash (fk r) = wc_CredentialIDHash r\<rbrakk> \<Longrightarrow> evolves (on_db R) (update_credentials E pk fk)"
    and set_users: "\<lbrakk>\<And>r. UID (fu r) = UID r; \<And>r. u_UUID (fu r) = u_UUID r;
        \<And>r. u_DeletedAt r = None \<Longrightarrow> u_DeletedAt (fu r) = None\<rbrakk> \<Longrightarrow> evolves (on_db R) (update_users E pu fu)"
    and drop_access_tokens: "evolves (on_db R) (delete_access_tokens E pt)"
    and drop_auth_codes: "evolves (on_db R) (delete_auth_codes E pa)"
    and drop_refresh_tokens: "evolves (on_db R) (delete_refresh_tokens E pf)"
    and drop_credentials: "evolves (on_db R) (delete_credentials E pk)"
    and drop_deleted: "evolves (on_db R) (delete_deleted_accounts E px)"
    and drop_accounts: "evolves (on_db R) (delete_users E pu)"

sublocale table_relation \<subseteq> evolution "on_db R"
  by unfold_locales (auto simp: on_db_def intro: same chain)

section \<open>What does not touch the tables\<close>

lemma db_primitives [simp]:
  "db (final (file_op E f) w) = db w" "db (final (disk_op E g) w) = db w" "db (final (SendMail E to s t) w) = db w"
  "db (final (wa_call h) w) = db w" "db (final (HashPassword E p) w) = db w" "db (final (rand_Int E n) w) = db w"
  "db (final (newRequestID E) w) = db w"
  by (simp_all add: file_op_def disk_op_def SendMail_def wa_call_def HashPassword_def rand_Int_def newRequestID_def Let_def
      final_def split: prod.split option.split sum.split)

lemma db_find_db [simp]: "db (final (db_find E tab P) w) = db w"
  by (rule stmt_cases [where E = E and w = w and f = "\<lambda>d q. (Inr (filter P (tab d)), d, q)"]) (auto simp: db_find_def)

context table_relation
begin

lemma keep: "(\<And>w. db (final m w) = db w) \<Longrightarrow> evolves (on_db R) m"
  by (rule on_db_keep [OF same])

lemma move_primitives [moves]:
  "evolves (on_db R) (now E)" "evolves (on_db R) (GenerateRandomToken E n)" "evolves (on_db R) (db_first E tab P)"
  "evolves (on_db R) (db_count E tab P)" "evolves (on_db R) (db_find E tab P)" "evolves (on_db R) (command E g)"
  "evolves (on_db R) (http_do E h)" "evolves (on_db R) (file_op E i)" "evolves (on_db R) (disk_op E j)"
  "evolves (on_db R) (SendMail E to s t)" "evolves (on_db R) (wa_call l)" "evolves (on_db R) (HashPassword E p)"
  "evolves (on_db R) (rand_Int E n)" "evolves (on_db R) (newRequestID E)"
  by (rule keep; simp)+

lemma move_modify: "(\<And>w. db (f w) = db w) \<Longrightarrow> evolves (on_db R) (modify f)"
  by (rule keep) simp

lemma move_transaction [moves]: "evolves (on_db R) m \<Longrightarrow> evolves (on_db R) (transaction E m)"
  by (rule transaction_evolves [OF same])

lemma move_continue [moves]: "evolves (on_db R) m \<Longrightarrow> (\<And>x. evolves (on_db R) (f x)) \<Longrightarrow> evolves (on_db R) (continue_with m f)"
  unfolding continue_with_def by (intro evolves_rules)

lemma move_next_step [moves]: "evolves (on_db R) m \<Longrightarrow> (\<And>x. evolves (on_db R) (f x)) \<Longrightarrow> evolves (on_db R) (next_step m f)"
  unfolding next_step_def by (intro evolves_rules)

lemma move_then_try [moves]: "evolves (on_db R) m \<Longrightarrow> (\<And>x. evolves (on_db R) (f x)) \<Longrightarrow> evolves (on_db R) (then_try m f)"
  unfolding then_try_def by (intro evolves_rules)

lemma move_then_stmt [moves]: "evolves (on_db R) m \<Longrightarrow> evolves (on_db R) n \<Longrightarrow> evolves (on_db R) (then_stmt m n)"
  unfolding then_stmt_def by (intro evolves_rules)

lemma move_then_sdk [moves]: "evolves (on_db R) m \<Longrightarrow> (\<And>x. evolves (on_db R) (f x)) \<Longrightarrow> evolves (on_db R) (then_sdk m f)"
  unfolding then_sdk_def by (intro evolves_rules)

lemma move_found: "(\<And>x. evolves (on_db R) (f x)) \<Longrightarrow> evolves (on_db R) m \<Longrightarrow> evolves (on_db R) n \<Longrightarrow>
    evolves (on_db R) (case r of Found x \<Rightarrow> f x | Missing \<Rightarrow> m | Broken \<Rightarrow> n)"
  by (simp split: found.split)

lemmas go_rules = evolves_rules move_modify move_found

section \<open>The authorization service\<close>

lemmas statements [moves] = add_client add_auth_code add_access_token add_refresh_token add_credential add_deleted
  drop_access_tokens drop_auth_codes drop_refresh_tokens drop_credentials drop_deleted drop_accounts

lemma move_seeding [moves]: "evolves (on_db R) (upsert_client E c)" "evolves (on_db R) (seed_service_client E sc)"
  unfolding upsert_client_def seed_service_client_def Let_def
  by (intro moves go_rules set_clients; simp add: set_values_def)+

lemma move_seed_all [moves]: "evolves (on_db R) (seed_all E scs)"
  by (induction scs) (simp_all, (intro moves go_rules | assumption)+)

lemma move_clients [moves]:
  "evolves (on_db R) (EnsureBuiltInClients E)" "evolves (on_db R) (RegisterServiceClient E n s)"
  "evolves (on_db R) (AuthenticateClient E i p)" "evolves (on_db R) (GetClient E i)"
  "evolves (on_db R) (ValidateAuthorizationRequest E i u sc h m)"
  unfolding EnsureBuiltInClients_def upsertBuiltInPublicClient_def upsertBuiltInSuperClient_def
    ensureConfiguredServiceClients_def RegisterServiceClient_def AuthenticateClient_def GetClient_def
    ValidateAuthorizationRequest_def Let_def
  by (intro moves go_rules)+

lemma move_tokens [moves]:
  "evolves (on_db R) (issueUserTokens E c u scopes)" "evolves (on_db R) (consume_code E code t)"
  "evolves (on_db R) (revoke_refresh E tok t)" "evolves (on_db R) (RevokeAccessToken E tok)"
  unfolding issueUserTokens_def create_token_pair_def consume_code_def revoke_refresh_def RevokeAccessToken_def
  by (intro moves go_rules set_auth_codes set_refresh_tokens set_access_tokens; simp)+

lemma move_grants [moves]:
  "evolves (on_db R) (IssueFirstPartyUserTokens E u)" "evolves (on_db R) (CreateAuthorizationCode E c u uri s h m)"
  "evolves (on_db R) (IssueClientCredentialsToken E cl scope tu te)" "evolves (on_db R) (ExchangeAuthorizationCode E c code uri v)"
  "evolves (on_db R) (RefreshUserToken E c tok)" "evolves (on_db R) (ResolveAccessToken E tok)" "evolves (on_db R) (cleanup_runOnce E)"
  unfolding IssueFirstPartyUserTokens_def CreateAuthorizationCode_def IssueClientCredentialsToken_def resolve_target_uid_def
    resolve_target_email_def count_users_def ExchangeAuthorizationCode_def RefreshUserToken_def ResolveAccessToken_def
    GetClient_def load_user_def cleanup_runOnce_def CleanupExpiredAccessTokens_def CleanupExpiredAuthorizationCodes_def Let_def
  by (intro moves go_rules)+

section \<open>Registries and hooks\<close>

lemma move_commands [moves]:
  "evolves (on_db R) (kv_get E k)" "evolves (on_db R) (kv_set E k s ttl)" "evolves (on_db R) (kv_del E k)"
  "evolves (on_db R) (kv_srem E k x)" "evolves (on_db R) (kv_smembers E k)" "evolves (on_db R) (kv_scan E k)"
  unfolding kv_defs by (intro moves)+

lemma move_presence [moves]:
  "evolves (on_db R) (presence_persist E n r)" "evolves (on_db R) (presence_Register E n ttl sc l i m)"
  "evolves (on_db R) (RegisterAuthKey E n)" "evolves (on_db R) (RevokeAuthKey E n)" "evolves (on_db R) (presence_Get E n)"
  "evolves (on_db R) GetAllRecords" "evolves (on_db R) (load_presence E n)"
  unfolding presence_Register_def RegisterAuthKey_def RevokeAuthKey_def presence_Get_def presence_evict_def presence_persist_def
    persist_ttl_def set_presence_def GetAllRecords_def load_presence_def Let_def
  by (intro moves go_rules; simp)+

lemma move_load_presences [moves]: "evolves (on_db R) (load_presences E ns)"
  by (induction ns) (simp_all, (intro moves go_rules | assumption)+)

lemma move_checkService [moves]: "evolves (on_db R) (checkService E r)"
  unfolding checkService_def Let_def by (intro moves go_rules)

lemma move_check_records [moves]: "evolves (on_db R) (check_records E rs)"
  by (induction rs) (simp only: check_records.simps, (intro moves go_rules | assumption)+)+

lemma move_presence_runs [moves]: "evolves (on_db R) (presence_Load E)" "evolves (on_db R) (CheckAll E)"
  unfolding presence_Load_def CheckAll_def by (intro moves go_rules)+

lemma move_puts [moves]:
  "evolves (on_db R) (put_relays s rs)" "evolves (on_db R) (put_routes s ros)" "evolves (on_db R) (put_hooks s hs)"
  unfolding put_relays_def put_routes_def put_hooks_def by (intro move_modify; simp)+

lemma move_load_entries [moves]:
  "(\<And>s x. evolves (on_db R) (put s x)) \<Longrightarrow> evolves (on_db R) (load_entries E kind dec put ks)"
  by (induction ks) (simp_all add: load_entry_def Let_def, (intro moves go_rules | assumption | rule)+)

lemma move_registries [moves]:
  "evolves (on_db R) (relay_Load E)" "evolves (on_db R) (route_Load E)" "evolves (on_db R) (hook_Load E)"
  "evolves (on_db R) (relay_Upsert E s rs)" "evolves (on_db R) (route_Upsert E s ros)" "evolves (on_db R) (hook_Upsert E s hs)"
  "evolves (on_db R) (relay_Delete E s d)" "evolves (on_db R) (relay_List s)" "evolves (on_db R) (relay_Match p)"
  "evolves (on_db R) (MatchPre p)" "evolves (on_db R) (MatchPost p)" "evolves (on_db R) (hook_Match p phase)"
  unfolding relay_Load_def route_Load_def hook_Load_def load_registry_def relay_Upsert_def route_Upsert_def hook_Upsert_def
    relay_Delete_def relay_List_def relay_Match_def MatchPre_def MatchPost_def hook_Match_def relay_persist_def store_rules_def
  by (intro moves go_rules; simp)+

lemma move_auth [moves]:
  "evolves (on_db R) (RequireAuthLevel E rq l)" "evolves (on_db R) (resolveSiteBearerAuth E rq us as expl uid email)"
  "evolves (on_db R) (issueAndRespondFirstPartyUserTokens E rq u msg extras)"
  unfolding RequireAuthLevel_def resolveAuthLevel_def resolveSiteBearerAuth_def loadTargetUser_def
    issueAndRespondFirstPartyUserTokens_def Let_def
  by (intro moves go_rules)+

lemma move_runRule [moves]: "evolves (on_db R) (runRule E rq rule p)"
  unfolding runRule_def callHook_def Let_def by (intro moves go_rules)

lemma move_run_rules [moves]: "evolves (on_db R) (run_rules E rq rules p)"
  by (induction rules arbitrary: p) (simp_all, (intro moves go_rules | assumption)+)

lemma move_hook_Run [moves]: "evolves (on_db R) (hook_Run E rq phase p)"
  unfolding hook_Run_def by (intro moves go_rules)

lemma move_registry_endpoints [moves]:
  "evolves (on_db R) (Bonjour E rq bp)" "evolves (on_db R) (AuthKey E rq bn)" "evolves (on_db R) (relay_Register E rq brl)"
  "evolves (on_db R) (relay_DeleteRule E rq bd)" "evolves (on_db R) (relay_ListRules rq)" "evolves (on_db R) (route_Register E rq brr)"
  "evolves (on_db R) (hook_Register E rq bh)"
  unfolding Bonjour_def AuthKey_def relay_Register_def relay_DeleteRule_def relay_ListRules_def route_Register_def hook_Register_def
    registered_service_def Let_def
  by (intro moves go_rules)+

lemma move_forwardTo [moves]: "evolves (on_db R) (forwardTo E rq target)" "evolves (on_db R) (forwardRequest E rq target)"
  unfolding forwardRequest_def forwardTo_def Let_def by (intro moves go_rules)+

lemma move_try_forward [moves]: "evolves (on_db R) (try_forward E rq rules)"
  by (induction rules arbitrary: rq) (simp_all, (intro moves go_rules | assumption)+)

lemma move_dispatchPost [moves]: "evolves (on_db R) (dispatchPost E url payload)"
  unfolding dispatchPost_def by (intro moves go_rules)

lemma move_dispatch_all [moves]: "evolves (on_db R) (dispatch_all E rules payload)"
  by (induction rules) (simp_all, (intro moves go_rules | assumption)+)

lemma move_service_levels [moves]: "evolves (on_db R) (serviceSecurityLevel E s)" "evolves (on_db R) (service_levels E ss)"
  unfolding serviceSecurityLevel_def
  by (intro moves go_rules, induction ss) (simp_all add: serviceSecurityLevel_def, (intro moves go_rules | assumption)+)

lemma move_middlewares [moves]:
  assumes "\<And>rq. evolves (on_db R) (handler rq)"
  shows "evolves (on_db R) (RelayMiddleware E rq handler)" "evolves (on_db R) (OrchestrationMiddleware E rq handler)"
  unfolding RelayMiddleware_def OrchestrationMiddleware_def handle_and_post_def maxSecurityForRules_def Let_def
  by (intro moves go_rules assms)+

lemma move_request_id [moves]: "evolves (on_db R) (RequestIDMiddleware E rq)"
  unfolding RequestIDMiddleware_def Let_def by (intro moves go_rules)

section \<open>Accounts and codes\<close>

lemma move_files [moves]:
  "evolves (on_db R) (code_Store E m c)" "evolves (on_db R) (code_Get E m)" "evolves (on_db R) (code_Delete E m)"
  "evolves (on_db R) (GenerateCode E)" "evolves (on_db R) (Generate4DigitCode E)" "evolves (on_db R) (captcha_Render E tok)"
  "evolves (on_db R) (captcha_Verify E tok c)"
  unfolding code_Store_def code_Get_def code_Delete_def GenerateCode_def Generate4DigitCode_def captcha_Render_def captcha_Verify_def Let_def
  by (intro moves go_rules)+

lemma move_captcha_Generate [moves]: "evolves (on_db R) (captcha_Generate E)"
  unfolding captcha_Generate_def Let_def by (intro moves go_rules; simp)

lemma move_accounts [moves]:
  "evolves (on_db R) (VerifyCredentials E i p b)" "evolves (on_db R) (deleteUserCascade E u)"
  "evolves (on_db R) (service_ChangeUsername E i n)" "evolves (on_db R) (delete_account_rows E u)"
  unfolding VerifyCredentials_def restore_account_def deleteUserCascade_def service_ChangeUsername_def delete_account_rows_def
  by (intro moves go_rules set_users; simp)+

lemma move_delete_all [moves]: "evolves (on_db R) (delete_all E us n)"
  by (induction us arbitrary: n) (simp_all, (intro moves go_rules | assumption)+)

lemma move_account_endpoints [moves]:
  "evolves (on_db R) (account_runOnce E)" "evolves (on_db R) (GetUser E rq b)" "evolves (on_db R) (LookupUser E rq c)"
  "evolves (on_db R) (DeleteAccount E rq p)" "evolves (on_db R) (ListDeletedAccounts E rq)"
  "evolves (on_db R) (GetUserInfoInternal E rq uuid)" "evolves (on_db R) (ChangeUsername E rq n)"
  unfolding account_runOnce_def CleanupDeletedAccounts_def GetUser_def LookupUser_def DeleteAccount_def ListDeletedAccounts_def
    GetUserInfoInternal_def ChangeUsername_def Let_def
  by (intro moves go_rules)+

section \<open>Signing in\<close>

lemma move_tickets [moves]: "evolves (on_db R) (loadLoginTicket E t)" "evolves (on_db R) (deleteLoginTicket E t)"
  unfolding loadLoginTicket_def deleteLoginTicket_def by (intro moves go_rules)+

lemma move_or_oauth_error [moves]: "evolves (on_db R) m \<Longrightarrow> evolves (on_db R) (or_oauth_error rq m)"
  unfolding or_oauth_error_def by (intro go_rules)

lemma move_signing_in [moves]:
  "evolves (on_db R) (CountCredentials E u)" "evolves (on_db R) (finish_login E rq usr fs p)" "evolves (on_db R) (login_account E rq m pw)"
  unfolding CountCredentials_def finish_login_def issue_ticket_def login_account_def Let_def
  by (intro moves go_rules)+

lemma move_LoginTicket [moves]: "evolves (on_db R) (LoginTicket E rq b)"
  unfolding LoginTicket_def Let_def by (intro moves go_rules)

lemma move_authorization_endpoints [moves]:
  "evolves (on_db R) (Authorize E rq)" "evolves (on_db R) (AuthorizeDecision E rq d)" "evolves (on_db R) (Token E rq t)"
  "evolves (on_db R) (Revoke E rq s)" "evolves (on_db R) (RegisterClient E rq b)"
  unfolding Authorize_def AuthorizeDecision_def grant_code_def Token_def grant_tokens_def Revoke_def RegisterClient_def
    register_for_def Let_def
  by (intro moves go_rules)+

lemma move_unchecked_count [moves]: "evolves (on_db R) (unchecked_count E P)" "evolves (on_db R) (max_uid E)"
  unfolding unchecked_count_def max_uid_def by (intro moves go_rules on_db_stmt same; simp add: same)+

lemma move_create_user: "u_DeletedAt u = None \<Longrightarrow> evolves (on_db R) (create_user E rq u msg)"
  unfolding create_user_def by (intro moves go_rules add_user)

lemma new_user_live: "u_DeletedAt (new_user i uuid m n h ip t v) = None"
  by (simp add: new_user_def)

lemma move_registration [moves]:
  "evolves (on_db R) (VerifyToken E rq s)" "evolves (on_db R) (VerifyCredentialsInternal E rq p)"
  "evolves (on_db R) (ClaimUserInternal E rq c)" "evolves (on_db R) (Register E rq r)"
  unfolding VerifyToken_def VerifyCredentialsInternal_def ClaimUserInternal_def claim_checked_def Register_def register_captcha_def
    create_account_def GenerateUnsignedUUID_def Let_def
  by (intro moves go_rules move_create_user new_user_live)+

lemma move_passwords [moves]:
  "evolves (on_db R) (Logout E rq)" "evolves (on_db R) (ForgotPassword E rq f)" "evolves (on_db R) (ResetPassword E rq p)"
  unfolding Logout_def ForgotPassword_def mail_reset_code_def ResetPassword_def set_password_def Let_def
  by (intro moves go_rules set_users; simp)+

lemma move_captcha_endpoints [moves]:
  "evolves (on_db R) (captcha_endpoint_Status E rq)" "evolves (on_db R) (captcha_endpoint_Generate E rq)"
  "evolves (on_db R) (captcha_endpoint_Image E rq tok)"
  unfolding captcha_endpoint_Status_def captcha_endpoint_Generate_def captcha_endpoint_Image_def Let_def
  by (intro moves go_rules)+

section \<open>Second factors\<close>

lemma move_update_account:
  "\<lbrakk>\<And>r. UID (f r) = UID r; \<And>r. u_UUID (f r) = u_UUID r; \<And>r. u_DeletedAt r = None \<Longrightarrow> u_DeletedAt (f r) = None\<rbrakk> \<Longrightarrow>
   evolves (on_db R) (update_account E u f)"
  unfolding update_account_def by (rule set_users)

lemma move_ticket_steps [moves]:
  "(\<And>i. evolves (on_db R) (f i)) \<Longrightarrow> evolves (on_db R) (with_ticket E rq t f)"
  "evolves (on_db R) (redeem_ticket E rq t u msg)" "evolves (on_db R) (mail_code E rq m s g a)"
  unfolding with_ticket_def redeem_ticket_def mail_code_def by (intro moves go_rules | assumption)+

lemma move_GenerateTOTPSecret [moves]: "evolves (on_db R) (GenerateTOTPSecret E n)"
  by (induction n) (simp_all, (intro moves go_rules | assumption)+)

lemma move_totp [moves]:
  "evolves (on_db R) (totp_Generate E rq)" "evolves (on_db R) (VerifyTOTP E rq p)" "evolves (on_db R) (SetupTOTP E rq m)"
  "evolves (on_db R) (totp_Toggle2FA E rq b)"
  unfolding totp_Generate_def GenerateTOTP_def VerifyTOTP_def SetupTOTP_def totp_Toggle2FA_def Let_def
  by (intro moves go_rules move_update_account; simp)+

lemma move_email [moves]:
  "evolves (on_db R) (email2fa_SendCode E rq m)" "evolves (on_db R) (email2fa_VerifyCode E rq p)"
  "evolves (on_db R) (email2fa_Toggle E rq b)" "evolves (on_db R) (email_Handle E rq r)"
  unfolding email2fa_SendCode_def email2fa_VerifyCode_def email2fa_Toggle_def email_Handle_def sendTestEmail_def
    sendVerificationCode_def verifyCode_def Let_def
  by (intro moves go_rules move_update_account set_users; simp)+

section \<open>Passkeys\<close>

lemma move_identities [moves]:
  "evolves (on_db R) (loadIdentityByUUID E i)" "evolves (on_db R) (loadIdentityByUUIDAllowEmpty E i)"
  "evolves (on_db R) (loadIdentityByEmail E m)" "evolves (on_db R) (lookupIdentityByCredential E c h)"
  "evolves (on_db R) (ListCredentials E i)"
  unfolding loadIdentityByUUID_def loadIdentityByUUIDAllowEmpty_def loadIdentityByEmail_def lookupIdentityByCredential_def
    loadIdentityByUUIDWithCredentialRequirement_def ListCredentials_def Let_def
  by (intro moves go_rules)+

lemma move_flows [moves]:
  "evolves (on_db R) (saveFlow E f)" "evolves (on_db R) (getFlow E i)" "evolves (on_db R) (deleteFlow E i)"
  "evolves (on_db R) (wa_instance E)" "evolves (on_db R) (wa_parse r)"
  unfolding saveFlow_def flow_ttl_def getFlow_def deleteFlow_def wa_instance_def wa_parse_def Let_def
  by (intro moves go_rules)+

lemma move_credentials [moves]:
  "evolves (on_db R) (insertCredential E u n c)" "evolves (on_db R) (updateCredential E u c)"
  "evolves (on_db R) (DeleteCredential E u i)" "evolves (on_db R) (SetTwoFactorEnabled E u b)"
  unfolding insertCredential_def updateCredential_def DeleteCredential_def SetTwoFactorEnabled_def Let_def
  by (intro moves go_rules set_credentials set_users; simp)+

lemma move_begin_login [moves]: "evolves (on_db R) load \<Longrightarrow> evolves (on_db R) (begin_login E load v k ow t)"
  unfolding begin_login_def by (intro moves go_rules)

lemma move_ceremonies [moves]:
  "evolves (on_db R) (BeginRegistration E usr n a)" "evolves (on_db R) (FinishRegistration E i u c)"
  "evolves (on_db R) (BeginUserLoginByEmail E m)" "evolves (on_db R) (BeginSecondFactorLogin E u t)"
  "evolves (on_db R) (BeginSudoLogin E u)" "evolves (on_db R) (BeginDiscoverableLogin E)"
  unfolding BeginRegistration_def FinishRegistration_def BeginUserLoginByEmail_def BeginSecondFactorLogin_def BeginSudoLogin_def
    BeginDiscoverableLogin_def Let_def
  by (intro moves go_rules)+

lemma move_finish [moves]: "evolves (on_db R) (FinishLogin E i c)" "evolves (on_db R) (FinishSecondFactor E i c)"
  unfolding FinishSecondFactor_def FinishLogin_def ticket_alive_def validate_login_def validate_passkey_def login_done_def
  by (intro moves go_rules)+

section \<open>Account security\<close>

lemma move_or_webauthn_error [moves]: "evolves (on_db R) m \<Longrightarrow> evolves (on_db R) (or_webauthn_error E rq m)"
  unfolding or_webauthn_error_def by (intro go_rules)

lemma move_verifyAnyFactor [moves]: "evolves (on_db R) (verifyAnyFactor E rq u req)"
  unfolding verifyAnyFactor_def check_totp_def check_email_def check_webauthn_def check_recovery_def by (intro moves go_rules)

lemma move_with_factor [moves]:
  "(\<And>a. evolves (on_db R) (f a)) \<Longrightarrow> evolves (on_db R) (manage_auth E rq uid f)"
  "(\<And>u. evolves (on_db R) (g u)) \<Longrightarrow> evolves (on_db R) (with_factor E rq b g)"
  unfolding with_factor_def manage_auth_def by (intro moves go_rules | assumption)+

lemma move_recovery [moves]:
  "evolves (on_db R) (new_recovery_key E rq u s t)" "evolves (on_db R) (RevokeRecoveryKey E rq b)"
  unfolding new_recovery_key_def generateRecoveryKey_def RevokeRecoveryKey_def
  by (intro moves go_rules move_update_account; simp)+

lemma move_security [moves]:
  "evolves (on_db R) (SendChangeEmailCode E rq)" "evolves (on_db R) (BeginWebAuthnSudo E rq)"
  "evolves (on_db R) (CreateRecoveryKey E rq)" "evolves (on_db R) (RegenerateRecoveryKey E rq b)"
  "evolves (on_db R) (VerifyRecoveryKey E rq p)" "evolves (on_db R) (GetTwoFactorStatus E rq s)"
  unfolding SendChangeEmailCode_def BeginWebAuthnSudo_def CreateRecoveryKey_def RegenerateRecoveryKey_def VerifyRecoveryKey_def
    GetTwoFactorStatus_def Let_def
  by (intro moves go_rules)+

lemma move_ChangeEmail [moves]: "evolves (on_db R) (ChangeEmail E rq b)"
  unfolding ChangeEmail_def store_email_def Let_def
  by (intro moves go_rules move_update_account; simp)

lemma move_webauthn_endpoints [moves]:
  "evolves (on_db R) (endpoint_BeginRegistration E rq bp)" "evolves (on_db R) (endpoint_FinishRegistration E rq p)"
  "evolves (on_db R) (endpoint_ListCredentials E rq)" "evolves (on_db R) (endpoint_DeleteCredential E rq s)"
  "evolves (on_db R) (endpoint_Toggle2FA E rq b)" "evolves (on_db R) (endpoint_BeginLogin E rq m)"
  "evolves (on_db R) (endpoint_FinishLogin E rq p)" "evolves (on_db R) (endpoint_BeginSecondFactor E rq t)"
  "evolves (on_db R) (endpoint_FinishSecondFactor E rq p)"
  unfolding endpoint_BeginRegistration_def endpoint_FinishRegistration_def endpoint_ListCredentials_def endpoint_DeleteCredential_def
    endpoint_Toggle2FA_def endpoint_BeginLogin_def endpoint_FinishLogin_def endpoint_BeginSecondFactor_def endpoint_FinishSecondFactor_def
  by (intro moves go_rules)+

section \<open>Packages and the server\<close>

lemma move_os [moves]:
  "evolves (on_db R) (os_Stat E p)" "evolves (on_db R) (os_MkdirAll E p)" "evolves (on_db R) (os_WriteFile E p s)"
  "evolves (on_db R) (os_ReadFile E p)" "evolves (on_db R) (os_ReadDir E p)" "evolves (on_db R) (os_RemoveAll E p)"
  "evolves (on_db R) (os_Rename E p q)" "evolves (on_db R) (os_error E s)"
  unfolding os_Stat_def os_MkdirAll_def os_WriteFile_def os_ReadFile_def os_ReadDir_def os_RemoveAll_def os_Rename_def os_error_def
  by (intro moves go_rules)+

lemma move_or_os_error [moves]: "evolves (on_db R) m \<Longrightarrow> evolves (on_db R) (or_os_error E s m)"
  unfolding or_os_error_def by (intro moves go_rules)

lemma move_store_root [moves]: "evolves (on_db R) (store_root E)"
  unfolding store_root_def by (intro moves go_rules)

lemma move_read_metas [moves]: "evolves (on_db R) (read_metas E root es)"
proof (induction es)
  case (Cons x es)
  then show ?case by (cases x; simp only: read_metas.simps) (intro moves go_rules; assumption)
qed (simp add: evolves_ret)

lemma move_store [moves]:
  "evolves (on_db R) (store_Put E n s m)" "evolves (on_db R) (store_GetMeta E n)" "evolves (on_db R) (store_List E)"
  "evolves (on_db R) (store_OpenArchive E n)" "evolves (on_db R) (store_Delete E n)"
  unfolding store_Put_def store_Count_def publish_package_def write_package_def store_GetMeta_def store_List_def
    store_OpenArchive_def store_Delete_def Let_def
  by (intro moves go_rules)+

lemma move_sdk_endpoints [moves]:
  "evolves (on_db R) (sdk_Upload E rq u)" "evolves (on_db R) (sdk_List E rq)" "evolves (on_db R) (sdk_Get E rq n)"
  "evolves (on_db R) (sdk_Download E rq n)" "evolves (on_db R) (sdk_Delete E rq n)"
  unfolding sdk_Upload_def store_upload_def sdk_List_def sdk_Get_def sdk_Download_def sdk_Delete_def Let_def
  by (intro moves go_rules)+

lemma move_run_endpoint [moves]: "evolves (on_db R) (run_endpoint E B e param rq)"
  by (cases e; simp only: run_endpoint.simps; intro moves go_rules)

lemma move_dispatch [moves]: "evolves (on_db R) (dispatch E B rq)"
  unfolding dispatch_def front_page_def DatabaseMiddleware_def by (intro moves go_rules)

lemma move_serve [moves]: "evolves (on_db R) (serve E B rq)"
  unfolding serve_def CORSMiddleware_def by (intro moves go_rules)

lemma move_background [moves]: "evolves (on_db R) (restore_registries E)" "evolves (on_db R) (on_connect E)"
  unfolding restore_registries_def on_connect_def by (intro moves go_rules)+

end

end
