(* ===== verification/Server_Facts.thy ===== *)
theory Server_Facts
  imports Table_Relations Site_Auth_Facts "HOL-Library.Multiset"
begin

text \<open>
  Facts about the whole server: what every reachable state of the tables satisfies, and which requests reach a handler.

  \<open>server_reaches\<close> is the relation between states of a process and its successors: requests, the background runs and
  restarts, in any order. Requests follow each other; requests that overlap are not told apart from these.
\<close>

declare map_of_eq_Some_iff [simp del]

section \<open>Runs of the server\<close>

text \<open>A restart loses what is only in memory.\<close>

definition restarted :: "world \<Rightarrow> world" where
  "restarted w = w\<lparr>presence := [], routes := [], relays := [], hooks := []\<rparr>"

inductive server_reaches :: "env \<Rightarrow> bindings \<Rightarrow> world \<Rightarrow> world \<Rightarrow> bool" for E B w where
  here: "server_reaches E B w w"
| request: "server_reaches E B w v \<Longrightarrow> server_reaches E B w (final (serve E B rq) v)"
| heartbeat: "server_reaches E B w v \<Longrightarrow> server_reaches E B w (final (CheckAll E) v)"
| token_cleanup: "server_reaches E B w v \<Longrightarrow> server_reaches E B w (final (cleanup_runOnce E) v)"
| account_cleanup: "server_reaches E B w v \<Longrightarrow> server_reaches E B w (final (account_runOnce E) v)"
| restart: "server_reaches E B w v \<Longrightarrow> server_reaches E B w (final (restore_registries E) (restarted v))"
| connected: "server_reaches E B w v \<Longrightarrow> server_reaches E B w (final (on_connect E) v)"

context table_relation
begin

lemma moved: "evolves (on_db R) m \<Longrightarrow> R (db v) (db (final m v))"
  by (simp add: evolves_def on_db_def)

lemma run_follows: "server_reaches E B w v \<Longrightarrow> R (db w) (db v)"
proof (induction rule: server_reaches.induct)
  case here
  show ?case by (rule same)
next
  case (restart v)
  have "R (db (restarted v)) (db (final (restore_registries E) (restarted v)))" by (intro moved moves)
  with restart.IH show ?case by (intro chain [OF restart.IH]) (simp add: restarted_def)
qed (erule chain, intro moved moves)+

end

section \<open>The keys of all tables\<close>

definition account_keys :: "env \<Rightarrow> tables \<Rightarrow> bool" where
  "account_keys E d \<longleftrightarrow>
     distinct (map UID (users d)) \<and> distinct (map (\<lambda>u. coll E (u_UUID u)) (users d)) \<and>
     distinct (map wc_ID (credentials d)) \<and> distinct (map (\<lambda>c. coll E (wc_CredentialIDHash c)) (credentials d)) \<and>
     list_all (\<lambda>c. user_exists E (wc_UserID c) d) (credentials d) \<and> distinct (map da_UID (deleted_accounts d))"

definition schema :: "env \<Rightarrow> tables \<Rightarrow> bool" where
  "schema E d \<longleftrightarrow> wf_tables E d \<and> account_keys E d"

definition keeps_schema :: "env \<Rightarrow> tables \<Rightarrow> tables \<Rightarrow> bool" where
  "keeps_schema E d d' \<longleftrightarrow> (schema E d \<longrightarrow> schema E d')"

lemma keeps_schema_both:
  assumes "evolves (on_db (keeps_wf E)) m" and "evolves (on_db (\<lambda>d d'. account_keys E d \<longrightarrow> account_keys E d')) m"
  shows "evolves (on_db (keeps_schema E)) m"
  using assms by (simp add: evolves_def on_db_def keeps_schema_def schema_def keeps_wf_def)

lemma keeps_accounts_stmt:
  assumes "\<And>d q x d' q'. f d q = (Inr x, d', q') \<Longrightarrow> account_keys E d \<Longrightarrow> account_keys E d'"
  shows "evolves (on_db (\<lambda>d d'. account_keys E d \<longrightarrow> account_keys E d')) (stmt E' f)"
  by (rule on_db_stmt) (use assms in auto)

lemma account_keys_other [simp]:
  "account_keys E (d\<lparr>clients := a\<rparr>) = account_keys E d" "account_keys E (d\<lparr>auth_codes := b\<rparr>) = account_keys E d"
  "account_keys E (d\<lparr>access_tokens := c\<rparr>) = account_keys E d" "account_keys E (d\<lparr>refresh_tokens := f\<rparr>) = account_keys E d"
  by (simp_all add: account_keys_def)

lemma account_keys_update_users:
  assumes "\<And>u. UID (f u) = UID u" and "\<And>u. u_UUID (f u) = u_UUID u" and "account_keys E d"
  shows "account_keys E (d\<lparr>users := update_rows P f (users d)\<rparr>)"
  using assms by (simp add: account_keys_def map_update_rows user_exists_def list_ex_update_rows)

lemma wf_update_users:
  assumes "\<And>u. u_UUID (f u) = u_UUID u"
  shows "evolves (on_db (keeps_wf E)) (update_users E' P f)"
  unfolding update_users_def
  by (rule on_db_stmt)
    (auto simp: keeps_wf_def wf_tables_def owner_exists_def user_exists_def list_ex_update_rows assms list_all_iff split: option.splits)

lemma set_insort_key_conv: "list_ex Q (insort_key f x xs) \<longleftrightarrow> Q x \<or> list_ex Q xs"
  by (auto simp: list_ex_iff set_insort_key)

lemma wf_insert_user: "evolves (on_db (keeps_wf E)) (insert_user E' u)"
  unfolding insert_user_def
  by (rule on_db_stmt)
    (auto simp: keeps_wf_def wf_tables_def owner_exists_def user_exists_def set_insort_key_conv list_all_iff
      split: if_splits option.splits)

lemma wf_other_deletes:
  "evolves (on_db (keeps_wf E)) (delete_credentials E' P)" "evolves (on_db (keeps_wf E)) (delete_deleted_accounts E' Q)"
  "evolves (on_db (keeps_wf E)) (insert_deleted_account E' a)" "evolves (on_db (keeps_wf E)) (insert_credential E' c)"
  "evolves (on_db (keeps_wf E)) (update_credentials E' P g)"
  unfolding delete_credentials_def delete_deleted_accounts_def insert_deleted_account_def insert_credential_def update_credentials_def
  by (rule on_db_stmt; auto simp: keeps_wf_def wf_tables_def owner_exists_def user_exists_def Let_def cong: option.case_cong split: if_splits)+

lemma wf_delete_refresh_tokens: "evolves (on_db (keeps_wf E)) (delete_refresh_tokens E' P)"
  unfolding delete_refresh_tokens_def
  by (rule on_db_stmt) (auto simp: keeps_wf_def wf_tables_def list_all_iff intro: distinct_map_filter_key)

lemma user_exists_drop:
  assumes "user_exists E u d" and "coll E u \<notin> set (map (\<lambda>u. coll E (u_UUID u)) (filter P (users d)))"
  shows "\<exists>r \<in> set (users d). \<not> P r \<and> coll E (u_UUID r) = coll E u"
proof -
  obtain r where r: "r \<in> set (users d)" "coll E (u_UUID r) = coll E u"
    using assms(1) by (auto simp: user_exists_def list_ex_iff)
  with assms(2) have "\<not> P r" by (auto simp: image_iff)
  with r show ?thesis by blast
qed

lemma drop_users_fields:
  "users (drop_users E P d) = filter (\<lambda>u. \<not> P u) (users d)" "clients (drop_users E P d) = clients d"
  "deleted_accounts (drop_users E P d) = deleted_accounts d"
  by (simp_all add: drop_users_def drop_access_def Let_def)

lemma drop_users_keeps_owner:
  assumes "user_exists E u d" and "coll E u \<notin> set (map (\<lambda>u. coll E (u_UUID u)) (filter P (users d)))"
  shows "user_exists E u (drop_users E P d)"
  using user_exists_drop [OF assms] by (auto simp: user_exists_def drop_users_fields list_ex_iff)

lemma wf_drop_users:
  assumes wf: "wf_tables E d"
  shows "wf_tables E (drop_users E P d)"
proof -
  define gone where "gone = map (\<lambda>u. coll E (u_UUID u)) (filter P (users d))"
  define Q :: "access_token \<Rightarrow> bool" where "Q = (\<lambda>t. case at_UserID t of None \<Rightarrow> False | Some u \<Rightarrow> coll E u \<in> set gone)"
  define d1 where "d1 = drop_access Q d"
  have wf1: "wf_tables E d1" using wf by (simp add: d1_def wf_drop_access)
  have same1: "users d1 = users d" "auth_codes d1 = auth_codes d" "access_tokens d1 = filter (\<lambda>t. \<not> Q t) (access_tokens d)"
    by (simp_all add: d1_def drop_access_def Let_def)
  have exists1: "user_exists E u d1 = user_exists E u d" for u by (simp add: user_exists_def same1)
  let ?d = "drop_users E P d"
  have d: "?d = d1\<lparr>users := filter (\<lambda>u. \<not> P u) (users d1), auth_codes := filter (\<lambda>a. coll E (ac_UserID a) \<notin> set gone) (auth_codes d1),
      refresh_tokens := filter (\<lambda>r. coll E (rt_UserID r) \<notin> set gone) (refresh_tokens d1),
      credentials := filter (\<lambda>c. coll E (wc_UserID c) \<notin> set gone) (credentials d1)\<rparr>"
    unfolding drop_users_def Let_def d1_def Q_def gone_def ..
  have keep: "user_exists E u ?d" if "user_exists E u d" "coll E u \<notin> set gone" for u
    using drop_users_keeps_owner [of E u d P] that by (simp add: gone_def)
  have codes: "list_all (\<lambda>a. user_exists E (ac_UserID a) ?d) (auth_codes ?d)"
    using wf1 keep by (auto simp: wf_tables_def list_all_iff d exists1)
  have access: "list_all (\<lambda>a. owner_exists E (at_UserID a) ?d) (access_tokens ?d)"
    unfolding list_all_iff
  proof
    fix a assume "a \<in> set (access_tokens ?d)"
    then have a: "a \<in> set (access_tokens d)" "\<not> Q a" by (simp_all add: d same1)
    then have "owner_exists E (at_UserID a) d" using wf by (auto simp: wf_tables_def list_all_iff)
    with a(2) keep show "owner_exists E (at_UserID a) ?d" by (auto simp: owner_exists_def Q_def split: option.splits)
  qed
  have refresh: "list_all (\<lambda>r. user_exists E (rt_UserID r) ?d \<and> list_ex (\<lambda>a. at_ID a = rt_AccessTokenID r) (access_tokens ?d)) (refresh_tokens ?d)"
    using wf1 keep by (auto simp: wf_tables_def list_all_iff d exists1)
  show ?thesis
    using wf1 codes access refresh by (auto simp: wf_tables_def d intro: distinct_map_filter_key)
qed

lemma accounts_drop_users:
  assumes "account_keys E d"
  shows "account_keys E (drop_users E P d)"
proof -
  have "list_all (\<lambda>c. user_exists E (wc_UserID c) (drop_users E P d)) (credentials (drop_users E P d))"
    unfolding list_all_iff
  proof
    fix c assume "c \<in> set (credentials (drop_users E P d))"
    then have "c \<in> set (credentials d)" "coll E (wc_UserID c) \<notin> set (map (\<lambda>u. coll E (u_UUID u)) (filter P (users d)))"
      by (auto simp: drop_users_def drop_access_def Let_def)
    with assms show "user_exists E (wc_UserID c) (drop_users E P d)"
      by (intro drop_users_keeps_owner) (auto simp: account_keys_def list_all_iff)
  qed
  moreover have "credentials (drop_users E P d) = filter (\<lambda>c. coll E (wc_UserID c) \<notin> set (map (\<lambda>u. coll E (u_UUID u)) (filter P (users d)))) (credentials d)"
    by (simp add: drop_users_def drop_access_def Let_def)
  ultimately show ?thesis
    using assms by (auto simp: account_keys_def drop_users_fields intro: distinct_map_filter_key)
qed

lemma distinct_map_insort_key:
  "distinct (map f (insort_key g x xs)) \<longleftrightarrow> distinct (map f xs) \<and> \<not> list_ex (\<lambda>r. f r = f x) xs"
proof -
  have "mset (map f (insort_key g x xs)) = mset (map f (x # xs))" by (induction xs) simp_all
  then have "distinct (map f (insort_key g x xs)) = distinct (map f (x # xs))" by (rule mset_eq_imp_distinct_iff)
  then show ?thesis by (auto simp: list_ex_iff image_iff)
qed

lemma accounts_insert_user:
  assumes "account_keys E d" and "\<not> list_ex (\<lambda>r. UID r = UID u \<or> coll E (u_UUID r) = coll E (u_UUID u)) (users d)"
    and "UID v = UID u" and "u_UUID v = u_UUID u"
  shows "account_keys E (d\<lparr>users := insort_key UID v (users d)\<rparr>)"
  using assms
  by (auto simp: account_keys_def distinct_map_insort_key list_ex_disj user_exists_def set_insort_key_conv list_all_iff)

lemma accounts_steps:
  "evolves (on_db (\<lambda>d d'. account_keys E d \<longrightarrow> account_keys E d')) (insert_client E' c)"
  "evolves (on_db (\<lambda>d d'. account_keys E d \<longrightarrow> account_keys E d')) (insert_auth_code E' a)"
  "evolves (on_db (\<lambda>d d'. account_keys E d \<longrightarrow> account_keys E d')) (insert_access_token E' t)"
  "evolves (on_db (\<lambda>d d'. account_keys E d \<longrightarrow> account_keys E d')) (insert_refresh_token E' f)"
  "evolves (on_db (\<lambda>d d'. account_keys E d \<longrightarrow> account_keys E d')) (update_clients E' pc fc)"
  "evolves (on_db (\<lambda>d d'. account_keys E d \<longrightarrow> account_keys E d')) (update_auth_codes E' pa fa)"
  "evolves (on_db (\<lambda>d d'. account_keys E d \<longrightarrow> account_keys E d')) (update_access_tokens E' pt ft)"
  "evolves (on_db (\<lambda>d d'. account_keys E d \<longrightarrow> account_keys E d')) (update_refresh_tokens E' pf ff)"
  "evolves (on_db (\<lambda>d d'. account_keys E d \<longrightarrow> account_keys E d')) (delete_auth_codes E' pa)"
  "evolves (on_db (\<lambda>d d'. account_keys E d \<longrightarrow> account_keys E d')) (delete_access_tokens E' pt)"
  "evolves (on_db (\<lambda>d d'. account_keys E d \<longrightarrow> account_keys E d')) (delete_refresh_tokens E' pf)"
  unfolding insert_client_def insert_auth_code_def insert_access_token_def insert_refresh_token_def update_clients_def
    update_auth_codes_def update_access_tokens_def update_refresh_tokens_def delete_auth_codes_def delete_access_tokens_def
    delete_refresh_tokens_def drop_access_def
  by (rule keeps_accounts_stmt; auto simp: Let_def cong: option.case_cong split: if_splits)+

lemma accounts_steps_users:
  "evolves (on_db (\<lambda>d d'. account_keys E d \<longrightarrow> account_keys E d')) (insert_user E u)"
  "\<lbrakk>\<And>r. UID (fu r) = UID r; \<And>r. u_UUID (fu r) = u_UUID r\<rbrakk> \<Longrightarrow>
     evolves (on_db (\<lambda>d d'. account_keys E d \<longrightarrow> account_keys E d')) (update_users E pu fu)"
  "evolves (on_db (\<lambda>d d'. account_keys E d \<longrightarrow> account_keys E d')) (delete_users E pu)"
  unfolding insert_user_def update_users_def delete_users_def
  by (rule keeps_accounts_stmt; auto simp: accounts_drop_users intro: account_keys_update_users accounts_insert_user split: if_splits)+

lemma set_update_rows: "set (update_rows P f rs) = (\<lambda>r. if P r then f r else r) ` set rs"
  by (simp add: update_rows_def)

lemma accounts_steps_credentials:
  "evolves (on_db (\<lambda>d d'. account_keys E d \<longrightarrow> account_keys E d')) (insert_credential E c)"
  "\<lbrakk>\<And>r. wc_ID (fk r) = wc_ID r; \<And>r. wc_UserID (fk r) = wc_UserID r; \<And>r. wc_CredentialIDHash (fk r) = wc_CredentialIDHash r\<rbrakk> \<Longrightarrow>
     evolves (on_db (\<lambda>d d'. account_keys E d \<longrightarrow> account_keys E d')) (update_credentials E pk fk)"
  "evolves (on_db (\<lambda>d d'. account_keys E d \<longrightarrow> account_keys E d')) (delete_credentials E pk)"
  "evolves (on_db (\<lambda>d d'. account_keys E d \<longrightarrow> account_keys E d')) (insert_deleted_account E x)"
  "evolves (on_db (\<lambda>d d'. account_keys E d \<longrightarrow> account_keys E d')) (delete_deleted_accounts E px)"
  unfolding insert_credential_def update_credentials_def delete_credentials_def insert_deleted_account_def delete_deleted_accounts_def
  by (rule keeps_accounts_stmt; auto simp: account_keys_def user_exists_def Let_def map_update_rows list_all_update_rows list_ex_disj
      distinct_map_insort_key list_all_iff list_ex_iff set_update_rows intro: distinct_map_filter_key split: if_splits)+

lemma wf_delete_users: "evolves (on_db (keeps_wf E)) (delete_users E P)"
  unfolding delete_users_def by (rule on_db_stmt) (auto simp: keeps_wf_def wf_drop_users)

interpretation schema_kept: table_relation E "keeps_schema E" for E
  by unfold_locales
    (simp add: keeps_schema_def, simp add: keeps_schema_def,
      (rule keeps_schema_both;
       intro wf_intros wf_update_clients wf_update_auth_codes wf_update_access_tokens wf_update_refresh_tokens wf_update_users
         wf_insert_user wf_other_deletes wf_delete_refresh_tokens wf_delete_users accounts_steps accounts_steps_users accounts_steps_credentials;
       assumption)+)


section \<open>Accounts are never marked as deleted\<close>

definition unmarked :: "tables \<Rightarrow> bool" where
  "unmarked d \<longleftrightarrow> list_all (\<lambda>u. u_DeletedAt u = None) (users d)"

lemma unmarked_stmt:
  assumes "\<And>d q x d' q'. f d q = (Inr x, d', q') \<Longrightarrow> unmarked d \<Longrightarrow> unmarked d'"
  shows "evolves (on_db (\<lambda>d d'. unmarked d \<longrightarrow> unmarked d')) (stmt E f)"
  by (rule on_db_stmt) (use assms in auto)

interpretation unmarked_kept: table_relation E "\<lambda>d d'. unmarked d \<longrightarrow> unmarked d'" for E
  by unfold_locales
    (simp, simp,
      unfold insert_client_def insert_auth_code_def insert_access_token_def insert_refresh_token_def insert_credential_def
        insert_user_def insert_deleted_account_def update_clients_def update_auth_codes_def update_access_tokens_def
        update_refresh_tokens_def update_credentials_def update_users_def delete_auth_codes_def delete_access_tokens_def
        delete_refresh_tokens_def delete_credentials_def delete_deleted_accounts_def delete_users_def,
      (rule unmarked_stmt;
       auto simp: unmarked_def Let_def drop_users_fields drop_access_def list_all_iff set_insort_key set_update_rows split: if_splits)+)

text \<open>
  The cool-down of deleted accounts never happens: in every state the server reaches from one without a marked account, no
  account is marked, so the clean-up finds nothing to delete and changes no table, and the restoration at sign-in is dead code.
\<close>

theorem cleanup_finds_nothing:
  assumes "server_reaches E B w v" and "list_all (\<lambda>u. u_DeletedAt u = None) (users (db w))"
  shows "list_all (\<lambda>u. u_DeletedAt u = None) (users (db v)) \<and> result (CleanupDeletedAccounts E) v = 0 \<and>
    db (final (CleanupDeletedAccounts E) v) = db v"
proof -
  have unmarked: "list_all (\<lambda>u. u_DeletedAt u = None) (users (db v))"
    using unmarked_kept.run_follows [OF assms(1)] assms(2) by (simp add: unmarked_def)
  then have none: "filter (\<lambda>u. case u_DeletedAt u of None \<Rightarrow> False | Some x \<Rightarrow> x < t) (users (db v)) = []" for t
    by (auto simp: list_all_iff filter_empty_conv)
  have find: "result (db_find E users P) u = (if db_fault E (stmts u) then Inl (Db Fault) else Inr (filter P (users (db u))))" for P u
    by (rule stmt_cases [where E = E and w = u and f = "\<lambda>d q. (Inr (filter P (users d)), d, q)"]) (auto simp: db_find_def)
  show ?thesis
    using unmarked none by (simp add: CleanupDeletedAccounts_def Let_def find)
qed

section \<open>A concrete server\<close>

text \<open>Bindings that read no body.\<close>

definition no_bindings :: bindings where
  "no_bindings = \<lparr>bind_pair = (\<lambda>a b rq. None), bind_triple = (\<lambda>a b c rq. None), bind_string = (\<lambda>a rq. None), bind_enabled = (\<lambda>rq. None),
     has_body = (\<lambda>rq. False), bind_decision = (\<lambda>rq. None), bind_token = (\<lambda>rq. None), bind_register = (\<lambda>rq. None),
     bind_lookup = (\<lambda>rq. None), bind_email = (\<lambda>rq. None), bind_factors = (\<lambda>rq. None), bind_presence = (\<lambda>rq. None),
     bind_routes = (\<lambda>rq. None), bind_hooks = (\<lambda>rq. None), bind_relays = (\<lambda>rq. None), bind_upload = (\<lambda>rq. None)\<rparr>"

text \<open>One that registers an account.\<close>

definition demo_bindings :: bindings where
  "demo_bindings = no_bindings\<lparr>bind_register := (\<lambda>rq. Some \<lparr>gq_Email = ''b@b.c'', gq_Username = ''bob'', gq_Password = ''secret'',
     gq_CaptchaToken = [], gq_CaptchaCode = []\<rparr>)\<rparr>"

lemma demo_schema: "schema demo_env (db demo_world)"
  using demo_wf by (simp add: schema_def account_keys_def) (simp add: demo_world_def)


theorem cleanup_finds_nothing_witness:
  "result (CleanupDeletedAccounts demo_env)
     (final (serve demo_env demo_bindings ((demo_rq [])\<lparr>rq_Path := ''/register''\<rparr>)) demo_world) = 0"
  using cleanup_finds_nothing [OF server_reaches.request [OF server_reaches.here], of demo_world demo_env demo_bindings
      "(demo_rq [])\<lparr>rq_Path := ''/register''\<rparr>"]
  by (simp add: demo_user_def)

end
