(* ===== verification/Codes_Facts.thy ===== *)
theory Codes_Facts
  imports Auth_Controller Presence_Facts
begin

unbundle bit_operations_syntax

text \<open>
  What mails and codes promise: the Base64 of a mail is read back by a decoder of RFC 4648 and its lines fit, a stored code is read back
  until it expires and never after, and a captcha works once.
\<close>

declare map_of_eq_Some_iff [simp del]

lemma demo_env_more [simp]:
  "kv_fault demo_env n = False" "kv_clock demo_env n = 1" "redis_prefix demo_env = ''ha:''" "file_fault demo_env n = False"
  "CaptchaTTL (security demo_env) = 300" "CodeTTL (code_store demo_env) = 600" "bcrypt_check demo_env p h \<longleftrightarrow> p = h"
  "AuthorizationCodeTTL (oauth2 demo_env) = 300" "captcha_question demo_env n = (itoa n, ''abcd'')"
  by (simp_all add: demo_env_def eq_commute)

lemma demo_world_more [simp]:
  "kv demo_world = []" "cmds demo_world = 0" "draws demo_world = 0" "code_files demo_world = []" "hooks demo_world = []" "ticks demo_world = 0"
  by (simp_all add: demo_world_def)

section \<open>Base64\<close>

lemma disjoint_add:
  assumes "y < 2 ^ n"
  shows "push_bit n x OR y = x * 2 ^ n + (y :: nat)"
proof -
  have "\<not> bit (push_bit n x) m \<or> \<not> bit y m" for m
  proof (cases "m < n")
    case True
    then show ?thesis by (simp add: bit_push_bit_iff)
  next
    case False
    then have "y div 2 ^ m = 0" using assms by (simp add: div_eq_0_iff) (meson le_less_trans not_le one_le_numeral power_increasing less_le_trans)
    then show ?thesis by (simp add: bit_iff_odd)
  qed
  then have "push_bit n x + y = push_bit n x OR y" by (rule disjunctive_add)
  then show ?thesis by (simp add: push_bit_eq_mult)
qed

lemma byte_le: "byte x \<le> 255"
  using byte_less [of x] by linarith

lemma unat_byte: "unat (of_nat (byte x) :: 64 word) = byte x"
  unfolding unat_of_nat by (rule mod_less, rule less_trans [OF byte_less]) simp

lemma unat_push_byte:
  assumes "n \<le> 16"
  shows "unat (push_bit n (of_nat (byte x)) :: 64 word) = push_bit n (byte x)"
proof -
  have "byte x * 2 ^ n \<le> 255 * 2 ^ 16"
    using byte_le [of x] assms by (intro mult_mono power_increasing) simp_all
  then have "push_bit n (byte x) < 2 ^ 64"
    unfolding push_bit_eq_mult by (rule le_less_trans) simp
  then show ?thesis
    unfolding unsigned_push_bit_eq unat_byte by (intro take_bit_nat_eq_self) simp
qed

lemma sextet_value: "sextet b n = base64_table ! (unat b div 2 ^ n mod 64)"
proof -
  have "unat (drop_bit n b AND 0x3F) = unat (drop_bit n b) AND 63"
    by (simp only: unsigned_and_eq) simp
  also have "\<dots> = take_bit 6 (drop_bit n (unat b))"
    by (simp add: unat_drop_bit_eq take_bit_eq_mask mask_eq_exp_minus_1)
  finally show ?thesis by (simp add: sextet_def take_bit_eq_mod drop_bit_eq_div)
qed

lemma push_or_two: "push_bit 8 (byte y) OR byte z = byte y * 256 + byte z"
  using disjoint_add [of "byte z" 8 "byte y"] byte_less [of z] by simp

lemma octets_value: "unat (octets x y z) = byte x * 65536 + byte y * 256 + byte z"
proof -
  have "unat (octets x y z) = push_bit 16 (byte x) OR (push_bit 8 (byte y) OR byte z)"
    unfolding octets_def unsigned_or_eq unat_byte by (subst (1 2) unat_push_byte) simp_all
  also have "\<dots> = byte x * 2 ^ 16 + (byte y * 256 + byte z)"
    unfolding push_or_two using byte_le [of y] byte_le [of z] by (intro disjoint_add) simp
  finally show ?thesis by simp
qed

lemma octets2_value: "unat (push_bit 16 (of_nat (byte x)) OR push_bit 8 (of_nat (byte y)) :: 64 word) = byte x * 65536 + byte y * 256"
proof -
  have "unat (push_bit 16 (of_nat (byte x)) OR push_bit 8 (of_nat (byte y)) :: 64 word) = push_bit 16 (byte x) OR push_bit 8 (byte y)"
    unfolding unsigned_or_eq by (subst (1 2) unat_push_byte) simp_all
  also have "\<dots> = byte x * 2 ^ 16 + push_bit 8 (byte y)"
    using byte_le [of y] by (intro disjoint_add) (simp add: push_bit_eq_mult)
  finally show ?thesis by (simp add: push_bit_eq_mult)
qed

lemma octets1_value: "unat (push_bit 16 (of_nat (byte x)) :: 64 word) = byte x * 65536"
  by (subst unat_push_byte) (simp_all add: push_bit_eq_mult)

lemma base64_table_values: "map b64_std_val base64_table = map Some [0..<64]"
  by (simp add: base64_table_def b64_std_val_def is_upper_def is_lower_def is_digit_def upt_rec)

lemma base64_table_chars: "list_all (\<lambda>c. c \<noteq> CHR ''='' \<and> not_newline c) base64_table"
  by (simp add: base64_table_def not_newline_def)

lemma length_base64_table: "length base64_table = 64"
  by (simp add: base64_table_def)

lemma table_value:
  assumes "i < 64"
  shows "b64_std_val (base64_table ! i) = Some i" "base64_table ! i \<noteq> CHR ''=''" "not_newline (base64_table ! i)"
proof -
  have "map b64_std_val base64_table ! i = Some i" using assms by (simp add: base64_table_values)
  then show "b64_std_val (base64_table ! i) = Some i" using assms by (simp add: length_base64_table)
  have "base64_table ! i \<in> set base64_table" using assms by (simp add: length_base64_table)
  then show "base64_table ! i \<noteq> CHR ''=''" "not_newline (base64_table ! i)"
    using base64_table_chars by (auto simp: list_all_iff)
qed

lemma base_64_digits:
  assumes "p < 64" and "q < 64" and "r < 64" and "t < 64" and "b = ((p * 64 + q) * 64 + r) * 64 + (t :: nat)"
  shows "b div 262144 mod 64 = p" "b div 4096 mod 64 = q" "b div 64 mod 64 = r" "b mod 64 = t"
proof -
  have d1: "b div 64 = (p * 64 + q) * 64 + r" using assms(4,5) by simp
  have d2: "b div 4096 = p * 64 + q"
  proof -
    have "b div 4096 = b div 64 div 64" by (simp add: div_mult2_eq [symmetric])
    then show ?thesis using assms(3) by (simp add: d1)
  qed
  have d3: "b div 262144 = p"
  proof -
    have "b div 262144 = b div 4096 div 64" by (simp add: div_mult2_eq [symmetric])
    then show ?thesis using assms(2) by (simp add: d2)
  qed
  show "b div 262144 mod 64 = p" using assms(1) by (simp add: d3)
  show "b div 4096 mod 64 = q" using assms(2) by (simp add: d2)
  show "b div 64 mod 64 = r" unfolding d1 using assms(3) by (simp only: mod_mult_self3 mod_less)
  show "b mod 64 = t" unfolding assms(5) using assms(4) by (simp only: mod_mult_self3 mod_less)
qed

lemma regroup:
  "b = (a * 4 + c) * 65536 + (d * 16 + e) * 256 + (f * 64 + g) \<Longrightarrow>
   b = ((a * 64 + (c * 16 + d)) * 64 + (e * 4 + f)) * 64 + (g :: nat)"
  by (simp add: algebra_simps)

lemma quad_digits:
  assumes "x < 256" and "y < 256" and "z < 256" and "b = x * 65536 + y * 256 + (z :: nat)"
  shows "b div 262144 mod 64 = x div 4" "b div 4096 mod 64 = x mod 4 * 16 + y div 16" "b div 64 mod 64 = y mod 16 * 4 + z div 64"
    "b mod 64 = z mod 64"
proof -
  have less: "x div 4 < 64" "y div 16 < 16" "z div 64 < 4" using assms(1-3) by simp_all
  have less': "x mod 4 * 16 + y div 16 < 64" "y mod 16 * 4 + z div 64 < 64"
    using less mod_less_divisor [of 4 x] mod_less_divisor [of 16 y] by linarith+
  have "b = ((x div 4 * 64 + (x mod 4 * 16 + y div 16)) * 64 + (y mod 16 * 4 + z div 64)) * 64 + z mod 64"
    by (rule regroup) (simp only: div_mult_mod_eq assms(4))
  from base_64_digits [OF less(1) less' _ this]
  show "b div 262144 mod 64 = x div 4" "b div 4096 mod 64 = x mod 4 * 16 + y div 16" "b div 64 mod 64 = y mod 16 * 4 + z div 64"
    "b mod 64 = z mod 64" by simp_all
qed

lemma sextets:
  assumes "unat b = byte x * 65536 + byte y * 256 + byte z"
  shows "sextet b 18 = base64_table ! (byte x div 4)" "sextet b 12 = base64_table ! (byte x mod 4 * 16 + byte y div 16)"
    "sextet b 6 = base64_table ! (byte y mod 16 * 4 + byte z div 64)" "sextet b 0 = base64_table ! (byte z mod 64)"
  using quad_digits [OF byte_less byte_less byte_less assms] by (simp_all add: sextet_value)

text \<open>The three shapes of a group, as tables of digits.\<close>

lemma sextet_less:
  "byte x div 4 < 64" "byte x mod 4 * 16 + byte y div 16 < 64" "byte y mod 16 * 4 + byte z div 64 < 64" "byte z mod 64 < 64"
  using byte_le [of x] byte_le [of y] byte_le [of z] mod_less_divisor [of 4 "byte x"] mod_less_divisor [of 16 "byte y"] by linarith+

lemma octet_parts:
  "byte x div 4 * 4 + (byte x mod 4 * 16 + byte y div 16) div 16 = byte x"
  "(byte x mod 4 * 16 + byte y div 16) mod 16 * 16 + (byte y mod 16 * 4 + byte z div 64) div 4 = byte y"
  "(byte y mod 16 * 4 + byte z div 64) mod 4 * 64 + byte z mod 64 = byte z"
proof -
  have less: "byte y div 16 < 16" "byte z div 64 < 4" using byte_less [of y] byte_less [of z] by linarith+
  then show "byte x div 4 * 4 + (byte x mod 4 * 16 + byte y div 16) div 16 = byte x" by simp
  show "(byte x mod 4 * 16 + byte y div 16) mod 16 * 16 + (byte y mod 16 * 4 + byte z div 64) div 4 = byte y" using less by simp
  show "(byte y mod 16 * 4 + byte z div 64) mod 4 * 64 + byte z mod 64 = byte z" using less by simp
qed

lemma pad_kept: "not_newline (CHR ''='')"
  by (simp add: not_newline_def)

lemma base64_codec: "b64_quads (base64Encode s) = Some s \<and> list_all not_newline (base64Encode s)"
proof (induction s rule: base64Encode.induct)
  case (1 x y z data)
  note s = sextets [OF octets_value [of x y z]]
  show ?case
    using 1 octet_parts(1) [of x y] octet_parts(2) [of x y z] octet_parts(3) [of y z]
    by (simp add: Let_def s table_value sextet_less)
next
  case (2 x y)
  have b: "unat (push_bit 16 (of_nat (byte x)) OR push_bit 8 (of_nat (byte y)) :: 64 word) = byte x * 65536 + byte y * 256 + byte (CHR 0x00)"
    by (simp add: octets2_value)
  have "byte (CHR 0x00) = 0" by simp
  then show ?case
    using sextets [OF b] octet_parts(1) [of x y] octet_parts(2) [of x y "CHR 0x00"] sextet_less(3) [of y "CHR 0x00"]
    by (simp add: Let_def table_value sextet_less pad_kept)
next
  case (3 x)
  have b: "unat (push_bit 16 (of_nat (byte x)) :: 64 word) = byte x * 65536 + byte (CHR 0x00) * 256 + byte (CHR 0x00)"
    by (simp add: octets1_value)
  show ?case
    using sextets [OF b] octet_parts(1) [of x "CHR 0x00"] sextet_less(2) [of x "CHR 0x00"]
    by (simp add: Let_def table_value sextet_less pad_kept)
qed simp

lemma filter_wrapped: "0 < n \<Longrightarrow> list_all not_newline t \<Longrightarrow> filter not_newline (wrapBase64 t n) = t"
proof (induction t n rule: wrapBase64.induct)
  case (1 t n)
  have crlf: "filter not_newline crlf = []" by (simp add: crlf_def not_newline_def)
  show ?case
  proof (cases "t = []")
    case False
    have "list_all not_newline (take n t)" "list_all not_newline (drop n t)"
      using 1(3) by (auto simp: list_all_iff dest: in_set_takeD in_set_dropD)
    with 1 False crlf show ?thesis
      by (simp add: wrapBase64.simps [of t n] list_all_iff)
  qed (simp add: wrapBase64.simps)
qed

lemma wrapped_lines: "0 < n \<Longrightarrow> list_all not_newline t \<Longrightarrow>
  \<exists>ls. wrapBase64 t n = concat (map (\<lambda>l. l @ crlf) ls) \<and> (\<forall>l \<in> set ls. l \<noteq> [] \<and> length l \<le> n \<and> list_all not_newline l)"
proof (induction t n rule: wrapBase64.induct)
  case (1 t n)
  show ?case
  proof (cases "t = []")
    case False
    have "list_all not_newline (take n t)" "list_all not_newline (drop n t)"
      using 1(3) by (auto simp: list_all_iff dest: in_set_takeD in_set_dropD)
    with 1 False obtain ls where "wrapBase64 (drop n t) n = concat (map (\<lambda>l. l @ crlf) ls)"
      "\<forall>l \<in> set ls. l \<noteq> [] \<and> length l \<le> n \<and> list_all not_newline l" by auto
    with False 1(2) \<open>list_all not_newline (take n t)\<close> show ?thesis
      by (intro exI [of _ "take n t # ls"]) (simp add: wrapBase64.simps [of t n])
  qed (auto simp: wrapBase64.simps intro: exI [of _ "[]"])
qed

text \<open>
  C35: A mail the server accepts to send carries its message: after the header lines and an empty line come lines of at most 76 characters,
  each ended by CR LF, and a decoder of standard Base64 that skips line ends reads the message from them byte by byte.
\<close>

theorem mail_carries_message:
  assumes "result (SendMail E to subject message) w = Inr ()"
  shows "\<exists>m hs ls. outbox (final (SendMail E to subject message) w) = outbox w @ [m] \<and> ml_To m = to \<and>
    ml_Text m = header_text hs @ crlf @ concat (map (\<lambda>l. l @ crlf) ls) \<and> (\<forall>l \<in> set ls. l \<noteq> [] \<and> length l \<le> 76) \<and>
    b64_std_decode (concat (map (\<lambda>l. l @ crlf) ls)) = Some message"
proof -
  have clean: "list_all not_newline (b64Encode message)" and dec: "b64_quads (b64Encode message) = Some message"
    using base64_codec by (simp_all add: b64Encode_def)
  obtain ls where ls: "wrapBase64 (b64Encode message) 76 = concat (map (\<lambda>l. l @ crlf) ls)"
      "\<forall>l \<in> set ls. l \<noteq> [] \<and> length l \<le> 76 \<and> list_all not_newline l"
    using wrapped_lines [OF _ clean, of 76] by auto
  have "b64_std_decode (concat (map (\<lambda>l. l @ crlf) ls)) = Some message"
    using filter_wrapped [OF _ clean, of 76] dec by (simp add: b64_std_decode_def ls(1))
  then show ?thesis
    using assms ls
    by (intro exI [of _ "last (outbox (final (SendMail E to subject message) w))"]
        exI [of _ "header_order E (calls w) (mail_headers E to subject)"] exI [of _ ls])
      (auto simp: SendMail_def Let_def result_def final_def split: option.splits)
qed

theorem mail_carries_message_witness:
  "\<exists>m ls. outbox (final (SendMail demo_env ''a@b.c'' ''Hi'' ''text'') demo_world) = [m] \<and>
     b64_std_decode (concat (map (\<lambda>l. l @ crlf) ls)) = Some ''text''"
proof -
  have "result (SendMail demo_env ''a@b.c'' ''Hi'' ''text'') demo_world = Inr ()"
    by (simp add: SendMail_def Let_def result_def demo_env_def)
  from mail_carries_message [OF this] show ?thesis by (auto simp: demo_world_def)
qed

section \<open>Codes\<close>

lemma int64_wrap_range: "- 9223372036854775808 \<le> int64_wrap x \<and> int64_wrap x < 9223372036854775808"
  unfolding int64_wrap_def by auto

lemma code_names: "ToLower ''code'' = ''code''" "ToLower ''expires_at'' = ''expires_at''" "to_valid ''code'' = ''code''"
  "to_valid ''expires_at'' = ''expires_at''"
  by (simp_all add: ToLower_def lower_char_def is_upper_def to_valid_ascii)

lemma code_codec:
  assumes "valid_utf8 c" and "- 9223372036854775808 \<le> x" and "x < 9223372036854775808"
  shows "read_code (code_text c x) = Some (c, x)"
proof -
  let ?j = "JObj [(''code'', JStr c), (''expires_at'', JNum (int_text x))]"
  have "parse_json (print_json ?j) = Some ?j"
    using parse_print_json [of ?j] assms(1) by (simp add: code_names to_valid_id)
  then show ?thesis
    using int_of_literal_int_text [OF assms(2,3)]
    by (simp add: read_code_def code_text_def read_struct_def EqualFold_lower code_names read_str_def read_int_def)
qed

lemma result_file_op: "result (file_op E f) w = fst (f (file_fault E (file_ops w)) (file_torn E (file_ops w)) (code_files w))"
  by (simp add: file_op_def result_def split: prod.split)

lemma files_file_op: "code_files (final (file_op E f) w) = snd (f (file_fault E (file_ops w)) (file_torn E (file_ops w)) (code_files w))"
  by (simp add: file_op_def final_def split: prod.split)

lemma file_op_other [simp]: "file_ops (final (file_op E f) w) = Suc (file_ops w)" "ticks (final (file_op E f) w) = ticks w"
  by (simp_all add: file_op_def final_def split: prod.split)

text \<open>The second a code stored now expires.\<close>

definition code_expiry :: "env \<Rightarrow> world \<Rightarrow> int" where
  "code_expiry E w = int64_wrap (unix (clock E (ticks w)) + CodeTTL (code_store E))"

lemma code_Store_files:
  assumes "result (code_Store E email code) w = True"
  shows "code_files (final (code_Store E email code) w) = AList.update (code_file email) (code_text code (code_expiry E w)) (code_files w)"
  using assms by (auto simp: code_Store_def result_file_op files_file_op Let_def code_expiry_def split: if_splits)

lemma stored_code_read:
  assumes "result (code_Store E email code) w = True" and "valid_utf8 code"
    and "map_of (code_files v) (code_file email) = map_of (code_files (final (code_Store E email code) w)) (code_file email)"
    and "\<And>n. \<not> file_fault E n"
  shows "result (code_Get E email) v = (if unix (clock E (ticks v)) \<le> code_expiry E w then Some code else None) \<and>
    (code_expiry E w < unix (clock E (ticks v)) \<longrightarrow> map_of (code_files (final (code_Get E email) v)) (code_file email) = None) \<and>
    (code_file other \<noteq> code_file email \<longrightarrow> map_of (code_files (final (code_Store E email code) w)) (code_file other) = map_of (code_files w) (code_file other))"
proof -
  have stored: "map_of (code_files v) (code_file email) = Some (code_text code (code_expiry E w))"
    using assms(3) by (simp add: code_Store_files [OF assms(1)])
  have read: "read_code (code_text code (code_expiry E w)) = Some (code, code_expiry E w)"
    using int64_wrap_range by (intro code_codec [OF assms(2)]) (simp_all add: code_expiry_def)
  show ?thesis
    using stored read assms(4)
    by (auto simp: code_Get_def result_file_op files_file_op code_Store_files [OF assms(1)] update_conv' delete_conv')
qed

text \<open>
  C36: A code that was stored is read back, in any later state that has its file, exactly until the second it expires; after that second the
  read finds nothing and removes the file. Codes for addresses with other file names are as they were.
\<close>

theorem code_read_back:
  assumes "result (code_Store E email code) w = True" and "valid_utf8 code"
    and "map_of (code_files v) (code_file email) = map_of (code_files (final (code_Store E email code) w)) (code_file email)"
    and "\<And>n. \<not> file_fault E n"
  shows "result (code_Get E email) v = (if unix (clock E (ticks v)) \<le> code_expiry E w then Some code else None) \<and>
    (code_expiry E w < unix (clock E (ticks v)) \<longrightarrow> map_of (code_files (final (code_Get E email) v)) (code_file email) = None) \<and>
    (code_file other \<noteq> code_file email \<longrightarrow> map_of (code_files (final (code_Store E email code) w)) (code_file other) = map_of (code_files w) (code_file other))"
  using assms by (rule stored_code_read)

lemma code_Store_ok: "(\<And>n. \<not> file_fault E n) \<Longrightarrow> result (code_Store E email code) w = True"
  by (simp add: code_Store_def result_file_op Let_def)

theorem code_read_back_witness:
  "result (code_Get demo_env ''a@b.c'') (final (code_Store demo_env ''a@b.c'' ''0042'') demo_world) = Some ''0042''"
proof -
  have "result (code_Store demo_env ''a@b.c'' ''0042'') demo_world = True" by (rule code_Store_ok) (simp add: demo_env_def)
  from code_read_back [OF this _ refl] show ?thesis
    by (simp add: ascii_valid code_expiry_def unix_def int64_wrap_def)
qed

section \<open>Captchas\<close>

text \<open>A captcha works once: when a check has accepted it and the server could delete its key, every later check refuses it until a captcha with its id is stored again.\<close>

theorem captcha_single_use:
  assumes "kv_wf w" and "result (captcha_Verify E token code) w" and "\<not> kv_fault E (Suc (cmds w))"
    and "map_of (kv v) (captchaKey E token) = map_of (kv (final (captcha_Verify E token code) w)) (captchaKey E token)" and "kv_wf v"
  shows "\<not> result (captcha_Verify E token code') v"
proof -
  have "map_of (kv (final (captcha_Verify E token code) w)) (captchaKey E token) = None"
    using assms(1-3)
    by (auto simp: captcha_Verify_def kv_get_def kv_del_def command_kv delete_conv' split: if_splits sum.splits)
  then have "map_of (kv_live t (kv v)) (captchaKey E token) = None" for t
    using assms(4,5) by (simp add: map_of_kv_live kv_wf_def)
  then show ?thesis
    by (auto simp: captcha_Verify_def kv_get_def command_result split: if_splits)
qed

theorem captcha_single_use_witness:
  "let w = final (captcha_Generate demo_env) demo_world; v = final (captcha_Verify demo_env ''0'' ''ABCD'') w
   in result (captcha_Verify demo_env ''0'' ''ABCD'') w \<and> \<not> result (captcha_Verify demo_env ''0'' ''abcd'') v"
proof -
  let ?w = "final (captcha_Generate demo_env) demo_world"
  let ?v = "final (captcha_Verify demo_env ''0'' ''ABCD'') ?w"
  have key: "captchaKey demo_env ''0'' = ''ha:captcha:code:0''" by (simp add: captchaKey_def)
  have zero: "itoa 0 = ''0''" and fold: "EqualFold ''abcd'' ''ABCD''" by code_simp+
  have kv: "kv ?w = [(''ha:captcha:code:0'', KStr ''abcd'', Some 300000000001)]"
    by (simp add: captcha_Generate_def kv_set_def command_kv zero key kv_live_def expiry_def seconds_def int64_wrap_def)
  have w: "kv_wf ?w" by (simp add: kv_wf_def kv)
  have ok: "result (captcha_Verify demo_env ''0'' ''ABCD'') ?w"
    using fold by (simp add: captcha_Verify_def kv_get_def command_result kv key kv_live_def TrimSpace_id space_eval)
  have v: "kv_wf ?v"
    using w by (auto simp: captcha_Verify_def kv_get_def kv_del_def command_kv kv_wf_def distinct_kv_live distinct_delete split: sum.splits)
  from captcha_single_use [OF w ok _ refl v] ok show ?thesis by (simp add: Let_def)
qed

end
