(* ===== verification/Disk_Facts.thy ===== *)
theory Disk_Facts
  imports Sdk_Packages Codes_Facts
begin

text \<open>
  Facts about cleaned paths and about the operations on the tree: what a segment appended to a path means, and which entries of
  the tree an operation leaves as they are.
\<close>

declare map_of_eq_Some_iff [simp del]

section \<open>Paths\<close>

lemma Split_no_separator: "c \<notin> set s \<Longrightarrow> Split c s = [s]"
  by (induction s) auto

lemma Split_append: "Split c (a @ c # b) = Split c a @ Split c b"
proof (induction a)
  case (Cons x a)
  obtain f fs where "Split c a = f # fs" using Split_Cons_ex by blast
  with Cons show ?case by auto
qed simp

lemma in_Split: "x \<in> set (Split c s) \<Longrightarrow> c \<notin> set x"
proof (induction s arbitrary: x)
  case (Cons y s)
  obtain f fs where "Split c s = f # fs" using Split_Cons_ex by blast
  with Cons show ?case by (auto split: if_splits)
qed simp

lemma Split_Join:
  assumes "xs \<noteq> []" and "\<And>x. x \<in> set xs \<Longrightarrow> c \<notin> set x"
  shows "Split c (Join xs [c]) = xs"
  using assms
proof (induction xs "[c]" rule: Join.induct)
  case (3 s t ss)
  then show ?case by (simp add: Split_append Split_no_separator)
qed (simp_all add: Split_no_separator)

lemma Join_empty: "[] \<notin> set ss \<Longrightarrow> Join ss sep = [] \<longleftrightarrow> ss = []"
  by (cases ss rule: remdups_adj.cases) auto

definition plain_segment :: "string \<Rightarrow> bool" where
  "plain_segment s \<longleftrightarrow> s \<noteq> [] \<and> s \<noteq> ''.'' \<and> s \<noteq> ''..''"

lemma clean_from_append: "clean_from r out (ss @ ts) = clean_from r (rev (clean_from r out ss)) ts"
  by (induction r out ss rule: clean_from.induct) (auto split: list.splits)

lemma clean_from_plain: "''..'' \<notin> set ss \<Longrightarrow> clean_from r out ss = rev out @ filter (\<lambda>s. s \<noteq> [] \<and> s \<noteq> ''.'') ss"
  by (induction ss arbitrary: out) auto

lemma clean_segments_plain: "''..'' \<notin> set (Split CHR ''/'' p) \<Longrightarrow> clean_segments p = filter (\<lambda>s. s \<noteq> [] \<and> s \<noteq> ''.'') (Split CHR ''/'' p)"
  by (simp add: clean_segments_def clean_from_plain)

lemma disk_path_child:
  assumes "s \<noteq> []" and "CHR ''/'' \<notin> set name" and "plain_segment name"
  shows "disk_path (s @ ''/'' @ name) = disk_path s @ [name]"
proof -
  have "HasPrefix (s @ ''/'' @ name) ''/'' = HasPrefix s ''/''" using assms(1) by (cases s) (simp_all add: HasPrefix_def)
  then show ?thesis
    using assms Split_append [of "CHR ''/''" s name]
    by (simp add: disk_path_def clean_segments_def clean_from_append Split_no_separator plain_segment_def)
qed

lemma disk_path_parent:
  assumes "s \<noteq> []" and "disk_path s = ps @ [x]" and "x \<noteq> []" and "x \<noteq> ''..''"
  shows "disk_path (s @ ''/..'') = ps"
proof -
  have rooted: "HasPrefix (s @ ''/..'') ''/'' = HasPrefix s ''/''" using assms(1) by (cases s) (simp_all add: HasPrefix_def)
  obtain qs where "clean_segments s = qs @ [x]" "ps = (if HasPrefix s ''/'' then [[]] else []) @ qs"
    using assms(2,3) by (cases "clean_segments s" rule: rev_cases) (auto simp: disk_path_def split: if_splits)
  then show ?thesis
    using rooted Split_append [of "CHR ''/''" s "''..''"] assms(4)
    by (simp add: disk_path_def clean_segments_def clean_from_append)
qed

section \<open>Archive paths\<close>

lemma Split_Clean:
  assumes "''..'' \<notin> set (Split CHR ''/'' p)" and "\<not> HasPrefix p ''/''"
  shows "Split CHR ''/'' (path_Clean p) = (if clean_segments p = [] then [''.''] else clean_segments p)"
proof -
  have segs: "set (clean_segments p) \<subseteq> set (Split CHR ''/'' p) - {[]}"
    using assms(1) by (auto simp: clean_segments_plain)
  have "Split CHR ''/'' (Join (clean_segments p) ''/'') = clean_segments p" if "clean_segments p \<noteq> []"
    using segs in_Split by (intro Split_Join [OF that]) blast
  moreover have "Join (clean_segments p) ''/'' = [] \<longleftrightarrow> clean_segments p = []"
    using segs by (intro Join_empty) auto
  moreover have "Split CHR ''/'' ''.'' = [''.'']" by simp
  ultimately show ?thesis using assms(2) by (auto simp: path_Clean_def Let_def)
qed

text \<open>
  C26: A path of an archive that the check accepts stays in the directory it is unpacked into: it is relative, none of its segments is \<open>..\<close>,
  and joined to a directory it names an entry at or below it; and it is already clean.
\<close>

theorem archive_path_contained:
  assumes "sanitizeArchivePath name = Inr p"
  shows "\<not> HasPrefix p ''/'' \<and> ''..'' \<notin> set (Split CHR ''/'' p) \<and> path_Clean p = p \<and>
    (d \<noteq> [] \<longrightarrow> prefix (disk_path d) (disk_path (d @ ''/'' @ p)))"
proof -
  obtain c where c: "''..'' \<notin> set (Split CHR ''/'' c)" "\<not> HasPrefix c ''/''" "p = path_Clean c"
    using assms by (auto simp: sanitizeArchivePath_def Let_def split: if_splits)
  define ss where "ss = clean_segments c"
  have split: "Split CHR ''/'' p = (if ss = [] then [''.''] else ss)" by (simp add: c(3) Split_Clean [OF c(1,2)] ss_def)
  have plain: "list_all plain_segment ss"
    using c(1) by (auto simp: ss_def clean_segments_plain plain_segment_def list_all_iff)
  have joined: "Join ss ''/'' = [] \<longleftrightarrow> ss = []"
    using plain by (intro Join_empty) (auto simp: list_all_iff plain_segment_def)
  then have p: "p = (if ss = [] then ''.'' else Join ss ''/'')"
    using c(2) by (auto simp: c(3) path_Clean_def ss_def)
  have head: "\<not> HasPrefix p ''/''"
  proof
    assume "HasPrefix p ''/''"
    then obtain t where "p = CHR ''/'' # t" by (auto simp: HasPrefix_iff)
    then have "hd (Split CHR ''/'' p) = []" by simp
    with split plain show False by (cases ss) (auto simp: plain_segment_def split: if_splits)
  qed
  have dots: "''..'' \<notin> set (Split CHR ''/'' p)" using split plain by (auto simp: list_all_iff plain_segment_def)
  have again: "clean_segments p = ss"
    using plain by (simp add: clean_segments_plain [OF dots] split) (auto simp: list_all_iff plain_segment_def intro!: filter_True)
  have "path_Clean p = p"
    using head by (simp add: path_Clean_def again) (use p joined in \<open>auto simp: Let_def\<close>)
  moreover have "prefix (disk_path d) (disk_path (d @ ''/'' @ p))" if "d \<noteq> []"
  proof -
    have "HasPrefix (d @ ''/'' @ p) ''/'' = HasPrefix d ''/''" using that by (cases d) (simp_all add: HasPrefix_def)
    then show ?thesis
      using Split_append [of "CHR ''/''" d p] dots
      by (simp add: disk_path_def clean_segments_def clean_from_append clean_from_plain)
  qed
  ultimately show ?thesis using head dots by simp
qed

theorem archive_path_contained_witness:
  "sanitizeArchivePath ''./src//app/./main.ts'' = Inr ''src/app/main.ts'' \<and>
   prefix (disk_path ''/tmp/x'') (disk_path (''/tmp/x/'' @ ''src/app/main.ts''))"
proof -
  have "sanitizeArchivePath ''./src//app/./main.ts'' = Inr ''src/app/main.ts''" by code_simp
  from archive_path_contained [OF this, of "''/tmp/x''"] this show ?thesis by simp
qed

section \<open>Operations on the tree\<close>

lemma result_disk_op: "result (disk_op E f) w = fst (f (file_fault E (file_ops w)) (file_torn E (file_ops w)) (removed E (file_ops w)) (disk w))"
  by (simp add: disk_op_def result_def split: prod.split)

lemma disk_disk_op: "disk (final (disk_op E f) w) = snd (f (file_fault E (file_ops w)) (file_torn E (file_ops w)) (removed E (file_ops w)) (disk w))"
  by (simp add: disk_op_def final_def split: prod.split)

lemma disk_op_other [simp]: "ticks (final (disk_op E f) w) = ticks w" "file_ops (final (disk_op E f) w) = Suc (file_ops w)"
  by (simp_all add: disk_op_def final_def split: prod.split)

lemma disk_now [simp]: "disk (final (now E) w) = disk w" "file_ops (final (now E) w) = file_ops w"
  by (simp_all add: now_def final_def)

lemma map_of_filter_keys: "map_of (filter (\<lambda>(q, _). P q) d) k = (if P k then map_of d k else None)"
  by (induction d) auto

lemma map_of_add_dirs:
  "map_of (add_dirs p d) q = (if q \<in> set (prefixes p) \<and> \<not> always_there q then Some None else map_of d q)"
proof -
  have "map_of (fold (\<lambda>q d. if is_dir d q then d else AList.update q None d) qs d) q =
      (if q \<in> set qs \<and> \<not> always_there q then Some None else map_of d q)" for qs
    by (induction qs arbitrary: d) (auto simp: is_dir_def update_conv')
  then show ?thesis by (simp add: add_dirs_def)
qed

lemma map_of_moved_source:
  assumes "list_all (\<lambda>(q, _). \<not> prefix b q \<or> q = b) d" and "\<not> prefix a b"
  shows "map_of (Disk.moved a b d) (b @ r) = map_of d (a @ r)"
  using assms
proof (induction d)
  case (Cons x d)
  obtain q e where x: "x = (q, e)" by (cases x)
  from Cons have IH: "map_of (Disk.moved a b d) (b @ r) = map_of d (a @ r)" by simp
  consider (gone) "q = b" | (under) "prefix a q" "q \<noteq> b" | (other) "\<not> prefix a q" "q \<noteq> b" by blast
  then show ?case
  proof cases
    case gone
    then show ?thesis using Cons.prems(2) IH by (auto simp: x Disk.moved_def)
  next
    case under
    then obtain s where "q = a @ s" by (auto simp: prefix_def)
    then show ?thesis using under IH by (auto simp: x Disk.moved_def)
  next
    case other
    then have "q \<noteq> b @ r" "q \<noteq> a @ r" using Cons.prems(1) by (auto simp: x)
    then show ?thesis using other IH by (auto simp: x Disk.moved_def)
  qed
qed (simp add: Disk.moved_def)

lemma map_of_moved_other: "\<not> prefix a q \<Longrightarrow> \<not> prefix b q \<Longrightarrow> map_of (Disk.moved a b d) q = map_of d q"
  by (induction d) (auto simp: Disk.moved_def)

lemma disk_keeps [simp]:
  "disk (final (now E) w) = disk w" "disk (final (GenerateRandomToken E n) w) = disk w" "disk (final (http_do E c) w) = disk w"
  "disk (final (command E f) w) = disk w"
  by (simp_all add: now_def GenerateRandomToken_def http_do_def command_def final_def Let_def split: prod.split)

lemma Require_keeps [simp]:
  "disk (final (RequireAuthLevel E rq l) w) = disk w" "presence (final (RequireAuthLevel E rq l) w) = presence w"
  "kv (final (RequireAuthLevel E rq l) w) = kv w"
  by (simp_all add: RequireAuthLevel_def resolveAuthLevel_def Let_def ResolveAccessToken_def GetClient_def load_user_def
      db_first_def split: sum.split option.split)

text \<open>The entries that may change, as a relation between worlds.\<close>

definition keeps_outside :: "(string list \<Rightarrow> bool) \<Rightarrow> world \<Rightarrow> world \<Rightarrow> bool" where
  "keeps_outside S w v \<longleftrightarrow> (\<forall>q. \<not> S q \<longrightarrow> map_of (disk v) q = map_of (disk w) q)"

interpretation frame: evolution "keeps_outside S" for S
  by unfold_locales (auto simp: keeps_outside_def)

named_theorems frames

lemma frame_now [frames]: "evolves (keeps_outside S) (now E)"
  by (simp add: evolves_def keeps_outside_def)

lemma frame_reads [frames]:
  "evolves (keeps_outside S) (os_Stat E p)" "evolves (keeps_outside S) (os_ReadDir E p)" "evolves (keeps_outside S) (os_ReadFile E p)"
  by (simp_all add: evolves_def keeps_outside_def os_Stat_def os_ReadDir_def os_ReadFile_def disk_disk_op)

lemma frame_MkdirAll [frames]: "(\<And>q. prefix q p \<Longrightarrow> S q) \<Longrightarrow> evolves (keeps_outside S) (os_MkdirAll E p)"
  by (auto simp: evolves_def keeps_outside_def os_MkdirAll_def disk_disk_op map_of_add_dirs)

lemma frame_WriteFile [frames]: "S p \<Longrightarrow> evolves (keeps_outside S) (os_WriteFile E p data)"
  by (auto simp: evolves_def keeps_outside_def os_WriteFile_def disk_disk_op update_conv' split: option.split)

lemma frame_RemoveAll [frames]: "(\<And>q. within p q \<Longrightarrow> S q) \<Longrightarrow> evolves (keeps_outside S) (os_RemoveAll E p)"
  by (auto simp: evolves_def keeps_outside_def os_RemoveAll_def disk_disk_op map_of_filter_keys)

lemma frame_Rename [frames]: "(\<And>q. prefix a q \<or> prefix b q \<Longrightarrow> S q) \<Longrightarrow> evolves (keeps_outside S) (os_Rename E a b)"
  by (auto simp: evolves_def keeps_outside_def os_Rename_def disk_disk_op intro!: map_of_moved_other)

lemma frame_os_error [frames]: "evolves (keeps_outside S) (os_error E what)"
  unfolding os_error_def by (intro frame.evolves_rules)

lemma frame_or_os_error [frames]: "evolves (keeps_outside S) m \<Longrightarrow> evolves (keeps_outside S) (or_os_error E what m)"
  unfolding or_os_error_def by (intro frame.evolves_rules frames)

lemma frame_then_sdk [frames]:
  "evolves (keeps_outside S) m \<Longrightarrow> (\<And>x. evolves (keeps_outside S) (f x)) \<Longrightarrow> evolves (keeps_outside S) (then_sdk m f)"
  unfolding then_sdk_def by (intro frame.evolves_rules)

end
