(* ===== verification/Sdk_Facts.thy ===== *)
theory Sdk_Facts
  imports Disk_Facts Registries_Facts Site_Auth_Facts
begin

text \<open>
  Facts about the store of SDK packages: names and directories, publication as one step whatever fails, what a stored package
  gives back, and what the checks of an upload and of a name leave open.
\<close>

declare map_of_eq_Some_iff [simp del]

section \<open>Names\<close>

definition storage_root :: "env \<Rightarrow> string list" where
  "storage_root E = disk_path (storage_dir E)"

lemma storage_dir_set: "storage_dir E \<noteq> []"
  by (simp add: storage_dir_def)

lemma nameDir_plain: "CHR ''/'' \<notin> set name \<Longrightarrow> plain_segment name \<Longrightarrow> nameDir E name = storage_root E @ [name]"
  using disk_path_child [OF storage_dir_set]
  by (simp add: nameDir_def path_Join_def storage_dir_set storage_root_def plain_segment_def)

lemma name_chars: "name_char c \<or> c = CHR ''-'' \<Longrightarrow> c \<noteq> CHR ''/'' \<and> c \<noteq> CHR 0x5C \<and> c \<noteq> CHR ''.''"
  by (auto simp: name_char_def is_lower_def is_digit_def)

lemma list_all_index: "list_all P xs \<longleftrightarrow> (\<forall>i < length xs. P (xs ! i))"
  by (rule list_all_length)

text \<open>
  A name is accepted exactly if it is one of the pattern [a-z0-9]([a-z0-9-]*[a-z0-9])? with at most 64 characters; the directory of an
  accepted name is a direct child of the storage directory.
\<close>

theorem validateName_pattern:
  "(validateName name = None \<longleftrightarrow> name \<noteq> [] \<and> length name \<le> 64 \<and> (\<forall>c \<in> set name. name_char c \<or> c = CHR ''-'') \<and>
      name_char (hd name) \<and> name_char (last name)) \<and>
   (validateName name = None \<longrightarrow> nameDir E name = disk_path (storage_dir E) @ [name])"
proof -
  let ?in = "\<lambda>i. name_char (name ! i) \<or> name ! i = CHR ''-'' \<and> i > 0 \<and> i < length name - 1"
  have dash: "\<not> name_char CHR ''-''" by (simp add: name_char_def is_lower_def is_digit_def)
  have inner: "list_all ?in [0..<length name] \<longleftrightarrow>
      (\<forall>c \<in> set name. name_char c \<or> c = CHR ''-'') \<and> name_char (hd name) \<and> name_char (last name)" if "name \<noteq> []"
  proof
    assume all: "list_all ?in [0..<length name]"
    then have at: "?in i" if "i < length name" for i using that by (simp add: list_all_iff)
    have "name_char c \<or> c = CHR ''-''" if "c \<in> set name" for c using at that by (metis in_set_conv_nth)
    then show "(\<forall>c \<in> set name. name_char c \<or> c = CHR ''-'') \<and> name_char (hd name) \<and> name_char (last name)"
      using that at [of 0] at [of "length name - 1"] by (simp add: hd_conv_nth last_conv_nth)
  next
    assume ok: "(\<forall>c \<in> set name. name_char c \<or> c = CHR ''-'') \<and> name_char (hd name) \<and> name_char (last name)"
    have "?in i" if i: "i < length name" for i
    proof (cases "name_char (name ! i)")
      case False
      then have "i \<noteq> 0" "i \<noteq> length name - 1" using ok \<open>name \<noteq> []\<close> by (metis hd_conv_nth, metis last_conv_nth)
      with False ok i show ?thesis by auto
    qed simp
    then show "list_all ?in [0..<length name]" by (simp add: list_all_iff)
  qed
  have plain: "plain_segment name \<and> CHR ''/'' \<notin> set name \<and> \<not> ContainsAny name [CHR ''/'', CHR 0x5C]"
    if "name \<noteq> []" "\<forall>c \<in> set name. name_char c \<or> c = CHR ''-''"
    using that name_chars by (fastforce simp: plain_segment_def ContainsAny_def list_ex_iff)
  then have pattern: "validateName name = None \<longleftrightarrow> name \<noteq> [] \<and> length name \<le> 64 \<and> (\<forall>c \<in> set name. name_char c \<or> c = CHR ''-'') \<and>
      name_char (hd name) \<and> name_char (last name)"
    using inner by (auto simp: validateName_def plain_segment_def)
  with plain nameDir_plain [of name E] show ?thesis by (auto simp: storage_root_def)
qed

theorem validateName_pattern_witness:
  "validateName ''auth-2'' = None \<and> nameDir demo_env ''auth-2'' = disk_path (storage_dir demo_env) @ [''auth-2'']"
proof -
  have "validateName ''auth-2'' = None" by code_simp
  with validateName_pattern [of "''auth-2''" demo_env] show ?thesis by simp
qed

section \<open>Publication\<close>

lemma final_or_os_error [simp]: "final (or_os_error E what m) w = final m w"
  by (simp add: or_os_error_def os_error_def)

lemma result_or_os_error [simp]:
  "result (or_os_error E what m) w = (if result m w then Inr () else Inl (SdkOther (what @ error_text E (file_ops (final m w)))))"
  by (simp add: or_os_error_def os_error_def)

lemma then_sdk_steps [simp]:
  "result (then_sdk m f) w = (case result m w of Inl e \<Rightarrow> Inl e | Inr x \<Rightarrow> result (f x) (final m w))"
  "final (then_sdk m f) w = (case result m w of Inl e \<Rightarrow> final m w | Inr x \<Rightarrow> final (f x) (final m w))"
  by (simp_all add: then_sdk_def split: sum.split)

lemma WriteFile_done: "result (os_WriteFile E p s) w \<Longrightarrow> disk (final (os_WriteFile E p s) w) = AList.update p (Some s) (disk w)"
  by (auto simp: os_WriteFile_def result_disk_op disk_disk_op split: if_splits)

lemma Rename_failed: "\<not> result (os_Rename E a b) w \<Longrightarrow> disk (final (os_Rename E a b) w) = disk w"
  by (auto simp: os_Rename_def result_disk_op disk_disk_op split: if_splits)

lemma Rename_done:
  assumes "result (os_Rename E a b) w" and "a \<noteq> b" and "\<not> prefix a b"
  shows "map_of (disk (final (os_Rename E a b) w)) (b @ r) = map_of (disk w) (a @ r)" and "map_of (disk w) a = Some None"
proof -
  have no: "list_all (\<lambda>(q, _). \<not> prefix b q \<or> q = b) (disk w)" and eq: "disk (final (os_Rename E a b) w) = Disk.moved a b (disk w)"
    using assms by (auto simp: os_Rename_def result_disk_op disk_disk_op list_all_iff list_ex_iff strict_prefix_def split: if_splits)
  show "map_of (disk (final (os_Rename E a b) w)) (b @ r) = map_of (disk w) (a @ r)"
    unfolding eq by (rule map_of_moved_source [OF no assms(3)])
  show "map_of (disk w) a = Some None"
    using assms by (auto simp: os_Rename_def result_disk_op split: if_splits)
qed

lemma write_failed: "\<not> prefix p q \<Longrightarrow> map_of (disk (final (os_WriteFile E (p @ x) s) w)) q = map_of (disk w) q"
  by (auto simp: os_WriteFile_def disk_disk_op update_conv' split: option.split)

text \<open>What is at and below the place of a package after it was written: all of it, or what was there before.\<close>

lemma write_package_outcome:
  assumes "\<not> prefix tmp dir" and "\<not> prefix dir tmp"
  shows "case result (write_package E dir tmp data meta) w of
      Inl e \<Rightarrow> \<forall>r. map_of (disk (final (write_package E dir tmp data meta) w)) (dir @ r) = map_of (disk w) (dir @ r)
    | Inr m \<Rightarrow> m = meta \<and> (\<exists>j. meta_json E meta = Some j \<and> map_of (disk w) tmp = Some None \<and>
        (\<forall>r. map_of (disk (final (write_package E dir tmp data meta) w)) (dir @ r) =
          (if r = [''archive''] then Some (Some data) else if r = [''.meta.json''] then Some (Some (print_json j))
           else map_of (disk w) (tmp @ r))))"
proof -
  have other: "\<not> prefix tmp (dir @ r)" for r using assms by (metis prefixI prefix_same_cases)
  have neq: "dir @ r \<noteq> tmp @ x" for r x using other [of r] by auto
  have "tmp \<noteq> dir" using assms by auto
  note renamed = Rename_done [OF _ this assms(1)]
  show ?thesis
    unfolding write_package_def archivePath_def metaPath_def
    by (auto simp: other neq write_failed renamed(1) Rename_failed WriteFile_done update_conv' os_error_def dest!: renamed(2) split: option.split)
qed

lemma climbs_append [simp]: "climbs (p @ [s]) \<longleftrightarrow> climbs p \<and> s = ''..''"
  by (simp add: climbs_def)

lemma within_child: "s \<noteq> [] \<Longrightarrow> s \<noteq> ''..'' \<Longrightarrow> within (p @ [s]) q \<longleftrightarrow> prefix (p @ [s]) q"
  by (simp add: within_def)

definition temp_name :: "string \<Rightarrow> time \<Rightarrow> string" where
  "temp_name name t = name @ ''.tmp.'' @ int_text t"

lemma temp_dir_name: "temp_dir (root @ [name]) t = root @ [temp_name name t]"
  by (simp add: temp_dir_def temp_name_def)

lemma temp_name_other [simp]: "temp_name name t \<noteq> []" "temp_name name t \<noteq> ''..''" "temp_name name t \<noteq> name" "name \<noteq> temp_name name t"
  by (auto simp: temp_name_def append_eq_Cons_conv Cons_eq_append_conv)

lemma map_of_MkdirAll:
  "map_of (disk (final (os_MkdirAll E p) w)) q =
    (if result (os_MkdirAll E p) w \<and> prefix q p \<and> \<not> always_there q then Some None else map_of (disk w) q)"
  by (simp add: os_MkdirAll_def result_disk_op disk_disk_op map_of_add_dirs)

lemma map_of_RemoveAll_other: "\<not> within p q \<Longrightarrow> map_of (disk (final (os_RemoveAll E p) w)) q = map_of (disk w) q"
  by (simp add: os_RemoveAll_def disk_disk_op map_of_filter_keys)

definition published :: "env \<Rightarrow> string list \<Rightarrow> string \<Rightarrow> sdk_meta \<Rightarrow> tree \<Rightarrow> bool" where
  "published E dir data m d \<longleftrightarrow> map_of d dir = Some None \<and> map_of d (archivePath dir) = Some (Some data) \<and>
     meta_json E m \<noteq> None \<and> map_of d (metaPath dir) = map_option (\<lambda>j. Some (print_json j)) (meta_json E m)"

lemma publish_package_outcome:
  "case result (publish_package E (root @ [name]) data meta) w of
      Inl e \<Rightarrow> \<forall>r. map_of (disk (final (publish_package E (root @ [name]) data meta) w)) (root @ name # r) = map_of (disk w) (root @ name # r)
    | Inr m \<Rightarrow> m = meta \<and> published E (root @ [name]) data m (disk (final (publish_package E (root @ [name]) data meta) w))"
proof -
  let ?tmp = "root @ [temp_name name (clock E (ticks w))]"
  let ?m = "final (os_MkdirAll E ?tmp) (final (now E) w)"
  let ?v = "final (write_package E (root @ [name]) ?tmp data meta) ?m"
  have made: "map_of (disk ?m) (root @ name # r) = map_of (disk w) (root @ name # r)" for r
    by (simp add: map_of_MkdirAll)
  have swept: "map_of (disk (final (os_RemoveAll E ?tmp) v)) (root @ name # r) = map_of (disk v) (root @ name # r)" for v r
    by (rule map_of_RemoveAll_other) (simp add: within_child)
  have out: "case result (write_package E (root @ [name]) ?tmp data meta) ?m of
      Inl e \<Rightarrow> \<forall>r. map_of (disk ?v) (root @ name # r) = map_of (disk ?m) (root @ name # r)
    | Inr m \<Rightarrow> m = meta \<and> published E (root @ [name]) data m (disk ?v)"
    using write_package_outcome [of ?tmp "root @ [name]" E data meta ?m]
    by (auto simp: published_def archivePath_def metaPath_def split: sum.splits option.splits dest: spec [of _ "[]"])
  have "published E (root @ [name]) data m (disk (final (os_RemoveAll E ?tmp) v)) = published E (root @ [name]) data m (disk v)" for m v
    using swept [of v "[]"] swept [of v "[''archive'']"] swept [of v "[''.meta.json'']"]
    by (simp add: published_def archivePath_def metaPath_def)
  with out show ?thesis
    by (auto simp: publish_package_def temp_dir_name made swept os_error_def Let_def split: sum.splits)
qed

text \<open>What storing a package may touch: the directories down to the root, the place of the package and its temporary places.\<close>

definition package_area :: "env \<Rightarrow> string \<Rightarrow> string list \<Rightarrow> bool" where
  "package_area E name q \<longleftrightarrow> prefix q (storage_root E) \<or> prefix (storage_root E @ [name]) q \<or>
     (\<exists>t. prefix (storage_root E @ [temp_name name t]) q)"

lemma frame_store [frames]:
  assumes "\<And>q. prefix q (storage_root E) \<Longrightarrow> S q"
  shows "evolves (keeps_outside S) (store_root E)" "evolves (keeps_outside S) (store_Count E)"
  unfolding store_Count_def store_root_def storage_root_def [symmetric]
  by (intro frame.evolves_rules frames; simp add: assms split: found.split; intro frame.evolves_rules frames)+

lemma frame_publish:
  "evolves (keeps_outside (package_area E name)) (publish_package E (storage_root E @ [name]) data meta)"
proof -
  have area: "package_area E name q" if "prefix (storage_root E @ [temp_name name t]) q \<or> prefix (storage_root E @ [name]) q" for t q
    using that by (auto simp: package_area_def)
  have step: "evolves (keeps_outside (package_area E name)) (os_MkdirAll E (storage_root E @ [temp_name name t]))" for t
    by (rule frames) (auto simp: package_area_def)
  show ?thesis
    unfolding publish_package_def write_package_def temp_dir_name archivePath_def metaPath_def
    by (intro frame.evolves_rules frames step area) (auto simp: within_child)
qed

lemma final_gets_now [simp]: "result (os_error E what) w = SdkOther (what @ error_text E (file_ops w))" "final (os_error E what) w = w"
  by (simp_all add: os_error_def)

lemma disk_Stat [simp]: "disk (final (os_Stat E p) w) = disk w"
  by (simp add: os_Stat_def disk_disk_op)

lemma root_keeps_children:
  "map_of (disk (final (store_root E) w)) (storage_root E @ s # r) = map_of (disk w) (storage_root E @ s # r)"
  "map_of (disk (final (store_Count E) w)) (storage_root E @ s # r) = map_of (disk w) (storage_root E @ s # r)"
  using frame_store [of E "\<lambda>q. prefix q (storage_root E)"] by (auto simp: evolves_def keeps_outside_def)

lemma Put_cases:
  assumes "validateName name = None"
  shows "(\<exists>e. result (store_Put E name data manifest) w = Inl e \<and> (\<forall>r. map_of (disk (final (store_Put E name data manifest) w))
        (storage_root E @ name # r) = map_of (disk w) (storage_root E @ name # r))) \<or>
    (\<exists>v t. let p = publish_package E (storage_root E @ [name]) data (buildMeta name data manifest (sha256 data) t) in
       result (store_Put E name data manifest) w = result p v \<and> final (store_Put E name data manifest) w = final p v \<and>
       int (length data) \<le> MaxPackageSizeOf E \<and>
       (\<forall>r. map_of (disk v) (storage_root E @ name # r) = map_of (disk w) (storage_root E @ name # r)))"
proof -
  have dir: "nameDir E name = storage_root E @ [name]" using validateName_pattern assms by (simp add: storage_root_def)
  let ?w1 = "final (store_root E) w"
  let ?w2 = "final (os_Stat E (archivePath (nameDir E name))) ?w1"
  let ?w3 = "final (store_Count E) ?w2"
  note keep = root_keeps_children [of E]
  consider (big) "int (length data) > MaxPackageSizeOf E" | (root) e where "int (length data) \<le> MaxPackageSizeOf E" "result (store_root E) w = Inl e"
    | (found) x y where "int (length data) \<le> MaxPackageSizeOf E" "result (store_root E) w = Inr x"
        "result (os_Stat E (archivePath (nameDir E name))) ?w1 = Found y"
    | (count) x where "int (length data) \<le> MaxPackageSizeOf E" "result (store_root E) w = Inr x"
        "\<forall>y. result (os_Stat E (archivePath (nameDir E name))) ?w1 \<noteq> Found y"
    by (metis linorder_not_le sumE)
  then show ?thesis
  proof cases
    case count
    show ?thesis
    proof (cases "\<exists>b. result (store_Count E) ?w2 = Inr b \<and> int b < MaxPackagesOf E")
      case True
      have "result (store_Put E name data manifest) w = result (publish_package E (storage_root E @ [name]) data
          (buildMeta name data manifest (sha256 data) (clock E (ticks ?w3)))) (final (now E) ?w3) \<and>
        final (store_Put E name data manifest) w = final (publish_package E (storage_root E @ [name]) data
          (buildMeta name data manifest (sha256 data) (clock E (ticks ?w3)))) (final (now E) ?w3)"
        using count True assms by (auto simp: store_Put_def dir Let_def split: found.split)
      moreover have "map_of (disk (final (now E) ?w3)) (storage_root E @ name # r) = map_of (disk w) (storage_root E @ name # r)" for r
        by (simp add: keep)
      ultimately show ?thesis
        unfolding Let_def using count(1) by blast
    next
      case False
      then show ?thesis
        using count assms keep
        by (cases "result (store_Count E) ?w2") (auto simp: store_Put_def dir Let_def split: found.split)
    qed
  qed (use assms keep in \<open>auto simp: store_Put_def Let_def\<close>)
qed

text \<open>
  C9: Storing a package is all or nothing whatever operation of the disk fails: on success its directory holds the archive as it was
  uploaded and the metadata, and on every error all that is at and below its place is as before. Nothing else on the disk changes, but
  for the storage directory, which is created, and the temporary directories of that name.
\<close>

theorem Put_all_or_nothing:
  assumes "validateName name = None"
  shows "(case result (store_Put E name data manifest) w of
      Inl e \<Rightarrow> map_of (disk (final (store_Put E name data manifest) w)) (nameDir E name @ r) = map_of (disk w) (nameDir E name @ r)
    | Inr m \<Rightarrow> published E (nameDir E name) data m (disk (final (store_Put E name data manifest) w)) \<and>
        sm_Name m = name \<and> sm_Size m = int (length data) \<and> sm_Sha256 m = hex_encode (sha256 data) \<and> int (length data) \<le> MaxPackageSizeOf E) \<and>
    (package_area E name q \<or> map_of (disk (final (store_Put E name data manifest) w)) q = map_of (disk w) q)"
proof (intro conjI)
  have dir: "nameDir E name = storage_root E @ [name]" using validateName_pattern assms by (simp add: storage_root_def)
  have meta: "sm_Name (buildMeta name data manifest d t) = name" "sm_Size (buildMeta name data manifest d t) = int (length data)"
    "sm_Sha256 (buildMeta name data manifest d t) = hex_encode d" for d t
    by (simp_all add: buildMeta_def)
  show "case result (store_Put E name data manifest) w of
      Inl e \<Rightarrow> map_of (disk (final (store_Put E name data manifest) w)) (nameDir E name @ r) = map_of (disk w) (nameDir E name @ r)
    | Inr m \<Rightarrow> published E (nameDir E name) data m (disk (final (store_Put E name data manifest) w)) \<and>
        sm_Name m = name \<and> sm_Size m = int (length data) \<and> sm_Sha256 m = hex_encode (sha256 data) \<and> int (length data) \<le> MaxPackageSizeOf E"
    using Put_cases [OF assms, of E data manifest w]
  proof (elim disjE exE)
    fix v t
    let ?p = "publish_package E (storage_root E @ [name]) data (buildMeta name data manifest (sha256 data) t)"
    assume "let p = ?p in result (store_Put E name data manifest) w = result p v \<and> final (store_Put E name data manifest) w = final p v \<and>
       int (length data) \<le> MaxPackageSizeOf E \<and>
       (\<forall>r. map_of (disk v) (storage_root E @ name # r) = map_of (disk w) (storage_root E @ name # r))"
    then show ?thesis
      using publish_package_outcome [of E "storage_root E" name data "buildMeta name data manifest (sha256 data) t" v]
      by (cases "result ?p v") (auto simp: dir meta Let_def)
  qed (auto simp: dir)
  have "evolves (keeps_outside (package_area E name)) (store_Put E name data manifest)"
    unfolding store_Put_def dir Let_def
    by (intro frame.evolves_rules frames frame_publish; simp add: package_area_def split: found.split option.split;
        intro allI impI conjI frame.evolves_rules frames frame_publish; simp add: package_area_def)
  then show "package_area E name q \<or> map_of (disk (final (store_Put E name data manifest) w)) q = map_of (disk w) q"
    by (auto simp: evolves_def keeps_outside_def)
qed

section \<open>Metadata\<close>

definition link_ok :: "string \<times> string \<Rightarrow> bool" where
  "link_ok = (\<lambda>(l, p). valid_utf8 l \<and> valid_utf8 p)"

definition route_entry_ok :: "string \<times> string \<times> string \<Rightarrow> bool" where
  "route_entry_ok = (\<lambda>(p, md, t). valid_utf8 p \<and> valid_utf8 md \<and> valid_utf8 t)"

definition package_ok :: "env \<Rightarrow> sdk_meta \<Rightarrow> bool" where
  "package_ok E m \<longleftrightarrow> valid_utf8 (sm_Name m) \<and> valid_utf8 (sm_Version m) \<and> valid_utf8 (sm_Sha256 m) \<and>
     - 9223372036854775808 \<le> sm_Size m \<and> sm_Size m < 9223372036854775808 \<and> time_ok E (sm_UploadedAt m) \<and>
     list_all route_entry_ok (sm_Routes m) \<and> list_all link_ok (sm_Menu m) \<and>
     list_all link_ok (sm_Dashboard m) \<and> list_all link_ok (sm_CriticalOperations m) \<and> list_all link_ok (sm_Dependencies m) \<and>
     distinct (map fst (sm_Dependencies m)) \<and> sorted (map fst (sm_Dependencies m))"

lemma sdk_names:
  "ToLower ''version'' = ''version''" "ToLower ''sha256'' = ''sha256''" "ToLower ''size'' = ''size''" "ToLower ''uploaded_at'' = ''uploaded_at''"
  "ToLower ''routes'' = ''routes''" "ToLower ''menu'' = ''menu''" "ToLower ''dashboard'' = ''dashboard''"
  "ToLower ''critical_operations'' = ''critical_operations''" "ToLower ''dependencies'' = ''dependencies''"
  "ToLower ''run_scripts'' = ''run_scripts''" "ToLower ''path'' = ''path''" "ToLower ''module'' = ''module''" "ToLower ''title'' = ''title''"
  "ToLower ''label'' = ''label''"
  by (simp_all add: ToLower_def lower_char_def is_upper_def)

lemmas sdk_eval = EqualFold_lower sdk_names record_names read_str_def to_valid_ascii to_valid_id

lemma link_codec: "link_ok l \<Longrightarrow> json_ok (link_json l) \<and> canon_json (link_json l) = link_json l \<and> read_link (link_json l) = Some l"
  by (cases l) (simp add: link_ok_def link_json_def read_link_def read_struct_def sdk_eval)

lemma route_entry_codec:
  "route_entry_ok r \<Longrightarrow>
    json_ok (sdk_route_json r) \<and> canon_json (sdk_route_json r) = sdk_route_json r \<and> read_sdk_route (sdk_route_json r) = Some r"
  by (cases r) (auto simp: route_entry_ok_def sdk_route_json_def read_sdk_route_def read_struct_def opt_str_def sdk_eval)

lemma read_list_map: "list_all P xs \<Longrightarrow> (\<And>x. P x \<Longrightarrow> json_ok (f x) \<and> canon_json (f x) = f x \<and> rd (f x) = Some x) \<Longrightarrow>
    read_list rd (JArr (map f xs)) old = Some xs"
  by (simp add: read_list_def read_all_map [where g = "\<lambda>x. x"] list_all_iff)

lemmas read_links = read_list_map [where P = link_ok, OF _ link_codec]
lemmas read_routes = read_list_map [where P = route_entry_ok, OF _ route_entry_codec]

lemma meta_ok_append [simp]: "meta_ok (xs @ ys) \<longleftrightarrow> meta_ok xs \<and> meta_ok ys" "meta_ok []"
  "meta_ok ((k, v) # xs) \<longleftrightarrow> valid_utf8 k \<and> json_ok v \<and> canon_json v = v \<and> meta_ok xs"
  by (simp_all add: meta_ok_def)

lemma meta_ok_list:
  assumes "list_all P xs" and "\<And>x. P x \<Longrightarrow> json_ok (f x) \<and> canon_json (f x) = f x \<and> rd (f x) = Some x" and "valid_utf8 k"
  shows "meta_ok (opt_list k f xs)"
proof -
  have "list_all json_ok (map f xs) \<and> map (canon_json \<circ> f) xs = map f xs" using assms(1,2) by (auto simp: list_all_iff)
  then show ?thesis using assms(3) by (simp add: opt_list_def)
qed

lemmas meta_ok_links = meta_ok_list [where P = link_ok, OF _ link_codec]
lemmas meta_ok_routes = meta_ok_list [where P = route_entry_ok, OF _ route_entry_codec]

lemma meta_ok_map:
  assumes "list_all link_ok m" and "valid_utf8 k"
  shows "meta_ok (opt_map k m)"
proof -
  have "meta_ok (map (\<lambda>(k, v). (k, JStr v)) m)"
    using assms(1) by (induction m) (auto simp: link_ok_def to_valid_id)
  then have "canon_json (JObj (map (\<lambda>(k, v). (k, JStr v)) m)) = JObj (map (\<lambda>(k, v). (k, JStr v)) m)"
    "json_ok (JObj (map (\<lambda>(k, v). (k, JStr v)) m))"
    by (simp_all only: canon_json.simps json_ok.simps canon_meta meta_json_ok)
  then show ?thesis using assms(2) unfolding opt_map_def by (simp del: canon_json.simps json_ok.simps)
qed

lemma read_strings_map: "read_strings (map (\<lambda>(k, v). (k, JStr v)) m) = Some m"
  by (induction m) (auto simp: read_str_def)

lemma fold_update_distinct: "distinct (map fst (xs @ m)) \<Longrightarrow> fold (\<lambda>(k, s). AList.update k s) m xs = xs @ m"
proof (induction m arbitrary: xs)
  case (Cons x m)
  obtain k v where x: "x = (k, v)" by (cases x)
  have "AList.update k v xs = xs @ [(k, v)]"
    using Cons.prems by (induction xs) (auto simp: x)
  with Cons show ?case by (simp add: x)
qed simp

lemma read_string_map_codec: "distinct (map fst m) \<Longrightarrow> sorted (map fst m) \<Longrightarrow>
    read_string_map (JObj (map (\<lambda>(k, v). (k, JStr v)) m)) [] = Some m"
  using fold_update_distinct [of "[]" m] by (simp add: read_string_map_def read_strings_map sort_key_id_if_sorted)

lemma obj_field_opt_list:
  "obj_field rd f z (opt_list k g xs) = (if EqualFold k f \<and> xs \<noteq> [] then rd (JArr (map g xs)) z else Some z)"
  "obj_field rd f z (opt_map k m) = (if EqualFold k f \<and> m \<noteq> [] then rd (JObj (map (\<lambda>(k, v). (k, JStr v)) m)) z else Some z)"
  by (auto simp: opt_list_def opt_map_def split: option.split)

lemma package_codec:
  assumes "package_ok E m" and "meta_json E m = Some j"
  shows "unmarshal_meta E (print_json j) = Some m"
proof -
  obtain t where t: "time_text E (sm_UploadedAt m) = Some t" "valid_utf8 t" "time_of_text E t = Some (sm_UploadedAt m)"
    using assms(1) by (auto simp: package_ok_def time_ok_def split: option.splits)
  define ms where "ms = [(''name'', JStr (sm_Name m)), (''version'', JStr (sm_Version m)), (''sha256'', JStr (sm_Sha256 m)),
      (''size'', JNum (int_text (sm_Size m))), (''uploaded_at'', JStr t)] @
     opt_list ''routes'' sdk_route_json (sm_Routes m) @ opt_list ''menu'' link_json (sm_Menu m) @
     opt_list ''dashboard'' link_json (sm_Dashboard m) @ opt_list ''critical_operations'' link_json (sm_CriticalOperations m) @
     opt_map ''dependencies'' (sm_Dependencies m) @ [(''run_scripts'', JBool (sm_RunScripts m))]"
  have j: "j = JObj ms" using assms(2) t(1) by (simp add: meta_json_def ms_def)
  have ok: "json_ok j \<and> canon_json j = j"
  proof -
    have "meta_ok ms"
      using assms(1) t(2)
      by (simp add: ms_def package_ok_def meta_ok_links meta_ok_routes meta_ok_map to_valid_id ascii_valid)
    then show ?thesis by (simp add: j canon_meta meta_json_ok)
  qed
  have "read_meta_file E ms = Some m"
    using assms(1) t
    by (simp add: read_meta_file_def ms_def obj_field_append obj_field_opt_list sdk_eval read_int_def read_bool_def read_time_def
        int_of_literal_int_text package_ok_def read_links read_routes read_string_map_codec)
  then have "read_struct (read_meta_file E) j = Some m" by (simp add: j read_struct_def)
  with ok show ?thesis
    using parse_print_json [of j] by (simp add: unmarshal_meta_def)
qed

section \<open>A stored package\<close>

text \<open>No directory of the path of the storage directory is a file.\<close>

definition root_usable :: "env \<Rightarrow> tree \<Rightarrow> bool" where
  "root_usable E d \<longleftrightarrow> list_all (\<lambda>q. \<not> is_file d q) (prefixes (storage_root E))"

lemma store_root_done:
  assumes "\<And>n. \<not> file_fault E n" and "root_usable E (disk w)"
  shows "result (store_root E) w = Inr (storage_root E)"
    and "root_usable E (disk (final (store_root E) w))"
proof -
  show "result (store_root E) w = Inr (storage_root E)"
    using assms by (simp add: store_root_def os_MkdirAll_def result_disk_op root_usable_def list_all_iff list_ex_iff storage_root_def)
  show "root_usable E (disk (final (store_root E) w))"
    using assms(2) by (auto simp: store_root_def root_usable_def list_all_iff is_file_def map_of_MkdirAll)
qed

lemma butlast_prefixes: "butlast (prefixes (p @ [x, y])) = prefixes p @ [p @ [x]]"
  using prefixes_snoc [of "p @ [x]" y] prefixes_snoc [of p x] by (simp add: butlast_append)

lemma look_file:
  assumes "root_usable E d" and "map_of d (storage_root E @ [name]) = Some None" and "y \<noteq> ''..''" and "y \<noteq> []"
  shows "look d (storage_root E @ [name, y]) = (case map_of d (storage_root E @ [name, y]) of Some e \<Rightarrow> Found e | None \<Rightarrow> Missing)"
proof -
  have "\<not> always_there (storage_root E @ [name, y])" using assms(3,4) by (auto simp: always_there_def climbs_def)
  then show ?thesis
    using assms(1,2) unfolding look_def butlast_prefixes
    by (auto simp: root_usable_def list_all_iff list_ex_iff is_file_def is_dir_def split: option.split)
qed

text \<open>
  C25: A package that was stored can be used until it is deleted: in any later state that still has its files, a download returns the archive byte
  by byte, the metadata are those that were stored, and another upload of the name is refused as a conflict. A deletion removes the whole
  directory, and nothing outside of it.
\<close>

theorem stored_package_lives:
  assumes "validateName name = None" and "published E (nameDir E name) data m (disk v)" and "package_ok E m"
    and "root_usable E (disk v)" and "\<And>n. \<not> file_fault E n"
  shows "result (store_OpenArchive E name) v = Inr (Some data) \<and> result (store_GetMeta E name) v = Inr (Some m) \<and>
    (int (length data') \<le> MaxPackageSizeOf E \<longrightarrow> result (store_Put E name data' manifest) v = Inl SdkConflict) \<and>
    result (store_Delete E name) v = Inr True \<and> map_of (disk (final (store_Delete E name) v)) q =
      (if prefix (nameDir E name) q then None else map_of (disk (final (store_root E) v)) q)"
proof -
  have dir: "nameDir E name = storage_root E @ [name]" using validateName_pattern assms(1) by (simp add: storage_root_def)
  have name: "name \<noteq> ''..''" "name \<noteq> []" using assms(1) by (auto simp: validateName_def split: if_splits)
  obtain j where j: "meta_json E m = Some j" using assms(2) by (auto simp: published_def)
  define u where "u = final (store_root E) v"
  note root = store_root_done [OF assms(5,4), folded u_def]
  have at: "map_of (disk u) (storage_root E @ [name]) = Some None" "map_of (disk u) (storage_root E @ [name, ''archive'']) = Some (Some data)"
    "map_of (disk u) (storage_root E @ [name, ''.meta.json'']) = Some (Some (print_json j))"
    using assms(2) root_keeps_children(1) [of E v name "[]"] root_keeps_children(1) [of E v name "[''archive'']"]
      root_keeps_children(1) [of E v name "[''.meta.json'']"]
    by (simp_all add: u_def published_def dir archivePath_def metaPath_def j)
  have archive: "look (disk u) (storage_root E @ [name, ''archive'']) = Found (Some data)"
    by (simp add: look_file [OF root(2) at(1)] at)
  have meta: "look (disk u) (storage_root E @ [name, ''.meta.json'']) = Found (Some (print_json j))"
    by (simp add: look_file [OF root(2) at(1)] at)
  have "result (store_OpenArchive E name) v = Inr (Some data)"
    using root(1) archive assms(5) by (simp add: store_OpenArchive_def result_disk_op dir archivePath_def u_def)
  moreover have "result (store_GetMeta E name) v = Inr (Some m)"
    using root(1) meta assms(5) package_codec [OF assms(3) j]
    by (simp add: store_GetMeta_def os_ReadFile_def result_disk_op dir metaPath_def u_def)
  moreover have "result (store_Put E name data' manifest) v = Inl SdkConflict" if "int (length data') \<le> MaxPackageSizeOf E"
    using that root(1) archive assms(1,5)
    by (simp add: store_Put_def os_Stat_def result_disk_op dir archivePath_def u_def Let_def)
  moreover have "\<not> always_there (storage_root E @ [name])"
    using name by (auto simp: always_there_def)
  then have "look (disk u) (storage_root E @ [name]) \<noteq> Missing"
    using at(1) by (auto simp: look_def is_dir_def)
  then have "result (store_Delete E name) v = Inr True \<and> map_of (disk (final (store_Delete E name) v)) q =
      (if prefix (nameDir E name) q then None else map_of (disk u) q)"
    using root(1) assms(5)
    by (auto simp: store_Delete_def os_Stat_def os_RemoveAll_def result_disk_op disk_disk_op dir map_of_filter_keys within_child name
        u_def split: found.split)
  ultimately show ?thesis by (simp add: u_def)
qed

section \<open>What the checks leave open\<close>

lemma tar_roots: "tar_entries es ends roots raw = Inr (roots', raw') \<Longrightarrow> set roots \<subseteq> {manifestPath} \<Longrightarrow> distinct roots \<Longrightarrow>
    set roots' \<subseteq> {manifestPath} \<and> distinct roots'"
  by (induction es ends roots raw rule: tar_entries.induct) (auto split: if_splits sum.splits option.splits)

lemma zip_roots: "zip_entries es roots raw = Inr (roots', raw') \<Longrightarrow> set roots \<subseteq> {manifestPath} \<Longrightarrow> distinct roots \<Longrightarrow>
    set roots' \<subseteq> {manifestPath} \<and> distinct roots'"
  by (induction es roots raw rule: zip_entries.induct) (auto split: if_splits sum.splits option.splits)

lemma tar_errors: "tar_entries es ends roots raw \<noteq> Inl MultipleManifests"
  by (induction es ends roots raw rule: tar_entries.induct)
    (auto simp: sanitizeArchivePath_def Let_def disallowed_def split: if_splits sum.splits option.splits)

lemma zip_errors: "zip_entries es roots raw \<noteq> Inl MultipleManifests"
  by (induction es roots raw rule: zip_entries.induct)
    (auto simp: sanitizeArchivePath_def Let_def disallowed_def split: if_splits sum.splits option.splits)

lemma one_root: "set roots \<subseteq> {manifestPath} \<Longrightarrow> distinct roots \<Longrightarrow> length roots \<noteq> 1 \<Longrightarrow> roots = []"
  by (cases roots; cases "tl roots") auto

lemma one_manifest_errors:
  assumes "\<And>roots raw. r = Inr (roots, raw) \<Longrightarrow> set roots \<subseteq> {manifestPath} \<and> distinct roots" and "r \<noteq> Inl MultipleManifests"
  shows "one_manifest E r \<noteq> Inl MultipleManifests"
  using assms one_root by (fastforce simp: one_manifest_def parseManifest_def split: sum.splits option.splits)

text \<open>
  The documentation of the upload promises an error for an archive with several manifests at its root. The check keeps the set of their
  paths, and these paths are equal: an upload is never refused for this reason, and the last manifest is the one that counts.
\<close>

theorem duplicate_manifests_pass:
  "validateAndExtractManifest E data filename \<noteq> Inl MultipleManifests \<and>
   (zip_files E data = Some [(''manifest.json'', Some a), (''./manifest.json'', Some b)] \<longrightarrow>
      extractFromZip E data = parseManifest E (limited b))"
proof
  have tar: "one_manifest E (tar_entries es ends [] []) \<noteq> Inl MultipleManifests" for es ends
    using tar_roots [of es ends "[]" "[]"] tar_errors by (intro one_manifest_errors) simp_all
  have zip: "one_manifest E (zip_entries es [] []) \<noteq> Inl MultipleManifests" for es
    using zip_roots [of es "[]" "[]"] zip_errors by (intro one_manifest_errors) simp_all
  have "extractFromTarGz E data \<noteq> Inl MultipleManifests"
    using tar by (simp add: extractFromTarGz_def split: option.split)
  moreover have "extractFromZip E data \<noteq> Inl MultipleManifests"
    using zip by (simp add: extractFromZip_def split: option.split)
  ultimately show "validateAndExtractManifest E data filename \<noteq> Inl MultipleManifests"
    by (simp add: validateAndExtractManifest_def Let_def)
  have "sanitizeArchivePath ''manifest.json'' = Inr manifestPath" "sanitizeArchivePath ''./manifest.json'' = Inr manifestPath"
    by code_simp+
  then show "zip_files E data = Some [(''manifest.json'', Some a), (''./manifest.json'', Some b)] \<longrightarrow>
      extractFromZip E data = parseManifest E (limited b)"
    by (simp add: extractFromZip_def one_manifest_def)
qed

theorem duplicate_manifests_pass_witness:
  "let E = demo_env\<lparr>zip_files := (\<lambda>s. Some [(''manifest.json'', Some ''x''), (''./manifest.json'', Some ''[]'')])\<rparr>
   in extractFromZip E [] = parseManifest E (limited ''[]'')"
  using duplicate_manifests_pass [of "demo_env\<lparr>zip_files := (\<lambda>s. Some [(''manifest.json'', Some ''x''), (''./manifest.json'', Some ''[]'')])\<rparr>"
      "[]" "[]" "''x''" "''[]''"]
  by (simp add: Let_def)

text \<open>
  The name of a package to delete is not checked. An operator who asks for a name of blanks (%20 in the path) deletes the whole store, and
  one who asks for \<open>..\<close> the directory above it with all it holds.
\<close>

theorem Delete_escapes:
  assumes "\<And>n. \<not> file_fault E n" and "root_usable E (disk w)" and "result (RequireAuthLevel E rq SecurityLevelOps) w = Inr ()"
    and "storage_root E = ps @ [x]" and "plain_segment x"
  shows "(TrimSpace param = [] \<and> within (storage_root E) q \<longrightarrow> map_of (disk (final (sdk_Delete E rq param) w)) q = None) \<and>
    (TrimSpace param = ''..'' \<and> ps \<noteq> [] \<and> within ps q \<longrightarrow> map_of (disk (final (sdk_Delete E rq param) w)) q = None)"
proof -
  have blank: "nameDir E [] = ps @ [x]"
    using assms(4) by (simp add: nameDir_def path_Join_def storage_dir_set storage_root_def)
  have up: "nameDir E ''..'' = ps"
    using disk_path_parent [OF storage_dir_set, of E ps x] assms(4,5)
    by (simp add: nameDir_def path_Join_def storage_dir_set storage_root_def plain_segment_def)
  let ?v = "final (RequireAuthLevel E rq SecurityLevelOps) w"
  have usable: "root_usable E (disk ?v)" using assms(2) by simp
  note root = store_root_done [OF assms(1) usable]
  have dirs: "is_dir (disk (final (store_root E) ?v)) p" if "prefix p (storage_root E)" for p
    using that assms(1) usable
    by (auto simp: is_dir_def store_root_def map_of_MkdirAll os_MkdirAll_def result_disk_op root_usable_def list_all_iff list_ex_iff
        storage_root_def disk_disk_op map_of_add_dirs)
  have there: "look (disk (final (store_root E) ?v)) p \<noteq> Missing" if "prefix p (storage_root E)" for p
    using dirs [OF that] by (auto simp: look_def)
  have "map_of (disk (final (sdk_Delete E rq param) w)) q = None"
    if "prefix (nameDir E (TrimSpace param)) (storage_root E)" "nameDir E (TrimSpace param) \<noteq> []" "within (nameDir E (TrimSpace param)) q"
    using that root(1) there [OF that(1)] assms(1,3)
    by (auto simp: sdk_Delete_def continue_with_def Let_def store_Delete_def os_Stat_def os_RemoveAll_def result_disk_op disk_disk_op
        map_of_filter_keys split: found.split)
  then show ?thesis using blank up assms(4) by auto
qed

section \<open>Examples\<close>

lemma demo_storage [simp]: "storage_root demo_env = [''data'', ''sdk'']" "disk_path (storage_dir demo_env) = [''data'', ''sdk'']"
  "MaxPackageSizeOf demo_env = 1000" "MaxPackagesOf demo_env = 2"
proof -
  have dir: "sdk_StorageDir (sdk_packages demo_env) = ''data/sdk''" "MaxPackageSize (sdk_packages demo_env) = 1000"
    "MaxPackages (sdk_packages demo_env) = 2"
    by (simp_all add: demo_env_def)
  have "disk_path ''data/sdk'' = [''data'', ''sdk'']" by code_simp
  with dir show "storage_root demo_env = [''data'', ''sdk'']" "disk_path (storage_dir demo_env) = [''data'', ''sdk'']"
    "MaxPackageSizeOf demo_env = 1000" "MaxPackagesOf demo_env = 2"
    by (simp_all add: storage_root_def storage_dir_def MaxPackageSizeOf_def MaxPackagesOf_def)
qed

lemma demo_name: "validateName ''auth'' = None" "nameDir demo_env ''auth'' = [''data'', ''sdk'', ''auth'']"
proof -
  show "validateName ''auth'' = None" by code_simp
  then show "nameDir demo_env ''auth'' = [''data'', ''sdk'', ''auth'']" using validateName_pattern by simp
qed

lemma demo_disk [simp]: "disk demo_world = []" "file_ops demo_world = 0"
  by (simp_all add: demo_world_def)

lemma disk_eval: "always_there [x] \<longleftrightarrow> x = [] \<or> x = ''..''" "\<not> always_there (x # y # xs) \<longleftrightarrow> \<not> climbs (x # y # xs)"
  by (auto simp: always_there_def climbs_def)

theorem Put_all_or_nothing_witness:
  "\<exists>m. result (store_Put demo_env ''auth'' ''bytes'' []) demo_world = Inr m \<and>
     published demo_env [''data'', ''sdk'', ''auth''] ''bytes'' m (disk (final (store_Put demo_env ''auth'' ''bytes'' []) demo_world))"
proof -
  have "\<exists>m. result (store_Put demo_env ''auth'' ''bytes'' []) demo_world = Inr m"
    by (simp add: store_Put_def demo_name store_root_def os_MkdirAll_def result_disk_op disk_disk_op os_Stat_def add_dirs_def is_file_def
        is_dir_def disk_eval climbs_def look_def archivePath_def store_Count_def os_ReadDir_def children_def publish_package_def Let_def
        write_package_def temp_dir_def os_WriteFile_def metaPath_def meta_json_def os_Rename_def always_there_def buildMeta_def)
  then obtain m where m: "result (store_Put demo_env ''auth'' ''bytes'' []) demo_world = Inr m" by blast
  with Put_all_or_nothing [OF demo_name(1), of demo_env "''bytes''" "[]" demo_world] show ?thesis by (simp add: demo_name)
qed

definition demo_meta :: sdk_meta where
  "demo_meta = \<lparr>sm_Name = ''auth'', sm_Version = ''1.0.0'', sm_Sha256 = ''00'', sm_Size = 5, sm_UploadedAt = 7,
     sm_Routes = [(''/a'', ''a.ts'', [])], sm_Menu = [(''A'', ''/a'')], sm_Dashboard = [], sm_CriticalOperations = [],
     sm_Dependencies = [(''vue'', ''3'')], sm_RunScripts = False\<rparr>"

definition demo_package :: world where
  "demo_package = demo_world\<lparr>disk := [([''data''], None), ([''data'', ''sdk''], None), ([''data'', ''sdk'', ''auth''], None),
     ([''data'', ''sdk'', ''auth'', ''archive''], Some ''bytes''),
     ([''data'', ''sdk'', ''auth'', ''.meta.json''], map_option print_json (meta_json demo_env demo_meta))]\<rparr>"

theorem stored_package_lives_witness:
  "result (store_OpenArchive demo_env ''auth'') demo_package = Inr (Some ''bytes'') \<and>
   result (store_GetMeta demo_env ''auth'') demo_package = Inr (Some demo_meta)"
proof -
  have "published demo_env (nameDir demo_env ''auth'') ''bytes'' demo_meta (disk demo_package)"
    by (simp add: published_def demo_package_def demo_name archivePath_def metaPath_def) (simp add: meta_json_def demo_meta_def)
  moreover have "package_ok demo_env demo_meta"
    by (simp add: package_ok_def demo_meta_def ascii_valid route_entry_ok_def link_ok_def)
  moreover have "root_usable demo_env (disk demo_package)"
    by (simp add: root_usable_def is_file_def demo_package_def)
  ultimately show ?thesis
    using stored_package_lives [OF demo_name(1)] by simp
qed

theorem Delete_escapes_witness:
  "map_of (disk (final (sdk_Delete demo_env (demo_rq ''Bearer mt'') ''..'') demo_package)) [''data'', ''other''] = None \<and>
   map_of (disk (final (sdk_Delete demo_env (demo_rq ''Bearer mt'') '' '') demo_package)) [''data'', ''sdk'', ''auth'', ''archive''] = None"
proof -
  have key: "bearerTokenFromRequest (demo_rq ''Bearer mt'') = ''mt''"
    by (simp add: bearerTokenFromRequest_def demo_rq_def GetHeader_def default_value_def TrimSpace_id space_eval Let_def
      EqualFold_def ToLower_def lower_char_def is_upper_def)
  have wf: "wf_tables demo_env (db demo_package)" using demo_wf by (simp add: demo_package_def)
  have may: "result (RequireAuthLevel demo_env (demo_rq ''Bearer mt'') SecurityLevelOps) demo_package = Inr ()"
    using RequireAuthLevel_passes [OF wf, of "demo_rq ''Bearer mt''" SecurityLevelOps] by (simp add: key is_manage_token_def security_levels)
  have usable: "root_usable demo_env (disk demo_package)" by (simp add: root_usable_def is_file_def demo_package_def)
  have names: "TrimSpace ''..'' = ''..''" "TrimSpace '' '' = []" by code_simp+
  show ?thesis
    using Delete_escapes [OF _ usable may, of "[''data'']" "''sdk''" "''..''" "[''data'', ''other'']"]
      Delete_escapes [OF _ usable may, of "[''data'']" "''sdk''" "'' ''" "[''data'', ''sdk'', ''auth'', ''archive'']"]
    by (simp add: names plain_segment_def within_def)
qed

end
