(* ===== verification/Server_Properties.thy ===== *)
theory Server_Properties
  imports Server_Facts Registry_Http_Facts Sdk_Facts
begin

text \<open>
  What a request meets before a handler: the table of routes, the checks in front of it, the level the endpoints of operators need, and
  what the unauthenticated announcement of a micro-service may change.
\<close>

section \<open>Routes\<close>

text \<open>Whether two patterns may match the same path.\<close>

fun may_meet :: "string list \<Rightarrow> string list \<Rightarrow> bool" where
  "may_meet [] [] \<longleftrightarrow> True"
| "may_meet (p # ps) (q # qs) \<longleftrightarrow> (p = q \<or> HasPrefix p '':'' \<or> HasPrefix q '':'') \<and> may_meet ps qs"
| "may_meet _ _ \<longleftrightarrow> False"

fun apart :: "(string \<times> string list \<times> endpoint) list \<Rightarrow> bool" where
  "apart [] \<longleftrightarrow> True"
| "apart ((m, ps, e) # rs) \<longleftrightarrow> list_all (\<lambda>(m', qs, e'). m \<noteq> m' \<or> \<not> may_meet ps qs) rs \<and> apart rs"

definition segmented :: "(string \<times> string \<times> endpoint) list \<Rightarrow> (string \<times> string list \<times> endpoint) list" where
  "segmented rs = map (\<lambda>(m, p, e). (m, Split CHR ''/'' p, e)) rs"

lemma api_routes_apart: "apart (segmented api_routes)"
  by code_simp

lemma match_segments_meet: "match_segments ps ss = Some a \<Longrightarrow> match_segments qs ss = Some b \<Longrightarrow> may_meet ps qs"
proof (induction ps ss arbitrary: qs a b rule: match_segments.induct)
  case 1
  then show ?case by (cases qs) simp_all
next
  case (2 p ps s ss)
  then show ?case by (cases qs) (auto split: if_splits)
qed simp_all

lemma find_route_apart:
  assumes "apart (segmented rs)" and "(m, p, e) \<in> set rs" and "match_route p path = Some params"
  shows "find_route rs m path = Some (e, params)"
  using assms
proof (induction rs)
  case (Cons r rs)
  obtain m' p' e' where r: "r = (m', p', e')" by (cases r) auto
  show ?case
  proof (cases "(m, p, e) = r")
    case False
    have "\<not> (m' = m \<and> match_route p' path \<noteq> None)"
    proof
      assume hit: "m' = m \<and> match_route p' path \<noteq> None"
      then have "may_meet (Split CHR ''/'' p') (Split CHR ''/'' p)"
        using Cons.prems(3) match_segments_meet by (fastforce simp: match_route_def)
      moreover have "(m, Split CHR ''/'' p, e) \<in> set (segmented rs)"
        using Cons.prems(2) False by (force simp: segmented_def)
      ultimately show False using Cons.prems(1) hit by (auto simp: segmented_def r list_all_iff)
    qed
    moreover have "find_route rs m path = Some (e, params)"
      using Cons False by (auto simp: segmented_def r)
    ultimately show ?thesis by (auto simp: r)
  qed (use Cons.prems(3) in \<open>simp add: r\<close>)
qed simp



section \<open>Before the handlers\<close>

text \<open>
  No request reaches a handler in two cases. A preflight request is answered with 204 whatever its path, and changes nothing. Until the
  database is connected, a request for a route of the API gets 503 unless a micro-service answers it, and no table changes.
\<close>

theorem handlers_not_reached:
  "(rq_Method rq = ''OPTIONS'' \<longrightarrow> status (snd (result (serve E B rq) w)) = 204 \<and> final (serve E B rq) w = w) \<and>
   (\<not> db_ready E \<and> find_route api_routes (rq_Method rq) (rq_Path rq) \<noteq> None \<and>
      \<not> (rq_Method rq = ''GET'' \<and> rq_Path rq \<in> {''/'', ''/status'', ''/health''}) \<longrightarrow>
    status (result (dispatch E B rq) w) = 503 \<and> final (dispatch E B rq) w = w)"
  by (auto simp: serve_def CORSMiddleware_def status_def dispatch_def DatabaseMiddleware_def split: prod.split)

theorem handlers_not_reached_witness:
  "status (snd (result (serve (demo_env\<lparr>db_ready := False\<rparr>) no_bindings ((demo_rq [])\<lparr>rq_Method := ''OPTIONS''\<rparr>)) demo_world)) = 204 \<and>
   status (result (dispatch (demo_env\<lparr>db_ready := False\<rparr>) no_bindings ((demo_rq [])\<lparr>rq_Path := ''/register''\<rparr>)) demo_world) = 503"
proof -
  have "match_route ''/register'' ''/register'' = Some []" by code_simp
  then have "find_route api_routes ''POST'' ''/register'' = Some (Auth_Register, [])"
    by (intro find_route_apart [OF api_routes_apart, of _ "''/register''"]) (simp_all add: api_routes_def)
  then show ?thesis
    using handlers_not_reached [of "(demo_rq [])\<lparr>rq_Method := ''OPTIONS''\<rparr>"]
      handlers_not_reached [of "(demo_rq [])\<lparr>rq_Path := ''/register''\<rparr>" "demo_env\<lparr>db_ready := False\<rparr>"]
    by (simp add: demo_rq_def)
qed

section \<open>Endpoints for operators\<close>

definition operator_endpoints :: "endpoint list" where
  "operator_endpoints = [Auth_VerifyCredentials, Auth_VerifyToken, Auth_ClaimUserInternal, UserInfo_GetUserInfoInternal,
     Presence_AuthKey, SdkPackage_Upload, SdkPackage_List, SdkPackage_Get, SdkPackage_Download, SdkPackage_Delete]"

text \<open>The holder of the manage token or of a live token of a service.\<close>

definition is_operator :: "env \<Rightarrow> world \<Rightarrow> string \<Rightarrow> bool" where
  "is_operator E w key \<longleftrightarrow> key \<noteq> [] \<and>
     (is_manage_token E key \<or> (\<exists>tok c scopes. live_token E w key tok c scopes \<and> at_SubjectType tok = ''service''))"

lemma operator_step:
  assumes "wf_tables E (db w)" and "\<And>n. \<not> db_fault E n" and "\<not> is_operator E w (bearerTokenFromRequest rq)"
  obtains resp where "result (RequireAuthLevel E rq SecurityLevelOps) w = Inl resp" "status resp \<in> {401, 403}"
proof -
  have "result (RequireAuthLevel E rq SecurityLevelOps) w \<noteq> Inr ()"
    using RequireAuthLevel_passes [OF assms(1,2), of rq SecurityLevelOps] assms(3)
    by (auto simp: is_operator_def SecurityLevelOps_def split: if_splits)
  then show thesis
    by (intro that [of "projl (result (RequireAuthLevel E rq SecurityLevelOps) w)"])
      (auto simp: RequireAuthLevel_def security_levels split: if_splits)
qed

lemma operator_endpoint_steps:
  assumes "e \<in> set operator_endpoints" and "result (RequireAuthLevel E rq SecurityLevelOps) w = Inl resp"
  shows "result (run_endpoint E B e param rq) w = resp \<and>
    final (run_endpoint E B e param rq) w = final (RequireAuthLevel E rq SecurityLevelOps) w"
  using assms
  by (auto simp: operator_endpoints_def VerifyCredentialsInternal_def VerifyToken_def ClaimUserInternal_def GetUserInfoInternal_def
      AuthKey_def sdk_Upload_def sdk_List_def sdk_Get_def sdk_Download_def sdk_Delete_def Let_def)



section \<open>What an announcement decides\<close>

lemma Bonjour_presence:
  assumes "TrimSpace (pq_Name req) \<noteq> []"
  shows "presence (final (Bonjour E rq (Some req)) w) =
    AList.update (TrimSpace (pq_Name req)) (announced (map_of (presence w) (TrimSpace (pq_Name req))) (TrimSpace (pq_Name req)) (pq_TTLSeconds req)
      (pq_Scope req) (pq_SecurityLevel req) (pq_InteractsWith req) (pq_RootMetadata req) (clock E (ticks w))) (presence w)"
  using assms by (simp add: Bonjour_def presence_Register_def Let_def)

lemma announced_fields [simp]:
  "pr_SecurityLevel (announced old n ttl sc l i m t) = l" "pr_RootMetadata (announced old n ttl sc l i m t) = m"
  "ttl \<le> 0 \<Longrightarrow> pr_ExpiresAt (announced old n ttl sc l i m t) = zero_time"
  by (simp_all add: announced_def Let_def)

lemma update_new_last: "map_of m k = None \<Longrightarrow> AList.update k v m = m @ [(k, v)]"
  by (induction m) (auto split: if_splits)

lemma front_page_last:
  assumes "presence w = ps @ [(n, r)]" and "distinct (map fst (pr_RootMetadata r))" and "(k, v) \<in> set (pr_RootMetadata r)"
  shows "member_of (result (front_page E rq) w) k = Some v"
proof -
  have "map_of (rev (pr_RootMetadata r)) k = Some v"
    using assms(2,3) by (intro map_of_is_SomeI) (simp_all add: rev_map [symmetric])
  with assms(1) show ?thesis
    by (simp add: front_page_def GetAllRecords_def member_of_def map_of_updates)
qed

text \<open>
  The announcement of a micro-service is believed, and it needs no credentials. Whoever announces a name without a lifetime decides the
  level a relayed request for it must have from then on; and the metadata of a new name replace the members of the same name on the
  front page, \<open>success\<close> and \<open>site\<close> among them.
\<close>

theorem announcement_is_believed:
  assumes "TrimSpace (pq_Name req) \<noteq> []" and "pq_TTLSeconds req \<le> 0"
  shows "result (serviceSecurityLevel E (TrimSpace (pq_Name req))) (final (Bonjour E rq (Some req)) w) = pq_SecurityLevel req \<and>
    (map_of (presence w) (TrimSpace (pq_Name req)) = None \<and> distinct (map fst (pq_RootMetadata req)) \<and>
      (k, v) \<in> set (pq_RootMetadata req) \<longrightarrow>
      member_of (result (front_page E rq') (final (Bonjour E rq (Some req)) w)) k = Some v)"
proof (intro conjI impI)
  show "result (serviceSecurityLevel E (TrimSpace (pq_Name req))) (final (Bonjour E rq (Some req)) w) = pq_SecurityLevel req"
    using assms by (simp add: serviceSecurityLevel_def presence_Get_visible visible_def Bonjour_presence)
next
  assume "map_of (presence w) (TrimSpace (pq_Name req)) = None \<and> distinct (map fst (pq_RootMetadata req)) \<and> (k, v) \<in> set (pq_RootMetadata req)"
  then have new: "map_of (presence w) (TrimSpace (pq_Name req)) = None" and md: "distinct (map fst (pq_RootMetadata req))"
    "(k, v) \<in> set (pq_RootMetadata req)" by simp_all
  show "member_of (result (front_page E rq') (final (Bonjour E rq (Some req)) w)) k = Some v"
    by (rule front_page_last [OF trans [OF Bonjour_presence [OF assms(1)] update_new_last [OF new]]]) (use md in simp_all)
qed

theorem announcement_is_believed_witness:
  "let req = \<lparr>pq_Name = ''svc'', pq_TTLSeconds = 0, pq_Scope = None, pq_SecurityLevel = 0, pq_InteractsWith = [],
         pq_RootMetadata = [(''success'', JBool False)]\<rparr>;
       v = final (Bonjour demo_env (demo_rq []) (Some req)) guarded_world;
       u = final (Bonjour demo_env (demo_rq []) (Some req)) demo_world
   in result (serviceSecurityLevel demo_env ''svc'') guarded_world = 1 \<and> result (serviceSecurityLevel demo_env ''svc'') v = 0 \<and>
     member_of (result (front_page demo_env (demo_rq [])) u) ''success'' = Some (JBool False)"
proof -
  let ?req = "\<lparr>pq_Name = ''svc'', pq_TTLSeconds = 0, pq_Scope = None, pq_SecurityLevel = 0, pq_InteractsWith = [],
         pq_RootMetadata = [(''success'', JBool False)]\<rparr>"
  have name: "TrimSpace ''svc'' = ''svc''" by (simp add: TrimSpace_id space_eval)
  have "result (serviceSecurityLevel demo_env ''svc'') guarded_world = 1"
    by (simp add: serviceSecurityLevel_def presence_Get_visible visible_def guarded_world_def)
  moreover have "presence demo_world = []" by (simp add: demo_world_def)
  ultimately show ?thesis
    using announcement_is_believed [of ?req demo_env "demo_rq []" guarded_world]
      announcement_is_believed [of ?req demo_env "demo_rq []" demo_world "''success''" "JBool False" "demo_rq []"]
    by (simp add: name Let_def)
qed

end
