(* ===== verification/Races.thy ===== *)
theory Races
  imports Codes_Facts User_Security Site_Auth_Facts
begin

text \<open>
  Requests that overlap. A handler is cut where another request can come in between: an authorization code is read, then taken by
  one conditional statement, then tokens are issued; a login ticket is read, then deleted, then tokens are issued. The steps
  of any number of requests are interleaved in any order. The code is safe, the ticket is not.
\<close>

declare map_of_eq_Some_iff [simp del]

section \<open>The exchange of a code in three steps\<close>

definition check_code :: "env \<Rightarrow> string \<Rightarrow> string \<Rightarrow> string \<Rightarrow> string \<Rightarrow> (auth_code \<times> string list) result_of" where
  "check_code E clientID code redirectURI codeVerifier = do {
     found \<leftarrow> db_first E auth_codes (\<lambda>r. coll E (ac_Code r) = coll E code);
     case found of
       Inl _ \<Rightarrow> ret (Inl (OAuth InvalidGrant))
     | Inr a \<Rightarrow>
       if ac_ClientID a \<noteq> clientID \<or> ac_RedirectURI a \<noteq> redirectURI then ret (Inl (OAuth InvalidGrant))
       else if ac_ConsumedAt a \<noteq> None then ret (Inl (OAuth InvalidGrant))
       else do {
         t \<leftarrow> now E;
         ret (if \<not> code_acceptable a clientID redirectURI codeVerifier t then Inl (OAuth InvalidGrant)
           else case unmarshal_strings (ac_Scopes a) of None \<Rightarrow> Inl JsonError | Some scopes \<Rightarrow> Inr (a, scopes))
       }
   }"

definition take_code :: "env \<Rightarrow> string \<Rightarrow> unit result_of" where
  "take_code E code = do {
     t \<leftarrow> now E;
     n \<leftarrow> consume_code E code t;
     ret (case n of Inl e \<Rightarrow> Inl e | Inr k \<Rightarrow> if k = 0 then Inl (OAuth InvalidGrant) else Inr ())
   }"

text \<open>The steps one after the other are the operation of the service.\<close>

lemma exchange_in_steps:
  "case result (check_code E cid code uri v) w of
     Inl e \<Rightarrow> result (ExchangeAuthorizationCode E cid code uri v) w = Inl e \<and>
       final (ExchangeAuthorizationCode E cid code uri v) w = final (check_code E cid code uri v) w
   | Inr (a, scopes) \<Rightarrow>
     (let u = final (check_code E cid code uri v) w in
      case result (take_code E code) u of
        Inl e \<Rightarrow> result (ExchangeAuthorizationCode E cid code uri v) w = Inl e \<and>
          final (ExchangeAuthorizationCode E cid code uri v) w = final (take_code E code) u
      | Inr _ \<Rightarrow>
          result (ExchangeAuthorizationCode E cid code uri v) w =
            result (issueUserTokens E cid (ac_UserID a) scopes) (final (take_code E code) u) \<and>
          final (ExchangeAuthorizationCode E cid code uri v) w =
            final (issueUserTokens E cid (ac_UserID a) scopes) (final (take_code E code) u))"
proof (cases "result (db_first E auth_codes (\<lambda>r. coll E (ac_Code r) = coll E code)) w")
  case (Inr a)
  show ?thesis
    by (cases "ac_ClientID a \<noteq> cid \<or> ac_RedirectURI a \<noteq> uri"; cases "ac_ConsumedAt a";
        cases "code_acceptable a cid uri v (clock E (ticks w))"; cases "unmarshal_strings (ac_Scopes a)")
      (auto simp: Inr check_code_def take_code_def ExchangeAuthorizationCode_def split: sum.split)
qed (simp add: check_code_def ExchangeAuthorizationCode_def)

datatype exchange_phase =
  Waiting string string string
| Checked string auth_code "string list"
| Consumed string auth_code "string list"
| Issued "access_token \<times> refresh_token"
| Refused go_error

text \<open>
  One step of one of the requests that present the code, or a whole other operation of the service that does not create the same
  code again.
\<close>

inductive race_step :: "env \<Rightarrow> string \<Rightarrow> world \<times> (nat \<Rightarrow> exchange_phase) \<Rightarrow> world \<times> (nat \<Rightarrow> exchange_phase) \<Rightarrow> bool"
  for E code where
  check: "ph i = Waiting cid uri v \<Longrightarrow> race_step E code (w, ph) (final (check_code E cid code uri v) w,
    ph(i := case result (check_code E cid code uri v) w of Inl e \<Rightarrow> Refused e | Inr (a, scopes) \<Rightarrow> Checked cid a scopes))"
| take: "ph i = Checked cid a scopes \<Longrightarrow> race_step E code (w, ph) (final (take_code E code) w,
    ph(i := case result (take_code E code) w of Inl e \<Rightarrow> Refused e | Inr _ \<Rightarrow> Consumed cid a scopes))"
| issue: "ph i = Consumed cid a scopes \<Longrightarrow> race_step E code (w, ph) (final (issueUserTokens E cid (ac_UserID a) scopes) w,
    ph(i := case result (issueUserTokens E cid (ac_UserID a) scopes) w of Inl e \<Rightarrow> Refused e | Inr p \<Rightarrow> Issued p))"
| other: "(code_present E code (db (final (run_op E p) w)) \<longrightarrow> code_present E code (db w)) \<Longrightarrow>
    race_step E code (w, ph) (final (run_op E p) w, ph)"

inductive_cases race_stepE: "race_step E code (w, ph) (w', ph')"

text \<open>A request that was answered stays answered.\<close>

lemma answered_stays: "race_step E code (w, ph) (v, ph') \<Longrightarrow> ph i = Issued p \<or> ph i = Refused e \<Longrightarrow> ph' i = ph i"
  by (erule race_stepE) auto

definition holds_code :: "exchange_phase \<Rightarrow> bool" where
  "holds_code p \<longleftrightarrow> (case p of Consumed _ _ _ \<Rightarrow> True | Issued _ \<Rightarrow> True | _ \<Rightarrow> False)"

text \<open>At most one request holds the code, and while one does the code is dead.\<close>

definition race_inv :: "env \<Rightarrow> string \<Rightarrow> world \<times> (nat \<Rightarrow> exchange_phase) \<Rightarrow> bool" where
  "race_inv E code s \<longleftrightarrow> (case s of (w, ph) \<Rightarrow> wf_tables E (db w) \<and>
     (\<forall>i j. holds_code (ph i) \<longrightarrow> holds_code (ph j) \<longrightarrow> i = j) \<and>
     (\<forall>i. holds_code (ph i) \<longrightarrow> \<not> code_live E code (db w)))"

lemma check_code_db [simp]: "db (final (check_code E cid code uri v) w) = db w"
  by (simp add: check_code_def split: sum.split)

lemma take_code_Inr:
  assumes "result (take_code E code) w = Inr ()" and "wf_tables E (db w)"
  shows "code_live E code (db w)" and "\<not> code_live E code (db (final (take_code E code) w))"
proof -
  let ?v = "final (now E) w"
  let ?c = "consume_code E code (clock E (ticks w))"
  obtain n where n: "result ?c ?v = Inr n" "0 < n"
    using assms(1) by (auto simp: take_code_def split: sum.splits if_splits)
  show "\<not> code_live E code (db (final (take_code E code) w))"
    using consume_code_Inr [OF n] assms(2) by (simp add: take_code_def)
  have "n = changed_rows (code_open E code (clock E (ticks w))) (\<lambda>r. r\<lparr>ac_ConsumedAt := Some (db_ts E (clock E (ticks w)))\<rparr>) (auth_codes (db ?v))"
    using stmt_Inr [OF n(1) [unfolded consume_code_def update_auth_codes_def]] by auto
  with n(2) show "code_live E code (db w)"
    by (auto dest!: changed_rows_pos simp: code_live_def list_ex_iff code_open_def)
qed

definition keeps_dead :: "env \<Rightarrow> string \<Rightarrow> tables \<Rightarrow> tables \<Rightarrow> bool" where
  "keeps_dead E code d d' \<longleftrightarrow> (\<not> code_live E code d \<longrightarrow> \<not> code_live E code d')"

interpretation dead: evolution "on_db (keeps_dead E code)" for E code
  by unfold_locales (auto simp: on_db_def keeps_dead_def)

lemma dead_statements:
  "evolves (on_db (keeps_dead E code)) (insert_access_token E' t)" "evolves (on_db (keeps_dead E code)) (insert_refresh_token E' r)"
  "evolves (on_db (keeps_dead E code)) (consume_code E' code' n)"
  unfolding insert_access_token_def insert_refresh_token_def consume_code_def update_auth_codes_def
  by (rule on_db_stmt; auto simp: keeps_dead_def code_live_def list_ex_iff update_rows_def code_open_def Let_def
      cong: option.case_cong split: if_splits)+

lemma dead_reads:
  "evolves (on_db (keeps_dead E code)) (now E')" "evolves (on_db (keeps_dead E code)) (GenerateRandomToken E' n)"
  by (rule on_db_keep; simp add: keeps_dead_def)+

lemma dead_transaction: "evolves (on_db (keeps_dead E code)) m \<Longrightarrow> evolves (on_db (keeps_dead E code)) (transaction E' m)"
  by (rule transaction_evolves) (simp_all add: keeps_dead_def)

lemma dead_steps:
  "evolves (on_db (keeps_dead E code)) (take_code E' code')" "evolves (on_db (keeps_dead E code)) (issueUserTokens E' c u scopes)"
  unfolding take_code_def issueUserTokens_def create_token_pair_def
  by (intro dead_statements dead_reads dead_transaction dead.evolves_rules)+

lemma wf_take_code: "evolves (on_db (keeps_wf E)) (take_code E code)"
  unfolding take_code_def by (intro wf_intros wf.evolves_rules)

lemma evolvesD: "evolves (on_db R) m \<Longrightarrow> R (db w) (db (final m w))"
  by (simp add: evolves_def on_db_def)

lemma race_step_inv:
  assumes "race_step E code s s'" and "race_inv E code s"
  shows "race_inv E code s'"
  using assms
proof (cases rule: race_step.cases)
  case (check ph i cid uri v w)
  with assms(2) show ?thesis
    by (auto simp: race_inv_def holds_code_def split: sum.splits)
next
  case (take ph i cid a scopes w)
  have wf: "wf_tables E (db w)" using assms(2) take by (simp add: race_inv_def)
  have wf': "wf_tables E (db (final (take_code E code) w))" using evolvesD [OF wf_take_code] wf by (simp add: keeps_wf_def)
  show ?thesis
  proof (cases "result (take_code E code) w")
    case (Inl e)
    then show ?thesis
      using assms(2) take wf' evolvesD [where w = w, OF dead_steps(1) [of E code E code]]
      by (auto simp: race_inv_def holds_code_def keeps_dead_def)
  next
    case (Inr u)
    then have "result (take_code E code) w = Inr ()" by simp
    note live = take_code_Inr [OF this wf]
    then have "\<not> holds_code (ph j)" for j using assms(2) take by (auto simp: race_inv_def)
    then show ?thesis using take wf' live(2) Inr by (auto simp: race_inv_def)
  qed
next
  case (issue ph i cid a scopes w)
  have "wf_tables E (db (final (issueUserTokens E cid (ac_UserID a) scopes) w))"
    using evolvesD [OF wf_issueUserTokens] assms(2) issue by (simp add: race_inv_def keeps_wf_def)
  moreover have "holds_code (ph i)" using issue by (simp add: holds_code_def)
  then have "\<not> code_live E code (db w)" "\<forall>j. holds_code (ph j) \<longrightarrow> j = i"
    using assms(2) issue(1) unfolding race_inv_def prod.case by blast+
  ultimately show ?thesis
    using assms(2) issue evolvesD [where w = w, OF dead_steps(2) [of E code E cid "ac_UserID a" scopes]]
    by (auto simp: race_inv_def keeps_dead_def split: if_splits)
next
  case (other p w ph)
  then show ?thesis
    using assms(2) evolvesD [where w = w, OF wf_run_op [of E p]] codes.quiet_step [where p = p and w = w and E = E]
    by (auto simp: race_inv_def keeps_wf_def)
qed

text \<open>
  C2: Only one of any number of requests that present the same authorization code at the same time gets tokens for it, however the reads, the
  taking and the issuing of the requests and other operations of the service are interleaved.
\<close>

theorem race_for_a_code:
  assumes "(race_step E code)\<^sup>*\<^sup>* (w, ph) (v, ph')" and "wf_tables E (db w)" and "\<And>i. \<not> holds_code (ph i)"
    and "ph' i = Issued p" and "ph' j = Issued q"
  shows "i = j"
proof -
  have "race_inv E code (w, ph)" using assms(2,3) by (simp add: race_inv_def)
  with assms(1) have "race_inv E code (v, ph')"
    by (induction rule: rtranclp_induct) (auto intro: race_step_inv)
  with assms(4,5) show ?thesis by (auto simp: race_inv_def holds_code_def)
qed

lemma demo_code_taken:
  obtains a scopes u p where "result (check_code demo_env ''webui'' ''code'' ''https://a/cb'' ''v'') demo_world = Inr (a, scopes)"
    "result (take_code demo_env ''code'') (final (check_code demo_env ''webui'' ''code'' ''https://a/cb'' ''v'') demo_world) = Inr u"
    "result (issueUserTokens demo_env ''webui'' (ac_UserID a) scopes)
       (final (take_code demo_env ''code'') (final (check_code demo_env ''webui'' ''code'' ''https://a/cb'' ''v'') demo_world)) = Inr p"
proof -
  let ?check = "check_code demo_env ''webui'' ''code'' ''https://a/cb'' ''v''"
  let ?take = "take_code demo_env ''code''"
  note steps = exchange_in_steps [of demo_env "''webui''" "''code''" "''https://a/cb''" "''v''" demo_world]
  obtain p where p: "result (ExchangeAuthorizationCode demo_env ''webui'' ''code'' ''https://a/cb'' ''v'') demo_world = Inr p"
    using demo_exchange by blast
  obtain a scopes where c: "result ?check demo_world = Inr (a, scopes)"
    using steps p by (cases "result ?check demo_world") auto
  obtain u where t: "result ?take (final ?check demo_world) = Inr u"
    using steps p by (cases "result ?take (final ?check demo_world)") (simp_all add: c)
  show thesis
    by (rule that [OF c t, of p]) (use steps p in \<open>simp add: c t Let_def\<close>)
qed

theorem race_for_a_code_witness:
  "\<exists>v ph' p. (race_step demo_env ''code'')\<^sup>*\<^sup>* (demo_world, \<lambda>_. Waiting ''webui'' ''https://a/cb'' ''v'') (v, ph') \<and>
     ph' 0 = Issued p \<and> (\<forall>q. ph' 1 \<noteq> Issued q)"
proof -
  let ?ph = "\<lambda>_ :: nat. Waiting ''webui'' ''https://a/cb'' ''v''"
  let ?c = "final (check_code demo_env ''webui'' ''code'' ''https://a/cb'' ''v'') demo_world"
  let ?t = "final (take_code demo_env ''code'') ?c"
  obtain a scopes u p where r: "result (check_code demo_env ''webui'' ''code'' ''https://a/cb'' ''v'') demo_world = Inr (a, scopes)"
    "result (take_code demo_env ''code'') ?c = Inr u" "result (issueUserTokens demo_env ''webui'' (ac_UserID a) scopes) ?t = Inr p"
    by (rule demo_code_taken)
  have s1: "race_step demo_env ''code'' (demo_world, ?ph) (?c, ?ph(0 := Checked ''webui'' a scopes))"
    using race_step.check [of ?ph 0 "''webui''" "''https://a/cb''" "''v''" demo_env "''code''" demo_world] r(1) by simp
  have s2: "race_step demo_env ''code'' (?c, ?ph(0 := Checked ''webui'' a scopes)) (?t, ?ph(0 := Consumed ''webui'' a scopes))"
    using race_step.take [of "?ph(0 := Checked ''webui'' a scopes)" 0 "''webui''" a scopes demo_env "''code''" ?c] r(2) by simp
  have s3: "race_step demo_env ''code'' (?t, ?ph(0 := Consumed ''webui'' a scopes))
      (final (issueUserTokens demo_env ''webui'' (ac_UserID a) scopes) ?t, ?ph(0 := Issued p))"
    using race_step.issue [of "?ph(0 := Consumed ''webui'' a scopes)" 0 "''webui''" a scopes demo_env "''code''" ?t] r(3) by simp
  from s1 s2 s3 have run: "(race_step demo_env ''code'')\<^sup>*\<^sup>* (demo_world, ?ph)
      (final (issueUserTokens demo_env ''webui'' (ac_UserID a) scopes) ?t, ?ph(0 := Issued p))"
    by (meson converse_rtranclp_into_rtranclp rtranclp.rtrancl_refl)
  have "(?ph(0 := Issued p)) 1 \<noteq> Issued q" for q
    using race_for_a_code [OF run demo_wf, of 0 p 1 q] by (auto simp: holds_code_def)
  with run show ?thesis by (intro exI [of _ "final (issueUserTokens demo_env ''webui'' (ac_UserID a) scopes) ?t"] exI [of _ "?ph(0 := Issued p)"]
      exI [of _ p] conjI) auto
qed

section \<open>Login tickets\<close>

text \<open>The key of a ticket is gone.\<close>

definition ticket_gone :: "env \<Rightarrow> string \<Rightarrow> world \<Rightarrow> bool" where
  "ticket_gone E ticket w \<longleftrightarrow> kv_wf w \<and> map_of (kv w) (login_ticket_key E ticket) = None"

lemma gone_unread: "ticket_gone E ticket w \<Longrightarrow> result (loadLoginTicket E ticket) w = None"
  by (simp add: loadLoginTicket_def kv_get_def command_result map_of_kv_live ticket_gone_def kv_wf_def)

lemma with_ticket_gone: "ticket_gone E ticket w \<Longrightarrow>
    result (with_ticket E rq ticket f) w = respondError rq 401 ''invalid_login_ticket'' ''Invalid or expired login ticket''"
  by (simp add: with_ticket_def gone_unread)

definition same_kv :: "world \<Rightarrow> world \<Rightarrow> bool" where
  "same_kv w v \<longleftrightarrow> kv v = kv w"

interpretation same: evolution same_kv
  by unfold_locales (auto simp: same_kv_def)

lemma same_steps:
  "evolves same_kv (now E)" "evolves same_kv (GenerateRandomToken E n)" "evolves same_kv (stmt E f)" "evolves same_kv (restore d e)"
  by (simp_all add: evolves_def same_kv_def restore_def)

lemma same_issue: "evolves same_kv (issueAndRespondFirstPartyUserTokens E rq u msg extras)"
  unfolding issueAndRespondFirstPartyUserTokens_def IssueFirstPartyUserTokens_def issueUserTokens_def create_token_pair_def transaction_def
    insert_access_token_def insert_refresh_token_def
  by (intro same_steps same.evolves_rules)

lemma kv_delete_wf: "kv_wf w \<Longrightarrow> kv_wf (final (kv_del E k) w)"
  by (simp add: kv_wf_def kv_del_def command_kv distinct_kv_live distinct_delete)

text \<open>A ticket that was redeemed, that is, for which the answer is not an error of the server, is gone.\<close>

lemma redeemed_gone:
  assumes "status (result (redeem_ticket E rq ticket u msg) w) \<noteq> 500" and "kv_wf w"
  shows "ticket_gone E ticket (final (redeem_ticket E rq ticket u msg) w)"
proof -
  let ?d = "deleteLoginTicket E ticket"
  obtain x where d: "result ?d w = Inr x"
    using assms(1) by (cases "result ?d w") (auto simp: redeem_ticket_def)
  then have "map_of (kv (final ?d w)) (login_ticket_key E ticket) = None"
    by (auto simp: deleteLoginTicket_def kv_del_def command_result command_kv delete_conv' split: if_splits)
  moreover have "kv_wf (final ?d w)" using kv_delete_wf [OF assms(2)] by (simp add: deleteLoginTicket_def)
  ultimately show ?thesis
    using same_issue [of E rq "u_UUID u" msg "[]"] d
    by (simp add: redeem_ticket_def ticket_gone_def evolves_def same_kv_def kv_wf_def)
qed

datatype factor = ByTOTP | ByEmail | ByRecoveryKey

fun verify_factor :: "factor \<Rightarrow> env \<Rightarrow> request \<Rightarrow> (string \<times> string) option \<Rightarrow> response go" where
  "verify_factor ByTOTP = VerifyTOTP"
| "verify_factor ByEmail = email2fa_VerifyCode"
| "verify_factor ByRecoveryKey = VerifyRecoveryKey"

lemma load_wf: "kv_wf w \<Longrightarrow> kv_wf (final (loadLoginTicket E ticket) w)"
  by (simp add: kv_wf_def loadLoginTicket_def kv_get_def command_kv distinct_kv_live)

lemma kv_other [simp]: "kv (final (file_op E f) w) = kv w" "kv (final (db_first E tab P) w) = kv w"
  by (simp_all add: file_op_def final_def db_first_def split: prod.split) (simp add: final_def [symmetric])

lemma kv_codes [simp]: "kv (final (code_Get E email) w) = kv w" "kv (final (code_Delete E email) w) = kv w"
  by (simp_all add: code_Get_def code_Delete_def Let_def split: option.split prod.split)

lemma verified_gone:
  assumes "status (result (verify_factor m E rq (Some (ticket, c))) w) = 200" and "kv_wf w"
  shows "ticket_gone E ticket (final (verify_factor m E rq (Some (ticket, c))) w)"
proof -
  have wf: "kv_wf v" if "kv v = kv (final (loadLoginTicket E ticket) w)" for v
    using load_wf [OF assms(2), of E ticket] that by (simp add: kv_wf_def)
  have gone: "ticket_gone E ticket (final (redeem_ticket E rq ticket u msg) v)"
    if "status (result (redeem_ticket E rq ticket u msg) v) = 200" "kv v = kv (final (loadLoginTicket E ticket) w)" for u msg v
    using that wf by (intro redeemed_gone) auto
  show ?thesis
    using assms(1)
    by (cases m; auto simp: VerifyTOTP_def email2fa_VerifyCode_def VerifyRecoveryKey_def with_ticket_def Let_def no_mail_user_def
        split: if_splits option.splits sum.splits intro!: gone)
qed


text \<open>The recovery key endpoint in two steps: the check of the ticket and the key, and the redemption.\<close>

definition check_recovery_key :: "env \<Rightarrow> request \<Rightarrow> string \<Rightarrow> string \<Rightarrow> user step" where
  "check_recovery_key E rq ticket key = do {
     t \<leftarrow> loadLoginTicket E ticket;
     case t of
       None \<Rightarrow> ret (Inl (respondError rq 401 ''invalid_login_ticket'' ''Invalid or expired login ticket''))
     | Some userID \<Rightarrow> do {
         found \<leftarrow> db_first E users (by_uuid E userID);
         let missing = respondError rq 401 ''recovery_key_not_configured'' ''User not found or recovery key not configured'';
         ret (case found of
           Inl _ \<Rightarrow> Inl missing
         | Inr u \<Rightarrow>
           if \<not> RecoveryKeyEnabled u \<or> RecoveryKey u = [] then Inl missing
           else if \<not> bcrypt_check E key (RecoveryKey u) then Inl (respondError rq 401 ''invalid_passcode'' ''Invalid recovery key'')
           else Inr u)
       }
   }"

lemma recovery_key_in_steps:
  assumes "ticket \<noteq> []" and "key \<noteq> []"
  shows "result (VerifyRecoveryKey E rq (Some (ticket, key))) w = (case result (check_recovery_key E rq ticket key) w of
      Inl resp \<Rightarrow> resp
    | Inr u \<Rightarrow> result (redeem_ticket E rq ticket u ''Recovery key verified successfully'') (final (check_recovery_key E rq ticket key) w))"
  using assms
  by (cases "result (loadLoginTicket E ticket) w")
    (auto simp: VerifyRecoveryKey_def check_recovery_key_def with_ticket_def Let_def split: sum.split)

definition ticket_world :: world where
  "ticket_world = \<lparr>db = \<lparr>users = [demo_user\<lparr>RecoveryKey := ''key'', RecoveryKeyEnabled := True\<rparr>], clients = [],
       auth_codes = [], access_tokens = [], refresh_tokens = [], credentials = [], deleted_accounts = []\<rparr>,
     seqs = \<lparr>next_client = 1, next_code = 1, next_access = 1, next_refresh = 1, next_credential = 1\<rparr>,
     ticks = 0, stmts = 0, draws = 0, kv = [(''ha:oauth2:login_ticket:t'', KStr (ticket_text ''u1''), Some 300000000001)],
     cmds = 0, code_files = [], file_ops = 0, presence = [], routes = [], relays = [], hooks = [], calls = 0, outbox = [], disk = []\<rparr>"

lemma demo_stmt: "final (stmt demo_env f) w = (case f (db w) (seqs w) of
      (Inl e, _, q) \<Rightarrow> w\<lparr>stmts := Suc (stmts w), seqs := q\<rparr> | (Inr x, d, q) \<Rightarrow> w\<lparr>stmts := Suc (stmts w), db := d, seqs := q\<rparr>)"
  "result (stmt demo_env f) w = (case f (db w) (seqs w) of (Inl e, _, _) \<Rightarrow> Inl (Db e) | (Inr x, _, _) \<Rightarrow> Inr x)"
  by (simp_all add: stmt_def final_def result_def Let_def split: prod.split sum.split)

lemma demo_reads: "final (now demo_env) w = w\<lparr>ticks := Suc (ticks w)\<rparr>"
  "final (GenerateRandomToken demo_env n) w = w\<lparr>draws := Suc (draws w)\<rparr>"
  "result (GenerateRandomToken demo_env n) w = hex_encode (replicate n (char_of (draws w)))"
  by (simp_all add: now_def GenerateRandomToken_def final_def result_def)

lemma ticket_codec: "read_ticket (ticket_text ''u1'') = Some ''u1''"
proof -
  have "parse_json (print_json (JObj [(''user_id'', JStr ''u1'')])) = Some (JObj [(''user_id'', JStr ''u1'')])"
    using parse_print_json [of "JObj [(''user_id'', JStr ''u1'')]"] by (simp add: to_valid_ascii)
  moreover have "EqualFold ''user_id'' ''user_id''" by code_simp
  ultimately show ?thesis by (simp add: read_ticket_def ticket_text_def read_struct_def read_str_def)
qed

lemma tokens_differ: "hex_encode (replicate 32 (char_of (0 :: nat))) \<noteq> hex_encode (replicate 32 (char_of (Suc (Suc 0))))"
  "hex_encode (replicate 32 (char_of (Suc 0))) \<noteq> hex_encode (replicate 32 (char_of (Suc (Suc (Suc 0)))))"
  by code_simp+

lemma demo_command: "final (command demo_env f) w = w\<lparr>cmds := Suc (cmds w), kv := snd (f 1 (kv_live 1 (kv w)))\<rparr>"
  "result (command demo_env f) w = fst (f 1 (kv_live 1 (kv w)))"
  by (simp_all add: final_def result_def command_run Let_def split: prod.split)

lemma demo_ticket_key: "login_ticket_key demo_env ''t'' = ''ha:oauth2:login_ticket:t''"
  by (simp add: login_ticket_key_def)

definition after_check :: "nat \<Rightarrow> world" where
  "after_check n = ticket_world\<lparr>cmds := n, stmts := n\<rparr>"

lemma ticket_race_check:
  "result (check_recovery_key demo_env rq ''t'' ''key'') (after_check n) = Inr (demo_user\<lparr>RecoveryKey := ''key'', RecoveryKeyEnabled := True\<rparr>) \<and>
   final (check_recovery_key demo_env rq ''t'' ''key'') (after_check n) = after_check (Suc n)"
  by (simp add: check_recovery_key_def loadLoginTicket_def kv_get_def demo_command after_check_def ticket_world_def demo_ticket_key
      kv_live_def ticket_codec db_first_def demo_stmt by_uuid_def demo_user_def)

lemmas redeem_eval = redeem_ticket_def deleteLoginTicket_def kv_del_def demo_command issueAndRespondFirstPartyUserTokens_def
  IssueFirstPartyUserTokens_def issueUserTokens_def create_token_pair_def transaction_def insert_access_token_def insert_refresh_token_def
  demo_stmt demo_reads after_check_def ticket_world_def Let_def user_exists_def demo_user_def

text \<open>
  Requests that overlap can both redeem a ticket: it is read and deleted by two commands, and the deletion of a key that is not there
  succeeds. Two requests with the recovery key of an account, whose checks run before either of them deletes the ticket, both get
  tokens; a third one that starts afterwards is refused.
\<close>

theorem ticket_race:
  "let check = check_recovery_key demo_env rq ''t'' ''key''; u = projr (result check ticket_world);
       w1 = final check ticket_world; w2 = final check w1;
       redeem = redeem_ticket demo_env rq ''t'' u ''Recovery key verified successfully''; w3 = final redeem w2
   in result check ticket_world = Inr u \<and> result check w1 = Inr u \<and> status (result redeem w2) = 200 \<and> status (result redeem w3) = 200 \<and>
      status (result (VerifyRecoveryKey demo_env rq (Some (''t'', ''key''))) w3) = 401"
proof -
  let ?u = "demo_user\<lparr>RecoveryKey := ''key'', RecoveryKeyEnabled := True\<rparr>"
  let ?redeem = "redeem_ticket demo_env rq ''t'' ?u ''Recovery key verified successfully''"
  have start: "ticket_world = after_check 0" by (simp add: after_check_def ticket_world_def)
  note checks = ticket_race_check [of rq 0, folded start] ticket_race_check [of rq "Suc 0"]
  have first: "status (result ?redeem (after_check 2)) = 200" by (simp add: redeem_eval)
  have second: "status (result ?redeem (final ?redeem (after_check 2))) = 200"
    by (simp add: redeem_eval tokens_differ)
  have "kv_wf (after_check 2)" by (simp add: kv_wf_def after_check_def ticket_world_def)
  then have "ticket_gone demo_env ''t'' (final ?redeem (after_check 2))" using first by (intro redeemed_gone) simp_all
  then have "status (result (VerifyRecoveryKey demo_env rq (Some (''t'', ''key''))) (final ?redeem (after_check 2))) = 401"
    by (simp add: VerifyRecoveryKey_def with_ticket_gone)
  with first second checks show ?thesis by (simp add: Let_def numeral_2_eq_2)
qed


end
