(* ===== verification/Account_Facts.thy ===== *)
theory Account_Facts
  imports Server_Facts Races Registry_Http_Facts
begin

text \<open>
  Facts about accounts: the reset of a password, the deletion of an account, the two ways to sign in with a password, and the registration
  of clients.
\<close>

declare map_of_eq_Some_iff [simp del]

section \<open>Resetting a password\<close>

definition password_set :: "env \<Rightarrow> string \<Rightarrow> string \<Rightarrow> tables \<Rightarrow> tables" where
  "password_set E email h d = d\<lparr>users := update_rows (\<lambda>u. coll E (Email u) = coll E email) (\<lambda>u. u\<lparr>u_Password := h\<rparr>) (users d)\<rparr>"

lemma hash_other [simp]: "db (final (HashPassword E p) w) = db w" "code_files (final (HashPassword E p) w) = code_files w"
  "file_ops (final (HashPassword E p) w) = file_ops w"
  by (simp_all add: HashPassword_def final_def)

lemma result_HashPassword [simp]: "result (HashPassword E p) w = bcrypt_hash E (draws w) p"
  by (simp add: HashPassword_def result_def)

lemma update_users_outcome:
  "result (update_users E P f) w = Inl e \<Longrightarrow> db (final (update_users E P f) w) = db w"
  "result (update_users E P f) w = Inr n \<Longrightarrow> db (final (update_users E P f) w) = (db w)\<lparr>users := update_rows P f (users (db w))\<rparr>"
  unfolding update_users_def by (simp add: stmt_Inl, drule stmt_Inr, auto)

lemma code_Delete_gone: "(\<And>n. \<not> file_fault E n) \<Longrightarrow> map_of (code_files (final (code_Delete E email) w)) (code_file email) = None"
  by (simp add: code_Delete_def result_file_op files_file_op delete_conv')

lemma code_db [simp]: "db (final (code_Get E email) w) = db w" "db (final (code_Delete E email) w) = db w"
  by (simp_all add: code_Get_def code_Delete_def split: option.split prod.split)

lemma set_password_outcome:
  "(db (final (set_password E rq email pw) w) = db w \<and> status (result (set_password E rq email pw) w) \<noteq> 200) \<or>
   (\<exists>h. bcrypt_hash E (draws w) pw = Some h \<and> db (final (set_password E rq email pw) w) = password_set E email h (db w) \<and>
      ((\<forall>n. \<not> file_fault E n) \<and> status (result (set_password E rq email pw) w) = 200 \<longrightarrow>
        map_of (code_files (final (set_password E rq email pw) w)) (code_file email) = None))"
proof (cases "bcrypt_hash E (draws w) pw")
  case (Some h)
  let ?u = "update_users E (\<lambda>u. coll E (Email u) = coll E email) (\<lambda>u. u\<lparr>u_Password := h\<rparr>)"
  let ?v = "final (HashPassword E pw) w"
  show ?thesis
  proof (cases "result ?u ?v")
    case (Inl e)
    with Some update_users_outcome(1) [OF Inl] show ?thesis by (simp add: set_password_def)
  next
    case (Inr n)
    with Some update_users_outcome(2) [OF Inr] code_Delete_gone [of E email] show ?thesis
      by (auto simp: set_password_def password_set_def)
  qed
qed (simp add: set_password_def)


definition reset_world :: world where
  "reset_world = final (code_Store demo_env ''a@b.co'' ''0042'') (demo_world\<lparr>db := (db demo_world)\<lparr>users := [demo_user\<lparr>Email := ''a@b.co''\<rparr>]\<rparr>\<rparr>)"


section \<open>Deleting an account\<close>

text \<open>The tables without an account and all that belongs to it.\<close>

definition account_gone :: "env \<Rightarrow> user \<Rightarrow> tables \<Rightarrow> bool" where
  "account_gone E u d \<longleftrightarrow> list_all (\<lambda>r. UID r \<noteq> UID u) (users d) \<and> list_all (\<lambda>a. coll E (ac_UserID a) \<noteq> coll E (u_UUID u)) (auth_codes d) \<and>
     list_all (\<lambda>t. case at_UserID t of None \<Rightarrow> True | Some x \<Rightarrow> coll E x \<noteq> coll E (u_UUID u)) (access_tokens d) \<and>
     list_all (\<lambda>t. coll E (rt_UserID t) \<noteq> coll E (u_UUID u)) (refresh_tokens d) \<and>
     list_all (\<lambda>c. coll E (wc_UserID c) \<noteq> coll E (u_UUID u)) (credentials d)"

lemma then_stmt_Inr:
  "result (then_stmt m n) w = Inr x \<Longrightarrow> \<exists>y. result m w = Inr y \<and> result n (final m w) = Inr x \<and> final (then_stmt m n) w = final n (final m w)"
  by (auto simp: then_stmt_def split: sum.splits)

lemma delete_done:
  "result (delete_auth_codes E P) w = Inr n \<Longrightarrow> db (final (delete_auth_codes E P) w) = (db w)\<lparr>auth_codes := filter (\<lambda>a. \<not> P a) (auth_codes (db w))\<rparr>"
  "result (delete_access_tokens E Q) w = Inr n \<Longrightarrow> db (final (delete_access_tokens E Q) w) = drop_access Q (db w)"
  "result (delete_refresh_tokens E R) w = Inr n \<Longrightarrow> db (final (delete_refresh_tokens E R) w) = (db w)\<lparr>refresh_tokens := filter (\<lambda>a. \<not> R a) (refresh_tokens (db w))\<rparr>"
  "result (delete_users E U) w = Inr n \<Longrightarrow> db (final (delete_users E U) w) = drop_users E U (db w)"
  "result (insert_deleted_account E a) w = Inr y \<Longrightarrow> db (final (insert_deleted_account E a) w) =
     (db w)\<lparr>deleted_accounts := insort_key da_UID (a\<lparr>da_DeletedAt := db_ts E (da_DeletedAt a)\<rparr>) (deleted_accounts (db w))\<rparr>"
  unfolding delete_auth_codes_def delete_access_tokens_def delete_refresh_tokens_def delete_users_def insert_deleted_account_def
  by (drule stmt_Inr; auto split: if_splits)+

lemma drop_users_all:
  "u \<in> set (users d) \<Longrightarrow> account_gone E u (drop_users E (\<lambda>r. UID r = UID u) d)"
  by (auto simp: account_gone_def drop_users_def drop_access_def Let_def list_all_iff split: option.splits)



section \<open>Signing in with a password\<close>

lemma callHook_db [simp]: "db (final (callHook E rq r p) w) = db w"
  by (simp add: callHook_def Let_def split: option.split)

lemma run_rules_db [simp]: "db (final (run_rules E rq rules p) w) = db w"
proof (induction rules arbitrary: p w)
  case (Cons r rules)
  have "db (final (runRule E rq r p) w) = db w" by (simp add: runRule_def Let_def split: option.split prod.split)
  with Cons show ?case by (simp split: sum.split)
qed simp

lemma hook_Run_db [simp]: "db (final (hook_Run E rq phase p) w) = db w"
  by (simp add: hook_Run_def hook_Match_def)

lemma hook_then:
  assumes "db (final (continue_with (hook_Run E rq ph p) f) w) \<noteq> db w"
  obtains q where "result (hook_Run E rq ph p) w = Inr q"
    "db (final (f q) (final (hook_Run E rq ph p) w)) \<noteq> db (final (hook_Run E rq ph p) w)"
  using assms by (cases "result (hook_Run E rq ph p) w") (auto simp: continue_with_def)

text \<open>What an account must show besides its password.\<close>

definition has_factor :: "env \<Rightarrow> tables \<Rightarrow> user \<Rightarrow> bool" where
  "has_factor E d u \<longleftrightarrow> TwoFA u \<and> TOTP u \<noteq> [] \<or> Email2FAEnabled u \<or>
     WebAuthn2FAEnabled u \<and> list_ex (\<lambda>c. coll E (wc_UserID c) = coll E (u_UUID u)) (credentials d)"

lemma VerifyCredentials_Some:
  assumes "result (VerifyCredentials E name pw b) w = Some info" and "unmarked (db w)"
  obtains u where "u \<in> set (users (db w))" "answers_to E name u" "bcrypt_check E pw (u_Password u)" "info = info_of u"
proof -
  obtain u where u: "result (db_first E users (answers_to E name)) w = Inr u"
    using assms(1) by (cases "result (db_first E users (answers_to E name)) w") (auto simp: VerifyCredentials_def)
  note row = db_first_Inr [OF u]
  then have "u_DeletedAt u = None" using assms(2) by (simp add: unmarked_def list_all_iff)
  then show thesis
    using assms(1) u row by (intro that [of u]) (auto simp: VerifyCredentials_def split: if_splits)
qed

lemma VerifyCredentials_db: "unmarked (db w) \<Longrightarrow> db (final (VerifyCredentials E name pw b) w) = db w"
  using db_first_Inr(1) [of E users "answers_to E name" w]
  by (auto simp: VerifyCredentials_def unmarked_def list_all_iff split: sum.split)

lemma uuid_unique: "account_keys E d \<Longrightarrow> u \<in> set (users d) \<Longrightarrow> v \<in> set (users d) \<Longrightarrow> coll E (u_UUID u) = coll E (u_UUID v) \<Longrightarrow> u = v"
  by (auto simp: account_keys_def intro: unique_row [of "\<lambda>u. coll E (u_UUID u)" "users d"])

lemma login_account_db: "unmarked (db w) \<Longrightarrow> db (final (login_account E rq email pw) w) = db w"
  using VerifyCredentials_db [of w E email pw False]
  by (simp add: login_account_def CountCredentials_def split: option.split sum.split)

lemma login_account_Inr:
  assumes "result (login_account E rq email pw) w = Inr (u, t, wn, e, r)" and "unmarked (db w)" and "schema E (db w)"
  shows "u \<in> set (users (db w)) \<and> answers_to E email u \<and> bcrypt_check E pw (u_Password u) \<and>
    (t \<or> wn \<or> e \<longleftrightarrow> has_factor E (db w) u)"
proof -
  obtain info where info: "result (VerifyCredentials E email pw False) w = Some info"
    using assms(1) by (cases "result (VerifyCredentials E email pw False) w") (auto simp: login_account_def)
  let ?v = "final (VerifyCredentials E email pw False) w"
  have v: "db ?v = db w" by (rule VerifyCredentials_db [OF assms(2)])
  obtain x where x: "x \<in> set (users (db w))" "answers_to E email x" "bcrypt_check E pw (u_Password x)" "info = info_of x"
    by (rule VerifyCredentials_Some [OF info assms(2)])
  let ?f = "db_first E users (by_uuid E (ui_UUID info))"
  obtain y where y: "result ?f ?v = Inr y" using assms(1) info by (cases "result ?f ?v") (auto simp: login_account_def)
  have "y = x"
    using db_first_Inr(1,2) [OF y] x assms(3) v
    by (intro uuid_unique [of E "db w"]) (auto simp: by_uuid_def info_of_def schema_def)
  with assms(1) info x y v show ?thesis
    by (auto simp: login_account_def CountCredentials_def db_count_result has_factor_def list_ex_iff filter_empty_conv
        split: sum.splits if_splits)
qed

lemma finish_login_db:
  assumes "db (final (finish_login E rq u (t, wn, e, r) p) w) \<noteq> db w"
  shows "\<not> t \<and> \<not> wn \<and> \<not> e"
  using assms
  by (auto simp: finish_login_def issue_ticket_def kv_set_def Let_def split: if_splits)


lemma demo_address: "valid_address demo_env a \<longleftrightarrow> CHR ''@'' \<in> set a"
  by (simp add: demo_env_def)

lemma ticket_world_schema: "schema demo_env (db ticket_world)"
  by (simp add: schema_def wf_tables_def account_keys_def ticket_world_def demo_user_def)

lemma no_hooks [simp]: "hooks w = [] \<Longrightarrow> result (hook_Run E rq ph p) w = Inr p" "hooks w = [] \<Longrightarrow> final (hook_Run E rq ph p) w = w"
  by (simp_all add: hook_Run_def hook_Match_def match_hooks_def sort_hooks_def)


section \<open>Signing in at the authorization endpoint\<close>

lemma sure_stmt:
  assumes "\<And>n. \<not> db_fault E n"
  shows "db (final (stmt E f) w) = (case f (db w) (seqs w) of (Inl e, _, _) \<Rightarrow> db w | (Inr x, d, _) \<Rightarrow> d)"
    and "seqs (final (stmt E f) w) = (case f (db w) (seqs w) of (_, _, q) \<Rightarrow> q)"
    and "result (stmt E f) w = (case f (db w) (seqs w) of (Inl e, _, _) \<Rightarrow> Inl (Db e) | (Inr x, _, _) \<Rightarrow> Inr x)"
  using assms by (simp_all add: stmt_def final_def result_def Let_def split: prod.split sum.split)

lemma VerifyCredentials_found:
  assumes "\<And>n. \<not> db_fault E n" and "find (answers_to E name) (users (db w)) = Some u" and "bcrypt_check E pw (u_Password u)"
    and "u_DeletedAt u = None"
  shows "result (VerifyCredentials E name pw b) w = Some (info_of u) \<and> db (final (VerifyCredentials E name pw b) w) = db w \<and>
    seqs (final (VerifyCredentials E name pw b) w) = seqs w"
  using assms by (simp add: VerifyCredentials_def db_first_def sure_stmt)

text \<open>
  The other way to sign in with a password, at the authorization endpoint, looks at no second factor: where no hook is registered and no
  statement fails, the right password of an account is enough for an authorization code for it, whatever factors the account has set up.
\<close>

theorem decision_skips_factors:
  assumes "hooks w = []" and "\<And>n. \<not> db_fault E n"
    and "result (ValidateAuthorizationRequest E (dq_ClientID req) (dq_RedirectURI req) (dq_Scope req) (dq_CodeChallenge req)
      (dq_CodeChallengeMethod req)) w = Inr (c, scopes)"
    and "find (answers_to E (dq_Email req)) (users (db w)) = Some u" and "bcrypt_check E (dq_Password req) (u_Password u)"
    and "u_DeletedAt u = None"
    and "\<And>n. \<not> code_present E (case entropy E n 32 of None \<Rightarrow> [] | Some b \<Rightarrow> hex_encode b) (db w)"
    and "list_all (\<lambda>a. ac_ID a \<noteq> next_code (seqs w)) (auth_codes (db w))"
  shows "status (result (AuthorizeDecision E rq (Some req)) w) = 200 \<and>
    (\<exists>a. auth_codes (db (final (AuthorizeDecision E rq (Some req)) w)) = auth_codes (db w) @ [a] \<and> ac_UserID a = u_UUID u \<and>
      ac_ClientID a = cl_ClientID c \<and> ac_ConsumedAt a = None)"
proof -
  let ?v = "final (ValidateAuthorizationRequest E (dq_ClientID req) (dq_RedirectURI req) (dq_Scope req) (dq_CodeChallenge req)
      (dq_CodeChallengeMethod req)) w"
  have v: "db ?v = db w" "seqs ?v = seqs w" "hooks ?v = hooks w"
    using assms(2) by (simp_all add: ValidateAuthorizationRequest_def GetClient_def db_first_def sure_stmt split: option.split)
  let ?c = "VerifyCredentials E (dq_Email req) (dq_Password req) False"
  note found = VerifyCredentials_found [OF assms(2), of "dq_Email req" ?v u "dq_Password req" False, unfolded v, OF assms(4-6)]
  have h: "hooks (final ?c ?v) = []"
    using assms(1,2,4,5,6) v by (simp add: VerifyCredentials_def db_first_def sure_stmt)
  have user: "user_exists E (u_UUID u) (db w)"
    using assms(4) by (auto simp: user_exists_def list_ex_iff dest: find_SomeD)
  have fresh: "\<not> list_ex (\<lambda>r. ac_ID r = next_code (seqs w) \<or> coll E (ac_Code r) = coll E (result (GenerateRandomToken E 32) x)) (auth_codes (db w))" for x
    using assms(7,8) by (auto simp: code_present_def list_ex_iff list_all_iff result_GenerateRandomToken)
  show ?thesis
    using assms(1-3) found h user fresh
    by (simp add: AuthorizeDecision_def continue_with_def or_oauth_error_def newAuthHookPayload_def v Let_def grant_code_def
        CreateAuthorizationCode_def insert_auth_code_def sure_stmt info_of_def)
qed

definition factor_world :: world where
  "factor_world = ticket_world\<lparr>db := (db ticket_world)\<lparr>users := [demo_user\<lparr>TwoFA := True, TOTP := ''JBSWY3DP''\<rparr>],
     clients := [(public_client demo_env)\<lparr>cl_ID := 1\<rparr>]\<rparr>\<rparr>"

definition demo_decision :: decision_request where
  "demo_decision = \<lparr>dq_Email = ''a@b.c'', dq_Password = ''pw'', dq_ClientID = ''webui'', dq_RedirectURI = ''https://a/cb'', dq_Scope = [],
     dq_State = [], dq_CodeChallenge = ''x'', dq_CodeChallengeMethod = ''S256''\<rparr>"

theorem decision_skips_factors_witness:
  "has_factor demo_env (db factor_world) (demo_user\<lparr>TwoFA := True, TOTP := ''JBSWY3DP''\<rparr>) \<and>
   status (result (AuthorizeDecision demo_env (demo_rq []) (Some demo_decision)) factor_world) = 200"
proof -
  have h: "hooks factor_world = []" and none: "auth_codes (db factor_world) = []" by (simp_all add: factor_world_def ticket_world_def)
  have ids: "PublicClientID (oauth2 demo_env) = ''webui''" "PublicRedirectURIs (oauth2 demo_env) = [''https://a/cb'']" by (simp_all add: demo_env_def)
  have texts: "TrimSpace (marshal_strings publicSiteScopes) \<noteq> []" "TrimSpace (marshal_strings [''https://a/cb'']) \<noteq> []"
    "TrimSpace (marshal_strings [''authorization_code'', ''refresh_token'']) \<noteq> []"
    by code_simp+
  have by_method: "ToUpper ''S256'' = ''S256''" "TrimSpace [] = []" by code_simp+
  have "result (ValidateAuthorizationRequest demo_env ''webui'' ''https://a/cb'' [] ''x'' ''S256'') factor_world =
      Inr ((public_client demo_env)\<lparr>cl_ID := 1\<rparr>, publicSiteScopes)"
    by (simp add: ValidateAuthorizationRequest_def GetClient_def db_first_def demo_stmt factor_world_def ticket_world_def active_client_def
        by_client_id_def public_client_def ids check_authorization_request_def supportsGrantType_def redirectURIAllowed_def
        resolveRequestedScopes_def by_method ascii_valid publicSiteScopes_def
        unmarshalStringSlice_def marshalStringSlice_def texts [unfolded publicSiteScopes_def])
  then have valid: "result (ValidateAuthorizationRequest demo_env (dq_ClientID demo_decision) (dq_RedirectURI demo_decision) (dq_Scope demo_decision)
      (dq_CodeChallenge demo_decision) (dq_CodeChallengeMethod demo_decision)) factor_world = Inr ((public_client demo_env)\<lparr>cl_ID := 1\<rparr>, publicSiteScopes)"
    by (simp add: demo_decision_def)
  have "find (answers_to demo_env (dq_Email demo_decision)) (users (db factor_world)) = Some (demo_user\<lparr>TwoFA := True, TOTP := ''JBSWY3DP''\<rparr>)"
    by (simp add: factor_world_def answers_to_def demo_decision_def demo_user_def)
  from decision_skips_factors [OF h _ valid this] none show ?thesis
    by (simp add: code_present_def demo_decision_def demo_user_def has_factor_def)
qed

text \<open>
  A check of any factor before the recovery key or the address is changed accepts the passkey of another account: the service says whose
  passkey it was, and the check does not look.
\<close>

theorem any_passkey_passes:
  assumes "fq_TOTPCode req = []" and "fq_EmailCode req = []" and "fq_RecoveryKey req = []" and "fq_FlowID req \<noteq> []" and "fq_Credential req \<noteq> []"
    and "result (FinishLogin E (fq_FlowID req) (fq_Credential req)) w = Inr owner"
  shows "result (verifyAnyFactor E rq u req) w = Inr True"
  using assms by (simp add: verifyAnyFactor_def next_step_def check_totp_def check_email_def check_webauthn_def check_recovery_def)

section \<open>Registering a client\<close>

lemma AuthenticateClient_db [simp]: "db (final (AuthenticateClient E i s) w) = db w"
  by (simp add: AuthenticateClient_def GetClient_def split: sum.split)

lemma oauth_error_status: "status (respondOAuthError rq e) \<in> {400, 401, 403, 500}"
  by (auto simp: respondOAuthError_def split: go_error.split oauth_error.split)

lemma created_by_super:
  assumes "db (final (RegisterClient E rq bound) w) \<noteq> db w \<or> status (result (RegisterClient E rq bound) w) = 201"
  shows "\<exists>cid secret c name scope r scopes. basicClientCredentials (GetHeader rq ''Authorization'') = Some (cid, secret) \<and>
    result (AuthenticateClient E cid secret) w = Inr c \<and> cl_IsSuper c \<and> cl_IsInternal c \<and> cl_ClientID c = SuperClientID (oauth2 E) \<and>
    bound = Some (name, scope) \<and> result (presence_Get E (TrimSpace name)) (final (AuthenticateClient E cid secret) w) = Some r \<and>
    ServiceRegistrationScopes E (TrimSpace name) scope = Inr scopes"
proof (cases "basicClientCredentials (GetHeader rq ''Authorization'')")
  case (Some cs)
  obtain cid secret where cs: "cs = (cid, secret)" by (cases cs)
  let ?w1 = "final (AuthenticateClient E cid secret) w"
  have refused: "status (respondOAuthError rq e) \<noteq> 201" for e
    using oauth_error_status [of rq e] by auto
  obtain c where c: "result (AuthenticateClient E cid secret) w = Inr c" "is_super_caller E c"
    using assms Some cs refused
    by (cases "result (AuthenticateClient E cid secret) w") (auto simp: RegisterClient_def split: if_splits)
  obtain name scope where b: "bound = Some (name, scope)" "TrimSpace name \<noteq> []"
    using assms Some cs c refused by (cases bound) (auto simp: RegisterClient_def Let_def split: if_splits)
  obtain r where r: "result (presence_Get E (TrimSpace name)) ?w1 = Some r"
    using assms Some cs c b refused by (cases "result (presence_Get E (TrimSpace name)) ?w1") (auto simp: RegisterClient_def Let_def)
  obtain scopes where "ServiceRegistrationScopes E (TrimSpace name) scope = Inr scopes"
    using assms Some cs c b r refused by (cases "ServiceRegistrationScopes E (TrimSpace name) scope") (auto simp: RegisterClient_def Let_def)
  with Some cs c b r show ?thesis by (auto simp: is_super_caller_def)
next
  case None
  with assms show ?thesis by (simp add: RegisterClient_def respondOAuthError_def)
qed

lemma register_statuses: "status (result (RegisterClient E rq bound) w) \<in> {201, 400, 401, 403, 500}"
  using oauth_error_status [of rq]
  by (auto simp: RegisterClient_def register_for_def Let_def split: option.split sum.split go_error.split oauth_error.split)


end
