(* ===== verification/Schema_Migration.thy ===== *)
theory Schema_Migration
  imports Startup
begin

text \<open>
  The second half of controllers/startup_controller.go: the schema migrations that run when the database is connected.
  Before golang-migrate is started, the table it keeps its version in is brought to the shape it expects: an older release
  had a column \<open>service\<close> in its primary key. The statements of MySQL on this one table are modelled with their errors;
  a data definition statement takes effect on its own, so a run that fails leaves what was done before.
  golang-migrate itself is a parameter: whether it can be set up, and what \<open>Up\<close> answers and leaves.

  The lemmas at the end: a run that succeeds leaves the expected shape and every row, and a run that was interrupted
  anywhere is made good by the next one.
\<close>

section \<open>The table of the versions\<close>

record version_table =
  vt_columns :: "string list"
  vt_key :: "string list"
  vt_rows :: "(string \<Rightarrow> string) list"

text \<open>The database: the table, if it exists, and the number of statements so far.\<close>

record schema_db =
  versions :: "version_table option"
  stmts :: nat

text \<open>Which statements fail, and the third-party migrator.\<close>

datatype up_result = UpDone | UpNoChange | UpDirty int | UpError

record migration_env =
  stmt_fault :: "nat \<Rightarrow> bool"
  sql_open :: "string \<Rightarrow> bool"
  migrate_driver :: bool
  migrate_source :: bool
  migrate_new :: bool
  migrate_up :: "version_table option \<Rightarrow> up_result \<times> version_table option"

type_synonym 'a sdb = "(schema_db, 'a) state"

section \<open>The statements\<close>

text \<open>
  A statement has an answer and a new table, or an error (\<open>None\<close>); a failing one changes nothing.
\<close>

definition sql_stmt :: "migration_env \<Rightarrow> (version_table option \<Rightarrow> ('a \<times> version_table option) option) \<Rightarrow> 'a option sdb" where
  "sql_stmt E f = State (\<lambda>s.
     (let s' = s\<lparr>stmts := Suc (stmts s)\<rparr> in
      if stmt_fault E (stmts s) then (None, s')
      else case f (versions s) of None \<Rightarrow> (None, s') | Some (a, t) \<Rightarrow> (Some a, s'\<lparr>versions := t\<rparr>)))"

definition key_unique :: "string list \<Rightarrow> (string \<Rightarrow> string) list \<Rightarrow> bool" where
  "key_unique key rows \<longleftrightarrow> key = [] \<or> distinct (map (\<lambda>r. map r key) rows)"

definition create_if_missing :: "version_table option \<Rightarrow> (unit \<times> version_table option) option" where
  "create_if_missing t = Some ((), case t of
     None \<Rightarrow> Some \<lparr>vt_columns = [''version'', ''dirty''], vt_key = [''version''], vt_rows = []\<rparr> | Some v \<Rightarrow> Some v)"

definition count_column :: "string \<Rightarrow> version_table option \<Rightarrow> (nat \<times> version_table option) option" where
  "count_column c t = Some ((case t of None \<Rightarrow> 0 | Some v \<Rightarrow> if List.member (vt_columns v) c then 1 else 0), t)"

definition key_columns :: "version_table option \<Rightarrow> (string list \<times> version_table option) option" where
  "key_columns t = Some ((case t of None \<Rightarrow> [] | Some v \<Rightarrow> vt_key v), t)"

definition count_rows :: "version_table option \<Rightarrow> (nat \<times> version_table option) option" where
  "count_rows t = map_option (\<lambda>v. (length (vt_rows v), t)) t"

definition drop_key :: "version_table option \<Rightarrow> (unit \<times> version_table option) option" where
  "drop_key t = (case t of None \<Rightarrow> None | Some v \<Rightarrow> if vt_key v = [] then None else Some ((), Some (v\<lparr>vt_key := []\<rparr>)))"

text \<open>A dropped column leaves the key as well, which must stay unique; the last column cannot be dropped.\<close>

definition drop_column :: "string \<Rightarrow> version_table option \<Rightarrow> (unit \<times> version_table option) option" where
  "drop_column c t = (case t of None \<Rightarrow> None | Some v \<Rightarrow>
     let columns = removeAll c (vt_columns v); key = removeAll c (vt_key v) in
     if \<not> List.member (vt_columns v) c \<or> columns = [] \<or> \<not> key_unique key (vt_rows v) then None
     else Some ((), Some \<lparr>vt_columns = columns, vt_key = key, vt_rows = map (\<lambda>r. r(c := [])) (vt_rows v)\<rparr>))"

definition add_key :: "string \<Rightarrow> version_table option \<Rightarrow> (unit \<times> version_table option) option" where
  "add_key c t = (case t of None \<Rightarrow> None | Some v \<Rightarrow>
     if vt_key v \<noteq> [] \<or> \<not> List.member (vt_columns v) c \<or> \<not> key_unique [c] (vt_rows v) then None
     else Some ((), Some (v\<lparr>vt_key := [c]\<rparr>)))"

section \<open>The shape of the table\<close>

datatype schema_error =
  CreateTable | CheckColumn | CheckKey | CountRows | TooManyRows nat | DropLegacyKey | DropService | DropKey | AddKey

text \<open>Going on after a statement, or giving up with its error.\<close>

definition or_fail :: "'a option sdb \<Rightarrow> schema_error \<Rightarrow> ('a \<Rightarrow> (schema_error + 'b) sdb) \<Rightarrow> (schema_error + 'b) sdb" where
  "or_fail m e k = do { r \<leftarrow> m; case r of None \<Rightarrow> ret (Inl e) | Some a \<Rightarrow> k a }"

definition schemaMigrationsColumnExists :: "migration_env \<Rightarrow> string \<Rightarrow> (schema_error + bool) sdb" where
  "schemaMigrationsColumnExists E column =
     or_fail (sql_stmt E (count_column column)) CheckColumn (\<lambda>count. ret (Inr (count > 0)))"

definition schemaMigrationsPrimaryKeyColumns :: "migration_env \<Rightarrow> (schema_error + string list) sdb" where
  "schemaMigrationsPrimaryKeyColumns E = or_fail (sql_stmt E key_columns) CheckKey (\<lambda>columns. ret (Inr columns))"

text \<open>The legacy column: its table may have one row only; the key goes first. The answer is the key that is left.\<close>

definition drop_service :: "migration_env \<Rightarrow> string list \<Rightarrow> (schema_error + string list) sdb" where
  "drop_service E pkColumns =
     or_fail (sql_stmt E count_rows) CountRows (\<lambda>rowCount.
     if rowCount > 1 then ret (Inl (TooManyRows rowCount))
     else if pkColumns \<noteq> [] \<and> pkColumns \<noteq> [''version''] then
       or_fail (sql_stmt E drop_key) DropLegacyKey (\<lambda>_.
       or_fail (sql_stmt E (drop_column ''service'')) DropService (\<lambda>_. ret (Inr [])))
     else or_fail (sql_stmt E (drop_column ''service'')) DropService (\<lambda>_. ret (Inr pkColumns)))"

definition set_version_key :: "migration_env \<Rightarrow> string list \<Rightarrow> (schema_error + unit) sdb" where
  "set_version_key E pkColumns =
     (if pkColumns = [''version''] then ret (Inr ())
      else if pkColumns \<noteq> [] then
        or_fail (sql_stmt E drop_key) DropKey (\<lambda>_. or_fail (sql_stmt E (add_key ''version'')) AddKey (\<lambda>_. ret (Inr ())))
      else or_fail (sql_stmt E (add_key ''version'')) AddKey (\<lambda>_. ret (Inr ())))"

definition then_schema :: "(schema_error + 'a) sdb \<Rightarrow> ('a \<Rightarrow> (schema_error + 'b) sdb) \<Rightarrow> (schema_error + 'b) sdb" where
  "then_schema m k = do { r \<leftarrow> m; case r of Inl e \<Rightarrow> ret (Inl e) | Inr a \<Rightarrow> k a }"

definition normalizeSchemaMigrationsTable :: "migration_env \<Rightarrow> (schema_error + unit) sdb" where
  "normalizeSchemaMigrationsTable E =
     then_schema (schemaMigrationsColumnExists E ''service'') (\<lambda>hasServiceColumn.
     then_schema (schemaMigrationsPrimaryKeyColumns E) (\<lambda>pkColumns.
     then_schema (if hasServiceColumn then drop_service E pkColumns else ret (Inr pkColumns)) (\<lambda>left.
     set_version_key E left)))"

definition ensureSchemaMigrationTable :: "migration_env \<Rightarrow> (schema_error + unit) sdb" where
  "ensureSchemaMigrationTable E =
     or_fail (sql_stmt E create_if_missing) CreateTable (\<lambda>_. normalizeSchemaMigrationsTable E)"

section \<open>The migrations\<close>

datatype migration_error =
  OpenFailed | Bootstrap schema_error | DriverFailed | SourceFailed | MigratorFailed | DirtyAt int | MigrationsFailed

definition run_up :: "migration_env \<Rightarrow> up_result sdb" where
  "run_up E = State (\<lambda>s. case migrate_up E (versions s) of (r, t) \<Rightarrow> (r, s\<lparr>versions := t\<rparr>))"

definition EnsureMigrations :: "migration_env \<Rightarrow> database_config \<Rightarrow> migration_error option sdb" where
  "EnsureMigrations E cfg =
     (if \<not> sql_open E (migration_dsn cfg) then ret (Some OpenFailed)
      else do {
        r \<leftarrow> ensureSchemaMigrationTable E;
        case r of
          Inl e \<Rightarrow> ret (Some (Bootstrap e))
        | Inr _ \<Rightarrow>
          if \<not> migrate_driver E then ret (Some DriverFailed)
          else if \<not> migrate_source E then ret (Some SourceFailed)
          else if \<not> migrate_new E then ret (Some MigratorFailed)
          else do {
            u \<leftarrow> run_up E;
            ret (case u of UpDone \<Rightarrow> None | UpNoChange \<Rightarrow> None | UpDirty v \<Rightarrow> Some (DirtyAt v) | UpError \<Rightarrow> Some MigrationsFailed)
          }
      })"

section \<open>What a run leaves\<close>

text \<open>The shape golang-migrate expects.\<close>

definition version_table_ok :: "version_table \<Rightarrow> bool" where
  "version_table_ok v \<longleftrightarrow> vt_key v = [''version''] \<and> ''service'' \<notin> set (vt_columns v)"

text \<open>The version and the mark of every row, in order.\<close>

definition version_rows :: "version_table option \<Rightarrow> (string \<times> string) list" where
  "version_rows t = (case t of None \<Rightarrow> [] | Some v \<Rightarrow> map (\<lambda>r. (r ''version'', r ''dirty'')) (vt_rows v))"

lemma result_sql_stmt [simp]:
  "result (sql_stmt E f) s = (if stmt_fault E (stmts s) then None else map_option fst (f (versions s)))"
  by (simp add: sql_stmt_def result_def Let_def split: option.split prod.split)

lemma versions_sql_stmt [simp]:
  "versions (final (sql_stmt E f) s) =
     (if stmt_fault E (stmts s) then versions s else case f (versions s) of None \<Rightarrow> versions s | Some (_, t) \<Rightarrow> t)"
  by (simp add: sql_stmt_def final_def Let_def split: option.split prod.split)

lemma result_or_fail [simp]:
  "result (or_fail m e k) s = (case result m s of None \<Rightarrow> Inl e | Some a \<Rightarrow> result (k a) (final m s))"
  by (simp add: or_fail_def split: option.split)

lemma final_or_fail [simp]:
  "final (or_fail m e k) s = (case result m s of None \<Rightarrow> final m s | Some a \<Rightarrow> final (k a) (final m s))"
  by (simp add: or_fail_def split: option.split)

lemma result_then_schema [simp]:
  "result (then_schema m k) s = (case result m s of Inl e \<Rightarrow> Inl e | Inr a \<Rightarrow> result (k a) (final m s))"
  by (simp add: then_schema_def split: sum.split)

lemma final_then_schema [simp]:
  "final (then_schema m k) s = (case result m s of Inl _ \<Rightarrow> final m s | Inr a \<Rightarrow> final (k a) (final m s))"
  by (simp add: then_schema_def split: sum.split)

lemmas table_statements = create_if_missing_def count_column_def key_columns_def count_rows_def drop_key_def
  drop_column_def add_key_def

lemmas table_operations = ensureSchemaMigrationTable_def normalizeSchemaMigrationsTable_def
  schemaMigrationsColumnExists_def schemaMigrationsPrimaryKeyColumns_def drop_service_def set_version_key_def

lemma final_sql_stmt:
  "final (sql_stmt E f) s = (if stmt_fault E (stmts s) then s\<lparr>stmts := Suc (stmts s)\<rparr>
     else case f (versions s) of None \<Rightarrow> s\<lparr>stmts := Suc (stmts s)\<rparr> | Some (_, t) \<Rightarrow> s\<lparr>versions := t, stmts := Suc (stmts s)\<rparr>)"
  by (simp add: sql_stmt_def final_def Let_def split: option.split prod.split)

lemmas table_run = table_operations table_statements final_sql_stmt Let_def

lemma table_cases [case_names many legacy_key legacy_ready legacy_bare ready bare other_key]:
  obtains "''service'' \<in> set (vt_columns v)" "length (vt_rows v) > 1"
  | "''service'' \<in> set (vt_columns v)" "\<not> length (vt_rows v) > 1" "vt_key v \<noteq> []" "vt_key v \<noteq> [''version'']"
  | "''service'' \<in> set (vt_columns v)" "\<not> length (vt_rows v) > 1" "vt_key v = [''version'']"
  | "''service'' \<in> set (vt_columns v)" "\<not> length (vt_rows v) > 1" "vt_key v = []"
  | "''service'' \<notin> set (vt_columns v)" "vt_key v = [''version'']"
  | "''service'' \<notin> set (vt_columns v)" "vt_key v = []"
  | "''service'' \<notin> set (vt_columns v)" "vt_key v \<noteq> []" "vt_key v \<noteq> [''version'']"
  by blast

text \<open>The table after the first statement, when it did not fail.\<close>

definition created :: "version_table option \<Rightarrow> version_table" where
  "created t = (case t of None \<Rightarrow> \<lparr>vt_columns = [''version'', ''dirty''], vt_key = [''version''], vt_rows = []\<rparr> | Some v \<Rightarrow> v)"

lemma ensure_from_created:
  "result (ensureSchemaMigrationTable E) s = (if stmt_fault E (stmts s) then Inl CreateTable
     else result (normalizeSchemaMigrationsTable E) \<lparr>versions = Some (created (versions s)), stmts = Suc (stmts s)\<rparr>)"
  "versions (final (ensureSchemaMigrationTable E) s) = (if stmt_fault E (stmts s) then versions s
     else versions (final (normalizeSchemaMigrationsTable E) \<lparr>versions = Some (created (versions s)), stmts = Suc (stmts s)\<rparr>))"
  by (cases s; auto simp: ensureSchemaMigrationTable_def create_if_missing_def created_def final_sql_stmt split: option.split)+

lemma normalized_shape:
  assumes "result (normalizeSchemaMigrationsTable E) \<lparr>versions = Some v, stmts = n\<rparr> = Inr ()"
  shows "\<exists>v'. versions (final (normalizeSchemaMigrationsTable E) \<lparr>versions = Some v, stmts = n\<rparr>) = Some v' \<and> version_table_ok v'"
  using assms by (cases v rule: table_cases) (auto simp: table_run version_table_ok_def split: if_splits)

text \<open>Without failures: the result does not depend on the number of the statement.\<close>

definition no_faults :: "migration_env \<Rightarrow> migration_env" where
  "no_faults E = E\<lparr>stmt_fault := \<lambda>_. False\<rparr>"

lemma no_faults_simp [simp]: "\<not> stmt_fault (no_faults E) n"
  by (simp add: no_faults_def)

lemma normalize_resumes:
  assumes "versions (final (normalizeSchemaMigrationsTable E) \<lparr>versions = Some v, stmts = n\<rparr>) = Some v'"
  shows "result (normalizeSchemaMigrationsTable (no_faults E)) \<lparr>versions = Some v', stmts = m\<rparr> =
      result (normalizeSchemaMigrationsTable (no_faults E)) \<lparr>versions = Some v, stmts = n\<rparr> \<and>
    versions (final (normalizeSchemaMigrationsTable (no_faults E)) \<lparr>versions = Some v', stmts = m\<rparr>) =
      versions (final (normalizeSchemaMigrationsTable (no_faults E)) \<lparr>versions = Some v, stmts = n\<rparr>)"
proof (cases v rule: table_cases)
  case many
  then show ?thesis using assms by (auto simp: table_run split: if_splits)
next
  case legacy_key
  let ?b = "v\<lparr>vt_key := []\<rparr>"
  let ?d = "\<lparr>vt_columns = removeAll ''service'' (vt_columns v), vt_key = [], vt_rows = map (\<lambda>r. r(''service'' := [])) (vt_rows v)\<rparr>"
  have "v' = v \<or> v' = ?b \<or> removeAll ''service'' (vt_columns v) \<noteq> [] \<and>
      (v' = ?d \<or> ''version'' \<in> set (vt_columns v) \<and> key_unique [''version''] (vt_rows ?d) \<and> v' = ?d\<lparr>vt_key := [''version'']\<rparr>)"
    using assms legacy_key by (simp add: table_run split: if_splits)
  then consider "v' = v" | "v' = ?b" | "removeAll ''service'' (vt_columns v) \<noteq> []" "v' = ?d"
    | "removeAll ''service'' (vt_columns v) \<noteq> []" "''version'' \<in> set (vt_columns v)" "key_unique [''version''] (vt_rows ?d)" "v' = ?d\<lparr>vt_key := [''version'']\<rparr>"
    by blast
  then show ?thesis using legacy_key by cases (simp_all add: table_run key_unique_def)
next
  case legacy_ready
  let ?d = "\<lparr>vt_columns = removeAll ''service'' (vt_columns v), vt_key = [''version''], vt_rows = map (\<lambda>r. r(''service'' := [])) (vt_rows v)\<rparr>"
  have "v' = v \<or> removeAll ''service'' (vt_columns v) \<noteq> [] \<and> key_unique [''version''] (vt_rows v) \<and> v' = ?d"
    using assms legacy_ready by (simp add: table_run split: if_splits)
  then consider "v' = v" | "removeAll ''service'' (vt_columns v) \<noteq> []" "key_unique [''version''] (vt_rows v)" "v' = ?d"
    by blast
  then show ?thesis using legacy_ready by cases (simp_all add: table_run)
next
  case legacy_bare
  let ?d = "\<lparr>vt_columns = removeAll ''service'' (vt_columns v), vt_key = [], vt_rows = map (\<lambda>r. r(''service'' := [])) (vt_rows v)\<rparr>"
  have "v' = v \<or> removeAll ''service'' (vt_columns v) \<noteq> [] \<and>
      (v' = ?d \<or> ''version'' \<in> set (vt_columns v) \<and> key_unique [''version''] (vt_rows ?d) \<and> v' = ?d\<lparr>vt_key := [''version'']\<rparr>)"
    using assms legacy_bare by (simp add: table_run key_unique_def split: if_splits)
  then consider "v' = v" | "removeAll ''service'' (vt_columns v) \<noteq> []" "v' = ?d"
    | "removeAll ''service'' (vt_columns v) \<noteq> []" "''version'' \<in> set (vt_columns v)" "key_unique [''version''] (vt_rows ?d)" "v' = ?d\<lparr>vt_key := [''version'']\<rparr>"
    by blast
  then show ?thesis using legacy_bare by cases (simp_all add: table_run key_unique_def)
next
  case ready
  then show ?thesis using assms by (auto simp: table_run split: if_splits)
next
  case bare
  have "v' = v \<or> ''version'' \<in> set (vt_columns v) \<and> key_unique [''version''] (vt_rows v) \<and> v' = v\<lparr>vt_key := [''version'']\<rparr>"
    using assms bare by (simp add: table_run split: if_splits)
  then show ?thesis using bare by (elim disjE conjE) (simp_all add: table_run)
next
  case other_key
  have "v' = v \<or> v' = v\<lparr>vt_key := []\<rparr> \<or>
      ''version'' \<in> set (vt_columns v) \<and> key_unique [''version''] (vt_rows v) \<and> v' = v\<lparr>vt_key := [''version'']\<rparr>"
    using assms other_key by (simp add: table_run split: if_splits)
  then show ?thesis using other_key by (elim disjE conjE) (simp_all add: table_run)
qed


lemma normalize_any_statement:
  "result (normalizeSchemaMigrationsTable (no_faults E)) \<lparr>versions = Some v, stmts = m\<rparr> =
     result (normalizeSchemaMigrationsTable (no_faults E)) \<lparr>versions = Some v, stmts = n\<rparr> \<and>
   versions (final (normalizeSchemaMigrationsTable (no_faults E)) \<lparr>versions = Some v, stmts = m\<rparr>) =
     versions (final (normalizeSchemaMigrationsTable (no_faults E)) \<lparr>versions = Some v, stmts = n\<rparr>)"
proof -
  let ?E = "E\<lparr>stmt_fault := \<lambda>_. True\<rparr>"
  have "versions (final (normalizeSchemaMigrationsTable ?E) \<lparr>versions = Some v, stmts = n\<rparr>) = Some v"
    by (simp add: table_operations final_sql_stmt)
  from normalize_resumes [OF this, of m] show ?thesis by (simp add: no_faults_def)
qed

lemma normalized_exists: "\<exists>v'. versions (final (normalizeSchemaMigrationsTable E) \<lparr>versions = Some v, stmts = n\<rparr>) = Some v'"
  by (cases v rule: table_cases) (simp_all add: table_run)

definition keeps_rows :: "schema_db \<Rightarrow> schema_db \<Rightarrow> bool" where
  "keeps_rows s s' \<longleftrightarrow> version_rows (versions s') = version_rows (versions s)"

lemma keeps_rows_stmt:
  assumes "\<And>t a t'. f t = Some (a, t') \<Longrightarrow> version_rows t' = version_rows t"
  shows "evolves keeps_rows (sql_stmt E f)"
  using assms by (auto simp: evolves_def keeps_rows_def split: option.splits)

interpretation rows_kept: evolution keeps_rows
  by unfold_locales (simp_all add: keeps_rows_def)

lemma keeps_rows_ensure: "evolves keeps_rows (ensureSchemaMigrationTable E)"
  unfolding table_operations or_fail_def then_schema_def
  by (intro rows_kept.evolves_rules keeps_rows_stmt)
    (auto simp: table_statements version_rows_def Let_def split: option.splits if_splits)

lemma ensure_keeps_rows: "version_rows (versions (final (ensureSchemaMigrationTable E) w)) = version_rows (versions w)"
  using keeps_rows_ensure [of E] by (simp add: evolves_def keeps_rows_def)

lemma run_up_simps [simp]:
  "result (run_up E) s = fst (migrate_up E (versions s))" "versions (final (run_up E) s) = snd (migrate_up E (versions s))"
  by (simp_all add: run_up_def result_def final_def split: prod.split)

section \<open>Properties\<close>

text \<open>
  C23: The preparation of the version table may stop at any statement, whatever shape the table has: the next run that is not disturbed
  answers as an undisturbed first run would have, and leaves the same table. No run loses a row.
\<close>

theorem interrupted_preparation_resumes:
  "(let v = final (ensureSchemaMigrationTable E) w; again = ensureSchemaMigrationTable (no_faults E) in
     result again v = result again w \<and> versions (final again v) = versions (final again w)) \<and>
   version_rows (versions (final (ensureSchemaMigrationTable E) w)) = version_rows (versions w)"
proof (cases "stmt_fault E (stmts w)")
  case True
  then show ?thesis
    using ensure_keeps_rows [of E w] normalize_any_statement [of E "created (versions w)"]
    by (simp add: ensure_from_created Let_def)
next
  case False
  obtain v where v: "versions (final (normalizeSchemaMigrationsTable E) \<lparr>versions = Some (created (versions w)), stmts = Suc (stmts w)\<rparr>) = Some v"
    using normalized_exists by blast
  have "created (Some v) = v" by (simp add: created_def)
  with False v normalize_resumes [OF v] ensure_keeps_rows [of E w] show ?thesis
    by (simp add: ensure_from_created Let_def)
qed

text \<open>
  C30: When the migrations succeed, golang-migrate was started on a table of the shape it expects, with the version of the database as it was:
  keyed by the version alone, without the legacy column; and what it answered was that all is done or that nothing was to do.
\<close>

theorem EnsureMigrations_prepares:
  assumes "result (EnsureMigrations E cfg) w = None"
  shows "\<exists>v. version_table_ok v \<and> version_rows (Some v) = version_rows (versions w) \<and>
    fst (migrate_up E (Some v)) \<in> {UpDone, UpNoChange} \<and> versions (final (EnsureMigrations E cfg) w) = snd (migrate_up E (Some v))"
proof -
  let ?u = "final (ensureSchemaMigrationTable E) w"
  have opened: "sql_open E (migration_dsn cfg)" using assms by (auto simp: EnsureMigrations_def split: if_splits)
  have ready: "result (ensureSchemaMigrationTable E) w = Inr ()"
    using assms opened by (auto simp: EnsureMigrations_def split: sum.splits)
  then obtain v where v: "versions ?u = Some v" "version_table_ok v"
    using normalized_shape [of E "created (versions w)" "Suc (stmts w)"] by (auto simp: ensure_from_created split: if_splits)
  have "version_rows (Some v) = version_rows (versions w)"
    using ensure_keeps_rows [of E w] v(1) by simp
  moreover have "fst (migrate_up E (Some v)) \<in> {UpDone, UpNoChange} \<and> versions (final (EnsureMigrations E cfg) w) = snd (migrate_up E (Some v))"
    using assms opened ready v(1) by (auto simp: EnsureMigrations_def split: if_splits up_result.splits)
  ultimately show ?thesis using v(2) by blast
qed

text \<open>A table of the old release with its one row, and a migrator that has nothing to do.\<close>

definition legacy_versions :: version_table where
  "legacy_versions = \<lparr>vt_columns = [''service'', ''version'', ''dirty''], vt_key = [''service'', ''version''],
     vt_rows = [(\<lambda>_. [])(''service'' := ''core'', ''version'' := ''1'', ''dirty'' := ''0'')]\<rparr>"

definition sample_migrations :: migration_env where
  "sample_migrations = \<lparr>stmt_fault = \<lambda>_. False, sql_open = \<lambda>_. True, migrate_driver = True, migrate_source = True, migrate_new = True,
     migrate_up = \<lambda>t. (UpNoChange, t)\<rparr>"

lemma sample_migrations_run:
  "result (EnsureMigrations sample_migrations (sample_db ''db'' 0)) \<lparr>versions = Some legacy_versions, stmts = 0\<rparr> = None"
  by (simp add: EnsureMigrations_def sample_migrations_def table_run legacy_versions_def key_unique_def)

theorem EnsureMigrations_prepares_witness:
  "\<exists>v. version_table_ok v \<and> version_rows (Some v) = [(''1'', ''0'')]"
  using EnsureMigrations_prepares [OF sample_migrations_run] by (auto simp: legacy_versions_def version_rows_def)

end
