(* ===== verification/Origin_Facts.thy ===== *)
theory Origin_Facts
  imports Startup
begin

text \<open>
  Proofs about the WebAuthn section of the configuration: an origin in its normal form is printed, parsed and normalised again to
  the same origin, and what the section is filled with.
\<close>

section \<open>Bytes of a host\<close>

text \<open>The bytes an escaped host consists of.\<close>

definition safe :: "char \<Rightarrow> bool" where
  "safe c \<longleftrightarrow> \<not> should_escape c \<or> c = CHR ''%''"

lemma unsafe_chars: "\<not> safe CHR ''/''" "\<not> safe CHR ''?''" "\<not> safe CHR ''#''" "\<not> safe CHR ''@''" "\<not> safe CHR '' ''"
  by code_simp+

lemma plain_chars: "\<not> should_escape CHR '':''" "\<not> should_escape CHR ''[''" "should_escape CHR ''%''"
  by code_simp+

lemma not_escaped_bytes: "\<not> should_escape c \<Longrightarrow> 33 \<le> byte c \<and> byte c < 127"
  by (auto simp: should_escape_def alnum_def is_lower_def is_upper_def is_digit_def)

lemma safe_bytes: "safe c \<Longrightarrow> 33 \<le> byte c \<and> byte c < 127"
  using not_escaped_bytes by (auto simp: safe_def)

lemma digit_plain: "is_digit c \<Longrightarrow> \<not> should_escape c"
  by (simp add: should_escape_def alnum_def)

lemma digit_not_upper: "is_digit c \<Longrightarrow> \<not> is_upper c"
  by (simp add: is_digit_def is_upper_def)

section \<open>Hexadecimal bytes\<close>

lemma hex_val_upper: "n < 16 \<Longrightarrow> hex_val (upper_char (hex_digit n)) = Some n"
  by (auto simp: hex_val_def hex_digit_def upper_char_def is_lower_def is_digit_def)

lemma upper_hex_alnum: "n < 16 \<Longrightarrow> \<not> should_escape (upper_char (hex_digit n))"
  by (auto simp: should_escape_def alnum_def hex_digit_def upper_char_def is_lower_def is_digit_def is_upper_def)

lemma hex_byte_halves: "byte c div 16 < 16" "byte c mod 16 < 16" "char_of (16 * (byte c div 16) + byte c mod 16) = c"
  using byte_less [of c] by (simp_all del: byte_less)

lemma escape_byte_safe: "list_all safe (escape_byte c)"
  using upper_hex_alnum hex_byte_halves [of c]
  by (auto simp: escape_byte_def safe_def ToUpper_def hex_byte_def)

lemma escape_host_safe: "list_all safe (escape_host s)"
  using escape_byte_safe by (fastforce simp: escape_host_def list_all_iff)

lemma escape_host_simps [simp]: "escape_host [] = []" "escape_host (s @ t) = escape_host s @ escape_host t"
  by (simp_all add: escape_host_def)

lemma escape_plain: "list_all (\<lambda>c. \<not> should_escape c) s \<Longrightarrow> escape_host s = s"
  by (induction s) (simp_all add: escape_host_def escape_byte_def)

lemma escape_host_Nil: "escape_host s = [] \<longleftrightarrow> s = []"
  by (cases s) (auto simp: escape_host_def escape_byte_def)

lemma escape_host_mem:
  assumes "\<not> should_escape c" and "c \<notin> set s" and "\<not> alnum c"
  shows "c \<notin> set (escape_host s)"
proof -
  have other: "c \<notin> set (escape_byte d)" if "d \<noteq> c" for d
    using that assms(1,3) upper_hex_alnum hex_byte_halves [of d]
    by (auto simp: escape_byte_def ToUpper_def hex_byte_def plain_chars hex_digit_def upper_char_def alnum_def is_digit_def is_lower_def is_upper_def split: if_splits)
  show ?thesis
  proof
    assume "c \<in> set (escape_host s)"
    then obtain d where d: "d \<in> set s" "c \<in> set (escape_byte d)" by (auto simp: escape_host_def)
    with other [of d] assms(2) show False by (cases "d = c") simp_all
  qed
qed

text \<open>What an escaped host is decoded to.\<close>

definition decoded :: "char \<Rightarrow> bool" where
  "decoded c \<longleftrightarrow> host_byte c \<or> c = CHR ''%''"

lemma unescape_escape:
  assumes "list_all decoded s"
  shows "unescape_host (escape_host s) = Some s"
  using assms
proof (induction s)
  case (Cons c s)
  have "128 \<le> byte c \<or> c = CHR ''%''" if "should_escape c"
    using Cons.prems that by (auto simp: decoded_def host_byte_def)
  moreover have "c \<noteq> CHR ''%''" if "\<not> should_escape c" using that plain_chars(3) by blast
  ultimately show ?case
    using Cons hex_byte_halves [of c]
    by (auto simp: escape_host_def escape_byte_def unescape_host_def ToUpper_def hex_byte_def hex_val_upper host_byte_def)
qed (simp add: unescape_host_def)

lemma unescape_set:
  assumes "unescape p q s = Some u" and "c \<in> set u"
  shows "p c \<or> q c \<and> c \<in> set s"
  using assms
proof (induction "length s" arbitrary: s u rule: less_induct)
  case less
  show ?case
  proof (cases s)
    case (Cons d t)
    show ?thesis
    proof (cases "d = CHR ''%''")
      case True
      then obtain a b r v z where t: "t = a # b # r" "p v" "unescape p q r = Some z" "u = v # z"
        using less.prems(1) Cons by (auto split: list.splits option.splits if_splits)
      then show ?thesis using less.hyps [of r z] less.prems(2) Cons by auto
    next
      case False
      then show ?thesis using less.hyps [of t] less.prems Cons by (auto split: if_splits)
    qed
  qed (use less.prems in simp)
qed

lemma map_append_Nil [simp]: "map_option (append []) x = x"
  by (cases x) simp_all

lemma unescape_append:
  assumes "t \<noteq> []" and "hex_val (hd t) = None"
  shows "unescape p q (a @ t) =
    (case unescape p q a of None \<Rightarrow> None | Some u \<Rightarrow> map_option (append u) (unescape p q t))"
proof (induction "length a" arbitrary: a rule: less_induct)
  case less
  show ?case
  proof (cases a)
    case (Cons d s)
    show ?thesis
    proof (cases "d = CHR ''%''")
      case False
      with Cons less.hyps [of s] show ?thesis
        by (cases "unescape p q t") (auto split: option.splits)
    next
      case True
      consider "s = []" | e where "s = [e]" | e f r where "s = e # f # r" by (metis list.exhaust)
      then show ?thesis
      proof cases
        case 1
        with Cons True assms show ?thesis by (cases t) (auto split: list.split)
      next
        case 2
        with Cons True assms show ?thesis by (cases t) (auto split: option.split)
      next
        case 3
        with Cons True less.hyps [of r] show ?thesis by (cases "unescape p q t") (auto split: option.splits)
      qed
    qed
  qed simp
qed

section \<open>Parsing a host again\<close>

lemma unescape_host_set:
  assumes "unescape_host s = Some u" and "c \<in> set u"
  shows "128 \<le> byte c \<or> c = CHR ''%'' \<or> host_byte c \<and> c \<in> set s"
  using unescape_set [of "\<lambda>c. 128 \<le> byte c \<or> c = CHR ''%''" host_byte s u c] assms by (simp add: unescape_host_def)

lemma unescape_host_decoded: "unescape_host s = Some u \<Longrightarrow> list_all decoded u"
  using unescape_host_set [of s u] by (auto simp: list_all_iff decoded_def host_byte_def)

lemma lower_char_plain: "\<not> alnum c \<Longrightarrow> lower_char d = c \<longleftrightarrow> d = c"
  by (auto simp: lower_char_def alnum_def is_lower_def is_upper_def)

lemma ToLower_mem: "\<not> alnum c \<Longrightarrow> c \<in> set (ToLower s) \<longleftrightarrow> c \<in> set s"
  unfolding ToLower_def set_map image_iff using lower_char_plain [of c] by metis

lemma ToLower_append [simp]: "ToLower (s @ t) = ToLower s @ ToLower t" "ToLower (c # s) = lower_char c # ToLower s"
  by (simp_all add: ToLower_def)

lemma ToLower_plain: "list_all (\<lambda>c. \<not> is_upper c) s \<Longrightarrow> ToLower s = s"
  by (induction s) (simp_all add: ToLower_def lower_char_def)

lemma ToLower_Nil [simp]: "ToLower s = [] \<longleftrightarrow> s = []" "ToLower [] = []"
  by (simp_all add: ToLower_def)

lemma decoded_lower_char: "decoded c \<Longrightarrow> decoded (lower_char c)"
proof (cases "is_upper c")
  case True
  then have "is_lower (lower_char c)" by (auto simp: lower_char_def is_upper_def is_lower_def)
  then show ?thesis by (simp add: decoded_def host_byte_def should_escape_def alnum_def)
qed (simp add: lower_char_def)

lemma decoded_lower: "list_all decoded s \<Longrightarrow> list_all decoded (ToLower s)"
  using decoded_lower_char by (auto simp: ToLower_def list_all_iff)

text \<open>A delimiter that does not occur in a host does not occur in its normal form.\<close>

definition delimiter :: "char \<Rightarrow> bool" where
  "delimiter c \<longleftrightarrow> \<not> alnum c \<and> \<not> should_escape c"

lemma delimiters: "delimiter CHR '':''" "delimiter CHR ''[''"
  by code_simp+

lemma delimiter_absent:
  assumes "delimiter c" and "c \<notin> set s" and "unescape_host s = Some u"
  shows "c \<notin> set (escape_host (ToLower u))"
proof -
  have "byte c < 128" using not_escaped_bytes [of c] assms(1) by (simp add: delimiter_def)
  moreover have "c \<noteq> CHR ''%''" using assms(1) plain_chars(3) by (auto simp: delimiter_def)
  ultimately have "c \<notin> set u"
    using unescape_host_set [OF assms(3), of c] assms(2) by auto
  then show ?thesis using assms(1) escape_host_mem [of c "ToLower u"] by (simp add: ToLower_mem delimiter_def)
qed

lemma last_index_Some:
  assumes "last_index c s = Some i"
  shows "s = take i s @ c # drop (Suc i) s \<and> c \<notin> set (drop (Suc i) s) \<and> i < length s"
  using assms
proof (induction s arbitrary: i)
  case (Cons x s)
  show ?case
  proof (cases "last_index c s")
    case None
    with Cons.prems show ?thesis using last_index_None [of c s] by (auto split: if_splits)
  next
    case (Some j)
    with Cons show ?thesis by auto
  qed
qed simp

lemma first_index_append: "c \<notin> set a \<Longrightarrow> first_index c (a @ c # t) = Some (length a)"
  by (induction a) auto

lemma first_index_take: "first_index c s = Some i \<Longrightarrow> c \<notin> set (take i s)"
  by (induction s arbitrary: i) (auto split: if_splits)

lemma parseHost_plain:
  assumes "parseHost scheme host = Some h" and "\<not> HasPrefix h ''[''"
  shows "CHR ''['' \<notin> set host \<and> unescape_host host = Some h \<and> (CHR '':'' \<notin> set host \<or>
    (\<exists>a t. host = a @ CHR '':'' # t \<and> list_all is_digit t \<and> (CHR '':'' \<notin> set a \<or> scheme \<noteq> ''http'' \<and> scheme \<noteq> ''https'')))"
proof (cases "last_index CHR ''['' host")
  case None
  show ?thesis
  proof (cases "last_index CHR '':'' host")
    case (Some i)
    note split = last_index_Some [OF Some]
    then have port: "drop i host = CHR '':'' # drop (Suc i) host"
      by (metis append_eq_conv_conj length_take min.absorb2 order.strict_implies_order)
    have "list_all is_digit (drop (Suc i) host)" "unescape_host host = Some h"
      "first_index CHR '':'' host = Some i \<or> scheme \<noteq> ''http'' \<and> scheme \<noteq> ''https''"
      using assms(1) None Some port by (auto simp: parseHost_def validOptionalPort_def split: if_splits)
    then show ?thesis
      using None split first_index_take [of "CHR '':''" host i] last_index_None [of "CHR ''[''" host] by metis
  next
    case none: None
    then show ?thesis using assms(1) None by (simp add: parseHost_def flip: last_index_None)
  qed
next
  case (Some i)
  with assms show ?thesis
    by (auto simp: parseHost_def HasPrefix_def Let_def split: nat.splits option.splits if_splits)
qed

lemma unescape_port: "list_all is_digit t \<Longrightarrow> unescape_host (CHR '':'' # t) = Some (CHR '':'' # t)"
proof -
  assume "list_all is_digit t"
  then have "unescape p host_byte t = Some t" for p
    by (induction t) (auto simp: host_byte_def digit_plain is_digit_def)
  then show ?thesis by (simp add: unescape_host_def host_byte_def plain_chars)
qed

lemma parseHost_again:
  assumes "parseHost scheme host = Some h" and "\<not> HasPrefix h ''[''"
  shows "parseHost scheme (escape_host (ToLower h)) = Some (ToLower h) \<and> list_all decoded (ToLower h)"
proof -
  note plain = parseHost_plain [OF assms]
  then have h: "unescape_host host = Some h" by blast
  have ok: "list_all decoded (ToLower h)" using unescape_host_decoded [OF h] decoded_lower by blast
  have bracket: "last_index CHR ''['' (escape_host (ToLower h)) = None"
    using delimiter_absent [OF delimiters(2) _ h] plain by (simp add: last_index_None)
  have again: "unescape_host (escape_host (ToLower h)) = Some (ToLower h)" using unescape_escape [OF ok] .
  consider "CHR '':'' \<notin> set host" | a t where "host = a @ CHR '':'' # t" and "list_all is_digit t"
      and "CHR '':'' \<notin> set a \<or> scheme \<noteq> ''http'' \<and> scheme \<noteq> ''https''"
    using plain by blast
  then have "parseHost scheme (escape_host (ToLower h)) = Some (ToLower h)"
  proof cases
    case 1
    then have "last_index CHR '':'' (escape_host (ToLower h)) = None"
      using delimiter_absent [OF delimiters(1) _ h] by (simp add: last_index_None)
    with bracket again show ?thesis by (simp add: parseHost_def)
  next
    case 2
    have "hex_val CHR '':'' = None" by code_simp
    then obtain u where u: "unescape_host a = Some u" "h = u @ CHR '':'' # t"
      using h unescape_port [OF 2(2)] unescape_append [of "CHR '':'' # t" _ host_byte a] 2(1)
      by (auto simp: unescape_host_def split: option.splits)
    have digits: "ToLower (CHR '':'' # t) = CHR '':'' # t" "escape_host (CHR '':'' # t) = CHR '':'' # t" "CHR '':'' \<notin> set t"
      using 2(2) digit_plain digit_not_upper plain_chars
      by (auto intro!: ToLower_plain escape_plain simp: list_all_iff simp del: ToLower_append) (auto simp: is_upper_def is_digit_def)
    then have e: "escape_host (ToLower h) = escape_host (ToLower u) @ CHR '':'' # t"
      using u(2) by (metis ToLower_append(1) escape_host_simps(2))
    have "CHR '':'' \<notin> set (escape_host (ToLower u)) \<or> scheme \<noteq> ''http'' \<and> scheme \<noteq> ''https''"
      using 2(3) delimiter_absent [OF delimiters(1) _ u(1)] by blast
    then show ?thesis
      using bracket again last_index_append [OF digits(3), of "escape_host (ToLower u)"] first_index_append [of "CHR '':''" "escape_host (ToLower u)" t] 2(2)
      by (auto simp: parseHost_def e validOptionalPort_def)
  qed
  with ok show ?thesis by blast
qed

section \<open>Parsing an origin again\<close>

text \<open>The scheme of a URL, after it was folded.\<close>

definition valid_scheme :: "string \<Rightarrow> bool" where
  "valid_scheme s \<longleftrightarrow> s \<noteq> [] \<and> list_all scheme_char s \<and> alnum (hd s) \<and> \<not> is_digit (hd s) \<and> list_all (\<lambda>c. \<not> is_upper c) s"

lemma lower_alnum: "alnum c \<Longrightarrow> alnum (lower_char c) \<and> (is_digit (lower_char c) \<longleftrightarrow> is_digit c)"
  by (auto simp: lower_char_def alnum_def is_upper_def is_lower_def is_digit_def)

lemma lower_scheme_char: "scheme_char c \<Longrightarrow> scheme_char (lower_char c)"
  using lower_alnum [of c] lower_char_plain [of c c] by (auto simp: scheme_char_def)

lemma getScheme_valid:
  assumes "getScheme raw = Some (s, rest)" and "s \<noteq> []"
  shows "valid_scheme (ToLower s)"
proof -
  let ?s = "takeWhile scheme_char raw"
  have "?s = s \<and> \<not> (s = [] \<or> is_digit (hd s) \<or> \<not> alnum (hd s) \<or> dropWhile scheme_char raw = [] \<or> hd (dropWhile scheme_char raw) \<noteq> CHR '':'')"
    using assms
    by (cases "raw \<noteq> [] \<and> hd raw = CHR '':''"; cases "?s = [] \<or> is_digit (hd ?s) \<or> \<not> alnum (hd ?s) \<or> dropWhile scheme_char raw = [] \<or> hd (dropWhile scheme_char raw) \<noteq> CHR '':''")
      (simp_all only: getScheme_def Let_def if_True if_False option.inject option.distinct prod.inject simp_thms)
  then have s: "\<not> is_digit (hd s)" "alnum (hd s)" "s = ?s" by blast+
  then have "list_all scheme_char s" unfolding list_all_iff by (metis set_takeWhileD)
  with s(1,2) assms(2) lower_scheme_char lower_alnum [of "hd s"] show ?thesis
    by (auto simp: valid_scheme_def ToLower_def list_all_iff hd_map)
qed

lemma getScheme_again:
  assumes "valid_scheme s"
  shows "getScheme (s @ CHR '':'' # rest) = Some (s, rest)"
proof -
  have colon: "\<not> scheme_char CHR '':''" by code_simp
  have "takeWhile scheme_char (s @ CHR '':'' # rest) = s" "dropWhile scheme_char (s @ CHR '':'' # rest) = CHR '':'' # rest"
    using assms colon by (simp_all add: valid_scheme_def list_all_iff takeWhile_append2 dropWhile_append2)
  moreover have "hd (s @ CHR '':'' # rest) \<noteq> CHR '':''"
    using assms colon by (cases s) (auto simp: valid_scheme_def)
  ultimately show ?thesis using assms by (simp add: getScheme_def valid_scheme_def)
qed

lemma scheme_char_safe: "scheme_char c \<Longrightarrow> safe c"
  by (auto simp: scheme_char_def safe_def should_escape_def)

lemma before_first_id: "c \<notin> set s \<Longrightarrow> before_first c s = s"
proof -
  assume "c \<notin> set s"
  then have "Cut c s = None" by (induction s) auto
  then show ?thesis by (simp add: before_first_def)
qed

lemma Cut_None: "c \<notin> set s \<Longrightarrow> Cut c s = None"
  by (induction s) auto

lemma parse_plain_scheme:
  assumes "parse_plain raw = Some u" and "u_Scheme u \<noteq> []" and "u_Host u \<noteq> []"
  shows "valid_scheme (u_Scheme u) \<and> (\<exists>host. parseHost (u_Scheme u) host = Some (u_Host u))"
proof -
  obtain s rest where s: "getScheme raw = Some (s, rest)" "parse_rest (ToLower s) (cut_query rest) = Some u"
    using assms by (auto simp: parse_plain_def split: if_splits option.splits prod.splits)
  have "u_Scheme u = ToLower s" "\<exists>authority. parseAuthority (ToLower s) authority = Some (u_Host u)"
    using s(2) assms(3) by (auto simp: parse_rest_def Let_def split: if_splits option.splits)
  moreover from this(1) have "s \<noteq> []" using assms(2) by auto
  ultimately show ?thesis
    using getScheme_valid [OF s(1)] by (auto simp: parseAuthority_def split: option.splits if_splits)
qed

lemma url_Parse_parts:
  assumes "url_Parse raw = Some u" and "u_Scheme u \<noteq> []" and "u_Host u \<noteq> []"
  shows "valid_scheme (u_Scheme u) \<and> (\<exists>host. parseHost (u_Scheme u) host = Some (u_Host u))"
  using assms parse_plain_scheme by (auto simp: url_Parse_def split: option.splits prod.splits if_splits)

definition origin_text :: "string \<Rightarrow> string \<Rightarrow> string" where
  "origin_text scheme host = scheme @ ''://'' @ escape_host host"

lemma origin_safe: "valid_scheme s \<Longrightarrow> c \<in> set (origin_text s h) \<Longrightarrow> safe c \<or> c = CHR ''/''"
  using escape_host_safe [of h] scheme_char_safe plain_chars(1)
  by (auto simp: origin_text_def valid_scheme_def list_all_iff safe_def)

lemma origin_parsed:
  assumes "valid_scheme s" and "h \<noteq> []" and "parseHost s (escape_host h) = Some h"
  shows "url_Parse (origin_text s h) = Some \<lparr>u_Scheme = s, u_Host = h\<rparr>"
proof -
  let ?o = "origin_text s h"
  have chars: "CHR ''#'' \<notin> set ?o" "CHR ''?'' \<notin> set ?o" "\<not> list_ex ctl_byte ?o" "?o \<noteq> ''*''"
  proof -
    show "CHR ''#'' \<notin> set ?o" "CHR ''?'' \<notin> set ?o" using origin_safe [OF assms(1)] unsafe_chars by fastforce+
    have "\<not> ctl_byte c" if "safe c" for c using safe_bytes [OF that] by (simp add: ctl_byte_def)
    then show "\<not> list_ex ctl_byte ?o" using origin_safe [OF assms(1), of _ h] by (fastforce simp: list_ex_iff ctl_byte_def)
    show "?o \<noteq> ''*''" by (auto simp: origin_text_def append_eq_Cons_conv)
  qed
  have e: "CHR ''/'' \<notin> set (escape_host h)" "CHR ''@'' \<notin> set (escape_host h)" "CHR ''?'' \<notin> set (escape_host h)"
    using escape_host_safe [of h] unsafe_chars by (auto simp: list_all_iff)
  have lower: "ToLower s = s" using assms(1) by (simp add: valid_scheme_def ToLower_plain)
  have scheme: "getScheme ?o = Some (s, ''//'' @ escape_host h)"
    using getScheme_again [OF assms(1), of "''//'' @ escape_host h"] by (simp add: origin_text_def)
  have query: "cut_query (''//'' @ escape_host h) = ''//'' @ escape_host h"
    using e by (simp add: cut_query_def before_first_id)
  have authority: "parseAuthority s (escape_host h) = Some h"
    using assms(3) e by (simp add: parseAuthority_def last_index_None [THEN iffD2])
  have "parse_rest s (''//'' @ escape_host h) = Some \<lparr>u_Scheme = s, u_Host = h\<rparr>"
    using assms(1) e authority by (simp add: parse_rest_def HasPrefix_def before_first_id valid_scheme_def escapes_ok_def)
  then show ?thesis
    using chars scheme query lower by (simp add: url_Parse_def Cut_None parse_plain_def)
qed

lemma no_space_bytes:
  assumes "\<And>c. c \<in> set s \<Longrightarrow> 33 \<le> byte c \<and> byte c < 127"
  shows "TrimSpace s = s"
proof (rule TrimSpace_id)
  have no: "\<not> space1 c" "\<not> space2 c d" "\<not> space2 d c" "\<not> space3 c d e" "\<not> space3 e d c" if "c \<in> set s" for c d e
    using assms [OF that] by (auto simp: space1_def space2_def space3_def)
  then show "drop_space s = None"
    by (auto simp: drop_space_def split: list.split)
  have "set (rev s) = set s" by simp
  then show "drop_space_rev (rev s) = None"
    using no by (auto simp: drop_space_rev_def split: list.split)
qed

lemma origin_trim: "valid_scheme s \<Longrightarrow> TrimSpace (origin_text s h) = origin_text s h"
  using origin_safe safe_bytes by (intro no_space_bytes) fastforce

lemma normalize_url:
  assumes "url_Parse (TrimSpace raw) = Some u" and "u_Scheme u \<noteq> []" and "u_Host u \<noteq> []"
  shows "normalizeWebAuthnOrigin raw = origin_text (u_Scheme u) (ToLower (u_Host u))"
proof -
  have "ToLower (u_Scheme u) = u_Scheme u"
    using url_Parse_parts [OF assms] by (simp add: valid_scheme_def ToLower_plain)
  moreover have "TrimSpace raw \<noteq> []" using assms(1,2) by (auto simp: url_Parse_def parse_plain_def getScheme_def parse_rest_def HasPrefix_def before_first_def escapes_ok_def cut_query_def)
  ultimately show ?thesis
    using assms by (simp add: normalizeWebAuthnOrigin_def url_String_def origin_text_def)
qed

section \<open>Properties\<close>

text \<open>
  C33: An origin is kept in one normal form: for a URL with a scheme and a named host, the normal form is the scheme, the host in lower case
  and the port, without user, path, query and fragment; it parses to just these, and normalising it again changes nothing.
\<close>

theorem origin_normal_form:
  assumes "url_Parse (TrimSpace raw) = Some u" and "u_Scheme u \<noteq> []" and "u_Host u \<noteq> []" and "\<not> HasPrefix (u_Host u) ''[''"
  shows "let o1 = normalizeWebAuthnOrigin raw in
    url_Parse o1 = Some \<lparr>u_Scheme = u_Scheme u, u_Host = ToLower (u_Host u)\<rparr> \<and> normalizeWebAuthnOrigin o1 = o1"
proof -
  let ?s = "u_Scheme u" and ?h = "ToLower (u_Host u)"
  obtain host where valid: "valid_scheme ?s" and host: "parseHost ?s host = Some (u_Host u)"
    using url_Parse_parts [OF assms(1-3)] by blast
  have o1: "normalizeWebAuthnOrigin raw = origin_text ?s ?h" using normalize_url [OF assms(1-3)] .
  have parsed: "url_Parse (origin_text ?s ?h) = Some \<lparr>u_Scheme = ?s, u_Host = ?h\<rparr>"
    using origin_parsed [OF valid _ conjunct1 [OF parseHost_again [OF host assms(4)]]] assms(3) by simp
  then have "normalizeWebAuthnOrigin (origin_text ?s ?h) = origin_text ?s ?h"
    using normalize_url [of "origin_text ?s ?h"] assms(2,3) origin_trim [OF valid] by simp
  with o1 parsed show ?thesis by simp
qed

theorem origin_normal_form_witness:
  "normalizeWebAuthnOrigin '' HTTPS://Me:pw@Auth.Example.org:8443/login?x#y '' = ''https://auth.example.org:8443'' \<and>
   normalizeWebAuthnOrigin ''https://auth.example.org:8443'' = ''https://auth.example.org:8443''"
proof -
  have p: "url_Parse (TrimSpace '' HTTPS://Me:pw@Auth.Example.org:8443/login?x#y '') = Some \<lparr>u_Scheme = ''https'', u_Host = ''Auth.Example.org:8443''\<rparr>"
    by code_simp
  have o1: "normalizeWebAuthnOrigin '' HTTPS://Me:pw@Auth.Example.org:8443/login?x#y '' = ''https://auth.example.org:8443''"
    by code_simp
  from origin_normal_form [OF p] o1 show ?thesis by (simp add: HasPrefix_def Let_def)
qed

text \<open>The loop over the origins collects them without repetition.\<close>

lemma normalize_origins_set:
  "distinct out \<Longrightarrow> [] \<notin> set out \<Longrightarrow> distinct (normalize_origins out l) \<and> [] \<notin> set (normalize_origins out l) \<and>
     set (normalize_origins out l) = set out \<union> (normalizeWebAuthnOrigin ` set l - {[]})"
proof (induction out l rule: normalize_origins.induct)
  case (2 out origin origins)
  then show ?case by (cases "normalizeWebAuthnOrigin origin = [] \<or> normalizeWebAuthnOrigin origin \<in> set out") (auto simp: Let_def)
qed simp

lemma derived_id: "deriveWebAuthnRPID l = [] \<or> (\<exists>p \<in> set l. map_option url_Hostname (url_Parse p) = Some (deriveWebAuthnRPID l))"
  by (induction l rule: deriveWebAuthnRPID.induct) (auto split: option.splits)


end
