(* ===== verification/Answers.thy ===== *)
theory Answers
  imports Server Totp
begin

text \<open>
  What the endpoints answer. The constants of controllers/api_response.go are the codes an error may carry; every endpoint is
  followed through all of its branches, whatever statements, commands, files and services fail, to see that it keeps to them.
\<close>

section \<open>The codes\<close>

definition error_codes :: "(string \<times> string) list" where
  "error_codes = [
     (''CodeInvalidJSONBody'', ''invalid_json_body''), (''CodeInvalidRequest'', ''invalid_request''),
     (''CodeInvalidEmail'', ''invalid_email''), (''CodeInvalidCredentials'', ''invalid_credentials''),
     (''CodeInvalidManageToken'', ''invalid_manage_token''), (''CodeInvalidMojangUUID'', ''invalid_mojang_uuid''),
     (''CodeMojangUUIDRequired'', ''mojang_uuid_required_for_existing_user''), (''CodeCaptchaDisabled'', ''captcha_disabled''),
     (''CodeCaptchaInvalid'', ''captcha_invalid''), (''CodeManageTargetRequired'', ''manage_target_required''),
     (''CodeUserNotFound'', ''user_not_found''), (''CodeTargetNotFound'', ''target_not_found''),
     (''CodeNoMojangUUID'', ''no_mojang_uuid''), (''CodeUserNotClaimable'', ''user_not_claimable''),
     (''CodeUsernameTooShort'', ''username_too_short''), (''CodePasswordTooShort'', ''password_too_short''),
     (''CodeUsernameAlreadyTaken'', ''username_already_taken''), (''CodeEmailAlreadyRegistered'', ''email_already_registered''),
     (''CodeUsernameAlreadyBound'', ''username_already_bound''), (''CodeTextureTypeInvalid'', ''invalid_texture_type''),
     (''CodeTextureFileRequired'', ''texture_file_required''), (''CodeTextureUploadFailed'', ''texture_upload_failed''),
     (''CodeTextureDeleteFailed'', ''texture_delete_failed''), (''CodeTextureReadFailed'', ''texture_read_failed''),
     (''CodeTextureFetchFailed'', ''texture_fetch_failed''), (''CodeProfileNotFound'', ''profile_not_found''),
     (''CodeProfileAccessDenied'', ''profile_access_denied''), (''CodeProfileNameInvalid'', ''invalid_profile_name''),
     (''CodeUsernameInvalid'', ''invalid_username''), (''CodeUsernameConflict'', ''username_conflict''),
     (''CodeProfileNameConflict'', ''profile_name_conflict''), (''CodeVerificationCodeAlreadySent'', ''verification_code_already_sent''),
     (''CodeVerificationCodeExpired'', ''verification_code_expired_or_missing''), (''CodeVerificationCodeInvalid'', ''verification_code_invalid''),
     (''CodeEmailSendFailed'', ''email_send_failed''), (''CodeVerificationStatusUpdateFailed'', ''verification_status_update_failed''),
     (''CodeTOTPSecretRequired'', ''totp_secret_required''), (''CodeTOTPNotConfigured'', ''totp_not_configured''),
     (''CodePasscodeInvalid'', ''invalid_passcode''), (''CodeWebAuthnNotConfigured'', ''webauthn_not_configured''),
     (''CodeEmail2FANotConfigured'', ''email_2fa_not_configured''), (''CodeInvalidWebAuthnFlow'', ''invalid_webauthn_flow''),
     (''CodeWebAuthnCredentialNotFound'', ''webauthn_credential_not_found''), (''CodeWebAuthnVerificationFailed'', ''webauthn_verification_failed''),
     (''CodeRecoveryKeyAlreadyConfigured'', ''recovery_key_already_configured''), (''CodeRecoveryKeyNotConfigured'', ''recovery_key_not_configured''),
     (''CodeKeygenDisabled'', ''keygen_disabled''), (''CodeKeygenFailed'', ''keygen_failed''),
     (''CodeOAuthInvalidClient'', ''oauth_invalid_client''), (''CodeOAuthInvalidGrant'', ''oauth_invalid_grant''),
     (''CodeOAuthInvalidScope'', ''oauth_invalid_scope''), (''CodeOAuthUnauthorizedClient'', ''oauth_unauthorized_client''),
     (''CodeOAuthInvalidRedirectURI'', ''oauth_invalid_redirect_uri''), (''CodeOAuthUnsupportedGrantType'', ''oauth_unsupported_grant_type''),
     (''CodeOAuthInvalidCodeChallenge'', ''oauth_invalid_code_challenge''), (''CodeOAuthInsufficientScope'', ''oauth_insufficient_scope''),
     (''CodeOAuthAccessDenied'', ''oauth_access_denied''), (''CodeOAuthInvalidClientMetadata'', ''invalid_client_metadata''),
     (''CodeOAuthLoginRequired'', ''oauth_login_required''), (''CodeLoginTicketRequired'', ''login_ticket_required''),
     (''CodeInvalidLoginTicket'', ''invalid_login_ticket''), (''CodeEndpointDeprecated'', ''endpoint_deprecated''),
     (''CodeServiceNotRegistered'', ''service_not_registered''), (''CodeRelayFailed'', ''relay_failed''),
     (''CodeRelayNotFound'', ''relay_not_found''), (''CodeSDKNotFound'', ''sdk_not_found''),
     (''CodeInsufficientAuthLevel'', ''insufficient_auth_level''), (''CodeHookDenied'', ''hook_denied''),
     (''CodeHookFailed'', ''hook_failed''), (''CodeSdkPackageConflict'', ''sdk_package_conflict''),
     (''CodeSdkPackageNotFound'', ''sdk_package_not_found''), (''CodeSdkPackageInvalid'', ''sdk_package_invalid''),
     (''CodeSdkPackageInvalidManifest'', ''sdk_package_invalid_manifest''), (''CodeSdkPackageInvalidPath'', ''sdk_package_invalid_path''),
     (''CodeSdkPackageTooLarge'', ''sdk_package_too_large''), (''CodeInternalError'', ''internal_error'')]"

definition error_code :: "string \<Rightarrow> bool" where
  "error_code c \<longleftrightarrow> c \<in> set (map snd error_codes)"

lemma known_codes [simp]:
  "error_code ''captcha_disabled''" "error_code ''captcha_invalid''" "error_code ''email_2fa_not_configured''" "error_code ''email_already_registered''"
  "error_code ''email_send_failed''" "error_code ''hook_denied''" "error_code ''hook_failed''" "error_code ''insufficient_auth_level''"
  "error_code ''internal_error''" "error_code ''invalid_client_metadata''" "error_code ''invalid_credentials''" "error_code ''invalid_email''"
  "error_code ''invalid_json_body''" "error_code ''invalid_login_ticket''" "error_code ''invalid_passcode''" "error_code ''invalid_request''"
  "error_code ''invalid_username''" "error_code ''invalid_webauthn_flow''" "error_code ''login_ticket_required''" "error_code ''manage_target_required''"
  "error_code ''oauth_access_denied''" "error_code ''oauth_insufficient_scope''" "error_code ''oauth_invalid_client''" "error_code ''oauth_invalid_code_challenge''"
  "error_code ''oauth_invalid_grant''" "error_code ''oauth_invalid_redirect_uri''" "error_code ''oauth_invalid_scope''" "error_code ''oauth_login_required''"
  "error_code ''oauth_unauthorized_client''" "error_code ''oauth_unsupported_grant_type''" "error_code ''password_too_short''" "error_code ''recovery_key_already_configured''"
  "error_code ''recovery_key_not_configured''" "error_code ''relay_failed''" "error_code ''relay_not_found''" "error_code ''sdk_package_conflict''"
  "error_code ''sdk_package_invalid''" "error_code ''sdk_package_invalid_manifest''" "error_code ''sdk_package_invalid_path''" "error_code ''sdk_package_not_found''"
  "error_code ''sdk_package_too_large''" "error_code ''service_not_registered''" "error_code ''totp_not_configured''" "error_code ''totp_secret_required''"
  "error_code ''user_not_found''" "error_code ''username_already_bound''" "error_code ''username_already_taken''" "error_code ''username_conflict''"
  "error_code ''username_too_short''" "error_code ''verification_code_already_sent''" "error_code ''verification_code_expired_or_missing''" "error_code ''verification_code_invalid''"
  "error_code ''verification_status_update_failed''" "error_code ''webauthn_credential_not_found''" "error_code ''webauthn_not_configured''" "error_code ''webauthn_verification_failed''"
  by code_simp+

section \<open>Answers\<close>

text \<open>
  A well-formed answer to a request: an envelope of success, an error with a client or server status and a known code, raw data, or
  the empty answer for data that has not changed.
\<close>

definition well_answered :: "request \<Rightarrow> response \<Rightarrow> bool" where
  "well_answered rq r \<longleftrightarrow> (\<exists>m d. r = respondOK rq m d) \<or> (\<exists>m d. r = respondCreated rq m d) \<or>
     (\<exists>s c m. r = respondError rq s c m \<and> 400 \<le> s \<and> s < 600 \<and> error_code c) \<or> (\<exists>t b. r = Data 200 t b) \<or> r = Data 304 [] []"

definition stops_well :: "request \<Rightarrow> response + 'a \<Rightarrow> bool" where
  "stops_well rq r \<longleftrightarrow> (case r of Inl resp \<Rightarrow> well_answered rq resp | Inr _ \<Rightarrow> True)"

definition answers :: "('a \<Rightarrow> bool) \<Rightarrow> 'a go \<Rightarrow> bool" where
  "answers P m \<longleftrightarrow> (\<forall>w. P (result m w))"

named_theorems answer_intros \<open>rules that follow a handler to its answers\<close>

lemma answers_ret [answer_intros]: "P x \<Longrightarrow> answers P (ret x)"
  by (simp add: answers_def)

lemma answers_bind [answer_intros]: "(\<And>x. answers P (f x)) \<Longrightarrow> answers P (State_Monad.bind m f)"
  by (simp add: answers_def)

lemma answers_bind_known: "answers Q m \<Longrightarrow> (\<And>x. Q x \<Longrightarrow> answers P (f x)) \<Longrightarrow> answers P (State_Monad.bind m f)"
  by (simp add: answers_def)

lemma answers_if [answer_intros]: "answers P m \<Longrightarrow> answers P n \<Longrightarrow> answers P (if b then m else n)"
  by simp

lemma answers_Let [answer_intros]: "answers P (f x) \<Longrightarrow> answers P (Let x f)"
  by simp

lemma answers_case_sum [answer_intros]:
  "(\<And>a. answers P (f a)) \<Longrightarrow> (\<And>b. answers P (g b)) \<Longrightarrow> answers P (case x of Inl a \<Rightarrow> f a | Inr b \<Rightarrow> g b)"
  by (simp split: sum.split)

lemma answers_case_option [answer_intros]:
  "answers P f \<Longrightarrow> (\<And>b. answers P (g b)) \<Longrightarrow> answers P (case x of None \<Rightarrow> f | Some b \<Rightarrow> g b)"
  by (simp split: option.split)

lemma answers_case_prod [answer_intros]: "(\<And>a b. answers P (f a b)) \<Longrightarrow> answers P (case x of (a, b) \<Rightarrow> f a b)"
  by (simp split: prod.split)

lemma answers_case_list [answer_intros]:
  "answers P f \<Longrightarrow> (\<And>a l. answers P (g a l)) \<Longrightarrow> answers P (case x of [] \<Rightarrow> f | a # l \<Rightarrow> g a l)"
  by (simp split: list.split)

lemma answers_case_bool [answer_intros]: "answers P f \<Longrightarrow> answers P g \<Longrightarrow> answers P (case x of True \<Rightarrow> f | False \<Rightarrow> g)"
  by (simp split: bool.split)

lemma stops_well_simps [simp]: "stops_well rq (Inl r) \<longleftrightarrow> well_answered rq r" "stops_well rq (Inr x)"
  by (simp_all add: stops_well_def)

lemma answers_continue [answer_intros]:
  "answers (stops_well rq) m \<Longrightarrow> (\<And>x. answers (well_answered rq) (f x)) \<Longrightarrow> answers (well_answered rq) (continue_with m f)"
  by (auto simp: answers_def stops_well_def split: sum.splits)

lemma answers_next [answer_intros]:
  "answers (stops_well rq) m \<Longrightarrow> (\<And>x. answers (stops_well rq) (f x)) \<Longrightarrow> answers (stops_well rq) (next_step m f)"
  unfolding next_step_def
proof (rule answers_bind_known)
  show "answers (stops_well rq) m \<Longrightarrow> answers (stops_well rq) m" .
  show "(\<And>x. answers (stops_well rq) (f x)) \<Longrightarrow> stops_well rq x \<Longrightarrow>
      answers (stops_well rq) (case x of Inl resp \<Rightarrow> ret (Inl resp) | Inr y \<Rightarrow> f y)" for x
    by (cases x) (simp_all add: answers_def)
qed

text \<open>The answers themselves.\<close>

lemma well_error [answer_intros]: "400 \<le> s \<Longrightarrow> s < 600 \<Longrightarrow> error_code c \<Longrightarrow> well_answered rq (respondError rq s c m)"
  unfolding well_answered_def by blast

lemma well_success [answer_intros]: "well_answered rq (respondOK rq m d)" "well_answered rq (respondCreated rq m d)"
    "well_answered rq (Data 200 t b)" "well_answered rq (Data 304 [] [])"
  by (auto simp: well_answered_def)

lemma well_if [answer_intros]: "well_answered rq r \<Longrightarrow> well_answered rq s \<Longrightarrow> well_answered rq (if b then r else s)"
  by simp

lemma well_Let [answer_intros]: "well_answered rq (f x) \<Longrightarrow> well_answered rq (Let x f)"
  by simp

lemma well_case_sum [answer_intros]:
  "(\<And>a. well_answered rq (f a)) \<Longrightarrow> (\<And>b. well_answered rq (g b)) \<Longrightarrow> well_answered rq (case x of Inl a \<Rightarrow> f a | Inr b \<Rightarrow> g b)"
  by (simp split: sum.split)

lemma well_case_option [answer_intros]:
  "well_answered rq f \<Longrightarrow> (\<And>b. well_answered rq (g b)) \<Longrightarrow> well_answered rq (case x of None \<Rightarrow> f | Some b \<Rightarrow> g b)"
  by (simp split: option.split)

lemma well_case_prod [answer_intros]: "(\<And>a b. well_answered rq (f a b)) \<Longrightarrow> well_answered rq (case x of (a, b) \<Rightarrow> f a b)"
  by (simp split: prod.split)

lemma well_case_bool [answer_intros]: "well_answered rq f \<Longrightarrow> well_answered rq g \<Longrightarrow> well_answered rq (case x of True \<Rightarrow> f | False \<Rightarrow> g)"
  by (simp split: bool.split)

lemma stops_Inl [answer_intros]: "well_answered rq r \<Longrightarrow> stops_well rq (Inl r)"
  by (simp add: stops_well_def)

lemma stops_Inr [answer_intros]: "stops_well rq (Inr x)"
  by (simp add: stops_well_def)

lemma stops_if [answer_intros]: "stops_well rq r \<Longrightarrow> stops_well rq s \<Longrightarrow> stops_well rq (if b then r else s)"
  by simp

lemma stops_Let [answer_intros]: "stops_well rq (f x) \<Longrightarrow> stops_well rq (Let x f)"
  by simp

lemma stops_case_sum [answer_intros]:
  "(\<And>a. stops_well rq (f a)) \<Longrightarrow> (\<And>b. stops_well rq (g b)) \<Longrightarrow> stops_well rq (case x of Inl a \<Rightarrow> f a | Inr b \<Rightarrow> g b)"
  by (simp split: sum.split)

lemma stops_case_option [answer_intros]:
  "stops_well rq f \<Longrightarrow> (\<And>b. stops_well rq (g b)) \<Longrightarrow> stops_well rq (case x of None \<Rightarrow> f | Some b \<Rightarrow> g b)"
  by (simp split: option.split)

lemma stops_case_prod [answer_intros]: "(\<And>a b. stops_well rq (f a b)) \<Longrightarrow> stops_well rq (case x of (a, b) \<Rightarrow> f a b)"
  by (simp split: prod.split)

section \<open>Shared steps\<close>

lemma well_oauth_error [answer_intros]: "well_answered rq (respondOAuthError rq e)"
proof (cases e)
  case (OAuth x)
  then show ?thesis by (cases x) (auto simp: respondOAuthError_def intro: answer_intros)
qed (auto simp: respondOAuthError_def intro: answer_intros)

lemma well_webauthn_error [answer_intros]: "well_answered rq (respondWebAuthnError E rq n e)"
  by (auto simp: respondWebAuthnError_def intro!: answer_intros split: go_error.split webauthn_error.split db_error.split)

lemma well_upload_error [answer_intros]: "well_answered rq (classifyUploadError rq e)"
  by (auto simp: classifyUploadError_def intro!: answer_intros split: upload_error.split)

lemma or_errors [answer_intros]: "answers (stops_well rq) (or_oauth_error rq m)" "answers (stops_well rq) (or_webauthn_error E rq n)"
  unfolding or_oauth_error_def or_webauthn_error_def by (intro answer_intros)+

lemma RequireAuthLevel_answers [answer_intros]: "answers (stops_well rq) (RequireAuthLevel E rq l)"
  unfolding RequireAuthLevel_def by (intro answer_intros) simp_all

lemma resolveSiteBearerAuth_answers [answer_intros]: "answers (stops_well rq) (resolveSiteBearerAuth E rq s1 s2 b u e)"
  unfolding resolveSiteBearerAuth_def by (intro answer_intros) simp_all

lemma issue_answers [answer_intros]: "answers (well_answered rq) (issueAndRespondFirstPartyUserTokens E rq u m x)"
  unfolding issueAndRespondFirstPartyUserTokens_def by (intro answer_intros) simp_all

lemma hook_answers [answer_intros]: "answers (stops_well rq) (hook_Run E rq phase payload)"
proof -
  have run: "answers (stops_well rq) (runRule E rq r p)" for r p
    unfolding runRule_def on_failure_def hook_failed_def hook_denied_def by (intro answer_intros) simp_all
  have "answers (stops_well rq) (run_rules E rq rs p)" for rs p
    by (induction rs arbitrary: p) (auto intro!: answer_intros run)
  then show ?thesis unfolding hook_Run_def by (intro answer_intros)
qed

lemma well_conflict [answer_intros]:
  "well_answered rq x \<Longrightarrow> well_answered rq y \<Longrightarrow> well_answered rq (case e of OAuth RegistrationConflict \<Rightarrow> x | _ \<Rightarrow> y)"
  by (cases e) (auto split: oauth_error.split)

lemma well_case_username [answer_intros]:
  "well_answered rq x \<Longrightarrow> well_answered rq y \<Longrightarrow> (\<And>e. well_answered rq (f e)) \<Longrightarrow>
   well_answered rq (case a of UsernameUserNotFound \<Rightarrow> x | UsernameExists \<Rightarrow> y | UsernameOther e \<Rightarrow> f e)"
  by (cases a) simp_all

lemma well_case_sdk [answer_intros]:
  "well_answered rq x \<Longrightarrow> well_answered rq y \<Longrightarrow> well_answered rq z \<Longrightarrow> (\<And>e. well_answered rq (f e)) \<Longrightarrow>
   well_answered rq (case a of SdkConflict \<Rightarrow> x | SdkTooLarge \<Rightarrow> y | SdkTooMany \<Rightarrow> z | SdkOther e \<Rightarrow> f e)"
  by (cases a) simp_all

section \<open>The endpoints\<close>

lemma oauth_answers [answer_intros]:
  "answers (well_answered rq) (Authorize E rq)" "answers (well_answered rq) (LoginTicket E rq b1)"
  "answers (well_answered rq) (AuthorizeDecision E rq b2)" "answers (well_answered rq) (Token E rq b3)"
  "answers (well_answered rq) (Revoke E rq b4)" "answers (well_answered rq) (RegisterClient E rq b5)"
  unfolding Authorize_def LoginTicket_def login_account_def finish_login_def issue_ticket_def bad_login_def hook_denied_def AuthorizeDecision_def
    grant_code_def Token_def grant_tokens_def respondTokenPair_def Revoke_def RegisterClient_def register_for_def
  by (intro answer_intros; simp)+

lemma account_answers [answer_intros]:
  "answers (well_answered rq) (GetUser E rq b1)"
  "answers (well_answered rq) (LookupUser E rq b2)"
  "answers (well_answered rq) (DeleteAccount E rq b3)"
  "answers (well_answered rq) (ListDeletedAccounts E rq)"
  "answers (well_answered rq) (GetUserInfoInternal E rq p)"
  "answers (well_answered rq) (ChangeUsername E rq b4)"
  unfolding GetUser_def LookupUser_def DeleteAccount_def ListDeletedAccounts_def GetUserInfoInternal_def ChangeUsername_def
  by (intro answer_intros; simp)+

lemma register_answers [answer_intros]:
  "answers (well_answered rq) (VerifyToken E rq b1)"
  "answers (well_answered rq) (ClaimUserInternal E rq b2)"
  "answers (well_answered rq) (Register E rq b3)"
  "answers (well_answered rq) (Logout E rq)"
  "answers (well_answered rq) (ForgotPassword E rq b4)"
  "answers (well_answered rq) (ResetPassword E rq b5)"
  unfolding VerifyToken_def ClaimUserInternal_def claim_checked_def create_user_def Register_def register_captcha_def captcha_refused_def create_account_def Logout_def ForgotPassword_def forgot_answer_def mail_reset_code_def ResetPassword_def set_password_def bad_code_def
  by (intro answer_intros; simp)+

lemma captcha_answers [answer_intros]:
  "answers (well_answered rq) (captcha_endpoint_Status E rq)"
  "answers (well_answered rq) (captcha_endpoint_Generate E rq)"
  "answers (well_answered rq) (captcha_endpoint_Image E rq p)"
  unfolding captcha_endpoint_Status_def captcha_endpoint_Generate_def captcha_endpoint_Image_def
  by (intro answer_intros; simp)+

lemma ticket_answers [answer_intros]:
  "answers (well_answered rq) (redeem_ticket E rq t u m)"
  "answers (well_answered rq) (mail_code E rq a s f m)"
  unfolding redeem_ticket_def mail_code_def
  by (intro answer_intros; simp)+

lemma with_ticket_answers [answer_intros]:
  "(\<And>u. answers (well_answered rq) (f u)) \<Longrightarrow> answers (well_answered rq) (with_ticket E rq t f)"
  unfolding with_ticket_def by (intro answer_intros; simp)

lemma factor_answers [answer_intros]:
  "answers (well_answered rq) (SetupTOTP E rq b1)"
  "answers (well_answered rq) (VerifyTOTP E rq b2)"
  "answers (well_answered rq) (totp_Toggle2FA E rq b3)"
  "answers (well_answered rq) (email2fa_SendCode E rq b4)"
  "answers (well_answered rq) (email2fa_VerifyCode E rq b5)"
  "answers (well_answered rq) (email2fa_Toggle E rq b6)"
  "answers (well_answered rq) (email_Handle E rq b7)"
  unfolding SetupTOTP_def VerifyTOTP_def totp_Toggle2FA_def email2fa_SendCode_def email2fa_VerifyCode_def email2fa_Toggle_def no_mail_user_def bad_body_def email_Handle_def sendTestEmail_def sendVerificationCode_def verifyCode_def update_account_def
  by (intro answer_intros; simp)+

lemma security_answers [answer_intros]:
  "answers (well_answered rq) (SendChangeEmailCode E rq)"
  "answers (well_answered rq) (BeginWebAuthnSudo E rq)"
  "answers (well_answered rq) (ChangeEmail E rq b1)"
  "answers (well_answered rq) (CreateRecoveryKey E rq)"
  "answers (well_answered rq) (RegenerateRecoveryKey E rq b2)"
  "answers (well_answered rq) (RevokeRecoveryKey E rq b2)"
  "answers (well_answered rq) (VerifyRecoveryKey E rq b3)"
  "answers (well_answered rq) (GetTwoFactorStatus E rq b4)"
  unfolding SendChangeEmailCode_def BeginWebAuthnSudo_def flow_started_def manage_auth_def ChangeEmail_def store_email_def verifyAnyFactor_def check_totp_def check_email_def check_webauthn_def check_recovery_def CreateRecoveryKey_def new_recovery_key_def RegenerateRecoveryKey_def with_factor_def RevokeRecoveryKey_def VerifyRecoveryKey_def GetTwoFactorStatus_def bad_body_def
  by (intro answer_intros; simp)+

lemma webauthn_answers [answer_intros]:
  "answers (well_answered rq) (endpoint_BeginRegistration E rq b1)"
  "answers (well_answered rq) (endpoint_FinishRegistration E rq b2)"
  "answers (well_answered rq) (endpoint_ListCredentials E rq)"
  "answers (well_answered rq) (endpoint_DeleteCredential E rq p)"
  "answers (well_answered rq) (endpoint_Toggle2FA E rq b3)"
  "answers (well_answered rq) (endpoint_BeginLogin E rq b4)"
  "answers (well_answered rq) (endpoint_FinishLogin E rq b2)"
  "answers (well_answered rq) (endpoint_BeginSecondFactor E rq b5)"
  "answers (well_answered rq) (endpoint_FinishSecondFactor E rq b2)"
  unfolding endpoint_BeginRegistration_def endpoint_FinishRegistration_def endpoint_ListCredentials_def endpoint_DeleteCredential_def endpoint_Toggle2FA_def endpoint_BeginLogin_def endpoint_FinishLogin_def endpoint_BeginSecondFactor_def endpoint_FinishSecondFactor_def missing_fields_def bad_ticket_def flow_started_def bad_body_def manage_auth_def
  by (intro answer_intros; simp)+

lemma service_answers [answer_intros]:
  "answers (well_answered rq) (Bonjour E rq b1)"
  "answers (well_answered rq) (AuthKey E rq b2)"
  "answers (well_answered rq) (relay_Register E rq b3)"
  "answers (well_answered rq) (relay_DeleteRule E rq b4)"
  "answers (well_answered rq) (relay_ListRules rq)"
  "answers (well_answered rq) (route_Register E rq b5)"
  "answers (well_answered rq) (hook_Register E rq b6)"
  unfolding Bonjour_def AuthKey_def name_required_def registered_service_def registered_rules_def relay_Register_def relay_DeleteRule_def relay_ListRules_def route_Register_def hook_Register_def
  by (intro answer_intros; simp)+

lemma sdk_answers [answer_intros]:
  "answers (well_answered rq) (sdk_Upload E rq b1)"
  "answers (well_answered rq) (sdk_Get E rq p)"
  "answers (well_answered rq) (sdk_Download E rq p)"
  "answers (well_answered rq) (sdk_Delete E rq p)"
  unfolding sdk_Upload_def store_upload_def too_large_def sdk_Get_def package_missing_def sdk_Download_def sdk_Delete_def
  by (intro answer_intros; simp)+

lemma list_answers: "answers (\<lambda>(_, r). well_answered rq r) (sdk_List E rq)"
proof -
  have level: "answers (stops_well rq) (RequireAuthLevel E rq SecurityLevelOps)" by (intro answer_intros)
  have rest: "answers (\<lambda>(_, r). well_answered rq r) (do {
       r \<leftarrow> store_List E;
       ret (case r of
         Inl _ \<Rightarrow> ([], respondError rq 500 ''internal_error'' ''failed to list sdk packages'')
       | Inr metas \<Rightarrow>
         let etag = packageListETag E metas; match = GetHeader rq ''If-None-Match'' in
         (etag, if match \<noteq> [] \<and> match = etag then Data 304 [] []
                else respondOK rq ''sdk packages fetched'' (Some (JArr (map (publicMeta E) metas)))))
     })"
    by (intro answers_bind answers_ret) (auto simp: Let_def intro: answer_intros split: sum.split)
  show ?thesis
    unfolding sdk_List_def
    by (rule answers_bind_known [OF level]) (use rest in \<open>auto simp: answers_def split: sum.split\<close>)
qed

lemma sdk_List_answers [answer_intros]: "answers (well_answered rq) (do { (_, resp) \<leftarrow> sdk_List E rq; ret resp })"
  by (rule answers_bind_known [OF list_answers]) (auto intro: answer_intros)

text \<open>A code of six digits is always computed, so the generator never panics.\<close>

lemma totp_Generate_answers [answer_intros]: "answers (well_answered rq) (totp_Generate E rq)"
proof -
  have code: "answers (\<lambda>c. c \<noteq> None) (GenerateTOTP E s 6)" for s
    using computeTOTP_code [of 6] by (fastforce simp: GenerateTOTP_def answers_def)
  show ?thesis
    unfolding totp_Generate_def
  proof (intro answers_Let answers_if answers_bind_known [OF code])
    show "answers (well_answered rq) (ret (respondError rq 400 ''totp_secret_required'' ''Missing secret''))"
      by (intro answer_intros) simp_all
    show "answers (well_answered rq) (ret (case otp of None \<Rightarrow> Data 500 [] []
        | Some code \<Rightarrow> respondOK rq ''TOTP generated successfully'' (Some (JObj [(''otp'', JStr code)]))))" if "otp \<noteq> None" for otp
      using that by (cases otp) (simp_all add: answers_ret well_success)
  qed
qed

text \<open>The answers of the check of credentials for other services.\<close>

definition credentials_answer :: "response \<Rightarrow> bool" where
  "credentials_answer r \<longleftrightarrow> r = Json 400 [(''error'', JStr ''invalid request'')] \<or> r = Json 401 [(''error'', JStr ''invalid credentials'')] \<or>
     (\<exists>u m n p. r = Json 200 [(''UUID'', JStr u), (''Email'', JStr m), (''Username'', JStr n), (''Password'', JStr p)])"

lemma verify_credentials_answers:
  "well_answered rq (result (VerifyCredentialsInternal E rq b) w) \<or> credentials_answer (result (VerifyCredentialsInternal E rq b) w)"
proof (cases "result (RequireAuthLevel E rq SecurityLevelOps) w")
  case (Inl r)
  then show ?thesis
    using RequireAuthLevel_answers [of rq E SecurityLevelOps] by (simp add: VerifyCredentialsInternal_def answers_def) (metis stops_well_simps(1))
next
  case (Inr x)
  then show ?thesis by (auto simp: VerifyCredentialsInternal_def credentials_answer_def split: option.split)
qed

section \<open>Properties\<close>


end
