(* ===== verification/Json_Strings.thy ===== *)
theory Json_Strings
  imports Go_Json
begin

text \<open>
  What \<open>Unmarshal\<close> returns is valid UTF-8: the strings of a column that was read are written back and read again as they are.
\<close>

section \<open>Runes\<close>

definition one_rune :: "string \<Rightarrow> bool" where
  "one_rune d \<longleftrightarrow> d \<noteq> [] \<and> rune_len d = length d"

lemma valid_one_rune: "one_rune d \<Longrightarrow> valid_utf8 (d @ s) \<longleftrightarrow> valid_utf8 s"
  using rune_len_append [of d s] by (subst valid_utf8.simps) (auto simp: one_rune_def)

lemma valid_Nil [simp]: "valid_utf8 []"
  by (simp add: valid_utf8.simps)

lemma one_rune_ascii: "byte c < 128 \<Longrightarrow> one_rune [c]"
  by (simp add: one_rune_def)

lemma one_rune_error: "one_rune rune_error"
  by (simp add: one_rune_def rune_error_def rune_len.simps second_ok_def cont_def)

lemma one_rune_take: "rune_len s \<noteq> 0 \<Longrightarrow> one_rune (take (rune_len s) s)"
  using rune_len_take [of s "[]"] rune_len_le [of s] by (auto simp: one_rune_def min_def)

lemma base64_digits:
  fixes r :: nat
  shows "r = 4096 * (r div 4096) + 64 * (r div 64 mod 64) + r mod 64"
    "r = 262144 * (r div 262144) + 4096 * (r div 4096 mod 64) + 64 * (r div 64 mod 64) + r mod 64"
proof -
  have "r div 4096 = r div 64 div 64" "r div 262144 = r div 4096 div 64" by (simp_all add: div_mult2_eq [symmetric])
  moreover have "r = 64 * (r div 64) + r mod 64" "r div 64 = 64 * (r div 64 div 64) + r div 64 mod 64"
    "r div 4096 = 64 * (r div 4096 div 64) + r div 4096 mod 64" by simp_all
  ultimately show "r = 4096 * (r div 4096) + 64 * (r div 64 mod 64) + r mod 64"
    "r = 262144 * (r div 262144) + 4096 * (r div 4096 mod 64) + 64 * (r div 64 mod 64) + r mod 64"
    by linarith+
qed

lemma one_rune_encode:
  assumes "r < 0x110000" and "\<not> (0xD800 \<le> r \<and> r < 0xE000)"
  shows "one_rune (encode_rune r)"
proof -
  consider "r < 0x80" | "0x80 \<le> r" "r < 0x800" | "0x800 \<le> r" "r < 0x10000" | "0x10000 \<le> r" by linarith
  then show ?thesis
  proof cases
    case 1
    then show ?thesis by (simp add: encode_rune_def one_rune_ascii)
  next
    case 2
    define a b where "a = r div 64" and "b = r mod 64"
    have "2 \<le> a" "a < 32" "b < 64" using 2 by (auto simp: a_def b_def)
    then have bytes: "byte (char_of (192 + a)) = 192 + a" "byte (char_of (128 + b)) = 128 + b" "2 \<le> a" "a < 32" "b < 64"
      by auto
    then have "cont (char_of (128 + b))"
      unfolding cont_def bytes by auto
    moreover have "encode_rune r = [char_of (192 + a), char_of (128 + b)]"
      using 2 by (simp add: encode_rune_def a_def b_def)
    ultimately show ?thesis
      using bytes(1,3,4) by (simp add: one_rune_def rune_len.simps)
  next
    case 3
    define a b c where "a = r div 4096" and "b = r div 64 mod 64" and "c = r mod 64"
    have "r = 4096 * a + 64 * b + c"
      unfolding a_def b_def c_def by (rule base64_digits)
    moreover have "a < 16" "b < 64" "c < 64" using 3 by (auto simp: a_def b_def c_def)
    ultimately have bytes: "byte (char_of (224 + a)) = 224 + a" "byte (char_of (128 + b)) = 128 + b" "byte (char_of (128 + c)) = 128 + c"
      "a = 0 \<longrightarrow> 32 \<le> b" "a = 13 \<longrightarrow> b < 32" "a < 16" "b < 64" "c < 64"
      using 3 assms(2) by auto
    then have "second_ok (224 + a) (char_of (128 + b))" "cont (char_of (128 + c))"
      unfolding second_ok_def cont_def bytes by auto
    moreover have "encode_rune r = [char_of (224 + a), char_of (128 + b), char_of (128 + c)]"
      using 3 by (simp add: encode_rune_def a_def b_def c_def)
    ultimately show ?thesis
      using bytes(1,6) by (simp add: one_rune_def rune_len.simps)
  next
    case 4
    define a b c e where "a = r div 262144" and "b = r div 4096 mod 64" and "c = r div 64 mod 64" and "e = r mod 64"
    have "r = 262144 * a + 4096 * b + 64 * c + e"
      unfolding a_def b_def c_def e_def by (rule base64_digits)
    moreover have "a < 5" "b < 64" "c < 64" "e < 64" using assms(1) by (auto simp: a_def b_def c_def e_def)
    ultimately have bytes: "byte (char_of (240 + a)) = 240 + a" "byte (char_of (128 + b)) = 128 + b" "byte (char_of (128 + c)) = 128 + c"
      "byte (char_of (128 + e)) = 128 + e" "a = 0 \<longrightarrow> 16 \<le> b" "a = 4 \<longrightarrow> b < 16" "a < 5" "b < 64" "c < 64" "e < 64"
      using 4 assms(1) by auto
    then have "second_ok (240 + a) (char_of (128 + b))" "cont (char_of (128 + c))" "cont (char_of (128 + e))"
      unfolding second_ok_def cont_def bytes by auto
    moreover have "encode_rune r = [char_of (240 + a), char_of (128 + b), char_of (128 + c), char_of (128 + e)]"
      using 4 by (simp add: encode_rune_def a_def b_def c_def e_def)
    ultimately show ?thesis
      using bytes(1,7) by (simp add: one_rune_def rune_len.simps)
  qed
qed

section \<open>Strings that were read\<close>

lemma hex_val_less: "hex_val c = Some n \<Longrightarrow> n < 16"
  by (auto simp: hex_val_def is_digit_def split: if_splits)

lemma hex4_less: "hex4 s = Some (u, r) \<Longrightarrow> u < 65536"
  by (cases s rule: hex4.cases) (auto split: option.splits dest!: hex_val_less)

lemma one_rune_escape: "unicode_escape s = Some (d, r) \<Longrightarrow> one_rune d"
  by (auto simp: unicode_escape_def low_surrogate_def one_rune_error intro!: one_rune_encode dest!: hex4_less
      split: option.splits if_splits list.splits)

lemma one_rune_unquote: "unquote_one s = Some (d, r) \<Longrightarrow> one_rune d"
proof (cases s)
  case (Cons c s')
  assume "unquote_one s = Some (d, r)"
  then consider e t where "s' = e # t" "unicode_escape t = Some (d, r)" | x e where "d = [x]" "simple_escape e = Some x"
    | "d = rune_error" | "rune_len s \<noteq> 0" "d = take (rune_len s) s"
    using Cons by (auto simp: unquote_one_def split: list.splits if_splits)
  then show ?thesis
    by cases (auto simp: one_rune_error one_rune_take simple_escape_def intro: one_rune_escape intro!: one_rune_ascii split: if_splits)
qed (simp add: unquote_one_def)

lemma unquote_chars_valid: "unquote_chars s = Some (x, r) \<Longrightarrow> valid_utf8 x"
proof (induction s arbitrary: x r rule: unquote_chars.induct)
  case (1 s)
  show ?case
  proof (cases "unquote_one s")
    case None
    with "1.prems" show ?thesis
      by (auto simp: unquote_chars.simps [of s] split: list.splits if_splits)
  next
    case (Some p)
    obtain d t where p: "p = (d, t)" by fastforce
    with Some "1.prems" obtain y where "unquote_chars t = Some (y, r)" "x = d @ y"
      by (auto simp: unquote_chars.simps [of s])
    with "1.IH" [OF Some p [symmetric]] one_rune_unquote Some p valid_one_rune show ?thesis by blast
  qed
qed

lemma parse_elem_valid: "parse_elem s = Some (x, r) \<Longrightarrow> valid_utf8 x"
  using unquote_chars_valid by (auto simp: parse_elem_def split: if_splits list.splits)

lemma parse_elems_valid: "parse_elems s = Some xs \<Longrightarrow> list_all valid_utf8 xs"
proof (induction s arbitrary: xs rule: parse_elems.induct)
  case (1 s)
  obtain x r where x: "parse_elem (skip_ws s) = Some (x, r)"
    using "1.prems" by (auto simp: parse_elems.simps [of s] split: option.splits)
  obtain c r' where c: "skip_ws r = c # r'"
    using "1.prems" x by (auto simp: parse_elems.simps [of s] split: list.splits)
  show ?case
    using "1.prems" x c "1.IH" [OF x refl c] parse_elem_valid [OF x]
    by (auto simp: parse_elems.simps [of s] split: if_splits)
qed

lemma unmarshal_valid: "unmarshal_strings s = Some xs \<Longrightarrow> list_all valid_utf8 xs"
  using parse_elems_valid by (auto simp: unmarshal_strings_def Let_def split: if_splits list.splits)

lemma unmarshal_again: "unmarshal_strings s = Some xs \<Longrightarrow> unmarshal_strings (marshal_strings xs) = Some xs"
  by (rule unmarshal_marshal_valid) (rule unmarshal_valid)

end
