(* ===== verification/Grants.thy ===== *)
theory Grants
  imports OAuth2_Properties Json_Strings
begin

text \<open>
  The OAuth2 service as a machine over grants. A grant says what a credential stands for: the client, the account, the scopes, and for a
  token of a service the account it was asked for. The state of the machine are the open credentials, each with its grant: authorization
  codes that are not consumed, refresh and access tokens that are not revoked. What the machine leaves out are the rows that are closed,
  the times at which credentials expire, the statements and their failures.

  Every operation of the service is one step of the machine (the refinement), and a step adds no grant that the operation does not
  authorize; so a token never stands for more than some operation has granted.
\<close>

section \<open>The machine\<close>

record grant =
  g_Client :: string
  g_User :: "string option"
  g_Scopes :: "string list option"
  g_Service :: bool
  g_TargetUID :: "nat option"
  g_TargetEmail :: "string option"

record grants =
  open_codes :: "(string \<times> grant) set"
  open_refreshes :: "(string \<times> grant) set"
  open_accesses :: "(string \<times> grant) set"

definition user_grant :: "string \<Rightarrow> string \<Rightarrow> string list \<Rightarrow> grant" where
  "user_grant c u scopes = \<lparr>g_Client = c, g_User = Some u, g_Scopes = Some (map to_valid scopes), g_Service = False,
     g_TargetUID = None, g_TargetEmail = None\<rparr>"

definition service_grant :: "string \<Rightarrow> string list \<Rightarrow> string \<Rightarrow> string \<Rightarrow> grant" where
  "service_grant c scopes targetUID targetEmail = \<lparr>g_Client = c, g_User = None, g_Scopes = Some (map to_valid scopes), g_Service = True,
     g_TargetUID = (if targetUID = [] then None else ParseUintString targetUID),
     g_TargetEmail = (if targetEmail = [] then None else Some (TrimSpace (ToLower targetEmail)))\<rparr>"

definition minus_key :: "string \<Rightarrow> (string \<times> grant) set \<Rightarrow> (string \<times> grant) set" where
  "minus_key k S = {p \<in> S. fst p \<noteq> k}"

definition unused :: "string \<Rightarrow> (string \<times> grant) set \<Rightarrow> bool" where
  "unused k S \<longleftrightarrow> k \<notin> fst ` S"

text \<open>A pair of tokens for one grant, under keys that are not in use.\<close>

definition adds_pair :: "grant \<Rightarrow> grants \<Rightarrow> grants \<Rightarrow> bool" where
  "adds_pair x g g' \<longleftrightarrow> (\<exists>a r. unused a (open_accesses g) \<and> unused r (open_refreshes g) \<and>
     g' = g\<lparr>open_accesses := insert (a, x) (open_accesses g), open_refreshes := insert (r, x) (open_refreshes g)\<rparr>)"

definition code_spent :: "string \<Rightarrow> grants \<Rightarrow> grants" where
  "code_spent k g = g\<lparr>open_codes := minus_key k (open_codes g)\<rparr>"

definition refresh_spent :: "string \<Rightarrow> grants \<Rightarrow> grants" where
  "refresh_spent k g = g\<lparr>open_refreshes := minus_key k (open_refreshes g)\<rparr>"

text \<open>
  The steps, with the operation and whether it succeeds. A refused exchange or refresh may still spend what was presented, by its own
  client only.
\<close>

inductive grant_step :: "env \<Rightarrow> service_op \<Rightarrow> bool \<Rightarrow> grants \<Rightarrow> grants \<Rightarrow> bool" for E where
  refused: "grant_step E p False g g"
| clients: "p = OpEnsureClients \<or> p = OpRegister n s \<or> p = OpResolve tok \<Longrightarrow> grant_step E p ok g g"
| authorized: "unused k (open_codes g) \<Longrightarrow>
    grant_step E (OpCreateCode c u uri scopes h m) True g (g\<lparr>open_codes := insert (k, user_grant c u scopes) (open_codes g)\<rparr>)"
| exchanged: "(coll E code, x) \<in> open_codes g \<Longrightarrow> g_Client x = c \<Longrightarrow> adds_pair x (code_spent (coll E code) g) g' \<Longrightarrow>
    grant_step E (OpExchange c code uri v) True g g'"
| code_lost: "(coll E code, x) \<in> open_codes g \<Longrightarrow> g_Client x = c \<Longrightarrow>
    grant_step E (OpExchange c code uri v) False g (code_spent (coll E code) g)"
| refreshed: "(coll E tok, x) \<in> open_refreshes g \<Longrightarrow> g_Client x = c \<Longrightarrow> adds_pair x (refresh_spent (coll E tok) g) g' \<Longrightarrow>
    grant_step E (OpRefresh c tok) True g g'"
| refresh_lost: "(coll E tok, x) \<in> open_refreshes g \<Longrightarrow> g_Client x = c \<Longrightarrow>
    grant_step E (OpRefresh c tok) False g (refresh_spent (coll E tok) g)"
| signed_in: "adds_pair (user_grant (PublicClientID (oauth2 E)) u publicSiteScopes) g g' \<Longrightarrow> grant_step E (OpFirstParty u) True g g'"
| service: "resolveRequestedScopes c scope = Inr scopes \<Longrightarrow> supportsGrantType c ''client_credentials'' \<Longrightarrow> unused a (open_accesses g) \<Longrightarrow>
    grant_step E (OpClientCredentials c scope tu te) True g
      (g\<lparr>open_accesses := insert (a, service_grant (cl_ClientID c) scopes tu te) (open_accesses g)\<rparr>)"
| revoked: "grant_step E (OpRevoke tok) True g (g\<lparr>open_accesses := minus_key (coll E tok) (open_accesses g)\<rparr>)"
| cleaned: "C \<subseteq> open_codes g \<Longrightarrow> R \<subseteq> open_refreshes g \<Longrightarrow> A \<subseteq> open_accesses g \<Longrightarrow>
    grant_step E OpCleanup ok g \<lparr>open_codes = C, open_refreshes = R, open_accesses = A\<rparr>"

text \<open>The grants that are held, and those an operation authorizes by itself.\<close>

definition held :: "grants \<Rightarrow> grant set" where
  "held g = snd ` (open_codes g \<union> open_refreshes g \<union> open_accesses g)"

fun authorizes :: "env \<Rightarrow> service_op \<Rightarrow> grant \<Rightarrow> bool" where
  "authorizes E (OpCreateCode c u uri scopes h m) x \<longleftrightarrow> x = user_grant c u scopes"
| "authorizes E (OpFirstParty u) x \<longleftrightarrow> x = user_grant (PublicClientID (oauth2 E)) u publicSiteScopes"
| "authorizes E (OpClientCredentials c scope tu te) x \<longleftrightarrow>
     (case resolveRequestedScopes c scope of Inl _ \<Rightarrow> False | Inr scopes \<Rightarrow> x = service_grant (cl_ClientID c) scopes tu te)"
| "authorizes E _ x \<longleftrightarrow> False"

lemma minus_key_subset: "minus_key k S \<subseteq> S"
  by (auto simp: minus_key_def)

lemma held_code: "(k, x) \<in> open_codes g \<Longrightarrow> x \<in> held g"
  and held_refresh: "(k, x) \<in> open_refreshes g \<Longrightarrow> x \<in> held g"
  and held_access: "(k, x) \<in> open_accesses g \<Longrightarrow> x \<in> held g"
  unfolding held_def by force+

lemma held_less:
  "open_codes g' \<subseteq> open_codes g \<Longrightarrow> open_refreshes g' \<subseteq> open_refreshes g \<Longrightarrow> open_accesses g' \<subseteq> open_accesses g \<Longrightarrow> held g' \<subseteq> held g"
  unfolding held_def by blast

lemma held_pair: "adds_pair x g g' \<Longrightarrow> held g' = insert x (held g)"
  by (auto simp: adds_pair_def held_def)

lemma held_spent: "held (code_spent k g) \<subseteq> held g" "held (refresh_spent k g) \<subseteq> held g"
  by (rule held_less; simp add: code_spent_def refresh_spent_def minus_key_subset)+

lemma step_authority: "grant_step E p ok g g' \<Longrightarrow> held g' \<subseteq> held g \<union> Collect (authorizes E p)"
proof (induction rule: grant_step.induct)
  case (exchanged code x g c g' uri v)
  then show ?case using held_pair [OF exchanged(3)] held_spent(1) [of "coll E code" g] held_code [OF exchanged(1)] by auto
next
  case (refreshed tok x g c g')
  then show ?case using held_pair [OF refreshed(3)] held_spent(2) [of "coll E tok" g] held_refresh [OF refreshed(1)] by auto
next
  case (signed_in u g g')
  then show ?case using held_pair by auto
next
  case (code_lost code x g c uri v)
  then show ?case using held_spent(1) by blast
next
  case (refresh_lost tok x g c)
  then show ?case using held_spent(2) by blast
next
  case (revoked tok g)
  then show ?case using minus_key_subset by (intro le_supI1 held_less) simp_all
next
  case (cleaned C g R A ok)
  then show ?case by (intro le_supI1 held_less) simp_all
qed (auto simp: held_def)

end
