(* ===== verification/Grants_Refinement.thy ===== *)
theory Grants_Refinement
  imports Grants Site_Auth_Facts
begin

text \<open>
  The service refines the machine over grants: the abstraction \<open>grants_of\<close> reads the open credentials of the tables, and every operation
  of the service, run on well-formed tables, is a step of the machine between the abstractions.
\<close>

section \<open>The abstraction\<close>

definition code_grant :: "auth_code \<Rightarrow> grant" where
  "code_grant r = \<lparr>g_Client = ac_ClientID r, g_User = Some (ac_UserID r), g_Scopes = unmarshal_strings (ac_Scopes r), g_Service = False,
     g_TargetUID = None, g_TargetEmail = None\<rparr>"

definition refresh_grant :: "refresh_token \<Rightarrow> grant" where
  "refresh_grant r = \<lparr>g_Client = rt_ClientID r, g_User = Some (rt_UserID r), g_Scopes = unmarshal_strings (rt_Scopes r), g_Service = False,
     g_TargetUID = None, g_TargetEmail = None\<rparr>"

definition access_grant :: "access_token \<Rightarrow> grant" where
  "access_grant r = \<lparr>g_Client = at_ClientID r, g_User = at_UserID r, g_Scopes = unmarshal_strings (at_Scopes r),
     g_Service = (at_SubjectType r = ''service''), g_TargetUID = at_TargetUID r, g_TargetEmail = at_TargetEmail r\<rparr>"

definition grants_of :: "env \<Rightarrow> tables \<Rightarrow> grants" where
  "grants_of E d = \<lparr>
     open_codes = {(coll E (ac_Code r), code_grant r) | r. r \<in> set (auth_codes d) \<and> ac_ConsumedAt r = None},
     open_refreshes = {(coll E (rt_RefreshToken r), refresh_grant r) | r. r \<in> set (refresh_tokens d) \<and> rt_RevokedAt r = None},
     open_accesses = {(coll E (at_AccessToken r), access_grant r) | r. r \<in> set (access_tokens d) \<and> at_RevokedAt r = None}\<rparr>"

text \<open>Whether an operation succeeds; one that answers nothing always does.\<close>

definition succeeded :: "'e + 'a \<Rightarrow> bool" where
  "succeeded r \<longleftrightarrow> (case r of Inl _ \<Rightarrow> False | Inr _ \<Rightarrow> True)"

fun succeeds :: "env \<Rightarrow> service_op \<Rightarrow> world \<Rightarrow> bool" where
  "succeeds E OpEnsureClients w = succeeded (result (EnsureBuiltInClients E) w)"
| "succeeds E (OpRegister n s) w = succeeded (result (RegisterServiceClient E n s) w)"
| "succeeds E (OpCreateCode c u r s h m) w = succeeded (result (CreateAuthorizationCode E c u r s h m) w)"
| "succeeds E (OpExchange c code r v) w = succeeded (result (ExchangeAuthorizationCode E c code r v) w)"
| "succeeds E (OpRefresh c tok) w = succeeded (result (RefreshUserToken E c tok) w)"
| "succeeds E (OpFirstParty u) w = succeeded (result (IssueFirstPartyUserTokens E u) w)"
| "succeeds E (OpClientCredentials c s u m) w = succeeded (result (IssueClientCredentialsToken E c s u m) w)"
| "succeeds E (OpResolve tok) w = succeeded (result (ResolveAccessToken E tok) w)"
| "succeeds E (OpRevoke tok) w = succeeded (result (RevokeAccessToken E tok) w)"
| "succeeds E OpCleanup w = True"

lemma succeeded_simps [simp]: "\<not> succeeded (Inl e)" "succeeded (Inr x)"
  by (simp_all add: succeeded_def)

lemma grants_of_same:
  "auth_codes d' = auth_codes d \<Longrightarrow> refresh_tokens d' = refresh_tokens d \<Longrightarrow> access_tokens d' = access_tokens d \<Longrightarrow>
   grants_of E d' = grants_of E d"
  by (simp add: grants_of_def)

lemma open_code: "r \<in> set (auth_codes d) \<Longrightarrow> ac_ConsumedAt r = None \<Longrightarrow> (coll E (ac_Code r), code_grant r) \<in> open_codes (grants_of E d)"
  by (auto simp: grants_of_def)

lemma open_refresh:
  "r \<in> set (refresh_tokens d) \<Longrightarrow> rt_RevokedAt r = None \<Longrightarrow> (coll E (rt_RefreshToken r), refresh_grant r) \<in> open_refreshes (grants_of E d)"
  by (auto simp: grants_of_def)

lemma open_access:
  "r \<in> set (access_tokens d) \<Longrightarrow> at_RevokedAt r = None \<Longrightarrow> (coll E (at_AccessToken r), access_grant r) \<in> open_accesses (grants_of E d)"
  by (auto simp: grants_of_def)

lemma unused_absent:
  "\<not> code_present E k d \<Longrightarrow> unused (coll E k) (open_codes (grants_of E d))"
  "\<not> refresh_present E k d \<Longrightarrow> unused (coll E k) (open_refreshes (grants_of E d))"
  "\<not> access_present E k d \<Longrightarrow> unused (coll E k) (open_accesses (grants_of E d))"
  by (auto simp: unused_def grants_of_def cred_defs list_ex_iff)

section \<open>Operations that leave the credentials alone\<close>

definition same_grants :: "env \<Rightarrow> tables \<Rightarrow> tables \<Rightarrow> bool" where
  "same_grants E d d' \<longleftrightarrow> grants_of E d' = grants_of E d"

interpretation grants_kept: evolution "on_db (same_grants E)" for E
  by unfold_locales (auto simp: on_db_def same_grants_def)

named_theorems same_intros

lemma same_refl [simp]: "same_grants E d d"
  by (simp add: same_grants_def)

lemma same_keep [same_intros]:
  "evolves (on_db (same_grants E)) (now E')" "evolves (on_db (same_grants E)) (GenerateRandomToken E' n)"
  "evolves (on_db (same_grants E)) (db_first E' tab P)" "evolves (on_db (same_grants E)) (db_count E' tab' P')"
  by (rule on_db_keep; simp)+

lemma same_insert_client [same_intros]: "evolves (on_db (same_grants E)) (insert_client E' c)"
  unfolding insert_client_def
  by (rule on_db_stmt) (auto simp: Let_def same_grants_def intro: grants_of_same split: if_splits)

lemma same_update_clients [same_intros]: "evolves (on_db (same_grants E)) (update_clients E' P f)"
  unfolding update_clients_def by (rule on_db_stmt) (auto simp: same_grants_def intro: grants_of_same)

lemma same_transaction [same_intros]:
  "evolves (on_db (same_grants E)) m \<Longrightarrow> evolves (on_db (same_grants E)) (transaction E' m)"
  by (rule transaction_evolves) simp_all

lemma same_seed_service_client [same_intros]: "evolves (on_db (same_grants E)) (seed_service_client E' sc)"
  unfolding seed_service_client_def Let_def by (intro same_intros grants_kept.evolves_rules)

lemma same_seed_all [same_intros]: "evolves (on_db (same_grants E)) (seed_all E' scs)"
  by (induction scs) (simp_all, (intro same_intros grants_kept.evolves_rules | assumption)+)

lemma same_EnsureBuiltInClients: "evolves (on_db (same_grants E)) (EnsureBuiltInClients E')"
  unfolding EnsureBuiltInClients_def upsertBuiltInPublicClient_def upsertBuiltInSuperClient_def
    ensureConfiguredServiceClients_def upsert_client_def
  by (intro same_intros grants_kept.evolves_rules)

lemma same_RegisterServiceClient: "evolves (on_db (same_grants E)) (RegisterServiceClient E' n s)"
  unfolding RegisterServiceClient_def by (intro same_intros grants_kept.evolves_rules)

lemma same_ResolveAccessToken: "evolves (on_db (same_grants E)) (ResolveAccessToken E' tok)"
  unfolding ResolveAccessToken_def GetClient_def load_user_def by (intro same_intros grants_kept.evolves_rules)

lemma clients_step:
  assumes "p = OpEnsureClients \<or> p = OpRegister n s \<or> p = OpResolve tok"
  shows "grant_step E p ok (grants_of E (db w)) (grants_of E (db (final (run_op E p) w)))"
proof -
  have "grants_of E (db (final (run_op E p) w)) = grants_of E (db w)"
    using assms same_EnsureBuiltInClients [of E E] same_RegisterServiceClient [of E E n s] same_ResolveAccessToken [of E E tok]
    by (auto simp: evolves_def on_db_def same_grants_def)
  with grant_step.clients [OF assms] show ?thesis by simp
qed

section \<open>New credentials\<close>

lemma create_code_step:
  "grant_step E (OpCreateCode c u uri scopes h m) (succeeds E (OpCreateCode c u uri scopes h m) w) (grants_of E (db w))
    (grants_of E (db (final (run_op E (OpCreateCode c u uri scopes h m)) w)))"
proof -
  define code where "code = result (GenerateRandomToken E 32) w"
  define w1 where "w1 = final (now E) (final (GenerateRandomToken E 32) w)"
  define t where "t = clock E (ticks w)"
  define a where "a = \<lparr>ac_ID = 0, ac_Code = code, ac_ClientID = c, ac_UserID = u, ac_RedirectURI = uri, ac_Scopes = marshalStringSlice scopes,
    ac_CodeChallenge = h, ac_CodeChallengeMethod = ToUpper m, ac_ExpiresAt = t + nanos (AuthorizationCodeTTL (oauth2 E)), ac_ConsumedAt = None\<rparr>"
  have run: "result (CreateAuthorizationCode E c u uri scopes h m) w = result (insert_auth_code E a) w1"
    "final (run_op E (OpCreateCode c u uri scopes h m)) w = final (insert_auth_code E a) w1" "db w1 = db w"
    by (simp_all add: CreateAuthorizationCode_def a_def w1_def code_def t_def)
  show ?thesis
  proof (cases "result (insert_auth_code E a) w1")
    case (Inl e)
    then show ?thesis
      using insert_auth_code_refused [OF Inl] grant_step.refused [of E _ "grants_of E (db w)"] run by simp
  next
    case (Inr x)
    obtain r where r: "db (final (insert_auth_code E a) w1) = (db w)\<lparr>auth_codes := auth_codes (db w) @ [r]\<rparr>"
      "\<not> code_present E (ac_Code r) (db w)" "ac_ConsumedAt r = None" "code_grant r = user_grant c u scopes"
      using insert_auth_code_done [OF Inr] run(3)
      by (auto simp: a_def code_grant_def user_grant_def marshalStringSlice_def unmarshal_marshal)
    have "grants_of E (db (final (insert_auth_code E a) w1)) =
        (grants_of E (db w))\<lparr>open_codes := insert (coll E (ac_Code r), user_grant c u scopes) (open_codes (grants_of E (db w)))\<rparr>"
      using r(3) by (auto simp: grants_of_def r(1) simp flip: r(4))
    with grant_step.authorized [OF unused_absent(1) [OF r(2)], of E c u uri scopes h m] Inr run show ?thesis by simp
  qed
qed

text \<open>A pair of tokens, or nothing.\<close>

lemma create_token_pair_done:
  assumes "result (create_token_pair E a r) w = Inr p"
  shows "\<exists>a' r' i t j k t'. db (final (create_token_pair E a r) w) =
      (db w)\<lparr>access_tokens := access_tokens (db w) @ [a'], refresh_tokens := refresh_tokens (db w) @ [r']\<rparr> \<and>
    \<not> access_present E (at_AccessToken a') (db w) \<and> \<not> refresh_present E (rt_RefreshToken r') (db w) \<and>
    a' = a\<lparr>at_ID := i, at_ExpiresAt := t\<rparr> \<and> r' = r\<lparr>rt_AccessTokenID := j, rt_ID := k, rt_ExpiresAt := t'\<rparr>"
proof -
  obtain x where x: "result (insert_access_token E a) w = Inr x"
    using assms by (cases "result (insert_access_token E a) w") (auto simp: create_token_pair_def)
  let ?r = "r\<lparr>rt_AccessTokenID := at_ID x\<rparr>" and ?w1 = "final (insert_access_token E a) w"
  obtain y where y: "result (insert_refresh_token E ?r) ?w1 = Inr y"
    using assms x by (cases "result (insert_refresh_token E ?r) ?w1") (auto simp: create_token_pair_def)
  have d: "db (final (create_token_pair E a r) w) = db (final (insert_refresh_token E ?r) ?w1)"
    by (simp add: create_token_pair_def x y)
  obtain i a' where a': "db ?w1 = (db w)\<lparr>access_tokens := access_tokens (db w) @ [a']\<rparr>" "\<not> access_present E (at_AccessToken a') (db w)"
    "a' = a\<lparr>at_ID := i, at_ExpiresAt := db_ts E (at_ExpiresAt a)\<rparr>"
    using insert_access_token_done [OF x] by auto
  obtain k r' where r': "db (final (insert_refresh_token E ?r) ?w1) = (db ?w1)\<lparr>refresh_tokens := refresh_tokens (db ?w1) @ [r']\<rparr>"
    "\<not> refresh_present E (rt_RefreshToken r') (db ?w1)" "r' = ?r\<lparr>rt_ID := k, rt_ExpiresAt := db_ts E (rt_ExpiresAt r)\<rparr>"
    using insert_refresh_token_done [OF y] by auto
  have "\<not> refresh_present E (rt_RefreshToken r') (db w)" using r'(2) by (simp add: a'(1) refresh_present_def)
  with a'(2,3) r'(3) show ?thesis unfolding d r'(1) a'(1) by fastforce
qed

lemma issue_refused: "result (issueUserTokens E c u scopes) w = Inl e \<Longrightarrow> db (final (issueUserTokens E c u scopes) w) = db w"
  unfolding issueUserTokens_def by (auto dest!: transaction_Inl)

lemma issue_pair:
  assumes "result (issueUserTokens E c u scopes) w = Inr p"
  shows "adds_pair (user_grant c u scopes) (grants_of E (db w)) (grants_of E (db (final (issueUserTokens E c u scopes) w)))"
proof -
  define w' where "w' = final (now E) (final (GenerateRandomToken E 32) (final (now E) (final (GenerateRandomToken E 32) w)))"
  define k1 where "k1 = result (GenerateRandomToken E 32) w"
  define k2 where "k2 = result (GenerateRandomToken E 32) (final (now E) (final (GenerateRandomToken E 32) w))"
  define a0 where "a0 = \<lparr>at_ID = 0, at_AccessToken = k1, at_ClientID = c, at_UserID = Some u, at_Scopes = marshalStringSlice scopes,
    at_SubjectType = ''user'', at_TargetUID = None, at_TargetEmail = None, at_ExpiresAt = clock E (ticks w) + nanos (AccessTokenTTL (oauth2 E)),
    at_RevokedAt = None\<rparr>"
  define r0 where "r0 = \<lparr>rt_ID = 0, rt_RefreshToken = k2, rt_AccessTokenID = 0, rt_ClientID = c, rt_UserID = u,
    rt_Scopes = marshalStringSlice scopes, rt_ExpiresAt = clock E (Suc (ticks w)) + nanos (RefreshTokenTTL (oauth2 E)), rt_RevokedAt = None\<rparr>"
  let ?b = "create_token_pair E a0 r0"
  have "result (issueUserTokens E c u scopes) w = result (transaction E ?b) w'"
    "final (issueUserTokens E c u scopes) w = final (transaction E ?b) w'" "db w' = db w"
    by (simp_all add: issueUserTokens_def w'_def a0_def r0_def k1_def k2_def)
  with assms obtain w1 where run: "db w1 = db w" "result ?b w1 = Inr p" "db (final (issueUserTokens E c u scopes) w) = db (final ?b w1)"
    using transaction_Inr [of E ?b w' p] by auto
  obtain a r i t j k t' where new: "db (final (issueUserTokens E c u scopes) w) =
      (db w)\<lparr>access_tokens := access_tokens (db w) @ [a], refresh_tokens := refresh_tokens (db w) @ [r]\<rparr>"
    "\<not> access_present E (at_AccessToken a) (db w)" "\<not> refresh_present E (rt_RefreshToken r) (db w)"
    and rows: "a = a0\<lparr>at_ID := i, at_ExpiresAt := t\<rparr>" "r = r0\<lparr>rt_AccessTokenID := j, rt_ID := k, rt_ExpiresAt := t'\<rparr>"
    using create_token_pair_done [OF run(2)] unfolding run(1,3) by blast
  have grant: "at_RevokedAt a = None" "rt_RevokedAt r = None" "access_grant a = user_grant c u scopes" "refresh_grant r = user_grant c u scopes"
    unfolding rows
    by (simp_all add: a0_def r0_def access_grant_def refresh_grant_def user_grant_def marshalStringSlice_def unmarshal_marshal)
  have "grants_of E (db (final (issueUserTokens E c u scopes) w)) = (grants_of E (db w))\<lparr>
      open_accesses := insert (coll E (at_AccessToken a), user_grant c u scopes) (open_accesses (grants_of E (db w))),
      open_refreshes := insert (coll E (rt_RefreshToken r), user_grant c u scopes) (open_refreshes (grants_of E (db w)))\<rparr>"
    unfolding new(1) grants_of_def using grant by auto
  then show ?thesis
    using unused_absent(3) [OF new(2)] unused_absent(2) [OF new(3)] unfolding adds_pair_def by blast
qed

lemma first_party_step:
  "grant_step E (OpFirstParty u) (succeeds E (OpFirstParty u) w) (grants_of E (db w)) (grants_of E (db (final (run_op E (OpFirstParty u)) w)))"
proof (cases "result (IssueFirstPartyUserTokens E u) w")
  case (Inl e)
  then show ?thesis
    using issue_refused [of E "PublicClientID (oauth2 E)" u publicSiteScopes w] grant_step.refused [of E _ "grants_of E (db w)"]
    by (simp add: IssueFirstPartyUserTokens_def)
next
  case (Inr p)
  then show ?thesis
    using issue_pair [of E "PublicClientID (oauth2 E)" u publicSiteScopes w p] grant_step.signed_in
    by (simp add: IssueFirstPartyUserTokens_def)
qed

text \<open>The token of a service.\<close>

lemma count_users_db [simp]: "db (final (count_users E P) w) = db w"
  by (simp add: count_users_def)

lemma target_uid_done:
  "db (final (resolve_target_uid E targetUID) w) = db w"
  "result (resolve_target_uid E targetUID) w = Inr uid \<Longrightarrow> uid = (if targetUID = [] then None else ParseUintString targetUID)"
  by (auto simp: resolve_target_uid_def split: option.splits if_splits)

lemma target_email_done:
  "db (final (resolve_target_email E targetEmail) w) = db w"
  "result (resolve_target_email E targetEmail) w = Inr email \<Longrightarrow>
     email = (if targetEmail = [] then None else Some (TrimSpace (ToLower targetEmail)))"
  by (auto simp: resolve_target_email_def Let_def split: if_splits)

lemma service_refused:
  assumes "result (IssueClientCredentialsToken E c scope tu te) w = Inl e"
  shows "db (final (IssueClientCredentialsToken E c scope tu te) w) = db w"
  using assms
  by (auto simp: IssueClientCredentialsToken_def target_uid_done(1) target_email_done(1) dest!: insert_access_token_refused
      split: if_splits sum.splits)

lemma service_issued:
  assumes "result (IssueClientCredentialsToken E c scope tu te) w = Inr x"
  obtains scopes k t w1 where "resolveRequestedScopes c scope = Inr scopes" "supportsGrantType c ''client_credentials''" "db w1 = db w"
    "\<exists>y. result (insert_access_token E \<lparr>at_ID = 0, at_AccessToken = k, at_ClientID = cl_ClientID c, at_UserID = None,
       at_Scopes = marshalStringSlice scopes, at_SubjectType = ''service'', at_TargetUID = (if tu = [] then None else ParseUintString tu),
       at_TargetEmail = (if te = [] then None else Some (TrimSpace (ToLower te))), at_ExpiresAt = t, at_RevokedAt = None\<rparr>) w1 = Inr y"
    "final (IssueClientCredentialsToken E c scope tu te) w = final (insert_access_token E \<lparr>at_ID = 0, at_AccessToken = k, at_ClientID = cl_ClientID c, at_UserID = None,
       at_Scopes = marshalStringSlice scopes, at_SubjectType = ''service'', at_TargetUID = (if tu = [] then None else ParseUintString tu),
       at_TargetEmail = (if te = [] then None else Some (TrimSpace (ToLower te))), at_ExpiresAt = t, at_RevokedAt = None\<rparr>) w1"
proof -
  define k where "k = result (GenerateRandomToken E 32) w"
  define t where "t = clock E (ticks w) + nanos (AccessTokenTTL (oauth2 E))"
  define w0 where "w0 = final (now E) (final (GenerateRandomToken E 32) w)"
  obtain scopes where sc: "resolveRequestedScopes c scope = Inr scopes" "supportsGrantType c ''client_credentials''"
    using assms by (auto simp: IssueClientCredentialsToken_def split: if_splits sum.splits)
  obtain uid where uid: "result (resolve_target_uid E tu) w0 = Inr uid"
    using assms sc by (cases "result (resolve_target_uid E tu) w0") (auto simp: IssueClientCredentialsToken_def w0_def split: if_splits)
  define w2 where "w2 = final (resolve_target_uid E tu) w0"
  obtain email where email: "result (resolve_target_email E te) w2 = Inr email"
    using assms sc uid by (cases "result (resolve_target_email E te) w2") (auto simp: IssueClientCredentialsToken_def w0_def w2_def split: if_splits)
  define w1 where "w1 = final (resolve_target_email E te) w2"
  have d: "db w1 = db w"
    by (simp add: w1_def w2_def w0_def target_uid_done(1) target_email_done(1))
  show thesis
    using assms sc uid email target_uid_done(2) [OF uid] target_email_done(2) [OF email]
    by (intro that [OF sc d, of k t])
      (auto simp: IssueClientCredentialsToken_def k_def t_def w0_def w1_def w2_def split: if_splits)
qed

lemma service_step:
  "grant_step E (OpClientCredentials c scope tu te) (succeeds E (OpClientCredentials c scope tu te) w) (grants_of E (db w))
    (grants_of E (db (final (run_op E (OpClientCredentials c scope tu te)) w)))"
proof (cases "result (IssueClientCredentialsToken E c scope tu te) w")
  case (Inl e)
  then show ?thesis
    using service_refused [OF Inl] grant_step.refused [of E _ "grants_of E (db w)"] by simp
next
  case (Inr x)
  then show ?thesis
  proof (rule service_issued)
    fix scopes k t w1
    let ?a = "\<lparr>at_ID = 0, at_AccessToken = k, at_ClientID = cl_ClientID c, at_UserID = None,
       at_Scopes = marshalStringSlice scopes, at_SubjectType = ''service'', at_TargetUID = (if tu = [] then None else ParseUintString tu),
       at_TargetEmail = (if te = [] then None else Some (TrimSpace (ToLower te))), at_ExpiresAt = t, at_RevokedAt = None\<rparr>"
    assume sc: "resolveRequestedScopes c scope = Inr scopes" "supportsGrantType c ''client_credentials''" and d: "db w1 = db w"
      and ins: "\<exists>y. result (insert_access_token E ?a) w1 = Inr y"
      and f: "final (IssueClientCredentialsToken E c scope tu te) w = final (insert_access_token E ?a) w1"
    obtain a where new: "db (final (insert_access_token E ?a) w1) = (db w)\<lparr>access_tokens := access_tokens (db w) @ [a]\<rparr>"
      "\<not> access_present E (at_AccessToken a) (db w)" and row: "\<exists>i t. a = ?a\<lparr>at_ID := i, at_ExpiresAt := t\<rparr>"
      using ins insert_access_token_done [of E ?a w1] d by fastforce
    have grant: "at_RevokedAt a = None" "access_grant a = service_grant (cl_ClientID c) scopes tu te"
      using row by (auto simp: access_grant_def service_grant_def marshalStringSlice_def unmarshal_marshal)
    have "grants_of E (db (final (insert_access_token E ?a) w1)) = (grants_of E (db w))\<lparr>open_accesses :=
        insert (coll E (at_AccessToken a), service_grant (cl_ClientID c) scopes tu te) (open_accesses (grants_of E (db w)))\<rparr>"
      unfolding new(1) grants_of_def using grant by auto
    with grant_step.service [where tu = tu and te = te, OF sc unused_absent(3) [OF new(2)]] Inr f show ?thesis by simp
  qed
qed

section \<open>Credentials that are spent\<close>

lemma spent_rows:
  assumes "\<And>r. P r \<Longrightarrow> key r = k" and "\<And>r. \<not> live (f r)"
    and "\<And>r. r \<in> set (update_rows P f rs) \<Longrightarrow> live r \<Longrightarrow> key r \<noteq> k"
  shows "{(key r, g r) | r. r \<in> set (update_rows P f rs) \<and> live r} = {p \<in> {(key r, g r) | r. r \<in> set rs \<and> live r}. fst p \<noteq> k}"
proof -
  have rows: "s \<in> set (update_rows P f rs) \<longleftrightarrow> (\<exists>r. r \<in> set rs \<and> s = (if P r then f r else r))" for s
    unfolding update_rows_def set_map image_iff by blast
  have same: "s \<in> set (update_rows P f rs) \<and> live s \<longleftrightarrow> s \<in> set rs \<and> live s \<and> key s \<noteq> k" for s
  proof
    assume a: "s \<in> set (update_rows P f rs) \<and> live s"
    then obtain r where r: "r \<in> set rs" "s = (if P r then f r else r)" using rows [of s] by blast
    have "\<not> P r"
    proof
      assume "P r"
      then have "s = f r" using r(2) by simp
      with a assms(2) [of r] show False by simp
    qed
    then have "s = r" using r(2) by simp
    with a r(1) assms(3) [of s] show "s \<in> set rs \<and> live s \<and> key s \<noteq> k" by blast
  next
    assume b: "s \<in> set rs \<and> live s \<and> key s \<noteq> k"
    then have "s = (if P s then f s else s)" using assms(1) [of s] by auto
    with b rows [of s] show "s \<in> set (update_rows P f rs) \<and> live s" by blast
  qed
  show ?thesis
  proof (intro equalityI subsetI)
    fix p
    assume "p \<in> {(key r, g r) | r. r \<in> set (update_rows P f rs) \<and> live r}"
    then obtain r where "p = (key r, g r)" "r \<in> set (update_rows P f rs) \<and> live r" by blast
    with same [of r] show "p \<in> {p \<in> {(key r, g r) | r. r \<in> set rs \<and> live r}. fst p \<noteq> k}" by auto
  next
    fix p
    assume "p \<in> {p \<in> {(key r, g r) | r. r \<in> set rs \<and> live r}. fst p \<noteq> k}"
    then have "\<exists>r. p = (key r, g r) \<and> r \<in> set rs \<and> live r" and k: "fst p \<noteq> k" unfolding mem_Collect_eq by blast+
    then obtain r where r: "p = (key r, g r)" "r \<in> set rs" "live r" by blast
    with k have "key r \<noteq> k" by simp
    with r same [of r] show "p \<in> {(key r, g r) | r. r \<in> set (update_rows P f rs) \<and> live r}" by blast
  qed
qed

lemma consume_grants:
  assumes "result (consume_code E code t) w = Inr n" and "0 < n" and "wf_tables E (db w)"
  shows "grants_of E (db (final (consume_code E code t) w)) = code_spent (coll E code) (grants_of E (db w))"
proof -
  let ?f = "\<lambda>r. r\<lparr>ac_ConsumedAt := Some (db_ts E t)\<rparr>"
  have d: "db (final (consume_code E code t) w) = (db w)\<lparr>auth_codes := update_rows (code_open E code t) ?f (auth_codes (db w))\<rparr>"
    using stmt_Inr [OF assms(1) [unfolded consume_code_def update_auth_codes_def]]
    unfolding consume_code_def update_auth_codes_def by auto
  have "\<not> code_live E code (db (final (consume_code E code t) w))" using consume_code_Inr [OF assms] .
  then have "coll E (ac_Code r) \<noteq> coll E code"
    if "r \<in> set (update_rows (code_open E code t) ?f (auth_codes (db w)))" "ac_ConsumedAt r = None" for r
    using that unfolding d by (auto simp: code_live_def list_ex_iff)
  then show ?thesis
    unfolding d grants_of_def code_spent_def minus_key_def
    using spent_rows [of "code_open E code t" "\<lambda>r. coll E (ac_Code r)" "coll E code" "\<lambda>r. ac_ConsumedAt r = None" ?f "auth_codes (db w)" code_grant]
    by (simp add: code_open_def)
qed

lemma consume_none:
  assumes "result (consume_code E code t) w = Inl e \<or> result (consume_code E code t) w = Inr 0"
  shows "db (final (consume_code E code t) w) = db w"
proof -
  let ?f = "\<lambda>r. r\<lparr>ac_ConsumedAt := Some (db_ts E t)\<rparr>"
  have "update_rows (code_open E code t) ?f rs = rs" if "changed_rows (code_open E code t) ?f rs = 0" for rs
    using that by (auto simp: changed_rows_def update_rows_def filter_empty_conv intro!: map_idI)
  then show ?thesis
    using assms unfolding consume_code_def update_auth_codes_def
    by (auto dest!: stmt_Inl stmt_Inr)
qed

text \<open>A refused exchange has done nothing, or its client has spent the code.\<close>

lemma exchange_refused:
  assumes "result (ExchangeAuthorizationCode E cid code uri v) w = Inl e" and "wf_tables E (db w)"
  shows "db (final (ExchangeAuthorizationCode E cid code uri v) w) = db w \<or>
    (\<exists>x. (coll E code, x) \<in> open_codes (grants_of E (db w)) \<and> g_Client x = cid \<and>
      grants_of E (db (final (ExchangeAuthorizationCode E cid code uri v) w)) = code_spent (coll E code) (grants_of E (db w)))"
proof -
  define m where "m = db_first E auth_codes (\<lambda>r. coll E (ac_Code r) = coll E code)"
  define w1 where "w1 = final (now E) (final (now E) (final m w))"
  let ?c = "consume_code E code (clock E (Suc (ticks w)))"
  have d1: "db w1 = db w" by (simp add: w1_def m_def)
  consider "db (final (ExchangeAuthorizationCode E cid code uri v) w) = db w"
    | a scopes n where "result m w = Inr a" "ac_ClientID a = cid" "ac_ConsumedAt a = None" "result ?c w1 = Inr n" "0 < n"
      "unmarshal_strings (ac_Scopes a) = Some scopes"
      "result (ExchangeAuthorizationCode E cid code uri v) w = result (issueUserTokens E cid (ac_UserID a) scopes) (final ?c w1)"
      "final (ExchangeAuthorizationCode E cid code uri v) w = final (issueUserTokens E cid (ac_UserID a) scopes) (final ?c w1)"
  proof (cases "result m w")
    case (Inl e)
    then show thesis by (intro that(1)) (simp add: ExchangeAuthorizationCode_def m_def)
  next
    case (Inr a)
    note run = ExchangeAuthorizationCode_def m_def w1_def
    show thesis
    proof (cases "ac_ClientID a \<noteq> cid \<or> ac_RedirectURI a \<noteq> uri \<or> ac_ConsumedAt a \<noteq> None \<or> \<not> code_acceptable a cid uri v (clock E (ticks w))")
      case True
      then show thesis using Inr by (intro that(1)) (auto simp: run)
    next
      case ok: False
      show thesis
      proof (cases "unmarshal_strings (ac_Scopes a)")
        case None
        then show thesis using Inr ok by (intro that(1)) (auto simp: run)
      next
        case (Some scopes)
        show thesis
        proof (cases "result ?c w1 = Inr 0 \<or> (\<exists>e. result ?c w1 = Inl e)")
          case True
          then have "db (final ?c w1) = db w" using consume_none d1 by metis
          with True Inr ok Some show thesis by (intro that(1)) (auto simp: run)
        next
          case False
          then obtain n where "result ?c w1 = Inr n" "0 < n" by (cases "result ?c w1") auto
          with Inr ok Some show thesis by (intro that(2) [of a n scopes]) (auto simp: run)
        qed
      qed
    qed
  qed
  then show ?thesis
  proof cases
    case 1
    then show ?thesis ..
  next
    case 2
    have row: "a \<in> set (auth_codes (db w))" "coll E (ac_Code a) = coll E code"
      using db_first_Inr(1,2) 2(1) unfolding m_def by fastforce+
    have "grants_of E (db (final (ExchangeAuthorizationCode E cid code uri v) w)) = grants_of E (db (final ?c w1))"
      using assms(1) 2(7,8) issue_refused by metis
    then have "grants_of E (db (final (ExchangeAuthorizationCode E cid code uri v) w)) = code_spent (coll E code) (grants_of E (db w))"
      using consume_grants [OF 2(4,5)] assms(2) d1 by simp
    moreover have "(coll E code, code_grant a) \<in> open_codes (grants_of E (db w))" "g_Client (code_grant a) = cid"
      using open_code [OF row(1) 2(3), of E] row(2) 2(2) by (simp_all add: code_grant_def)
    ultimately show ?thesis by blast
  qed
qed

lemma exchange_step:
  assumes "wf_tables E (db w)"
  shows "grant_step E (OpExchange c code uri v) (succeeds E (OpExchange c code uri v) w) (grants_of E (db w))
    (grants_of E (db (final (run_op E (OpExchange c code uri v)) w)))"
proof (cases "result (ExchangeAuthorizationCode E c code uri v) w")
  case (Inl e)
  then show ?thesis
    using exchange_refused [OF Inl assms] grant_step.refused [of E _ "grants_of E (db w)"]
      grant_step.code_lost [where g = "grants_of E (db w)" and E = E and code = code and c = c and uri = uri and v = v]
    by auto
next
  case (Inr p)
  then show ?thesis
  proof (rule exchange_steps)
    fix a scopes w1 n
    let ?c = "consume_code E code (clock E (Suc (ticks w)))"
    assume 1: "a \<in> set (auth_codes (db w))" "coll E (ac_Code a) = coll E code" "code_acceptable a c uri v (clock E (ticks w))"
      "unmarshal_strings (ac_Scopes a) = Some scopes" "db w1 = db w" "result ?c w1 = Inr n" "0 < n"
      "result (issueUserTokens E c (ac_UserID a) scopes) (final ?c w1) = Inr p"
      "final (ExchangeAuthorizationCode E c code uri v) w = final (issueUserTokens E c (ac_UserID a) scopes) (final ?c w1)"
    have grant: "code_grant a = user_grant c (ac_UserID a) scopes" "g_Client (code_grant a) = c" "ac_ConsumedAt a = None"
      using 1(3,4) unmarshal_again [OF 1(4)] unmarshal_marshal [of scopes] by (auto simp: code_grant_def user_grant_def code_acceptable_def)
    have "grants_of E (db (final ?c w1)) = code_spent (coll E code) (grants_of E (db w))"
      using consume_grants [OF 1(6,7)] assms 1(5) by simp
    then have "adds_pair (code_grant a) (code_spent (coll E code) (grants_of E (db w)))
        (grants_of E (db (final (ExchangeAuthorizationCode E c code uri v) w)))"
      using issue_pair [OF 1(8)] unfolding 1(9) grant(1) by simp
    moreover have "(coll E code, code_grant a) \<in> open_codes (grants_of E (db w))"
      using open_code [OF 1(1) grant(3), of E] 1(2) by simp
    ultimately show ?thesis
      using Inr grant_step.exchanged grant(2) by simp
  qed
qed

text \<open>The same for refresh tokens.\<close>

lemma revoke_refresh_grants:
  assumes "result (revoke_refresh E tok t) w = Inr n" and "0 < n" and "wf_tables E (db w)"
  shows "grants_of E (db (final (revoke_refresh E tok t) w)) = refresh_spent (coll E tok) (grants_of E (db w))"
proof -
  let ?f = "\<lambda>r. r\<lparr>rt_RevokedAt := Some (db_ts E t)\<rparr>"
  have d: "db (final (revoke_refresh E tok t) w) = (db w)\<lparr>refresh_tokens := update_rows (refresh_open E tok t) ?f (refresh_tokens (db w))\<rparr>"
    using stmt_Inr [OF assms(1) [unfolded revoke_refresh_def update_refresh_tokens_def]]
    unfolding revoke_refresh_def update_refresh_tokens_def by auto
  have "\<not> refresh_live E tok (db (final (revoke_refresh E tok t) w))" using revoke_refresh_Inr [OF assms] .
  then have "coll E (rt_RefreshToken r) \<noteq> coll E tok"
    if "r \<in> set (update_rows (refresh_open E tok t) ?f (refresh_tokens (db w)))" "rt_RevokedAt r = None" for r
    using that unfolding d by (auto simp: refresh_live_def list_ex_iff)
  then show ?thesis
    unfolding d grants_of_def refresh_spent_def minus_key_def
    using spent_rows [of "refresh_open E tok t" "\<lambda>r. coll E (rt_RefreshToken r)" "coll E tok" "\<lambda>r. rt_RevokedAt r = None" ?f "refresh_tokens (db w)" refresh_grant]
    by (simp add: refresh_open_def)
qed

lemma revoke_refresh_none:
  assumes "result (revoke_refresh E tok t) w = Inl e \<or> result (revoke_refresh E tok t) w = Inr 0"
  shows "db (final (revoke_refresh E tok t) w) = db w"
proof -
  let ?f = "\<lambda>r. r\<lparr>rt_RevokedAt := Some (db_ts E t)\<rparr>"
  have "update_rows (refresh_open E tok t) ?f rs = rs" if "changed_rows (refresh_open E tok t) ?f rs = 0" for rs
    using that by (auto simp: changed_rows_def update_rows_def filter_empty_conv intro!: map_idI)
  then show ?thesis
    using assms unfolding revoke_refresh_def update_refresh_tokens_def
    by (auto dest!: stmt_Inl stmt_Inr)
qed

lemma refresh_refused:
  assumes "result (RefreshUserToken E cid tok) w = Inl e" and "wf_tables E (db w)"
  shows "db (final (RefreshUserToken E cid tok) w) = db w \<or>
    (\<exists>x. (coll E tok, x) \<in> open_refreshes (grants_of E (db w)) \<and> g_Client x = cid \<and>
      grants_of E (db (final (RefreshUserToken E cid tok) w)) = refresh_spent (coll E tok) (grants_of E (db w)))"
proof -
  define m where "m = db_first E refresh_tokens (\<lambda>r. coll E (rt_RefreshToken r) = coll E tok)"
  define w1 where "w1 = final (now E) (final (now E) (final m w))"
  let ?c = "revoke_refresh E tok (clock E (Suc (ticks w)))"
  have d1: "db w1 = db w" by (simp add: w1_def m_def)
  consider "db (final (RefreshUserToken E cid tok) w) = db w"
    | r scopes n where "result m w = Inr r" "rt_ClientID r = cid" "rt_RevokedAt r = None" "result ?c w1 = Inr n" "0 < n"
      "unmarshal_strings (rt_Scopes r) = Some scopes"
      "result (RefreshUserToken E cid tok) w = result (issueUserTokens E cid (rt_UserID r) scopes) (final ?c w1)"
      "final (RefreshUserToken E cid tok) w = final (issueUserTokens E cid (rt_UserID r) scopes) (final ?c w1)"
  proof (cases "result m w")
    case (Inl e)
    then show thesis by (intro that(1)) (simp add: RefreshUserToken_def m_def)
  next
    case (Inr r)
    note run = RefreshUserToken_def m_def w1_def
    show thesis
    proof (cases "rt_ClientID r \<noteq> cid \<or> rt_RevokedAt r \<noteq> None \<or> clock E (ticks w) > rt_ExpiresAt r \<or> unmarshal_strings (rt_Scopes r) = None")
      case True
      then show thesis using Inr by (intro that(1)) (auto simp: run)
    next
      case ok: False
      then obtain scopes where sc: "unmarshal_strings (rt_Scopes r) = Some scopes" by blast
      show thesis
      proof (cases "result ?c w1 = Inr 0 \<or> (\<exists>e. result ?c w1 = Inl e)")
        case True
        then have "db (final ?c w1) = db w" using revoke_refresh_none d1 by metis
        with True Inr ok sc show thesis by (intro that(1)) (auto simp: run)
      next
        case False
        then obtain n where "result ?c w1 = Inr n" "0 < n" by (cases "result ?c w1") auto
        with Inr ok sc show thesis by (intro that(2) [of r n scopes]) (auto simp: run)
      qed
    qed
  qed
  then show ?thesis
  proof cases
    case 1
    then show ?thesis ..
  next
    case 2
    have row: "r \<in> set (refresh_tokens (db w))" "coll E (rt_RefreshToken r) = coll E tok"
      using db_first_Inr(1,2) 2(1) unfolding m_def by fastforce+
    have "grants_of E (db (final (RefreshUserToken E cid tok) w)) = grants_of E (db (final ?c w1))"
      using assms(1) 2(7,8) issue_refused by metis
    then have "grants_of E (db (final (RefreshUserToken E cid tok) w)) = refresh_spent (coll E tok) (grants_of E (db w))"
      using revoke_refresh_grants [OF 2(4,5)] assms(2) d1 by simp
    moreover have "(coll E tok, refresh_grant r) \<in> open_refreshes (grants_of E (db w))" "g_Client (refresh_grant r) = cid"
      using open_refresh [OF row(1) 2(3), of E] row(2) 2(2) by (simp_all add: refresh_grant_def)
    ultimately show ?thesis by blast
  qed
qed

lemma refresh_step:
  assumes "wf_tables E (db w)"
  shows "grant_step E (OpRefresh c tok) (succeeds E (OpRefresh c tok) w) (grants_of E (db w))
    (grants_of E (db (final (run_op E (OpRefresh c tok)) w)))"
proof (cases "result (RefreshUserToken E c tok) w")
  case (Inl e)
  then show ?thesis
    using refresh_refused [OF Inl assms] grant_step.refused [of E _ "grants_of E (db w)"]
      grant_step.refresh_lost [where g = "grants_of E (db w)" and E = E and tok = tok and c = c]
    by auto
next
  case (Inr p)
  then show ?thesis
  proof (rule refresh_steps)
    fix r scopes w1 n
    let ?c = "revoke_refresh E tok (clock E (Suc (ticks w)))"
    assume 1: "r \<in> set (refresh_tokens (db w))" "coll E (rt_RefreshToken r) = coll E tok" "rt_ClientID r = c" "rt_RevokedAt r = None"
      "unmarshal_strings (rt_Scopes r) = Some scopes" "db w1 = db w" "result ?c w1 = Inr n" "0 < n"
      "result (issueUserTokens E c (rt_UserID r) scopes) (final ?c w1) = Inr p"
      "final (RefreshUserToken E c tok) w = final (issueUserTokens E c (rt_UserID r) scopes) (final ?c w1)"
    have grant: "refresh_grant r = user_grant c (rt_UserID r) scopes" "g_Client (refresh_grant r) = c"
      using 1(3,5) unmarshal_again [OF 1(5)] unmarshal_marshal [of scopes] by (auto simp: refresh_grant_def user_grant_def)
    have "grants_of E (db (final ?c w1)) = refresh_spent (coll E tok) (grants_of E (db w))"
      using revoke_refresh_grants [OF 1(7,8)] assms 1(6) by simp
    then have "adds_pair (refresh_grant r) (refresh_spent (coll E tok) (grants_of E (db w)))
        (grants_of E (db (final (RefreshUserToken E c tok) w)))"
      using issue_pair [OF 1(9)] unfolding 1(10) grant(1) by simp
    moreover have "(coll E tok, refresh_grant r) \<in> open_refreshes (grants_of E (db w))"
      using open_refresh [OF 1(1,4), of E] 1(2) by simp
    ultimately show ?thesis
      using Inr grant_step.refreshed grant(2) by simp
  qed
qed

section \<open>Revocation and clean-up\<close>

lemma revoke_step:
  "grant_step E (OpRevoke tok) (succeeds E (OpRevoke tok) w) (grants_of E (db w)) (grants_of E (db (final (run_op E (OpRevoke tok)) w)))"
proof -
  define w1 where "w1 = final (now E) w"
  let ?P = "\<lambda>r. coll E (at_AccessToken r) = coll E tok \<and> at_RevokedAt r = None"
  let ?f = "\<lambda>r. r\<lparr>at_RevokedAt := Some (db_ts E (clock E (ticks w)))\<rparr>"
  let ?m = "update_access_tokens E ?P ?f"
  have final: "db (final (run_op E (OpRevoke tok)) w) = db (final ?m w1)" by (simp add: RevokeAccessToken_def w1_def)
  show ?thesis
  proof (cases "result ?m w1")
    case (Inl e)
    then have "db (final ?m w1) = db w" using stmt_Inl [OF Inl [unfolded update_access_tokens_def]] by (simp add: update_access_tokens_def w1_def)
    then show ?thesis
      using Inl final grant_step.refused [of E _ "grants_of E (db w)"] by (simp add: RevokeAccessToken_def w1_def)
  next
    case (Inr n)
    have d: "db (final ?m w1) = (db w)\<lparr>access_tokens := update_rows ?P ?f (access_tokens (db w))\<rparr>"
      using stmt_Inr [OF Inr [unfolded update_access_tokens_def]] unfolding update_access_tokens_def by (auto simp: w1_def)
    have "coll E (at_AccessToken r) \<noteq> coll E tok" if "r \<in> set (update_rows ?P ?f (access_tokens (db w)))" "at_RevokedAt r = None" for r
      using that by (auto simp: update_rows_def split: if_splits)
    then have "grants_of E (db (final ?m w1)) =
        (grants_of E (db w))\<lparr>open_accesses := minus_key (coll E tok) (open_accesses (grants_of E (db w)))\<rparr>"
      unfolding d grants_of_def minus_key_def
      using spent_rows [of ?P "\<lambda>r. coll E (at_AccessToken r)" "coll E tok" "\<lambda>r. at_RevokedAt r = None" ?f "access_tokens (db w)" access_grant]
      by simp
    then show ?thesis
      using Inr final grant_step.revoked [of E tok "grants_of E (db w)"] by (simp add: RevokeAccessToken_def w1_def)
  qed
qed

definition fewer_grants :: "env \<Rightarrow> tables \<Rightarrow> tables \<Rightarrow> bool" where
  "fewer_grants E d d' \<longleftrightarrow> set (auth_codes d') \<subseteq> set (auth_codes d) \<and> set (refresh_tokens d') \<subseteq> set (refresh_tokens d) \<and>
     set (access_tokens d') \<subseteq> set (access_tokens d)"

interpretation rows_gone: evolution "on_db (fewer_grants E)" for E
  by unfold_locales (auto simp: on_db_def fewer_grants_def)

lemma fewer_cleanup: "evolves (on_db (fewer_grants E)) (cleanup_runOnce E)"
proof -
  have "evolves (on_db (fewer_grants E)) (now E)"
    by (rule on_db_keep) (simp_all add: fewer_grants_def)
  moreover have "evolves (on_db (fewer_grants E)) (delete_access_tokens E P)" for P
    unfolding delete_access_tokens_def by (rule on_db_stmt) (auto simp: fewer_grants_def drop_access_def Let_def)
  moreover have "evolves (on_db (fewer_grants E)) (delete_auth_codes E P)" for P
    unfolding delete_auth_codes_def by (rule on_db_stmt) (auto simp: fewer_grants_def)
  ultimately show ?thesis
    unfolding cleanup_runOnce_def CleanupExpiredAccessTokens_def CleanupExpiredAuthorizationCodes_def
    by (intro rows_gone.evolves_rules)
qed

lemma cleanup_step:
  "grant_step E OpCleanup (succeeds E OpCleanup w) (grants_of E (db w)) (grants_of E (db (final (run_op E OpCleanup) w)))"
proof -
  let ?g = "grants_of E (db w)" and ?g' = "grants_of E (db (final (cleanup_runOnce E) w))"
  have "fewer_grants E (db w) (db (final (cleanup_runOnce E) w))"
    using fewer_cleanup [of E] by (simp add: evolves_def on_db_def)
  then have "open_codes ?g' \<subseteq> open_codes ?g" "open_refreshes ?g' \<subseteq> open_refreshes ?g" "open_accesses ?g' \<subseteq> open_accesses ?g"
    by (auto simp: grants_of_def fewer_grants_def)
  note cleaned = grant_step.cleaned [OF this, of E True]
  have "\<lparr>open_codes = open_codes ?g', open_refreshes = open_refreshes ?g', open_accesses = open_accesses ?g'\<rparr> = ?g'"
    by (rule grants.equality) simp_all
  with cleaned show ?thesis by simp
qed

section \<open>Operations and runs\<close>

lemma run_op_grants:
  assumes "wf_tables E (db w)"
  shows "grant_step E p (succeeds E p w) (grants_of E (db w)) (grants_of E (db (final (run_op E p) w)))"
proof (cases p)
  case OpEnsureClients
  then show ?thesis using clients_step by blast
next
  case (OpRegister n s)
  then show ?thesis using clients_step by blast
next
  case (OpResolve tok)
  then show ?thesis using clients_step by blast
qed (simp_all only: create_code_step exchange_step [OF assms] refresh_step [OF assms] first_party_step service_step revoke_step cleanup_step)

lemma run_authority:
  assumes "wf_tables E (db w)"
  shows "held (grants_of E (db (final (run_all (run_op E) ps) w))) \<subseteq> held (grants_of E (db w)) \<union> {x. \<exists>p \<in> set ps. authorizes E p x}"
  using assms
proof (induction ps arbitrary: w)
  case (Cons p ps)
  let ?w = "final (run_op E p) w"
  have "wf_tables E (db ?w)"
    using wf_run_op [of E p] Cons.prems by (simp add: evolves_def on_db_def keeps_wf_def)
  from Cons.IH [OF this] step_authority [OF run_op_grants [OF Cons.prems]] show ?case by fastforce
qed simp

section \<open>Properties\<close>

text \<open>
  C3: The service refines the machine over grants: every operation, on well-formed tables and whatever statement fails, is a step of the machine
  between the abstractions of the tables before and after it, with its own answer. A code or refresh token is traded by its own client for a
  pair of tokens with the same grant, under new keys, and is spent whether or not the pair could be stored; nothing else changes.
\<close>

theorem service_refines_grants:
  assumes "wf_tables E (db w)"
  shows "grant_step E p (succeeds E p w) (grants_of E (db w)) (grants_of E (db (final (run_op E p) w)))"
  by (rule run_op_grants [OF assms])

theorem service_refines_grants_witness:
  "grant_step demo_env (OpRevoke ''acc'') True (grants_of demo_env (db demo_world))
     (grants_of demo_env (db (final (run_op demo_env (OpRevoke ''acc'')) demo_world)))"
proof -
  have "succeeds demo_env (OpRevoke ''acc'') demo_world"
    by (simp add: RevokeAccessToken_def update_access_tokens_def stmt_def result_def now_def Let_def)
  with service_refines_grants [OF demo_wf, of "OpRevoke ''acc''"] show ?thesis by simp
qed

text \<open>
  C5: No authority comes from nowhere: whatever the operations of the service, in whatever order and whichever statements fail, a token that
  resolves afterwards stands for a grant that some open credential had before or that one of the operations authorized by itself: the client,
  the account, the scopes, whether it is a service's, and whom it may act on.
\<close>

theorem tokens_stay_within_grants:
  assumes "wf_tables E (db w)" and "result (ResolveAccessToken E tok) (final (run_all (run_op E) ps) w) = Inr ctx"
  shows "\<exists>x. (x \<in> held (grants_of E (db w)) \<or> (\<exists>p. p \<in> set ps \<and> authorizes E p x)) \<and>
    x = access_grant (tc_Token ctx) \<and> g_Scopes x = Some (tc_Scopes ctx) \<and> g_Service x = tc_IsService ctx \<and>
    (case tc_User ctx of None \<Rightarrow> True | Some u \<Rightarrow> \<exists>k. g_User x = Some k \<and> coll E (u_UUID u) = coll E k)"
proof -
  let ?w = "final (run_all (run_op E) ps) w" and ?t = "tc_Token ctx"
  obtain c where row: "live_token E ?w tok ?t c (tc_Scopes ctx)" and service: "tc_IsService ctx = (at_SubjectType ?t = ''service'')"
    and user: "\<And>u. tc_User ctx = Some u \<Longrightarrow> \<exists>k. at_UserID ?t = Some k \<and> user_named E k u"
    using Resolve_result [OF assms(2)] by blast
  have "(coll E (at_AccessToken ?t), access_grant ?t) \<in> open_accesses (grants_of E (db ?w))"
    using open_access [of ?t "db ?w" E] row by (simp add: live_token_def)
  from held_access [OF this] have "access_grant ?t \<in> held (grants_of E (db w)) \<or> (\<exists>p. p \<in> set ps \<and> authorizes E p (access_grant ?t))"
    using run_authority [OF assms(1), of ps] by blast
  moreover have "g_Scopes (access_grant ?t) = Some (tc_Scopes ctx)" using row by (simp add: access_grant_def live_token_def)
  ultimately show ?thesis
    using service user by (intro exI [of _ "access_grant ?t"]) (auto simp: access_grant_def user_named_def split: option.split)
qed

theorem tokens_stay_within_grants_witness:
  "\<exists>ctx. result (ResolveAccessToken demo_env ''acc'') (final (run_all (run_op demo_env) [OpResolve ''acc'']) demo_world) = Inr ctx \<and>
     tc_Scopes ctx = [''user.read''] \<and> (\<exists>x. x \<in> held (grants_of demo_env (db demo_world)) \<and> g_Scopes x = Some (tc_Scopes ctx))"
proof -
  let ?w = "final (run_all (run_op demo_env) [OpResolve ''acc'']) demo_world" and ?c = "(public_client demo_env)\<lparr>cl_ID := 1\<rparr>"
  have d: "db ?w = db demo_world" by simp
  have "active_client demo_env ''webui'' ?c"
    by (simp add: active_client_def by_client_id_def public_client_def) (simp add: demo_env_def)
  then have "live_token demo_env ?w ''acc'' demo_access ?c [''user.read'']"
    unfolding live_token_def d by (simp add: demo_access_def user_read_valid)
  then have r: "result (ResolveAccessToken demo_env ''acc'') ?w = Inr (context_of demo_env ?w demo_access ?c [''user.read''])"
    by (intro Resolve_live) (simp_all only: d demo_wf demo_env_simps simp_thms)
  from tokens_stay_within_grants [OF demo_wf this] r show ?thesis by (auto simp: context_of_def)
qed

end
