(* ===== verification/Spec2Isabelle.thy ===== *)
theory Spec2Isabelle
  imports Totp Startup OAuth2_Clients Registries_Facts Site_Auth_Facts Hooks_Facts Registry_Http_Facts Server_Properties Account_Facts
    Schema_Migration Origin_Facts Answers Grants_Refinement
begin

text \<open>
  A model of the HRPAuth core service: an authorization server with accounts, second factors and passkeys, that also keeps the registry of
  the micro-services around it and relays requests to them. The theories follow the packages of src/; a definition has the name of the
  function it models, and a helper the name of what it does. All definitions that model code are executable, but for the step relations.

  \<^bold>\<open>How the program is put together.\<close> main.go reads the configuration, connects to the database and the key-value server, installs the
  middlewares and routes, restores the registries and serves. The handlers (controllers/) read and write tables through gorm, keys through
  a Redis client, files through package os, and call the services (services/) and the registry of announced services (registry/). The
  state shared by all of them is the record \<open>world\<close>: tables, key-value server, code files, directory of packages, registries in memory,
  and the counters of time, random numbers and statements. Everything outside is the record \<open>env\<close>: the configuration, the clock, random
  numbers, which statement, command, file operation or request fails, the collation of the database, and the third-party libraries.
  A computation is a term of the state monad over \<open>world\<close>; an error is \<open>Inl\<close>, a panic or a fatal exit \<open>None\<close>.

  \<^bold>\<open>Prelude.\<close> Go_Base (strings, the state monad, and the rules for predicates and relations that a computation keeps), Go_Text, Go_Hash,
  Go_Json, Go_Json_Value, Json_Strings, Go_Url, Regex: what the program uses of Go's standard library, computed down to the digests. World,
  World_Facts: tables after models/models.go and database/migrations, the statements, transactions. Key_Value: the commands of
  the key-value server. Disk: paths and the tree of packages.

  \<^bold>\<open>Configuration and start.\<close> Config_Value, Config_Migrations (config/migrations.go), Config_Parse (config/config.go), Startup and
  Schema_Migration (controllers/startup_controller.go, database/database.go). The facts: a migration runs exactly the pending steps and keeps the
  settings; whatever operation on the file fails, the old or the complete new configuration is left; a start settles; the retry loop ends;
  the version table is prepared for golang-migrate, also after an interrupted run; origins have one normal form (Origin_Facts).

  \<^bold>\<open>OAuth2.\<close> OAuth2_Service (services/oauth2_service.go), OAuth2_Controller (controllers/oauth2_controller.go), Site_Auth (site_auth.go, auth_level.go,
  oauth2_token_helper.go). Credentials has the relations on tables that statements follow; OAuth2_Facts and
  OAuth2_Properties show single use, rotation, revocation and what an exchange needs; OAuth2_Clients the client table. Grants is an
  abstract machine over grants, and Grants_Refinement shows that the service refines it, so that no token stands for more than was granted.
  Races interleaves the steps of overlapping requests for one code and for one login ticket.

  \<^bold>\<open>Accounts.\<close> Totp (utils/utils.go), Accounts (services/auth_service.go, user_info_controller.go, user_profile_controller.go and the clean-up),
  Codes (email_service.go, captcha_service.go), Auth_Controller (auth_controller.go, captcha_controller.go), WebAuthn_Service, WebAuthn_Controller,
  Second_Factor (totp_controller.go, email_2fa_controller.go, email_verification_controller.go), User_Security (user_security_controller.go).
  Account_Facts, Codes_Facts and Totp hold their facts: sign-in asks for the factors of the account, a reset needs the stored code, a
  deletion is complete, codes and mails are read back.

  \<^bold>\<open>Micro-services.\<close> Presence (registry/), Registries and Hooks (relay_controller.go, route_controller.go, hook_controller.go, hook_runtime.go),
  Registry_Http (their endpoints and the two middlewares), Sdk_Manifest and Sdk_Packages (sdk_package_controller.go, sdk_package_store.go).
  The facts: records and rules survive a restart, the relay table refines a map, hooks patch only what they may, a package is published
  as a whole or not at all and is read back.

  \<^bold>\<open>Server.\<close> Http (api_response.go), Server (main.go). Table_Relations is the interface between the statements and the server: a relation
  on tables that every statement follows is followed by every endpoint and background run; Server_Facts uses it for the keys of all tables.
  Server_Properties is about routes and operator endpoints, Answers about the envelope and the error codes of every endpoint.

  \<^bold>\<open>Interfaces.\<close> Each locale is interpreted on the model: \<open>evolution\<close> (relations that computations follow), \<open>codec\<close> (encoders and
  decoders), \<open>single_use\<close> (credentials that die), \<open>stored_rules\<close> (registries that are loaded again), and \<open>table_relation\<close>
  (statements and the server).

  \<^bold>\<open>Bounds and fuel.\<close> Where the recursion of a loop is not structural, its termination is proved. Two functions take fuel. The parser of JSON
  takes twice the length of the text and two, one unit per call; \<open>parse_print\<close> shows that this is enough for every printed document. The retry loop
  of the database takes a number of attempts, because the program retries for ever when it is configured to; \<open>connect_bounded\<close> shows
  that one attempt more than the configured retries is enough when there is no next round. Integers that wrap in Go and matter
  (TOTP, digests) are kept at their width; identifiers of rows and times in nanoseconds are unbounded.

  \<^bold>\<open>Not modelled.\<close> The debug reports that are posted to 127.0.0.1:7777 and the summaries made for them
  (\<open>summarizeWebAuthnCredentialPayload\<close>, \<open>reportWebAuthnDebug\<close>), log lines and the audit line of the client registration: they have no effect on the
  state or an answer. The tickers of the clean-ups and of the heartbeat: one run of each is modelled, and \<open>server_reaches\<close> lets it happen at any
  time. Overlapping requests, but for those of Races: elsewhere a request is one step. What gin does around a handler
  (binding of bodies, redirects of trailing slashes, recovery from a panic), TLS, the readers of archives, the YAML parser, golang-migrate,
  bcrypt, the cryptography of passkeys, the drawing of captchas and the Redis and MySQL drivers are third-party code: parameters of the
  model, or left out where nothing depends on them. Column lengths, \<open>created_at\<close> and \<open>updated_at\<close> are left out of the tables.
\<close>

end
